(* ===== verification/Prelude.thy ===== *)
theory Prelude
  imports Main "HOL-Library.Char_ord" "HOL-Library.List_Lexorder" "HOL-Library.Multiset"
begin

text \<open>
  Shared material of the development: the fact collections, the three-valued result of a Go
  call (a value, an error or a panic), and the generic list facts the components use. Nothing
  here models a particular source file; everything models the Go language and its
  \<open>sort\<close> and \<open>errors\<close> packages, as far as the operator uses them.
\<close>

section \<open>Fact collections\<close>

named_theorems go_simps \<open>unfoldings of the Go standard library operations\<close>
named_theorems cond_simps \<open>lookups in a condition list after an update\<close>
named_theorems wf_intros \<open>operations that keep a well-formedness invariant\<close>

section \<open>Results: values, errors, panics\<close>

text \<open>
  A Go error value. \<open>Ext\<close> is an error made by code outside the repository, by its text;
  \<open>NotFound\<close> is the API machinery's not-found status error, the only one the operator
  tests for; \<open>Sentinel\<close> is a package-level error variable (compared by \<open>errors.Is\<close>);
  \<open>Errorf\<close> and \<open>Wrapf\<close> are \<^verbatim>\<open>fmt.Errorf\<close> without and with a final \<^verbatim>\<open>%w\<close>;
  \<open>Joined\<close> is the value of \<^verbatim>\<open>errors.Join\<close>.
\<close>

datatype go_error =
    Ext string
  | NotFound string
  | Sentinel string
  | Errorf string "string list"
  | Wrapf string "string list" go_error
  | Joined "go_error list"

text \<open>\<^verbatim>\<open>apierrors.IsNotFound\<close> and \<^verbatim>\<open>errors.Is\<close> look through wrapping errors.\<close>

fun IsNotFound :: "go_error \<Rightarrow> bool" where
  "IsNotFound (NotFound _) = True"
| "IsNotFound (Wrapf _ _ e) = IsNotFound e"
| "IsNotFound _ = False"

fun errors_Is :: "go_error \<Rightarrow> string \<Rightarrow> bool" where
  "errors_Is (Sentinel s) t = (s = t)"
| "errors_Is (Wrapf _ _ e) t = errors_Is e t"
| "errors_Is _ t = False"

text \<open>
  \<^verbatim>\<open>errors.Join\<close>: nil operands are dropped, and the join of nothing is nil. Joining onto
  an earlier join nests it, so the leaves are what a caller can observe in order.
\<close>

definition errors_Join :: "go_error option \<Rightarrow> go_error option \<Rightarrow> go_error option" where
  "errors_Join a b =
     (case (a, b) of
        (None, None) \<Rightarrow> None
      | (Some e, None) \<Rightarrow> Some (Joined [e])
      | (None, Some f) \<Rightarrow> Some (Joined [f])
      | (Some e, Some f) \<Rightarrow> Some (Joined [e, f]))"

fun error_leaves :: "go_error \<Rightarrow> go_error list" where
  "error_leaves (Joined es) = concat (map error_leaves es)"
| "error_leaves e = [e]"

definition opt_leaves :: "go_error option \<Rightarrow> go_error list" where
  "opt_leaves r = (case r of None \<Rightarrow> [] | Some e \<Rightarrow> error_leaves e)"

lemma opt_leaves_simps [simp]:
  "opt_leaves None = []" "opt_leaves (Some e) = error_leaves e"
  by (simp_all add: opt_leaves_def)

lemma errors_Join_leaves [simp]:
  "opt_leaves (errors_Join a b) = opt_leaves a @ opt_leaves b"
  by (simp add: errors_Join_def split: option.splits)

lemma errors_Join_None [simp]: "errors_Join a b = None \<longleftrightarrow> a = None \<and> b = None"
  by (simp add: errors_Join_def split: option.splits)

text \<open>A call returns a value or an error, or it panics (a nil dereference).\<close>

datatype 'a res = Ok 'a | Err go_error | Panic string

definition bind_res :: "'a res \<Rightarrow> ('a \<Rightarrow> 'b res) \<Rightarrow> 'b res" where
  "bind_res r f = (case r of Ok a \<Rightarrow> f a | Err e \<Rightarrow> Err e | Panic p \<Rightarrow> Panic p)"

lemma bind_res_simps [simp]:
  "bind_res (Ok a) f = f a" "bind_res (Err e) f = Err e" "bind_res (Panic p) f = Panic p"
  by (simp_all add: bind_res_def)

text \<open>\<open>wrap_err\<close> is the idiom \<^verbatim>\<open>if err != nil { return fmt.Errorf("...: %w", err) }\<close>.\<close>

definition wrap_err :: "string \<Rightarrow> string list \<Rightarrow> 'a res \<Rightarrow> 'a res" where
  "wrap_err f args r = (case r of Err e \<Rightarrow> Err (Wrapf f args e) | _ \<Rightarrow> r)"

lemma wrap_err_simps [simp]:
  "wrap_err f as (Ok a) = Ok a" "wrap_err f as (Err e) = Err (Wrapf f as e)"
  "wrap_err f as (Panic p) = Panic p"
  by (simp_all add: wrap_err_def)

lemma bind_res_Ok_iff [simp]: "bind_res r f = Ok b \<longleftrightarrow> (\<exists>a. r = Ok a \<and> f a = Ok b)"
  by (cases r) auto

lemma wrap_err_Ok_iff [simp]: "wrap_err f as r = Ok a \<longleftrightarrow> r = Ok a"
  by (cases r) auto

lemma wrap_err_Panic_iff [simp]: "wrap_err f as r = Panic p \<longleftrightarrow> r = Panic p"
  by (cases r) auto

text \<open>
  The loop \<^verbatim>\<open>for _, x := range xs { y, err := f(x); if err != nil { return err }; ys =
  append(ys, y) }\<close>: the first failure ends it.
\<close>

fun for_each :: "('a \<Rightarrow> 'b res) \<Rightarrow> 'a list \<Rightarrow> 'b list res" where
  "for_each f [] = Ok []"
| "for_each f (x # xs) =
     bind_res (f x) (\<lambda>y. bind_res (for_each f xs) (\<lambda>ys. Ok (y # ys)))"

lemma for_each_Ok_iff:
  "for_each f xs = Ok ys \<longleftrightarrow> list_all2 (\<lambda>x y. f x = Ok y) xs ys"
proof (induction xs arbitrary: ys)
  case Nil
  then show ?case by auto
next
  case (Cons x xs)
  show ?case
    by (cases ys) (auto simp: Cons.IH)
qed

lemma for_each_total:
  assumes "\<And>x. x \<in> set xs \<Longrightarrow> \<exists>y. f x = Ok y"
  shows "\<exists>ys. for_each f xs = Ok ys"
  using assms by (induction xs) fastforce+

lemma for_each_no_panic:
  assumes "\<And>x p. x \<in> set xs \<Longrightarrow> f x \<noteq> Panic p"
  shows "for_each f xs \<noteq> Panic p"
  using assms
proof (induction xs)
  case Nil
  then show ?case by simp
next
  case (Cons x xs)
  then have "f x \<noteq> Panic p" "for_each f xs \<noteq> Panic p" by auto
  then show ?case by (cases "f x"; cases "for_each f xs") auto
qed

section \<open>Sorting\<close>

text \<open>
  \<^verbatim>\<open>sort.Sort\<close> and \<^verbatim>\<open>slices.SortFunc\<close> promise a sorted permutation and no stability.
  The interface says just that; with distinct keys it already determines the result.
\<close>

locale key_sort =
  fixes srt :: "'a list \<Rightarrow> 'a list"
    and key :: "'a \<Rightarrow> 'k::linorder"
  assumes srt_mset: "mset (srt xs) = mset xs"
    and srt_sorted: "sorted (map key (srt xs))"
begin

lemma set_srt: "set (srt xs) = set xs"
  using srt_mset by (metis set_mset_mset)

lemma length_srt: "length (srt xs) = length xs"
  using srt_mset by (metis size_mset)

lemma distinct_keys_srt: "distinct (map key (srt xs)) \<longleftrightarrow> distinct (map key xs)"
  by (metis mset_eq_imp_distinct_iff mset_map srt_mset)

lemma srt_determined:
  assumes d: "distinct (map key xs)" and m: "mset ys = mset xs" and s: "sorted (map key ys)"
  shows "srt xs = ys"
proof (rule map_sorted_distinct_set_unique [where f = key])
  have "set (srt xs) = set xs" "set ys = set xs"
    by (rule set_srt, metis m set_mset_mset)
  then show "set (srt xs) = set ys" by simp
  have inj: "inj_on key (set xs)"
    using d by (simp add: distinct_map)
  then show "inj_on key (set (srt xs) \<union> set ys)"
    using \<open>set (srt xs) = set xs\<close> \<open>set ys = set xs\<close> by simp
  show "distinct (map key ys)"
    by (metis d m mset_eq_imp_distinct_iff mset_map)
qed (simp_all add: srt_sorted s distinct_keys_srt d)

lemma srt_perm_eq:
  assumes "distinct (map key xs)" and "mset ys = mset xs"
  shows "srt xs = srt ys"
  by (rule srt_determined) (simp_all add: assms srt_mset srt_sorted)

end

text \<open>
  The routine itself is Go's \<^verbatim>\<open>insertionSort\<close>, which is what \<^verbatim>\<open>pdqsort\<close> runs on slices
  of up to 12 elements. It is stable; where keys repeat the development does not rely on it.
\<close>

fun ins_by :: "('a \<Rightarrow> 'k::linorder) \<Rightarrow> 'a \<Rightarrow> 'a list \<Rightarrow> 'a list" where
  "ins_by k x [] = [x]"
| "ins_by k x (y # ys) = (if k x \<le> k y then x # y # ys else y # ins_by k x ys)"

fun sort_by :: "('a \<Rightarrow> 'k::linorder) \<Rightarrow> 'a list \<Rightarrow> 'a list" where
  "sort_by k [] = []"
| "sort_by k (x # xs) = ins_by k x (sort_by k xs)"

lemma mset_ins_by [simp]: "mset (ins_by k x ys) = add_mset x (mset ys)"
  by (induction ys) auto

lemma set_ins_by [simp]: "set (ins_by k x ys) = insert x (set ys)"
  by (induction ys) auto

lemma sorted_ins_by: "sorted (map k ys) \<Longrightarrow> sorted (map k (ins_by k x ys))"
  by (induction ys) auto

lemma mset_sort_by [simp]: "mset (sort_by k xs) = mset xs"
  by (induction xs) auto

lemma sorted_sort_by [simp]: "sorted (map k (sort_by k xs))"
  by (induction xs) (auto intro: sorted_ins_by)

interpretation gsort: key_sort "sort_by k" k
  by unfold_locales simp_all

lemmas set_sort_by [simp] = gsort.set_srt
lemmas length_sort_by [simp] = gsort.length_srt
lemmas distinct_keys_sort_by [simp] = gsort.distinct_keys_srt

lemma ins_by_sorted_head: "sorted (map k (x # ys)) \<Longrightarrow> ins_by k x ys = x # ys"
  by (cases ys) auto

lemma sort_by_sorted: "sorted (map k xs) \<Longrightarrow> sort_by k xs = xs"
  by (induction xs) (auto simp: ins_by_sorted_head)

section \<open>Lookups in lists and maps\<close>

lemma find_Some_in: "find P xs = Some x \<Longrightarrow> x \<in> set xs \<and> P x"
  by (induction xs) (auto split: if_splits)

lemma find_mset_unique:
  assumes "mset xs = mset ys" and "distinct (map f xs)"
  shows "find (\<lambda>x. f x = k) xs = find (\<lambda>x. f x = k) ys"
proof -
  have set: "set xs = set ys" using assms(1) by (metis set_mset_mset)
  have inj: "inj_on f (set xs)" using assms(2) by (simp add: distinct_map)
  show ?thesis
  proof (cases "find (\<lambda>x. f x = k) xs")
    case None
    then have "find (\<lambda>x. f x = k) ys = None" by (simp add: find_None_iff set)
    with None show ?thesis by simp
  next
    case (Some x)
    then have x: "x \<in> set xs" "f x = k" by (auto dest: find_Some_in)
    then have "find (\<lambda>x. f x = k) ys \<noteq> None" by (auto simp: find_None_iff set)
    then obtain y where y: "find (\<lambda>x. f x = k) ys = Some y" by blast
    then have "y \<in> set ys" "f y = k" by (auto dest: find_Some_in)
    with x inj set have "x = y" by (metis inj_onD)
    with Some y show ?thesis by simp
  qed
qed

text \<open>Overwriting a map key by key, as the loops over settings and labels do.\<close>

lemma map_of_rev_Some_in: "map_of (rev ps) k = Some v \<Longrightarrow> (k, v) \<in> set ps"
  by (metis map_of_SomeD set_rev)

end
