(* ===== verification/Go_IO.thy ===== *)
theory Go_IO
  imports Prelude
begin

text \<open>
  Go code with effects: a call reads and changes a state and returns a value, an error or a
  panic, \<open>'s \<Rightarrow> 'a res \<times> 's\<close>. The state changes made before an error or a panic stay. The
  sequencing operators and the frame rules below are shared by the validator, the webhook and
  the reconciler.
\<close>

section \<open>Sequencing\<close>

type_synonym ('s, 'a) io = "'s \<Rightarrow> 'a res \<times> 's"

definition ret_io :: "'a \<Rightarrow> ('s, 'a) io" where
  "ret_io a = (\<lambda>s. (Ok a, s))"

definition lift_res :: "'a res \<Rightarrow> ('s, 'a) io" where
  "lift_res r = (\<lambda>s. (r, s))"

definition gets_io :: "('s \<Rightarrow> 'a) \<Rightarrow> ('s, 'a) io" where
  "gets_io f = (\<lambda>s. (Ok (f s), s))"

definition modify_io :: "('s \<Rightarrow> 's) \<Rightarrow> ('s, unit) io" where
  "modify_io f = (\<lambda>s. (Ok (), f s))"

definition bind_io :: "('s, 'a) io \<Rightarrow> ('a \<Rightarrow> ('s, 'b) io) \<Rightarrow> ('s, 'b) io" where
  "bind_io m f = (\<lambda>s. case m s of
      (Ok a, s') \<Rightarrow> f a s'
    | (Err e, s') \<Rightarrow> (Err e, s')
    | (Panic p, s') \<Rightarrow> (Panic p, s'))"

text \<open>
  \<open>err_io m h k\<close> is \<^verbatim>\<open>x, err := m(); if err != nil { h(err) } else { k(x) }\<close>, the general
  form of Go's error test; a panic passes through.
\<close>

definition err_io ::
  "('s, 'a) io \<Rightarrow> (go_error \<Rightarrow> ('s, 'b) io) \<Rightarrow> ('a \<Rightarrow> ('s, 'b) io) \<Rightarrow> ('s, 'b) io" where
  "err_io m h k = (\<lambda>s. case m s of
      (Ok a, s') \<Rightarrow> k a s'
    | (Err e, s') \<Rightarrow> h e s'
    | (Panic p, s') \<Rightarrow> (Panic p, s'))"

text \<open>A deferred action runs after the body however the body ends, a panic included.\<close>

definition defer_io :: "('s \<Rightarrow> 's) \<Rightarrow> ('s, 'a) io \<Rightarrow> ('s, 'a) io" where
  "defer_io clean m = (\<lambda>s. case m s of (r, s') \<Rightarrow> (r, clean s'))"

text \<open>The loop that runs \<open>f\<close> on every element in order and collects the values.\<close>

fun map_io :: "('a \<Rightarrow> ('s, 'b) io) \<Rightarrow> 'a list \<Rightarrow> ('s, 'b list) io" where
  "map_io f [] = ret_io []"
| "map_io f (x # xs) = bind_io (f x) (\<lambda>y. bind_io (map_io f xs) (\<lambda>ys. ret_io (y # ys)))"

lemma io_simps [simp]:
  "ret_io a s = (Ok a, s)" "lift_res r s = (r, s)" "gets_io g s = (Ok (g s), s)"
  "modify_io u s = (Ok (), u s)"
  by (simp_all add: ret_io_def lift_res_def gets_io_def modify_io_def)

lemma bind_io_run:
  "m s = (Ok a, s') \<Longrightarrow> bind_io m f s = f a s'"
  "m s = (Err e, s') \<Longrightarrow> bind_io m f s = (Err e, s')"
  "m s = (Panic p, s') \<Longrightarrow> bind_io m f s = (Panic p, s')"
  by (simp_all add: bind_io_def)

lemma err_io_run:
  "m s = (Ok a, s') \<Longrightarrow> err_io m h k s = k a s'"
  "m s = (Err e, s') \<Longrightarrow> err_io m h k s = h e s'"
  "m s = (Panic p, s') \<Longrightarrow> err_io m h k s = (Panic p, s')"
  by (simp_all add: err_io_def)

lemma bind_io_ret [simp]:
  "bind_io (ret_io a) f = f a" "bind_io (lift_res (Ok a)) f = f a"
  "bind_io (lift_res (Err e)) f = lift_res (Err e)"
  "bind_io (lift_res (Panic p)) f = lift_res (Panic p)"
  "err_io (ret_io a) h k = k a" "err_io (lift_res (Ok a)) h k = k a"
  "err_io (lift_res (Err e)) h k = h e" "err_io (lift_res (Panic p)) h k = lift_res (Panic p)"
  by (simp_all add: bind_io_def err_io_def fun_eq_iff)

lemma bind_io_modify [simp]: "bind_io (modify_io u) f s = f () (u s)"
  by (simp add: bind_io_def)

lemma bind_io_gets [simp]: "bind_io (gets_io g) f s = f (g s) s"
  by (simp add: bind_io_def)

lemma bind_io_Ok_iff:
  "bind_io m f s = (Ok b, s'') \<longleftrightarrow> (\<exists>a s'. m s = (Ok a, s') \<and> f a s' = (Ok b, s''))"
  by (auto simp: bind_io_def split: prod.splits res.splits)

lemma bind_io_Ok_D:
  assumes "fst (bind_io m f s) = Ok b"
  obtains a s' where "m s = (Ok a, s')" "fst (f a s') = Ok b"
  using assms by (auto simp: bind_io_def split: prod.splits res.splits)

lemma bind_io_assoc: "bind_io (bind_io m f) g = bind_io m (\<lambda>x. bind_io (f x) g)"
  by (auto simp: fun_eq_iff bind_io_def split: prod.splits res.splits)

lemma defer_io_simps [simp]:
  "fst (defer_io clean m s) = fst (m s)" "snd (defer_io clean m s) = clean (snd (m s))"
  by (simp_all add: defer_io_def split: prod.splits)

section \<open>Calls that return no error\<close>

text \<open>
  Functions whose signature has no error result, or that handle every error themselves, end with
  a value or a panic.
\<close>

definition never_err :: "('s, 'a) io \<Rightarrow> bool" where
  "never_err m \<longleftrightarrow> (\<forall>s e. fst (m s) \<noteq> Err e)"

lemma never_errD: "never_err m \<Longrightarrow> fst (m s) \<noteq> Err e"
  by (simp add: never_err_def)

lemma never_err_pure [simp]:
  "never_err (ret_io a)" "never_err (gets_io g)" "never_err (modify_io u)"
  "never_err (lift_res r) \<longleftrightarrow> (\<forall>e. r \<noteq> Err e)"
  by (simp_all add: never_err_def)

lemma never_err_Pair [simp]: "never_err (Pair r) \<longleftrightarrow> (\<forall>e. r \<noteq> Err e)"
  by (simp add: never_err_def)

lemma never_err_bind [intro]:
  assumes "never_err m" and "\<And>a. never_err (f a)"
  shows "never_err (bind_io m f)"
  unfolding never_err_def
proof (intro allI)
  fix s e
  show "fst (bind_io m f s) \<noteq> Err e"
    using never_errD [OF assms(1), of s] never_errD [OF assms(2)]
    by (cases "m s"; cases "fst (m s)") (auto simp: bind_io_run)
qed

lemma never_err_err [intro]:
  "(\<And>e. never_err (h e)) \<Longrightarrow> (\<And>a. never_err (k a)) \<Longrightarrow> never_err (err_io m h k)"
  by (auto simp: never_err_def err_io_def split: prod.splits res.splits)

lemma never_err_defer [intro]: "never_err m \<Longrightarrow> never_err (defer_io clean m)"
  by (simp add: never_err_def)

lemma never_err_map [intro]: "(\<And>x. never_err (f x)) \<Longrightarrow> never_err (map_io f xs)"
  by (induction xs) (simp_all add: never_err_bind)

section \<open>Frame rules\<close>

text \<open>
  \<open>framed R m\<close>: whatever \<open>m\<close> returns, the states before and after it are related. For a
  preorder the relation passes through every way of composing calls.
\<close>

definition framed :: "('s \<Rightarrow> 's \<Rightarrow> bool) \<Rightarrow> ('s, 'a) io \<Rightarrow> bool" where
  "framed R m \<longleftrightarrow> (\<forall>s. R s (snd (m s)))"

lemma framedI: "(\<And>s. R s (snd (m s))) \<Longrightarrow> framed R m"
  by (simp add: framed_def)

lemma framedD: "framed R m \<Longrightarrow> R s (snd (m s))"
  by (simp add: framed_def)

locale frame =
  fixes R :: "'s \<Rightarrow> 's \<Rightarrow> bool"
  assumes R_refl: "R s s"
    and R_trans: "R s t \<Longrightarrow> R t u \<Longrightarrow> R s u"
begin

lemma framed_pure:
  "framed R (ret_io a)" "framed R (lift_res r)" "framed R (gets_io g)"
  by (simp_all add: framed_def R_refl)

lemma framed_modify: "(\<And>s. R s (u s)) \<Longrightarrow> framed R (modify_io u)"
  by (simp add: framed_def)

lemma framed_bind:
  assumes "framed R m" and "\<And>a. framed R (f a)"
  shows "framed R (bind_io m f)"
proof (rule framedI)
  fix s
  have "R s (snd (m s))" by (rule framedD [OF assms(1)])
  then show "R s (snd (bind_io m f s))"
    by (auto simp: bind_io_def split: prod.splits res.splits
        intro: R_trans [OF _ framedD [OF assms(2)]])
qed

lemma framed_bind_lift: "(\<And>a. x = Ok a \<Longrightarrow> framed R (f a)) \<Longrightarrow> framed R (bind_io (lift_res x) f)"
  by (cases x) (simp_all add: framed_pure)

lemma framed_err:
  assumes "framed R m" and "\<And>e. framed R (h e)" and "\<And>a. framed R (k a)"
  shows "framed R (err_io m h k)"
proof (rule framedI)
  fix s
  have "R s (snd (m s))" by (rule framedD [OF assms(1)])
  then show "R s (snd (err_io m h k s))"
    by (auto simp: err_io_def split: prod.splits res.splits
        intro: R_trans [OF _ framedD [OF assms(2)]] R_trans [OF _ framedD [OF assms(3)]])
qed

lemma framed_defer:
  assumes "framed R m" and "\<And>s. R s (clean s)"
  shows "framed R (defer_io clean m)"
  by (rule framedI) (simp add: R_trans [OF framedD [OF assms(1)] assms(2)])

lemma framed_map: "(\<And>x. framed R (f x)) \<Longrightarrow> framed R (map_io f xs)"
  by (induction xs) (auto intro!: framed_bind framed_pure)

lemma framed_if: "framed R m \<Longrightarrow> framed R n \<Longrightarrow> framed R (if b then m else n)"
  by simp

lemma framed_case_prod: "(\<And>a b. framed R (f a b)) \<Longrightarrow> framed R (case p of (a, b) \<Rightarrow> f a b)"
  by (simp split: prod.splits)

lemmas framed_intros = framed_pure framed_modify framed_bind framed_err framed_map framed_if
  framed_case_prod

end

text \<open>Keeping a projection of the state unchanged is a preorder.\<close>

definition same :: "('s \<Rightarrow> 'v) \<Rightarrow> 's \<Rightarrow> 's \<Rightarrow> bool" where
  "same p s s' \<longleftrightarrow> p s' = p s"

interpretation same: frame "same p"
  by unfold_locales (simp_all add: same_def)

text \<open>So is keeping an invariant.\<close>

definition keeps :: "('s \<Rightarrow> bool) \<Rightarrow> 's \<Rightarrow> 's \<Rightarrow> bool" where
  "keeps P s s' \<longleftrightarrow> (P s \<longrightarrow> P s')"

interpretation keeps: frame "keeps P"
  by unfold_locales (simp_all add: keeps_def)

end
