(* ===== verification/Go_Strings.thy ===== *)
theory Go_Strings
  imports Prelude
begin

text \<open>
  The parts of the Go packages \<open>strings\<close>, \<open>regexp\<close>, \<open>path\<close>, \<open>path/filepath\<close> and
  \<open>fmt\<close> that the operator calls. A Go string is a sequence of bytes, and so is a
  \<^typ>\<open>string\<close> here. The Unicode case tables behind \<^verbatim>\<open>strings.ToLower\<close> and
  \<^verbatim>\<open>strings.ToUpper\<close> on non-ASCII input are an argument (\<open>unicode\<close>), so every result
  holds for all tables.
\<close>

section \<open>Prefixes, trimming, splitting\<close>

fun HasPrefix :: "string \<Rightarrow> string \<Rightarrow> bool" where
  "HasPrefix s [] = True"
| "HasPrefix [] (p # ps) = False"
| "HasPrefix (c # s) (p # ps) = (c = p \<and> HasPrefix s ps)"

definition TrimPrefix :: "string \<Rightarrow> string \<Rightarrow> string" where
  "TrimPrefix s p = (if HasPrefix s p then drop (length p) s else s)"

text \<open>\<^verbatim>\<open>strings.CutPrefix\<close> returns the rest and whether the prefix was there.\<close>

definition CutPrefix :: "string \<Rightarrow> string \<Rightarrow> string \<times> bool" where
  "CutPrefix s p = (if HasPrefix s p then (drop (length p) s, True) else (s, False))"

text \<open>\<^verbatim>\<open>strings.Trim(s, " ")\<close>: the cutset the operator uses is one space.\<close>

definition TrimSpace :: "string \<Rightarrow> string" where
  "TrimSpace s =
     rev (dropWhile (\<lambda>c. c = CHR '' '') (rev (dropWhile (\<lambda>c. c = CHR '' '') s)))"

text \<open>\<^verbatim>\<open>strings.Split\<close> on a one-byte separator: the empty string gives one empty part.\<close>

fun Split :: "string \<Rightarrow> char \<Rightarrow> string list" where
  "Split [] sep = [[]]"
| "Split (c # s) sep =
     (if c = sep then [] # Split s sep
      else (case Split s sep of [] \<Rightarrow> [[c]] | w # ws \<Rightarrow> (c # w) # ws))"

fun Join :: "string list \<Rightarrow> string \<Rightarrow> string" where
  "Join [] sep = []"
| "Join [w] sep = w"
| "Join (w # v # ws) sep = w @ sep @ Join (v # ws) sep"

fun Contains :: "string \<Rightarrow> string \<Rightarrow> bool" where
  "Contains [] t = (t = [])"
| "Contains (c # s) t = (HasPrefix (c # s) t \<or> Contains s t)"

lemma HasPrefix_iff: "HasPrefix s p \<longleftrightarrow> (\<exists>t. s = p @ t)"
  by (induction s p rule: HasPrefix.induct) auto

lemma HasPrefix_append [simp]: "HasPrefix (p @ t) p"
  by (auto simp: HasPrefix_iff)

lemma TrimPrefix_append [simp]: "TrimPrefix (p @ s) p = s"
  by (simp add: TrimPrefix_def)

lemma fst_CutPrefix [simp]: "fst (CutPrefix s p) = TrimPrefix s p"
  by (simp add: CutPrefix_def TrimPrefix_def)

lemma Contains_iff: "Contains s t \<longleftrightarrow> (\<exists>u v. s = u @ t @ v)"
proof (induction s)
  case Nil
  then show ?case by auto
next
  case (Cons c s)
  show ?case
  proof
    assume "Contains (c # s) t"
    then consider "HasPrefix (c # s) t" | "Contains s t" by auto
    then show "\<exists>u v. c # s = u @ t @ v"
    proof cases
      case 1
      then obtain v where "c # s = [] @ t @ v" by (auto simp: HasPrefix_iff)
      then show ?thesis by blast
    next
      case 2
      with Cons.IH obtain u v where "c # s = (c # u) @ t @ v" by auto
      then show ?thesis by blast
    qed
  next
    assume "\<exists>u v. c # s = u @ t @ v"
    then obtain u v where uv: "c # s = u @ t @ v" by blast
    show "Contains (c # s) t"
    proof (cases u)
      case Nil
      with uv have "HasPrefix (c # s) t" by (metis HasPrefix_append append_Nil)
      then show ?thesis by simp
    next
      case (Cons d u')
      with uv have "s = u' @ t @ v" by simp
      with Cons.IH show ?thesis by auto
    qed
  qed
qed

lemma Contains_empty [simp]: "Contains s []"
  by (cases s) auto

lemma Split_not_Nil [simp]: "Split s c \<noteq> []"
  by (induction s) (auto split: list.splits)

lemma Split_no_sep: "w \<in> set (Split s c) \<Longrightarrow> c \<notin> set w"
  by (induction s arbitrary: w) (auto split: if_splits list.splits)

lemma Split_id: "c \<notin> set s \<Longrightarrow> Split s c = [s]"
  by (induction s) auto

lemma Split_append_sep: "c \<notin> set s \<Longrightarrow> Split (s @ c # t) c = s # Split t c"
  by (induction s) auto

lemma Join_Split: "Join (Split s c) [c] = s"
proof (induction s)
  case Nil
  then show ?case by simp
next
  case (Cons a s)
  then show ?case
    by (cases "Split s c"; cases "tl (Split s c)") (auto split: list.splits)
qed

lemma Join_Cons: "ws \<noteq> [] \<Longrightarrow> Join (w # ws) sep = w @ sep @ Join ws sep"
  by (cases ws) auto

lemma Join_append:
  "xs \<noteq> [] \<Longrightarrow> ys \<noteq> [] \<Longrightarrow> Join (xs @ ys) sep = Join xs sep @ sep @ Join ys sep"
  by (induction xs rule: induct_list012) (auto simp: Join_Cons)

lemma Contains_Join: "w \<in> set ws \<Longrightarrow> Contains (Join ws sep) w"
proof -
  assume "w \<in> set ws"
  then obtain us vs where ws: "ws = us @ w # vs" by (auto simp: in_set_conv_decomp)
  have tail: "\<exists>v. Join (w # vs) sep = w @ v" by (cases vs) auto
  show ?thesis
  proof (cases "us = []")
    case True
    with tail ws show ?thesis by (auto simp: Contains_iff intro: exI [of _ "[]"])
  next
    case False
    then have "Join ws sep = (Join us sep @ sep) @ Join (w # vs) sep"
      by (simp add: ws Join_append)
    with tail show ?thesis by (metis Contains_iff append.assoc)
  qed
qed

section \<open>Case mapping\<close>

definition ascii :: "char \<Rightarrow> bool" where
  "ascii c \<longleftrightarrow> of_char c < (128::nat)"

definition byte_in :: "nat \<Rightarrow> char \<Rightarrow> nat \<Rightarrow> bool" where
  "byte_in lo c hi \<longleftrightarrow> lo \<le> of_char c \<and> of_char c \<le> hi"

definition lower_byte :: "char \<Rightarrow> char" where
  "lower_byte c = (if byte_in 65 c 90 then char_of (of_char c + 32 :: nat) else c)"

definition upper_byte :: "char \<Rightarrow> char" where
  "upper_byte c = (if byte_in 97 c 122 then char_of (of_char c - 32 :: nat) else c)"

record unicode =
  map_ToLower :: "string \<Rightarrow> string"
  map_ToUpper :: "string \<Rightarrow> string"

text \<open>Tables that leave non-ASCII text alone, for concrete examples.\<close>

definition ascii_tables :: unicode where
  "ascii_tables = \<lparr>map_ToLower = (\<lambda>s. s), map_ToUpper = (\<lambda>s. s)\<rparr>"

definition ToLower :: "unicode \<Rightarrow> string \<Rightarrow> string" where
  "ToLower U s = (if list_all ascii s then map lower_byte s else map_ToLower U s)"

definition ToUpper :: "unicode \<Rightarrow> string \<Rightarrow> string" where
  "ToUpper U s = (if list_all ascii s then map upper_byte s else map_ToUpper U s)"

lemma of_char_lower_byte:
  "of_char (lower_byte c) = (if byte_in 65 c 90 then of_char c + 32 else of_char c :: nat)"
  by (simp add: lower_byte_def byte_in_def)

lemma of_char_upper_byte:
  "of_char (upper_byte c) = (if byte_in 97 c 122 then of_char c - 32 else of_char c :: nat)"
proof (cases "byte_in 97 c 122")
  case True
  then have "of_char c - 32 < (256::nat)" unfolding byte_in_def by linarith
  with True show ?thesis by (simp add: upper_byte_def)
qed (simp add: upper_byte_def)

lemma ascii_lower_byte [simp]: "ascii (lower_byte c) \<longleftrightarrow> ascii c"
  by (auto simp: ascii_def of_char_lower_byte byte_in_def)

lemma ascii_upper_byte [simp]: "ascii (upper_byte c) \<longleftrightarrow> ascii c"
  by (auto simp: ascii_def of_char_upper_byte byte_in_def)

lemma lower_byte_idem [simp]: "lower_byte (lower_byte c) = lower_byte c"
  by (auto simp: lower_byte_def [of "lower_byte c"] byte_in_def of_char_lower_byte)

lemma ToLower_ascii: "list_all ascii s \<Longrightarrow> ToLower U s = map lower_byte s"
  by (simp add: ToLower_def)

lemma ToLower_idem_ascii: "list_all ascii s \<Longrightarrow> ToLower U (ToLower U s) = ToLower U s"
  by (simp add: ToLower_def list_all_iff comp_def)

section \<open>Runes and the character class of environment names\<close>

text \<open>
  \<^verbatim>\<open>utf8.DecodeRune\<close>, reduced to the width it consumes: an ill-formed sequence is one
  byte wide. The bounds on the second byte exclude overlong forms and surrogates.
\<close>

definition cont :: "char \<Rightarrow> bool" where
  "cont c \<longleftrightarrow> byte_in 128 c 191"

fun rune_width :: "string \<Rightarrow> nat" where
  "rune_width [] = 0"
| "rune_width [a] = 1"
| "rune_width [a, b] = (if byte_in 194 a 223 \<and> cont b then 2 else 1)"
| "rune_width [a, b, c] =
     (if byte_in 194 a 223 \<and> cont b then 2
      else if byte_in 224 a 239 \<and> cont b \<and> cont c
              \<and> (of_char a = (224::nat) \<longrightarrow> byte_in 160 b 191)
              \<and> (of_char a = (237::nat) \<longrightarrow> byte_in 128 b 159)
      then 3 else 1)"
| "rune_width (a # b # c # d # s) =
     (if byte_in 194 a 223 \<and> cont b then 2
      else if byte_in 224 a 239 \<and> cont b \<and> cont c
              \<and> (of_char a = (224::nat) \<longrightarrow> byte_in 160 b 191)
              \<and> (of_char a = (237::nat) \<longrightarrow> byte_in 128 b 159)
      then 3
      else if byte_in 240 a 244 \<and> cont b \<and> cont c \<and> cont d
              \<and> (of_char a = (240::nat) \<longrightarrow> byte_in 144 b 191)
              \<and> (of_char a = (244::nat) \<longrightarrow> byte_in 128 b 143)
      then 4 else 1)"

lemma rune_width_pos: "s \<noteq> [] \<Longrightarrow> 0 < rune_width s"
  by (induction s rule: rune_width.induct) auto

text \<open>The class \<^verbatim>\<open>[[:alnum:]_]\<close> of RE2 is ASCII only.\<close>

definition word_char :: "char \<Rightarrow> bool" where
  "word_char c \<longleftrightarrow> byte_in 48 c 57 \<or> byte_in 65 c 90 \<or> byte_in 97 c 122 \<or> c = CHR ''_''"

text \<open>
  \<^verbatim>\<open>regexp.MustCompile("[^[:alnum:]_]").ReplaceAllString(s, "_")\<close>: every rune outside the
  class, however many bytes it has, becomes one underscore.
\<close>

function replace_special :: "string \<Rightarrow> string" where
  "replace_special [] = []"
| "replace_special (c # s) =
     (if word_char c then c # replace_special s
      else CHR ''_'' # replace_special (drop (rune_width (c # s)) (c # s)))"
  by pat_completeness auto
termination
proof (relation "measure length")
  fix c :: char and s :: string
  have "0 < rune_width (c # s)" by (rule rune_width_pos) simp
  then show "(drop (rune_width (c # s)) (c # s), c # s) \<in> measure length" by simp
qed auto

text \<open>Unfoldings that evaluate byte tests and case mapping on literal text.\<close>

lemmas char_eval = word_char_def upper_byte_def lower_byte_def byte_in_def ascii_def char_of_def bit_0

lemma word_char_underscore [simp]: "word_char CHR ''_''"
  by (simp add: word_char_def)

lemma replace_special_class: "list_all word_char (replace_special s)"
  by (induction s rule: replace_special.induct) auto

lemma word_char_ascii: "word_char c \<Longrightarrow> ascii c"
  by (auto simp: word_char_def ascii_def byte_in_def)

lemma replace_special_id: "list_all word_char s \<Longrightarrow> replace_special s = s"
  by (induction s) auto

lemma rune_width_ascii: "ascii c \<Longrightarrow> rune_width (c # s) = 1"
  by (cases "c # s" rule: rune_width.cases) (auto simp: ascii_def byte_in_def)

lemma replace_special_ascii:
  "list_all ascii s \<Longrightarrow>
     replace_special s = map (\<lambda>c. if word_char c then c else CHR ''_'') s"
  by (induction s) (auto simp: rune_width_ascii)

end
