(* ===== verification/Go_Paths.thy ===== *)
theory Go_Paths
  imports Go_Strings
begin

text \<open>
  The slash-separated path functions of Go's \<open>path\<close> and \<open>path/filepath\<close> packages (which
  agree on the platforms the operator runs on), and \<^verbatim>\<open>fmt.Sprintf\<close> for the verbs the
  operator uses.
\<close>

section \<open>Clean, Join, Base, Dir\<close>

text \<open>
  The loop of \<^verbatim>\<open>path.Clean\<close> over the components, with the output kept as a stack (last
  component first). Empty components and \<open>.\<close> are dropped; \<open>..\<close> removes the component
  before it, except that at the root it is dropped and a leading run of \<open>..\<close> in a relative
  path is kept.
\<close>

fun clean_parts :: "bool \<Rightarrow> string list \<Rightarrow> string list \<Rightarrow> string list" where
  "clean_parts rooted out [] = out"
| "clean_parts rooted out (w # ws) =
     (if w = [] \<or> w = ''.'' then clean_parts rooted out ws
      else if w = ''..''
      then (case out of
              [] \<Rightarrow> clean_parts rooted (if rooted then [] else [''..'']) ws
            | v # vs \<Rightarrow> clean_parts rooted (if v = ''..'' then ''..'' # out else vs) ws)
      else clean_parts rooted (w # out) ws)"

definition path_Clean :: "string \<Rightarrow> string" where
  "path_Clean p =
     (if p = [] then ''.''
      else
        let rooted = HasPrefix p ''/'';
            body = Join (rev (clean_parts rooted [] (Split p CHR ''/''))) ''/''
        in if rooted then CHR ''/'' # body else if body = [] then ''.'' else body)"

text \<open>\<^verbatim>\<open>path.Join\<close> drops empty elements, joins with slashes and cleans.\<close>

definition path_Join :: "string list \<Rightarrow> string" where
  "path_Join es =
     (let es' = filter (\<lambda>e. e \<noteq> []) es
      in if es' = [] then [] else path_Clean (Join es' ''/''))"

definition strip_slashes :: "string \<Rightarrow> string" where
  "strip_slashes p = rev (dropWhile (\<lambda>c. c = CHR ''/'') (rev p))"

text \<open>\<^verbatim>\<open>filepath.Base\<close>: the last element, without trailing slashes.\<close>

definition path_Base :: "string \<Rightarrow> string" where
  "path_Base p =
     (if p = [] then ''.''
      else let q = strip_slashes p
           in if q = [] then ''/'' else rev (takeWhile (\<lambda>c. c \<noteq> CHR ''/'') (rev q)))"

text \<open>\<^verbatim>\<open>filepath.Dir\<close>: everything up to the last slash, cleaned.\<close>

definition path_Dir :: "string \<Rightarrow> string" where
  "path_Dir p = path_Clean (rev (dropWhile (\<lambda>c. c \<noteq> CHR ''/'') (rev p)))"

lemma path_Base_no_slash:
  assumes "path_Base p \<noteq> ''/''"
  shows "CHR ''/'' \<notin> set (path_Base p)"
proof (cases "p = [] \<or> strip_slashes p = []")
  case True
  with assms show ?thesis by (auto simp: path_Base_def Let_def split: if_splits)
next
  case False
  then have "path_Base p = rev (takeWhile (\<lambda>c. c \<noteq> CHR ''/'') (rev (strip_slashes p)))"
    by (simp add: path_Base_def Let_def)
  then show ?thesis by (auto dest: set_takeWhileD)
qed

lemma path_Base_append:
  assumes "CHR ''/'' \<notin> set b" and "b \<noteq> []"
  shows "path_Base (d @ ''/'' @ b) = b"
proof -
  have "strip_slashes (d @ ''/'' @ b) = d @ ''/'' @ b"
    using assms by (cases b rule: rev_cases) (auto simp: strip_slashes_def)
  moreover have "takeWhile (\<lambda>c. c \<noteq> CHR ''/'') (rev b @ CHR ''/'' # rev d) = rev b"
    using assms(1) by (subst takeWhile_append2) auto
  ultimately show ?thesis by (simp add: path_Base_def Let_def)
qed

text \<open>A plain file name: a component that \<^verbatim>\<open>path.Clean\<close> keeps as it is.\<close>

definition plain_name :: "string \<Rightarrow> bool" where
  "plain_name w \<longleftrightarrow> w \<noteq> [] \<and> w \<noteq> ''.'' \<and> w \<noteq> ''..'' \<and> CHR ''/'' \<notin> set w"

lemma clean_parts_plain:
  "list_all plain_name ws \<Longrightarrow> clean_parts r out ws = rev ws @ out"
  by (induction ws arbitrary: out) (auto simp: plain_name_def)

lemma Split_Join_plain:
  "list_all plain_name ws \<Longrightarrow> ws \<noteq> [] \<Longrightarrow> Split (Join ws ''/'') CHR ''/'' = ws"
proof (induction ws rule: induct_list012)
  case (2 w)
  then show ?case by (simp add: Split_id plain_name_def)
next
  case (3 w v ws)
  then show ?case by (simp add: Split_append_sep plain_name_def)
qed simp

lemma path_Clean_plain:
  assumes "list_all plain_name ws"
  shows "path_Clean (CHR ''/'' # Join ws ''/'') = CHR ''/'' # Join ws ''/''"
proof (cases "ws = []")
  case True
  then show ?thesis by (simp add: path_Clean_def)
next
  case False
  have "clean_parts True [] ([] # Split (Join ws ''/'') CHR ''/'') = rev ws"
    using assms False by (simp add: Split_Join_plain clean_parts_plain)
  then show ?thesis by (simp add: path_Clean_def)
qed

text \<open>Joining plain names below a rooted, clean directory only appends them.\<close>

lemma path_Join_plain:
  assumes "list_all plain_name ds" and "ds \<noteq> []" and "list_all plain_name ws"
  shows "path_Join ((CHR ''/'' # Join ds ''/'') # ws) = CHR ''/'' # Join (ds @ ws) ''/''"
proof -
  have ws: "filter (\<lambda>e. e \<noteq> []) ws = ws"
    using assms(3) by (auto simp: filter_id_conv plain_name_def list_all_iff)
  have "Join ((CHR ''/'' # Join ds ''/'') # ws) ''/'' = CHR ''/'' # Join (ds @ ws) ''/''"
    using assms(2) by (cases "ws = []") (simp_all add: Join_Cons Join_append)
  moreover have "list_all plain_name (ds @ ws)"
    using assms by simp
  ultimately show ?thesis
    by (simp add: path_Join_def Let_def ws path_Clean_plain)
qed

section \<open>Formatting\<close>

text \<open>
  \<^verbatim>\<open>%s\<close>, \<^verbatim>\<open>%v\<close>, \<^verbatim>\<open>%w\<close> and \<^verbatim>\<open>%d\<close> print an argument that is already text;
  \<^verbatim>\<open>%q\<close> quotes it. The arguments are the texts of the Go operands. Quoting passes
  bytes from 128 on through, as \<^verbatim>\<open>strconv.Quote\<close> does for printable runes.
\<close>

definition hex_digit :: "nat \<Rightarrow> char" where
  "hex_digit n = ''0123456789abcdef'' ! n"

definition quote_byte :: "char \<Rightarrow> string" where
  "quote_byte c =
     (if c = CHR 0x22 then [CHR 0x5C, CHR 0x22]
      else if c = CHR 0x5C then [CHR 0x5C, CHR 0x5C]
      else if c = CHR 0x07 then [CHR 0x5C, CHR ''a'']
      else if c = CHR 0x08 then [CHR 0x5C, CHR ''b'']
      else if c = CHR 0x0B then [CHR 0x5C, CHR ''v'']
      else if c = CHR 0x0C then [CHR 0x5C, CHR ''f'']
      else if c = CHR 0x0A then [CHR 0x5C, CHR ''n'']
      else if c = CHR 0x09 then [CHR 0x5C, CHR ''t'']
      else if c = CHR 0x0D then [CHR 0x5C, CHR ''r'']
      else if byte_in 0 c 31 \<or> c = CHR 0x7F
      then [CHR 0x5C, CHR ''x'', hex_digit (of_char c div 16), hex_digit (of_char c mod 16)]
      else [c])"

definition quote :: "string \<Rightarrow> string" where
  "quote s = [CHR 0x22] @ concat (map quote_byte s) @ [CHR 0x22]"

fun sprintf :: "string \<Rightarrow> string list \<Rightarrow> string" where
  "sprintf [] as = []"
| "sprintf [c] as = [c]"
| "sprintf (c # v # f) [] = c # sprintf (v # f) []"
| "sprintf (c # v # f) (a # as) =
     (if c = CHR ''%'' then (if v = CHR ''q'' then quote a else a) @ sprintf f as
      else c # sprintf (v # f) (a # as))"

text \<open>The text of an error, \<^verbatim>\<open>err.Error()\<close>; joined errors are separated by newlines.\<close>

fun Error :: "go_error \<Rightarrow> string" where
  "Error (Ext s) = s"
| "Error (NotFound s) = s"
| "Error (Sentinel s) = s"
| "Error (Errorf f as) = sprintf f as"
| "Error (Wrapf f as e) = sprintf f (as @ [Error e])"
| "Error (Joined es) = Join (map Error es) [CHR 0x0A]"

text \<open>Decimal text of a natural number, as \<^verbatim>\<open>%d\<close> prints it.\<close>

fun dec :: "nat \<Rightarrow> string" where
  "dec n = (if n < 10 then [char_of (48 + n)] else dec (n div 10) @ [char_of (48 + n mod 10)])"

declare dec.simps [simp del]

definition itoa :: "int \<Rightarrow> string" where
  "itoa i = (if i < 0 then CHR ''-'' # dec (nat (- i)) else dec (nat i))"

end
