(* ===== verification/Conditions.thy ===== *)
theory Conditions
  imports Go_Paths
begin

text \<open>
  Model of \<^verbatim>\<open>api/v1alpha/condition.go\<close>: status conditions, the sort interface of a
  condition list, and the condition set, whose main condition is derived from its dependent
  conditions. The abstract view of a condition list is a finite map from condition types to
  status, reason and message; \<open>SetCondition\<close> is shown to implement a two-line
  specification over it.
\<close>

section \<open>Conditions\<close>

type_synonym ConditionType = string
type_synonym ConditionStatus = string
type_synonym time = int

abbreviation (input) ConditionTrue :: ConditionStatus where "ConditionTrue \<equiv> ''True''"
abbreviation (input) ConditionFalse :: ConditionStatus where "ConditionFalse \<equiv> ''False''"
abbreviation (input) ConditionUnknown :: ConditionStatus where "ConditionUnknown \<equiv> ''Unknown''"

record Condition =
  cType :: ConditionType
  cStatus :: ConditionStatus
  cReason :: string
  cMessage :: string
  cLastTransitionTime :: "time option"

type_synonym Conditions = "Condition list"

text \<open>The predicates take a pointer; nil (\<^const>\<open>None\<close>) counts as unknown.\<close>

definition IsTrue :: "Condition option \<Rightarrow> bool" where
  "IsTrue c = (case c of None \<Rightarrow> False | Some c \<Rightarrow> cStatus c = ConditionTrue)"

definition IsFalse :: "Condition option \<Rightarrow> bool" where
  "IsFalse c = (case c of None \<Rightarrow> False | Some c \<Rightarrow> cStatus c = ConditionFalse)"

definition IsUnknown :: "Condition option \<Rightarrow> bool" where
  "IsUnknown c = (case c of None \<Rightarrow> True | Some c \<Rightarrow> cStatus c = ConditionUnknown)"

section \<open>The sort interface and sort.Sort\<close>

definition Len :: "Conditions \<Rightarrow> nat" where
  "Len c = length c"

definition Swap :: "Conditions \<Rightarrow> nat \<Rightarrow> nat \<Rightarrow> Conditions" where
  "Swap c i j = c[i := c ! j, j := c ! i]"

definition Less :: "Conditions \<Rightarrow> nat \<Rightarrow> nat \<Rightarrow> bool" where
  "Less c i j \<longleftrightarrow> cType (c ! i) < cType (c ! j)"

text \<open>
  \<^verbatim>\<open>sort.Sort\<close> reaches a condition list only through these three methods. The model runs
  the package's insertion sort, its choice for short slices: \<open>sink\<close> is the inner loop that
  moves element \<open>j\<close> down while it is less than its left neighbour.
\<close>

fun sink :: "Conditions \<Rightarrow> nat \<Rightarrow> Conditions" where
  "sink c 0 = c"
| "sink c (Suc j) = (if Less c (Suc j) j then sink (Swap c (Suc j) j) j else c)"

function sort_from :: "Conditions \<Rightarrow> nat \<Rightarrow> Conditions" where
  "sort_from c i = (if i < Len c then sort_from (sink c i) (Suc i) else c)"
  by pat_completeness auto

lemma length_Swap [simp]: "length (Swap c i j) = length c"
  by (simp add: Swap_def)

lemma length_sink [simp]: "length (sink c j) = length c"
  by (induction c j rule: sink.induct) auto

termination sort_from
  by (relation "measure (\<lambda>(c, i). Len c - i)") (auto simp: Len_def)

declare sort_from.simps [simp del]

definition sort_Sort :: "Conditions \<Rightarrow> Conditions" where
  "sort_Sort c = sort_from c 1"

lemma mset_Swap: "i < length c \<Longrightarrow> j < length c \<Longrightarrow> mset (Swap c i j) = mset c"
  by (simp add: Swap_def mset_swap)

lemma mset_sink: "j < length c \<Longrightarrow> mset (sink c j) = mset c"
  by (induction c j rule: sink.induct) (auto simp: mset_Swap)

lemma mset_sort_from: "mset (sort_from c i) = mset c"
proof (induction c i rule: sort_from.induct)
  case (1 c i)
  then show ?case
    by (cases "i < Len c") (auto simp: sort_from.simps [of c i] mset_sink Len_def)
qed

text \<open>
  The loop invariants: the elements above \<open>j\<close> are untouched by \<open>sink\<close>, and a sorted
  prefix with one new element at its end becomes sorted.
\<close>

lemma sink_beyond: "j < k \<Longrightarrow> sink c j ! k = c ! k"
  by (induction c j rule: sink.induct) (auto simp: Swap_def)

definition sorted_upto :: "nat \<Rightarrow> Conditions \<Rightarrow> bool" where
  "sorted_upto n c \<longleftrightarrow> (\<forall>a b. a < b \<longrightarrow> b < n \<longrightarrow> cType (c ! a) \<le> cType (c ! b))"

text \<open>
  The inner loop's invariant: below \<open>m\<close> the list is sorted but for the element on the move,
  at \<open>j\<close>, which is already below everything to its right.
\<close>

definition sinking :: "nat \<Rightarrow> nat \<Rightarrow> Conditions \<Rightarrow> bool" where
  "sinking m j c \<longleftrightarrow>
     (\<forall>a b. a < b \<longrightarrow> b < m \<longrightarrow> a \<noteq> j \<longrightarrow> b \<noteq> j \<longrightarrow> cType (c ! a) \<le> cType (c ! b))
     \<and> (\<forall>b. j < b \<longrightarrow> b < m \<longrightarrow> cType (c ! j) \<le> cType (c ! b))"

lemma sinking_start: "sorted_upto j c \<Longrightarrow> sinking (Suc j) j c"
  by (auto simp: sinking_def sorted_upto_def)

lemma sinking_step:
  assumes inv: "sinking m (Suc j) c" and m: "Suc j < m" "m \<le> length c" and less: "Less c (Suc j) j"
  shows "sinking m j (Swap c (Suc j) j)"
proof -
  let ?c = "Swap c (Suc j) j"
  have at: "?c ! k = (if k = Suc j then c ! j else if k = j then c ! Suc j else c ! k)" for k
    using m by (auto simp: Swap_def nth_list_update)
  have ord: "a < b \<Longrightarrow> b < m \<Longrightarrow> a \<noteq> Suc j \<Longrightarrow> b \<noteq> Suc j \<Longrightarrow> cType (c ! a) \<le> cType (c ! b)" for a b
    using inv by (simp add: sinking_def)
  have new: "cType (c ! Suc j) < cType (c ! j)" using less by (simp add: Less_def)
  show ?thesis
    unfolding sinking_def
  proof (intro conjI allI impI)
    fix a b assume "a < b" "b < m" "a \<noteq> j" "b \<noteq> j"
    then show "cType (?c ! a) \<le> cType (?c ! b)"
      using ord [of a b] ord [of j b] ord [of a j] by (auto simp: at)
  next
    fix b assume "j < b" "b < m"
    then show "cType (?c ! j) \<le> cType (?c ! b)"
      using new ord [of j b] by (auto simp: at)
  qed
qed

lemma sinking_stop:
  assumes "sinking m (Suc j) c" and "\<not> Less c (Suc j) j" and "Suc j < m"
  shows "sorted_upto m c"
  unfolding sorted_upto_def
proof (intro allI impI)
  fix a b assume ab: "a < b" "b < m"
  have last: "cType (c ! j) \<le> cType (c ! Suc j)" using assms(2) by (simp add: Less_def)
  have "cType (c ! a) \<le> cType (c ! j)" if "b = Suc j"
    using assms ab that by (cases "a = j") (auto simp: sinking_def)
  with assms ab last show "cType (c ! a) \<le> cType (c ! b)"
    by (cases "b = Suc j"; cases "a = Suc j") (auto simp: sinking_def intro: order_trans)
qed

lemma sorted_upto_sink:
  "sinking m j c \<Longrightarrow> j < m \<Longrightarrow> m \<le> length c \<Longrightarrow> sorted_upto m (sink c j)"
proof (induction c j rule: sink.induct)
  case (1 c)
  then show ?case by (auto simp: sinking_def sorted_upto_def)
next
  case (2 c j)
  then show ?case by (auto intro: sinking_step sinking_stop)
qed

lemma sorted_upto_sort_from:
  "sorted_upto i c \<Longrightarrow> i \<le> length c \<Longrightarrow> sorted_upto (length c) (sort_from c i)"
proof (induction c i rule: sort_from.induct)
  case (1 c i)
  show ?case
  proof (cases "i < Len c")
    case True
    with "1.prems" have "sorted_upto (Suc i) (sink c i)"
      by (intro sorted_upto_sink sinking_start) (auto simp: Len_def)
    with "1.IH" True show ?thesis by (simp add: sort_from.simps [of c i] Len_def)
  next
    case False
    then have "sort_from c i = c" by (subst sort_from.simps) simp
    with "1.prems" False show ?thesis by (simp add: Len_def)
  qed
qed

lemma sorted_upto_length: "sorted_upto (length c) c \<Longrightarrow> sorted (map cType c)"
  by (auto simp: sorted_upto_def sorted_iff_nth_mono_less)

lemma sorted_sort_Sort: "sorted (map cType (sort_Sort c))"
proof (cases c)
  case Nil
  then show ?thesis by (simp add: sort_Sort_def sort_from.simps Len_def)
next
  case (Cons x xs)
  have "length (sort_from c 1) = length c" by (metis mset_sort_from size_mset)
  moreover have "sorted_upto (length c) (sort_from c 1)"
    using Cons by (intro sorted_upto_sort_from) (auto simp: sorted_upto_def)
  ultimately show ?thesis by (simp add: sort_Sort_def sorted_upto_length)
qed

interpretation csort: key_sort sort_Sort cType
  by unfold_locales (simp add: sort_Sort_def mset_sort_from, rule sorted_sort_Sort)

section \<open>Condition sets\<close>

record ConditionSet =
  cs_main :: ConditionType
  cs_deps :: "ConditionType list"

definition NewConditionSet :: "ConditionType \<Rightarrow> ConditionType list \<Rightarrow> ConditionSet" where
  "NewConditionSet main deps = \<lparr>cs_main = main, cs_deps = deps\<rparr>"

definition GetConditionTypes :: "ConditionSet \<Rightarrow> ConditionType list" where
  "GetConditionTypes l = [cs_main l] @ cs_deps l"

definition GetDependentConditionTypes :: "ConditionSet \<Rightarrow> ConditionType list" where
  "GetDependentConditionTypes l = cs_deps l"

fun GetCondition :: "ConditionSet \<Rightarrow> Conditions \<Rightarrow> ConditionType \<Rightarrow> Condition option" where
  "GetCondition l [] t = None"
| "GetCondition l (cond # conds) t =
     (if cType cond = t then Some cond else GetCondition l conds t)"

definition condEquals :: "Condition \<Rightarrow> ConditionStatus \<Rightarrow> string \<Rightarrow> string \<Rightarrow> bool" where
  "condEquals cond status reason message \<longleftrightarrow>
     cStatus cond = status \<and> cReason cond = reason \<and> cMessage cond = message"

text \<open>The loop of \<open>setCondition\<close>: the copied conditions and the flag \<open>shouldCreate\<close>.\<close>

fun setCondition_loop :: "Condition \<Rightarrow> Conditions \<Rightarrow> Conditions \<times> bool" where
  "setCondition_loop upd [] = ([], True)"
| "setCondition_loop upd (cond # conds) =
     (let (rest, shouldCreate) = setCondition_loop upd conds
      in if cType cond = cType upd
         then (if condEquals cond (cStatus upd) (cReason upd) (cMessage upd)
               then (cond # rest, False) else (upd # rest, False))
         else (cond # rest, shouldCreate))"

definition setCondition ::
  "time \<Rightarrow> Conditions \<Rightarrow> ConditionType \<Rightarrow> ConditionStatus \<Rightarrow> string \<Rightarrow> string \<Rightarrow> Conditions" where
  "setCondition now conds ct status reason message =
     (let updatedCond = \<lparr>cType = ct, cStatus = status, cReason = reason, cMessage = message,
                         cLastTransitionTime = Some now\<rparr>;
          (newConds, shouldCreate) = setCondition_loop updatedCond conds
      in sort_Sort (if shouldCreate then newConds @ [updatedCond] else newConds))"

text \<open>
  The nested loops of \<open>SetCondition\<close>, with the three flags \<open>found\<close>,
  \<open>hasFailedCond\<close> and \<open>hasUnknownCond\<close>.
\<close>

fun scan_conds :: "ConditionType \<Rightarrow> Conditions \<Rightarrow> bool \<times> bool \<times> bool \<Rightarrow> bool \<times> bool \<times> bool" where
  "scan_conds dep [] flags = flags"
| "scan_conds dep (cond # conds) (found, failed, unknown) =
     scan_conds dep conds
       (if cType cond = dep
        then (if IsFalse (Some cond) then (True, True, unknown)
              else if IsUnknown (Some cond) then (True, failed, True)
              else (True, failed, unknown))
        else (found, failed, unknown))"

fun scan_deps :: "ConditionType list \<Rightarrow> Conditions \<Rightarrow> bool \<times> bool \<Rightarrow> bool \<times> bool" where
  "scan_deps [] conds flags = flags"
| "scan_deps (dep # deps) conds (failed, unknown) =
     (let (found, failed', unknown') = scan_conds dep conds (False, failed, unknown)
      in scan_deps deps conds (failed', if found then unknown' else True))"

text \<open>
  \<open>SetCondition\<close> reads the clock twice, once per call of \<open>setCondition\<close>: \<open>clk\<close> gives
  the reading of every \<^verbatim>\<open>metav1.Now()\<close> call and \<open>t\<close> is the number of the first.
\<close>

definition SetCondition ::
  "(nat \<Rightarrow> time) \<Rightarrow> nat \<Rightarrow> ConditionSet \<Rightarrow> Conditions \<Rightarrow> ConditionType \<Rightarrow> ConditionStatus
     \<Rightarrow> string \<Rightarrow> string \<Rightarrow> Conditions" where
  "SetCondition clk t l conds ct status reason message =
     (let newConds = setCondition (clk t) conds ct status reason message;
          (hasFailedCond, hasUnknownCond) = scan_deps (cs_deps l) newConds (False, False)
      in if hasFailedCond
         then setCondition (clk (Suc t)) newConds (cs_main l) ConditionFalse
                ''ConditionFailed'' ''Conditions failed''
         else if hasUnknownCond
         then setCondition (clk (Suc t)) newConds (cs_main l) ConditionUnknown
                ''ConditionUnknown'' ''Conditions unknown''
         else setCondition (clk (Suc t)) newConds (cs_main l) ConditionTrue ''OK'' [])"

section \<open>Reading a condition list after an update\<close>

text \<open>
  The invariant of a condition list, kept by every update: sorted by type, one condition per
  type. Sortedness needs no assumption, so a list from the API server is repaired by the first
  update as far as its order goes.
\<close>

definition wf_conds :: "Conditions \<Rightarrow> bool" where
  "wf_conds c \<longleftrightarrow> sorted (map cType c) \<and> distinct (map cType c)"

definition refresh :: "Condition \<Rightarrow> Condition \<Rightarrow> Condition" where
  "refresh upd c =
     (if condEquals c (cStatus upd) (cReason upd) (cMessage upd) then c else upd)"

lemma refresh_simps [simp]:
  "condEquals c (cStatus upd) (cReason upd) (cMessage upd) \<Longrightarrow> refresh upd c = c"
  "\<not> condEquals c (cStatus upd) (cReason upd) (cMessage upd) \<Longrightarrow> refresh upd c = upd"
  by (simp_all add: refresh_def)

lemma GetCondition_find: "GetCondition l conds t = find (\<lambda>c. cType c = t) conds"
  by (induction conds) auto

lemma GetCondition_cType: "GetCondition l conds t = Some c \<Longrightarrow> cType c = t"
  by (auto simp: GetCondition_find dest: find_Some_in)

lemma setCondition_loop_types: "map cType (fst (setCondition_loop upd conds)) = map cType conds"
  by (induction conds) (auto simp: Let_def split: prod.splits)

lemma setCondition_loop_flag: "snd (setCondition_loop upd conds) \<longleftrightarrow> cType upd \<notin> cType ` set conds"
  by (induction conds) (auto simp: Let_def split: prod.splits)

lemma setCondition_loop_find:
  "find (\<lambda>c. cType c = t) (fst (setCondition_loop upd conds)) =
     (if t = cType upd then map_option (refresh upd) (find (\<lambda>c. cType c = t) conds)
      else find (\<lambda>c. cType c = t) conds)"
  by (induction conds) (auto simp: Let_def split: prod.splits)

lemma find_append: "find P (xs @ ys) = (case find P xs of None \<Rightarrow> find P ys | Some x \<Rightarrow> Some x)"
  by (induction xs) auto

text \<open>The list \<open>setCondition\<close> sorts.\<close>

definition presort :: "Condition \<Rightarrow> Conditions \<Rightarrow> Conditions" where
  "presort upd conds =
     (let (newConds, shouldCreate) = setCondition_loop upd conds
      in if shouldCreate then newConds @ [upd] else newConds)"

lemma setCondition_presort:
  "setCondition now conds ct status reason message =
     sort_Sort (presort \<lparr>cType = ct, cStatus = status, cReason = reason, cMessage = message,
                         cLastTransitionTime = Some now\<rparr> conds)"
  by (simp add: setCondition_def presort_def Let_def split: prod.splits)

lemma presort_types:
  "map cType (presort upd conds) =
     map cType conds @ (if cType upd \<in> cType ` set conds then [] else [cType upd])"
  using setCondition_loop_types [of upd conds] setCondition_loop_flag [of upd conds]
  by (auto simp: presort_def split: prod.splits)

lemma presort_find:
  "find (\<lambda>c. cType c = t) (presort upd conds) =
     (if t = cType upd
      then Some (case find (\<lambda>c. cType c = t) conds of None \<Rightarrow> upd | Some c \<Rightarrow> refresh upd c)
      else find (\<lambda>c. cType c = t) conds)"
proof -
  have none: "find (\<lambda>c. cType c = cType upd) conds = None \<longleftrightarrow> cType upd \<notin> cType ` set conds"
    unfolding find_None_iff image_iff by metis
  show ?thesis
    using setCondition_loop_find [of t upd conds] setCondition_loop_flag [of upd conds] none
    by (auto simp: presort_def find_append split: prod.splits option.splits)
qed

lemma distinct_presort: "distinct (map cType conds) \<Longrightarrow> distinct (map cType (presort upd conds))"
  by (simp add: presort_types)

lemma wf_setCondition [wf_intros]:
  "distinct (map cType conds) \<Longrightarrow> wf_conds (setCondition now conds ct status reason message)"
  by (simp add: wf_conds_def setCondition_presort csort.distinct_keys_srt distinct_presort
      csort.srt_sorted)

lemma GetCondition_setCondition [cond_simps]:
  assumes "distinct (map cType conds)"
  shows "GetCondition l (setCondition now conds ct status reason message) t =
    (if t = ct
     then Some (let upd = \<lparr>cType = ct, cStatus = status, cReason = reason, cMessage = message,
                           cLastTransitionTime = Some now\<rparr>
                in case GetCondition l conds ct of None \<Rightarrow> upd | Some c \<Rightarrow> refresh upd c)
     else GetCondition l conds t)"
proof -
  have "find (\<lambda>c. cType c = t) (sort_Sort (presort u conds)) =
        find (\<lambda>c. cType c = t) (presort u conds)" for u
    by (rule find_mset_unique)
      (simp_all add: csort.srt_mset csort.distinct_keys_srt distinct_presort assms)
  then show ?thesis
    by (simp add: setCondition_presort GetCondition_find presort_find Let_def)
qed

section \<open>The interface of a condition store\<close>

text \<open>
  What the rest of the operator relies on: a read after a write sees the write, other types are
  untouched, and the transition time moves exactly when status, reason or message change.
\<close>

definition content :: "Condition \<Rightarrow> ConditionStatus \<times> string \<times> string" where
  "content c = (cStatus c, cReason c, cMessage c)"

locale condition_store =
  fixes get :: "'s \<Rightarrow> ConditionType \<Rightarrow> Condition option"
    and put :: "time \<Rightarrow> 's \<Rightarrow> ConditionType \<Rightarrow> ConditionStatus \<Rightarrow> string \<Rightarrow> string \<Rightarrow> 's"
    and inv :: "'s \<Rightarrow> bool"
  assumes put_inv: "inv s \<Longrightarrow> inv (put now s ct st r m)"
    and get_put_other: "inv s \<Longrightarrow> t \<noteq> ct \<Longrightarrow> get (put now s ct st r m) t = get s t"
    and get_put_same: "inv s \<Longrightarrow> \<exists>c. get (put now s ct st r m) ct = Some c
           \<and> cType c = ct \<and> content c = (st, r, m)
           \<and> cLastTransitionTime c =
               (case get s ct of
                  Some c0 \<Rightarrow> if content c0 = (st, r, m) then cLastTransitionTime c0 else Some now
                | None \<Rightarrow> Some now)"
begin

lemma content_put:
  "inv s \<Longrightarrow> (\<lambda>t. map_option content (get (put now s ct st r m) t)) =
     (\<lambda>t. map_option content (get s t))(ct \<mapsto> (st, r, m))"
  using get_put_same [of s now ct st r m] by (auto simp: get_put_other fun_eq_iff)

lemma put_again:
  assumes "inv s"
  shows "map_option cLastTransitionTime (get (put later (put now s ct st r m) ct st r m) ct) =
         map_option cLastTransitionTime (get (put now s ct st r m) ct)"
proof -
  obtain c where c: "get (put now s ct st r m) ct = Some c" "content c = (st, r, m)"
    using get_put_same [OF assms] by blast
  obtain d where "get (put later (put now s ct st r m) ct st r m) ct = Some d"
    "cLastTransitionTime d = cLastTransitionTime c"
    using get_put_same [OF put_inv [OF assms], of later now ct st r m ct st r m] c by auto
  with c show ?thesis by simp
qed

end

lemma content_eq_iff: "content c = (st, r, m) \<longleftrightarrow> condEquals c st r m"
  by (simp add: content_def condEquals_def)

interpretation conds: condition_store "GetCondition l" setCondition "\<lambda>c. distinct (map cType c)"
proof
  fix s :: Conditions and now ct st r m
  assume d: "distinct (map cType s)"
  then show "distinct (map cType (setCondition now s ct st r m))"
    using wf_setCondition wf_conds_def by blast
  show "GetCondition l (setCondition now s ct st r m) t = GetCondition l s t" if "t \<noteq> ct" for t
    using that by (simp add: cond_simps d)
  show "\<exists>c. GetCondition l (setCondition now s ct st r m) ct = Some c
           \<and> cType c = ct \<and> content c = (st, r, m)
           \<and> cLastTransitionTime c =
               (case GetCondition l s ct of
                  Some c0 \<Rightarrow> if content c0 = (st, r, m) then cLastTransitionTime c0 else Some now
                | None \<Rightarrow> Some now)"
    by (auto simp: cond_simps d Let_def refresh_def content_eq_iff condEquals_def
        dest: GetCondition_cType split: option.splits)
qed

section \<open>The main condition\<close>

text \<open>
  The specification: the main condition is False when a dependent condition is False,
  otherwise Unknown when one is missing or Unknown, otherwise True.
\<close>

type_synonym cond_view = "ConditionType \<Rightarrow> (ConditionStatus \<times> string \<times> string) option"

definition cview :: "Conditions \<Rightarrow> cond_view" where
  "cview conds = (\<lambda>t. map_option content (find (\<lambda>c. cType c = t) conds))"

definition aggregate :: "ConditionType list \<Rightarrow> cond_view \<Rightarrow> ConditionStatus \<times> string \<times> string" where
  "aggregate deps v =
     (if list_ex (\<lambda>d. map_option fst (v d) = Some ConditionFalse) deps
      then (ConditionFalse, ''ConditionFailed'', ''Conditions failed'')
      else if list_ex (\<lambda>d. v d = None \<or> map_option fst (v d) = Some ConditionUnknown) deps
      then (ConditionUnknown, ''ConditionUnknown'', ''Conditions unknown'')
      else (ConditionTrue, ''OK'', []))"

definition spec_SetCondition ::
  "ConditionSet \<Rightarrow> cond_view \<Rightarrow> ConditionType \<Rightarrow> ConditionStatus \<times> string \<times> string \<Rightarrow> cond_view" where
  "spec_SetCondition l v ct e =
     (let v' = v(ct \<mapsto> e) in v'(cs_main l \<mapsto> aggregate (cs_deps l) v'))"

lemma cview_GetCondition: "cview conds t = map_option content (GetCondition l conds t)"
  by (simp add: cview_def GetCondition_find)

lemma cview_setCondition [cond_simps]:
  assumes "distinct (map cType conds)"
  shows "cview (setCondition now conds ct st r m) = (cview conds)(ct \<mapsto> (st, r, m))"
  unfolding cview_def using conds.content_put [OF assms] by (simp only: GetCondition_find)

lemma scan_conds_flags:
  "scan_conds dep conds (f, a, u) =
     (f \<or> (\<exists>c\<in>set conds. cType c = dep),
      a \<or> (\<exists>c\<in>set conds. cType c = dep \<and> IsFalse (Some c)),
      u \<or> (\<exists>c\<in>set conds. cType c = dep \<and> IsUnknown (Some c)))"
  by (induction conds arbitrary: f a u) (auto simp: IsFalse_def IsUnknown_def)

lemma scan_deps_flags:
  "scan_deps deps conds (a, u) =
     (a \<or> (\<exists>d\<in>set deps. \<exists>c\<in>set conds. cType c = d \<and> IsFalse (Some c)),
      u \<or> (\<exists>d\<in>set deps. (\<forall>c\<in>set conds. cType c \<noteq> d)
             \<or> (\<exists>c\<in>set conds. cType c = d \<and> IsUnknown (Some c))))"
  by (induction deps arbitrary: a u) (auto simp: scan_conds_flags)

lemma cview_Some_iff:
  assumes "distinct (map cType conds)"
  shows "cview conds t = Some e \<longleftrightarrow> (\<exists>c\<in>set conds. cType c = t \<and> content c = e)"
proof
  assume "cview conds t = Some e"
  then show "\<exists>c\<in>set conds. cType c = t \<and> content c = e"
    by (auto simp: cview_def dest: find_Some_in)
next
  assume "\<exists>c\<in>set conds. cType c = t \<and> content c = e"
  then obtain c where c: "c \<in> set conds" "cType c = t" "content c = e" by blast
  have "find (\<lambda>c. cType c = t) conds \<noteq> None" using c by (auto simp: find_None_iff)
  then obtain d where d: "find (\<lambda>c. cType c = t) conds = Some d" by blast
  then have "d \<in> set conds" "cType d = t" by (auto dest: find_Some_in)
  with assms c have "d = c" by (auto simp: distinct_map dest: inj_onD)
  with c d show "cview conds t = Some e" by (simp add: cview_def)
qed

text \<open>Setting a condition to what it is changes nothing.\<close>

lemma setCondition_loop_same:
  assumes "distinct (map cType conds)" and "c \<in> set conds" and "cType c = cType upd"
    and "condEquals c (cStatus upd) (cReason upd) (cMessage upd)"
  shows "setCondition_loop upd conds = (conds, False)"
  using assms
proof (induction conds)
  case (Cons d conds)
  show ?case
  proof (cases "c = d")
    case True
    with Cons.prems have "cType upd \<notin> cType ` set conds" by auto
    then have "fst (setCondition_loop upd conds) = conds" by (induction conds) (auto simp: Let_def split: prod.splits)
    with True Cons.prems show ?thesis by (auto split: prod.splits)
  next
    case False
    with Cons show ?thesis by (auto simp: rev_image_eqI)
  qed
qed simp

lemma setCondition_same:
  assumes "wf_conds conds" and "cview conds ct = Some (st, r, m)"
  shows "setCondition now conds ct st r m = conds"
proof -
  from assms(1) have d: "distinct (map cType conds)" and s: "sorted (map cType conds)"
    by (simp_all add: wf_conds_def)
  obtain c where c: "c \<in> set conds" "cType c = ct" "condEquals c st r m"
    using assms(2) cview_Some_iff [OF d] by (auto simp: content_eq_iff)
  show ?thesis
    using setCondition_loop_same [OF d c(1), where upd = "\<lparr>cType = ct, cStatus = st, cReason = r,
      cMessage = m, cLastTransitionTime = Some now\<rparr>"] c
    by (simp add: setCondition_def Let_def csort.srt_determined [OF d refl s])
qed

lemma cview_None_iff: "cview conds t = None \<longleftrightarrow> (\<forall>c\<in>set conds. cType c \<noteq> t)"
  by (auto simp: cview_def find_None_iff)

lemma scan_deps_aggregate:
  assumes "distinct (map cType conds)"
  shows "scan_deps deps conds (False, False) =
    (list_ex (\<lambda>d. map_option fst (cview conds d) = Some ConditionFalse) deps,
     list_ex (\<lambda>d. cview conds d = None \<or> map_option fst (cview conds d) = Some ConditionUnknown) deps)"
  by (auto simp: scan_deps_flags list_ex_iff IsFalse_def IsUnknown_def cview_None_iff
      cview_Some_iff [OF assms] content_def)

text \<open>The detailed loops implement the specification.\<close>

lemma SetCondition_spec [cond_simps]:
  assumes "distinct (map cType conds)"
  shows "cview (SetCondition clk t l conds ct st r m) = spec_SetCondition l (cview conds) ct (st, r, m)"
proof -
  let ?n = "setCondition (clk t) conds ct st r m"
  have d: "distinct (map cType ?n)" by (rule conds.put_inv [OF assms])
  show ?thesis
    by (simp add: SetCondition_def spec_SetCondition_def aggregate_def Let_def
        scan_deps_aggregate [OF d] cview_setCondition [OF d] cview_setCondition [OF assms])
qed

lemma wf_SetCondition [wf_intros]:
  assumes "distinct (map cType conds)"
  shows "wf_conds (SetCondition clk t l conds ct st r m)"
proof -
  have "distinct (map cType (setCondition (clk t) conds ct st r m))"
    by (rule conds.put_inv [OF assms])
  then show ?thesis
    by (auto simp: SetCondition_def Let_def wf_setCondition split: prod.splits)
qed

lemma dom_cview: "dom (cview conds) = cType ` set conds"
  by (auto simp: dom_def cview_def find_None_iff not_None_eq [symmetric] simp del: not_None_eq)

end
