(* ===== verification/Conduit_Types.thy ===== *)
theory Conduit_Types
  imports Conditions
begin

text \<open>
  Model of \<^verbatim>\<open>api/v1alpha/conduit_types.go\<close>: the Conduit resource, its specification and
  status, the instance metadata, and the constants. A pointer field is an \<open>option\<close>; a slice
  of pointers to structs is a list of the structs, because the decoder allocates every element
  on its own, the schema of the resource admits no null elements, and the operator never stores
  one element twice. Record fields carry a short
  prefix for their struct (\<open>sp_\<close> for \<^verbatim>\<open>ConduitSpec\<close>, \<open>cn_\<close> for
  \<^verbatim>\<open>ConduitConnector\<close>, and so on) in front of the source's field name.
\<close>

section \<open>Constants\<close>

abbreviation (input) "ConditionConduitReady \<equiv> ''Ready''"
abbreviation (input) "ConditionConduitConfigReady \<equiv> ''ConfigReady''"
abbreviation (input) "ConditionConduitSecretReady \<equiv> ''SecretReady''"
abbreviation (input) "ConditionConduitVolumeReady \<equiv> ''VolumeBound''"
abbreviation (input) "ConditionConduitDeploymentRunning \<equiv> ''DeploymentRunning''"
abbreviation (input) "ConditionConduitServiceReady \<equiv> ''ServiceReady''"

definition ConduitConditions :: ConditionSet where
  "ConduitConditions = NewConditionSet ConditionConduitReady
     [ConditionConduitConfigReady, ConditionConduitSecretReady, ConditionConduitVolumeReady,
      ConditionConduitDeploymentRunning, ConditionConduitServiceReady]"

abbreviation (input) "ConduitFinalizer \<equiv> ''finalizers.operator.conduit.io''"

abbreviation (input) "ErroredReason \<equiv> ''Error''"
abbreviation (input) "CreatedReason \<equiv> ''Created''"
abbreviation (input) "UpdatedReason \<equiv> ''Updated''"
abbreviation (input) "RunningReason \<equiv> ''Running''"
abbreviation (input) "StoppedReason \<equiv> ''Stopped''"
abbreviation (input) "PendingReason \<equiv> ''Pending''"
abbreviation (input) "VolBoundReason \<equiv> ''VolumeBound''"
abbreviation (input) "DeletedReason \<equiv> ''Deleted''"
abbreviation (input) "DegradedReason \<equiv> ''Degraded''"

abbreviation (input) "ConduitVersion \<equiv> ''v0.13.6''"
abbreviation (input) "ConduitImage \<equiv> ''ghcr.io/conduitio/conduit''"
abbreviation (input) "ConduitContainerName \<equiv> ''conduit-server''"
abbreviation (input) "ConduitPipelinePath \<equiv> ''/conduit.pipelines''"
abbreviation (input) "ConduitVolumePath \<equiv> ''/conduit.storage''"
abbreviation (input) "ConduitDBPath \<equiv> ''/conduit.storage/db''"
abbreviation (input) "ConduitConnectorsPath \<equiv> ''/conduit.storage/connectors''"
abbreviation (input) "ConduitProcessorsPath \<equiv> ''/conduit.storage/processors''"
abbreviation (input) "ConduitStorageVolumeMount \<equiv> ''conduit-storage''"
abbreviation (input) "ConduitPipelineVolumeMount \<equiv> ''conduit-pipelines''"
abbreviation (input) "ConduitInitImage \<equiv> ''golang:1.23-alpine''"
abbreviation (input) "ConduitInitContainerName \<equiv> ''conduit-init''"
abbreviation (input) "ConduitLogFormatJSON \<equiv> ''json''"
abbreviation (input) "ConduitLogFormatText \<equiv> ''cli''"
abbreviation (input) "ConduitEarliestAvailable \<equiv> ''v0.11.0''"

definition ConduitPipelineFile :: string where
  "ConduitPipelineFile = path_Join [ConduitPipelinePath, ''pipeline.yaml'']"

section \<open>Object metadata\<close>

text \<open>
  The parts of \<^verbatim>\<open>metav1.ObjectMeta\<close> the operator reads or writes. \<open>om_Controller\<close> is the
  name of the owner whose owner reference has the controller flag set.
\<close>

record ObjectMeta =
  om_Name :: string
  om_Namespace :: string
  om_ResourceVersion :: string
  om_Generation :: int
  om_Labels :: "string \<rightharpoonup> string"
  om_Annotations :: "string \<rightharpoonup> string"
  om_Finalizers :: "string list"
  om_DeletionTimestamp :: "time option"
  om_Controller :: "string option"

definition new_meta :: "string \<Rightarrow> string \<Rightarrow> ObjectMeta" where
  "new_meta name namespace =
     \<lparr>om_Name = name, om_Namespace = namespace, om_ResourceVersion = [], om_Generation = 0,
      om_Labels = Map.empty, om_Annotations = Map.empty, om_Finalizers = [],
      om_DeletionTimestamp = None, om_Controller = None\<rparr>"

record NamespacedName =
  nn_Name :: string
  nn_Namespace :: string

section \<open>The Conduit resource\<close>

record SecretKeySelector =
  sk_Name :: string
  sk_Key :: string
  sk_Optional :: "bool option"

record GlobalConfigMapRef =
  gc_Namespace :: string
  gc_Name :: string
  gc_Key :: string

record SettingsVar =
  sv_Name :: string
  sv_Value :: string
  sv_SecretRef :: "SecretKeySelector option"
  sv_ConfigMapRef :: "GlobalConfigMapRef option"

record SchemaRegistry =
  sr_URL :: string
  sr_Username :: SettingsVar
  sr_Password :: SettingsVar
  sr_Token :: SettingsVar

record ConduitProcessor =
  pr_ID :: string
  pr_Name :: string
  pr_Plugin :: string
  pr_ProcessorURL :: string
  pr_Condition :: string
  pr_Workers :: int
  pr_Settings :: "SettingsVar list"

record ConduitConnector =
  cn_ID :: string
  cn_Name :: string
  cn_Type :: string
  cn_Plugin :: string
  cn_PluginName :: string
  cn_PluginPkg :: string
  cn_PluginVersion :: string
  cn_Settings :: "SettingsVar list"
  cn_Processors :: "ConduitProcessor list"

record ConduitSpec =
  sp_ID :: string
  sp_Name :: string
  sp_Description :: string
  sp_Image :: string
  sp_Running :: "bool option"
  sp_Version :: string
  sp_Registry :: "SchemaRegistry option"
  sp_Connectors :: "ConduitConnector list"
  sp_Processors :: "ConduitProcessor list"

record ConduitStatus =
  st_ObservedGeneration :: int
  st_Conditions :: Conditions
  st_UpdatedAt :: "time option"

record Conduit =
  c_Meta :: ObjectMeta
  c_Spec :: ConduitSpec
  c_Status :: ConduitStatus

definition NamespacedName_of :: "Conduit \<Rightarrow> NamespacedName" where
  "NamespacedName_of c =
     \<lparr>nn_Name = ''conduit-server-'' @ om_Name (c_Meta c), nn_Namespace = om_Namespace (c_Meta c)\<rparr>"

record ConduitInstanceMetadata =
  im_PodAnnotations :: "string \<rightharpoonup> string"
  im_Labels :: "string \<rightharpoonup> string"
  im_LogFormat :: string

definition NewConduitInstanceMetadata :: ConduitInstanceMetadata where
  "NewConduitInstanceMetadata =
     \<lparr>im_PodAnnotations = Map.empty, im_Labels = Map.empty, im_LogFormat = ConduitLogFormatJSON\<rparr>"

section \<open>Operations of the status\<close>

definition Status_SetCondition ::
  "(nat \<Rightarrow> time) \<Rightarrow> nat \<Rightarrow> ConduitStatus \<Rightarrow> ConditionType \<Rightarrow> ConditionStatus \<Rightarrow> string \<Rightarrow> string
     \<Rightarrow> ConduitStatus" where
  "Status_SetCondition clk t s ct status reason message =
     s\<lparr>st_Conditions := SetCondition clk t ConduitConditions (st_Conditions s) ct status reason message\<rparr>"

definition Status_GetCondition :: "ConduitStatus \<Rightarrow> ConditionType \<Rightarrow> Condition option" where
  "Status_GetCondition s ct = GetCondition ConduitConditions (st_Conditions s) ct"

definition ConditionChanged :: "ConduitStatus \<Rightarrow> ConditionType \<Rightarrow> ConditionStatus \<Rightarrow> bool" where
  "ConditionChanged s ct expected =
     (case GetCondition ConduitConditions (st_Conditions s) ct of
        Some cond \<Rightarrow> cStatus cond \<noteq> expected
      | None \<Rightarrow> False)"

section \<open>The status invariant\<close>

text \<open>
  \<open>wf_status\<close>: conditions sorted and unique, and the Ready condition, where present, is what
  the dependent conditions determine. Every status update establishes it.
\<close>

definition main_ok :: "ConditionSet \<Rightarrow> Conditions \<Rightarrow> bool" where
  "main_ok l conds \<longleftrightarrow>
     cview conds (cs_main l) = Some (aggregate (cs_deps l) (cview conds))"

definition wf_status :: "ConduitStatus \<Rightarrow> bool" where
  "wf_status s \<longleftrightarrow> wf_conds (st_Conditions s)
     \<and> (cs_main ConduitConditions \<in> cType ` set (st_Conditions s) \<longrightarrow>
          main_ok ConduitConditions (st_Conditions s))"

lemma aggregate_upd: "main \<notin> set deps \<Longrightarrow> aggregate deps (v(main := x)) = aggregate deps v"
  by (auto simp: aggregate_def list_ex_iff)

lemma SetCondition_main_ok:
  assumes "distinct (map cType conds)" and "cs_main l \<notin> set (cs_deps l)"
  shows "main_ok l (SetCondition clk t l conds ct st r m)"
  unfolding main_ok_def SetCondition_spec [OF assms(1)] spec_SetCondition_def Let_def
  by (simp add: aggregate_upd [OF assms(2)])

lemma SetCondition_same:
  assumes "wf_conds conds" and "main_ok l conds" and "cview conds ct = Some (st, r, m)"
  shows "SetCondition clk t l conds ct st r m = conds"
proof -
  from assms(1) have d: "distinct (map cType conds)" by (simp add: wf_conds_def)
  have main: "cview conds (cs_main l) = Some (aggregate (cs_deps l) (cview conds))"
    using assms(2) by (simp add: main_ok_def)
  show ?thesis
    using main
    by (simp add: SetCondition_def Let_def setCondition_same [OF assms(1,3)] scan_deps_aggregate [OF d]
        aggregate_def setCondition_same [OF assms(1)] split: if_splits)
qed

lemma main_not_dep [simp]: "cs_main ConduitConditions \<notin> set (cs_deps ConduitConditions)"
  by (simp add: ConduitConditions_def NewConditionSet_def)

lemma wf_status_distinct: "wf_status s \<Longrightarrow> distinct (map cType (st_Conditions s))"
  by (simp add: wf_status_def wf_conds_def)

lemma wf_Status_SetCondition [wf_intros]:
  "distinct (map cType (st_Conditions s)) \<Longrightarrow>
     wf_status (Status_SetCondition clk t s ct st r m)"
  by (simp add: wf_status_def Status_SetCondition_def wf_SetCondition SetCondition_main_ok)

lemma ConduitConditions_simps [simp]:
  "cs_main ConduitConditions = ''Ready''"
  "cs_deps ConduitConditions =
     [''ConfigReady'', ''SecretReady'', ''VolumeBound'', ''DeploymentRunning'', ''ServiceReady'']"
  by (simp_all add: ConduitConditions_def NewConditionSet_def)

text \<open>What a status update does to the view of the other conditions.\<close>

lemma cview_Status_SetCondition [cond_simps]:
  "distinct (map cType (st_Conditions s)) \<Longrightarrow>
     cview (st_Conditions (Status_SetCondition clk t s ct st r m)) =
     spec_SetCondition ConduitConditions (cview (st_Conditions s)) ct (st, r, m)"
  by (simp add: Status_SetCondition_def SetCondition_spec)

lemma Status_SetCondition_same:
  assumes "wf_status s" and "cview (st_Conditions s) ''Ready'' \<noteq> None"
    and "cview (st_Conditions s) ct = Some (st, r, m)"
  shows "Status_SetCondition clk t s ct st r m = s"
proof -
  have "main_ok ConduitConditions (st_Conditions s)"
    using assms(1,2) dom_cview [of "st_Conditions s"] by (auto simp: wf_status_def)
  then show ?thesis
    using assms(1,3) by (simp add: Status_SetCondition_def SetCondition_same wf_status_def)
qed

lemma spec_SetCondition_other:
  "ct' \<noteq> ct \<Longrightarrow> ct' \<noteq> cs_main l \<Longrightarrow> spec_SetCondition l v ct e ct' = v ct'"
  by (simp add: spec_SetCondition_def Let_def)

lemma spec_SetCondition_same:
  "ct \<noteq> cs_main l \<Longrightarrow> spec_SetCondition l v ct e ct = Some e"
  by (simp add: spec_SetCondition_def Let_def)

lemma Status_SetCondition_frame [simp]:
  "st_ObservedGeneration (Status_SetCondition clk t s ct st r m) = st_ObservedGeneration s"
  "st_UpdatedAt (Status_SetCondition clk t s ct st r m) = st_UpdatedAt s"
  by (simp_all add: Status_SetCondition_def)

text \<open>The predicates on conditions, read off the view.\<close>

lemma IsTrue_cview: "IsTrue (Status_GetCondition s t) \<longleftrightarrow>
    map_option fst (cview (st_Conditions s) t) = Some ''True''"
  by (auto simp: Status_GetCondition_def cview_GetCondition [where l = ConduitConditions]
      IsTrue_def content_def split: option.splits)

lemma IsFalse_cview: "IsFalse (Status_GetCondition s t) \<longleftrightarrow>
    map_option fst (cview (st_Conditions s) t) = Some ''False''"
  by (auto simp: Status_GetCondition_def cview_GetCondition [where l = ConduitConditions]
      IsFalse_def content_def split: option.splits)

lemma IsUnknown_cview: "IsUnknown (Status_GetCondition s t) \<longleftrightarrow>
    cview (st_Conditions s) t = None \<or>
    map_option fst (cview (st_Conditions s) t) = Some ''Unknown''"
  by (auto simp: Status_GetCondition_def cview_GetCondition [where l = ConduitConditions]
      IsUnknown_def content_def split: option.splits)

lemma aggregate_status:
  "fst (aggregate deps v) = ''True'' \<longleftrightarrow>
     (\<forall>d \<in> set deps. map_option fst (v d) \<noteq> Some ''False''
        \<and> \<not> (v d = None \<or> map_option fst (v d) = Some ''Unknown''))"
  "fst (aggregate deps v) = ''False'' \<longleftrightarrow>
     (\<exists>d \<in> set deps. map_option fst (v d) = Some ''False'')"
  unfolding aggregate_def list_ex_iff by (auto simp del: map_option_eq_Some not_None_eq)

section \<open>Properties\<close>

text \<open>
  C1: the detailed update of a condition list (copy loop, in-place insertion sort, nested scan
  of the dependent conditions, second update) refines the abstract update of the map from
  condition types to status, reason and message: the given condition is stored and the main
  condition is recomputed from the dependent ones, and nothing else changes.
\<close>

theorem SetCondition_refines:
  assumes "distinct (map cType conds)"
  shows "cview (SetCondition clk t l conds ct st r m) =
    (let v = (cview conds)(ct \<mapsto> (st, r, m)) in v(cs_main l \<mapsto> aggregate (cs_deps l) v))"
  using SetCondition_spec [OF assms] by (simp add: spec_SetCondition_def)

theorem SetCondition_refines_witness:
  "cview (SetCondition (\<lambda>n. 7) 0 (NewConditionSet ''m'' [''d'']) [] ''d'' ''True'' [] []) ''m'' =
     Some (''True'', ''OK'', [])"
  using SetCondition_refines [of "[]" "\<lambda>n. 7" 0 "NewConditionSet ''m'' [''d'']" "''d''" "''True''" "[]" "[]"]
  by (simp add: NewConditionSet_def aggregate_def Let_def)

text \<open>
  C7: after any update of a status, Ready is True exactly when each of the five dependent
  conditions is present and neither False nor Unknown; it is False exactly when some dependent
  condition is False.
\<close>

theorem Ready_iff_all_dependents:
  assumes "distinct (map cType (st_Conditions s))"
    and "s' = Status_SetCondition clk t s ct st r m"
  shows "(IsTrue (Status_GetCondition s' ''Ready'') \<longleftrightarrow>
            (\<forall>d \<in> set (cs_deps ConduitConditions).
               \<not> IsFalse (Status_GetCondition s' d) \<and> \<not> IsUnknown (Status_GetCondition s' d)))
       \<and> (IsFalse (Status_GetCondition s' ''Ready'') \<longleftrightarrow>
            (\<exists>d \<in> set (cs_deps ConduitConditions). IsFalse (Status_GetCondition s' d)))"
proof -
  have "main_ok ConduitConditions (st_Conditions s')"
    using SetCondition_main_ok [OF assms(1) main_not_dep, of clk t ct st r m]
    by (simp add: assms(2) Status_SetCondition_def)
  then show ?thesis
    unfolding IsTrue_cview IsFalse_cview IsUnknown_cview main_ok_def
    by (auto simp: aggregate_status simp del: ConduitConditions_simps(2))
qed

theorem Ready_iff_all_dependents_witness:
  "IsFalse (Status_GetCondition
     (Status_SetCondition (\<lambda>n. 7) 0 \<lparr>st_ObservedGeneration = 0, st_Conditions = [], st_UpdatedAt = None\<rparr>
        ''ServiceReady'' ''False'' ''ServiceError'' ''x'') ''Ready'')"
proof -
  let ?s = "\<lparr>st_ObservedGeneration = 0, st_Conditions = [], st_UpdatedAt = None\<rparr>"
  let ?s' = "Status_SetCondition (\<lambda>n. 7) 0 ?s ''ServiceReady'' ''False'' ''ServiceError'' ''x''"
  have d: "distinct (map cType (st_Conditions ?s))" by simp
  have "IsFalse (Status_GetCondition ?s' ''ServiceReady'')"
    by (simp add: IsFalse_cview cview_Status_SetCondition [OF d] spec_SetCondition_same)
  then show ?thesis
    using Ready_iff_all_dependents [OF d refl, THEN conjunct2] by auto
qed



end
