(* ===== verification/Kube_Types.thy ===== *)
theory Kube_Types
  imports Conduit_Types
begin

text \<open>
  The Kubernetes objects the operator reads and writes, with the fields it touches. They are
  data of \<^verbatim>\<open>k8s.io/api\<close>; no behaviour is modelled here. A 32-bit integer field that the
  operator only compares is an \<^typ>\<open>int\<close>.
\<close>

section \<open>Pod parts\<close>

record VolumeMount =
  vm_Name :: string
  vm_MountPath :: string
  vm_ReadOnly :: bool

record ContainerPort =
  cp_Name :: string
  cp_ContainerPort :: int
  cp_Protocol :: string

text \<open>An environment variable whose value comes from a secret key, or is given in place.\<close>

record EnvVar =
  ev_Name :: string
  ev_Value :: string
  ev_SecretKeyRef :: "SecretKeySelector option"

record Probe =
  pb_Path :: string
  pb_Scheme :: string
  pb_Port :: string
  pb_InitialDelaySeconds :: int
  pb_TimeoutSeconds :: int
  pb_PeriodSeconds :: int
  pb_SuccessThreshold :: int
  pb_FailureThreshold :: int

record Container =
  k_Name :: string
  k_Image :: string
  k_ImagePullPolicy :: string
  k_Command :: "string list"
  k_Args :: "string list"
  k_Ports :: "ContainerPort list"
  k_ReadinessProbe :: "Probe option"
  k_VolumeMounts :: "VolumeMount list"
  k_Env :: "EnvVar list"

definition zero_Container :: Container where
  "zero_Container = \<lparr>k_Name = [], k_Image = [], k_ImagePullPolicy = [], k_Command = [], k_Args = [],
     k_Ports = [], k_ReadinessProbe = None, k_VolumeMounts = [], k_Env = []\<rparr>"

text \<open>
  A volume has one optional field per kind of source; the operator sets the claim or the config
  map. The mode is a 32-bit integer behind a pointer.
\<close>

record ConfigMapVolumeSource =
  cv_Name :: string
  cv_DefaultMode :: "int option"

record Volume =
  vo_Name :: string
  vo_PersistentVolumeClaim :: "string option"
  vo_ConfigMap :: "ConfigMapVolumeSource option"

section \<open>Objects\<close>

record ConfigMap =
  cm_Meta :: ObjectMeta
  cm_Data :: "string \<rightharpoonup> string"

record Secret =
  se_Meta :: ObjectMeta
  se_Data :: "string \<rightharpoonup> string"

record PersistentVolumeClaim =
  pvc_Meta :: ObjectMeta
  pvc_AccessModes :: "string list"
  pvc_Storage :: string
  pvc_Phase :: string

record DeploymentSpec =
  ds_Strategy :: string
  ds_Replicas :: "int option"
  ds_MatchLabels :: "string \<rightharpoonup> string"
  ds_Labels :: "string \<rightharpoonup> string"
  ds_Annotations :: "string \<rightharpoonup> string"
  ds_RestartPolicy :: string
  ds_InitContainers :: "Container list"
  ds_Containers :: "Container list"
  ds_Volumes :: "Volume list"

record DeploymentStatus =
  dst_Replicas :: int
  dst_ReadyReplicas :: int
  dst_UpdatedReplicas :: int
  dst_AvailableReplicas :: int
  dst_UnavailableReplicas :: int

record Deployment =
  d_Meta :: ObjectMeta
  d_Spec :: DeploymentSpec
  d_Status :: DeploymentStatus

definition zero_DeploymentSpec :: DeploymentSpec where
  "zero_DeploymentSpec = \<lparr>ds_Strategy = [], ds_Replicas = None, ds_MatchLabels = Map.empty,
     ds_Labels = Map.empty, ds_Annotations = Map.empty, ds_RestartPolicy = [],
     ds_InitContainers = [], ds_Containers = [], ds_Volumes = []\<rparr>"

definition zero_DeploymentStatus :: DeploymentStatus where
  "zero_DeploymentStatus = \<lparr>dst_Replicas = 0, dst_ReadyReplicas = 0, dst_UpdatedReplicas = 0,
     dst_AvailableReplicas = 0, dst_UnavailableReplicas = 0\<rparr>"

record ServicePort =
  po_Name :: string
  po_Protocol :: string
  po_Port :: int
  po_TargetPort :: int

record Service =
  s_Meta :: ObjectMeta
  s_Type :: string
  s_Ports :: "ServicePort list"
  s_Selector :: "string \<rightharpoonup> string"
  s_ClusterIP :: string

text \<open>An event as it is handed to the recorder: type, reason, format and arguments.\<close>

record event =
  e_Type :: string
  e_Reason :: string
  e_Format :: string
  e_Args :: "string list"

end
