(* ===== verification/Fixtures.thy ===== *)
theory Fixtures
  imports Conduit_Types
begin

text \<open>
  The Conduit resources of \<^verbatim>\<open>internal/testutil/conduit.go\<close>, which the repository's tests
  share. They are the concrete inputs of the witnesses in this development. A double quote in a
  literal is the character with code 34.
\<close>

definition value_setting :: "string \<Rightarrow> string \<Rightarrow> SettingsVar" where
  "value_setting name val =
     \<lparr>sv_Name = name, sv_Value = val, sv_SecretRef = None, sv_ConfigMapRef = None\<rparr>"

definition secret_setting :: "string \<Rightarrow> string \<Rightarrow> string \<Rightarrow> SettingsVar" where
  "secret_setting name key secret =
     \<lparr>sv_Name = name, sv_Value = [],
      sv_SecretRef = Some \<lparr>sk_Name = secret, sk_Key = key, sk_Optional = None\<rparr>,
      sv_ConfigMapRef = None\<rparr>"

definition url_registry :: "string \<Rightarrow> SchemaRegistry" where
  "url_registry url =
     \<lparr>sr_URL = url, sr_Username = value_setting [] [], sr_Password = value_setting [] [],
      sr_Token = value_setting [] []\<rparr>"

definition zero_status :: ConduitStatus where
  "zero_status = \<lparr>st_ObservedGeneration = 0, st_Conditions = [], st_UpdatedAt = None\<rparr>"

text \<open>The expression \<^verbatim>\<open>{{ eq .Metadata.key "pipeline" }}\<close>.\<close>

definition pipeline_condition :: string where
  "pipeline_condition = ''{{ eq .Metadata.key '' @ [CHR 0x22] @ ''pipeline'' @ [CHR 0x22] @ '' }}''"

definition proc1 :: "string \<Rightarrow> ConduitProcessor" where
  "proc1 plugin =
     \<lparr>pr_ID = ''proc1'', pr_Name = ''proc1'', pr_Plugin = plugin,
      pr_ProcessorURL = ''http://127.0.0.1:8090/api/files/processors/RECORD_ID/FILENAME'',
      pr_Condition = pipeline_condition, pr_Workers = 2,
      pr_Settings = [secret_setting ''setting01'' ''setting01-%p-key'' ''setting01-secret-name'',
                     value_setting ''setting02'' ''setting02-val'']\<rparr>"

definition SampleConduit :: Conduit where
  "SampleConduit =
     \<lparr>c_Meta = new_meta ''sample'' ''sample'',
      c_Spec =
        \<lparr>sp_ID = [], sp_Name = ''my-pipeline'', sp_Description = ''my-description'', sp_Image = [],
         sp_Running = Some True, sp_Version = ''v0.13.2'',
         sp_Registry = Some (url_registry ''http://apicurio:8080/apis/ccompat/v7''),
         sp_Connectors =
          [\<lparr>cn_ID = [], cn_Name = ''source-connector'', cn_Type = ''source'',
           cn_Plugin = ''builtin:generator'', cn_PluginName = ''builtin:generator'', cn_PluginPkg = [],
           cn_PluginVersion = ''latest'',
           cn_Settings = [value_setting ''servers'' ''127.0.0.1'',
              value_setting ''topics'' ''input-topic''],
           cn_Processors = []\<rparr>,
           \<lparr>cn_ID = [], cn_Name = ''destination-connector'', cn_Type = ''destination'',
           cn_Plugin = ''builtin:log'', cn_PluginName = ''builtin:log'', cn_PluginPkg = [],
           cn_PluginVersion = ''latest'',
           cn_Settings = [value_setting ''servers'' ''127.0.0.1'',
              value_setting ''topic'' ''output-topic''],
           cn_Processors = []\<rparr>],
         sp_Processors = [proc1 ''builtin:base64.encode'']\<rparr>,
      c_Status = zero_status\<rparr>"

definition BadNameConduit :: Conduit where
  "BadNameConduit =
     \<lparr>c_Meta = new_meta ''sample'' ''sample'',
      c_Spec =
        \<lparr>sp_ID = [], sp_Name = ''my-pipeline'', sp_Description = ''my-description'', sp_Image = [],
         sp_Running = Some True, sp_Version = ''v0.13.2'',
         sp_Registry = Some (url_registry ''http://apicurio:8080/apis/ccompat/v7''),
         sp_Connectors =
          [\<lparr>cn_ID = [], cn_Name = ''source-connector'', cn_Type = ''source'',
           cn_Plugin = ''generator'', cn_PluginName = [], cn_PluginPkg = [],
           cn_PluginVersion = [],
           cn_Settings = [value_setting ''servers'' ''127.0.0.1'',
              value_setting ''topics'' ''input-topic''],
           cn_Processors = []\<rparr>,
           \<lparr>cn_ID = [], cn_Name = ''destination-connector'', cn_Type = ''destination'',
           cn_Plugin = ''builtin:log'', cn_PluginName = [], cn_PluginPkg = [],
           cn_PluginVersion = [],
           cn_Settings = [value_setting ''servers'' ''127.0.0.1'',
              value_setting ''topic'' ''output-topic''],
           cn_Processors = []\<rparr>],
         sp_Processors = []\<rparr>,
      c_Status = zero_status\<rparr>"

definition BadValidationConduit :: Conduit where
  "BadValidationConduit =
     \<lparr>c_Meta = new_meta ''sample'' ''sample'',
      c_Spec =
        \<lparr>sp_ID = ''my-pipeline'', sp_Name = ''my-pipeline'', sp_Description = ''my-description'', sp_Image = ''ghcr.io/conduitio/conduit'',
         sp_Running = Some True, sp_Version = ''v0.13.2'',
         sp_Registry = Some (url_registry ''http://apicurio:8080/apis/ccompat/v7''),
         sp_Connectors =
          [\<lparr>cn_ID = ''source-connector'', cn_Name = ''source-connector'', cn_Type = ''source'',
           cn_Plugin = ''builtin:kafka'', cn_PluginName = ''builtin:kafka'', cn_PluginPkg = [],
           cn_PluginVersion = ''latest'',
           cn_Settings = [value_setting ''servers'' ''127.0.0.1''],
           cn_Processors = []\<rparr>,
           \<lparr>cn_ID = [], cn_Name = ''destination-connector'', cn_Type = ''destination'',
           cn_Plugin = ''builtin:kafka'', cn_PluginName = [], cn_PluginPkg = [],
           cn_PluginVersion = [],
           cn_Settings = [value_setting ''servers'' ''127.0.0.1'',
              value_setting ''topic'' ''output-topic''],
           cn_Processors = []\<rparr>],
         sp_Processors = []\<rparr>,
      c_Status = zero_status\<rparr>"

definition SecretConduit :: Conduit where
  "SecretConduit =
     \<lparr>c_Meta = new_meta ''sample'' ''sample'',
      c_Spec =
        \<lparr>sp_ID = [], sp_Name = ''my-pipeline'', sp_Description = ''my-description'', sp_Image = [],
         sp_Running = Some True, sp_Version = ''v0.13.2'',
         sp_Registry = Some (url_registry ''http://apicurio:8080/apis/ccompat/v7''),
         sp_Connectors =
          [\<lparr>cn_ID = [], cn_Name = ''source-connector'', cn_Type = ''source'',
           cn_Plugin = ''builtin:generator'', cn_PluginName = ''builtin:generator'', cn_PluginPkg = [],
           cn_PluginVersion = ''latest'',
           cn_Settings = [value_setting ''servers'' ''127.0.0.1'',
              value_setting ''topics'' ''input-topic'',
              secret_setting ''saslUsername'' ''key1'' ''objref1''],
           cn_Processors = []\<rparr>,
           \<lparr>cn_ID = [], cn_Name = ''destination-connector'', cn_Type = ''destination'',
           cn_Plugin = ''builtin:log'', cn_PluginName = ''builtin:log'', cn_PluginPkg = [],
           cn_PluginVersion = ''latest'',
           cn_Settings = [value_setting ''servers'' ''127.0.0.1'',
              value_setting ''topic'' ''output-topic''],
           cn_Processors = []\<rparr>],
         sp_Processors = []\<rparr>,
      c_Status = zero_status\<rparr>"

definition SourceProcConduit :: Conduit where
  "SourceProcConduit =
     \<lparr>c_Meta = new_meta ''sample'' ''sample'',
      c_Spec =
        \<lparr>sp_ID = [], sp_Name = ''my-pipeline'', sp_Description = ''my-description'', sp_Image = [],
         sp_Running = Some True, sp_Version = ''v0.13.2'',
         sp_Registry = Some (url_registry ''http://apicurio:8080/apis/ccompat/v7''),
         sp_Connectors =
          [\<lparr>cn_ID = [], cn_Name = ''source-connector'', cn_Type = ''source'',
           cn_Plugin = ''builtin:generator'', cn_PluginName = ''builtin:generator'', cn_PluginPkg = [],
           cn_PluginVersion = ''latest'',
           cn_Settings = [value_setting ''servers'' ''127.0.0.1'',
              value_setting ''topics'' ''input-topic''],
           cn_Processors = [proc1 ''standalone:foo.encode'']\<rparr>,
           \<lparr>cn_ID = [], cn_Name = ''destination-connector'', cn_Type = ''destination'',
           cn_Plugin = ''builtin:log'', cn_PluginName = ''builtin:log'', cn_PluginPkg = [],
           cn_PluginVersion = ''latest'',
           cn_Settings = [value_setting ''servers'' ''127.0.0.1'',
              value_setting ''topic'' ''output-topic''],
           cn_Processors = []\<rparr>],
         sp_Processors = []\<rparr>,
      c_Status = zero_status\<rparr>"

end
