(* ===== verification/Pipeline_Config.thy ===== *)
theory Pipeline_Config
  imports Kube_Types Fixtures
begin

text \<open>
  Model of \<^verbatim>\<open>internal/controller/conduit_config.go\<close>: the pipeline configuration, the
  environment variables that carry secrets, and the schema registry secret. Reads from the
  API server are the fields of a \<open>reader\<close>, the client at one moment; the YAML encoder and
  the URL package are arguments.
\<close>

section \<open>What the code calls\<close>

text \<open>
  \<open>ns_get_secret ns\<close> is \<^verbatim>\<open>Get\<close> of the client that \<^verbatim>\<open>client.NewNamespacedClient\<close>
  scopes to the namespace \<open>ns\<close>.
\<close>

record reader =
  get_conduit :: "NamespacedName \<Rightarrow> Conduit res"
  get_configmap :: "NamespacedName \<Rightarrow> ConfigMap res"
  get_secret :: "NamespacedName \<Rightarrow> Secret res"
  ns_get_secret :: "string \<Rightarrow> NamespacedName \<Rightarrow> Secret res"

record 'u url_pkg =
  url_Parse :: "string \<Rightarrow> 'u res"
  url_set_UserPassword :: "'u \<Rightarrow> string \<Rightarrow> string \<Rightarrow> 'u"
  url_String :: "'u \<Rightarrow> string"

text \<open>The configuration structs of Conduit's \<^verbatim>\<open>config/yaml/v2\<close> package.\<close>

record y_Processor =
  yp_ID :: string
  yp_Plugin :: string
  yp_Condition :: string
  yp_Workers :: int
  yp_Settings :: "string \<rightharpoonup> string"

record y_Connector =
  yc_ID :: string
  yc_Type :: string
  yc_Plugin :: string
  yc_Name :: string
  yc_Settings :: "string \<rightharpoonup> string"
  yc_Processors :: "y_Processor list"

record y_Pipeline =
  yl_ID :: string
  yl_Status :: string
  yl_Name :: string
  yl_Description :: string
  yl_Connectors :: "y_Connector list"
  yl_Processors :: "y_Processor list"

record y_Configuration =
  y_Version :: string
  y_Pipelines :: "y_Pipeline list"

abbreviation (input) "pipelineConfigVersion \<equiv> ''2.2''"
abbreviation (input) "schemaRegistryConnStringEnvVar \<equiv> ''CONDUIT_SCHEMA_REGISTRY_CONFLUENT_CONNECTION_STRING''"
abbreviation (input) "schemaRegistryTypeEnvVar \<equiv> ''CONDUIT_SCHEMA_REGISTRY_TYPE''"

section \<open>Settings and environment variables\<close>

definition envVarName :: "unicode \<Rightarrow> string \<Rightarrow> string" where
  "envVarName U s = replace_special (ToUpper U s)"

definition configMapValue :: "reader \<Rightarrow> GlobalConfigMapRef \<Rightarrow> string res" where
  "configMapValue R ref =
     bind_res
       (wrap_err ''error fetching configmap %v/%v: %w'' [gc_Namespace ref, gc_Name ref]
          (get_configmap R \<lparr>nn_Name = gc_Name ref, nn_Namespace = gc_Namespace ref\<rparr>))
       (\<lambda>configMap. case cm_Data configMap (gc_Key ref) of
           None \<Rightarrow> Err (Errorf ''configmap %v/%v has no key %v''
                           [gc_Namespace ref, gc_Name ref, gc_Key ref])
         | Some val \<Rightarrow> Ok val)"

text \<open>How \<^verbatim>\<open>%v\<close> prints a pointer to the reference struct.\<close>

definition show_ref :: "GlobalConfigMapRef \<Rightarrow> string" where
  "show_ref r = ''&{'' @ gc_Namespace r @ '' '' @ gc_Name r @ '' '' @ gc_Key r @ ''}''"

text \<open>One iteration of the settings loop: the value for a setting.\<close>

definition setting_value :: "unicode \<Rightarrow> reader \<Rightarrow> SettingsVar \<Rightarrow> string res" where
  "setting_value U R v =
     (case (if sv_Value v = [] then sv_SecretRef v else None) of
        Some ref \<Rightarrow> Ok (''${'' @ envVarName U (sk_Key ref) @ ''}'')
      | None \<Rightarrow>
          (case sv_ConfigMapRef v of
             Some cref \<Rightarrow>
               (case configMapValue R cref of
                  Ok val \<Rightarrow> Ok val
                | Err e \<Rightarrow> Err (Errorf ''failed getting value for %v'' [show_ref cref])
                | Panic p \<Rightarrow> Panic p)
           | None \<Rightarrow> Ok (sv_Value v)))"

fun settings_loop ::
  "unicode \<Rightarrow> reader \<Rightarrow> SettingsVar list \<Rightarrow> (string \<rightharpoonup> string) \<Rightarrow> (string \<rightharpoonup> string) res" where
  "settings_loop U R [] settings = Ok settings"
| "settings_loop U R (v # s) settings =
     bind_res (setting_value U R v)
       (\<lambda>val. settings_loop U R s (settings(sv_Name v \<mapsto> val)))"

definition settingsWithEnvVars ::
  "unicode \<Rightarrow> reader \<Rightarrow> SettingsVar list \<Rightarrow> (string \<rightharpoonup> string) res" where
  "settingsWithEnvVars U R s = settings_loop U R s Map.empty"

fun settings_env :: "unicode \<Rightarrow> SettingsVar list \<Rightarrow> EnvVar list" where
  "settings_env U [] = []"
| "settings_env U (v # s) =
     (case sv_SecretRef v of
        None \<Rightarrow> settings_env U s
      | Some ref \<Rightarrow> \<lparr>ev_Name = envVarName U (sk_Key ref), ev_Value = [], ev_SecretKeyRef = Some ref\<rparr>
                    # settings_env U s)"

fun EnvVars_loop :: "unicode \<Rightarrow> ConduitConnector list \<Rightarrow> EnvVar list" where
  "EnvVars_loop U [] = []"
| "EnvVars_loop U (cc # ccs) = settings_env U (cn_Settings cc) @ EnvVars_loop U ccs"

definition EnvVars :: "unicode \<Rightarrow> Conduit \<Rightarrow> EnvVar list" where
  "EnvVars U c = EnvVars_loop U (sp_Connectors (c_Spec c))"

text \<open>
  The keys of the secret's data come in the iteration order of a Go map: \<open>keys\<close> lists them
  in that order.
\<close>

definition envVarsFromSecret :: "string list \<Rightarrow> Secret \<Rightarrow> EnvVar list" where
  "envVarsFromSecret keys secret =
     (if length keys = 0 then []
      else map (\<lambda>k. \<lparr>ev_Name = k, ev_Value = [],
                     ev_SecretKeyRef = Some \<lparr>sk_Name = om_Name (se_Meta secret), sk_Key = k,
                                             sk_Optional = None\<rparr>\<rparr>) keys)"

section \<open>The pipeline configuration\<close>

definition processorConfig :: "unicode \<Rightarrow> reader \<Rightarrow> ConduitProcessor \<Rightarrow> y_Processor res" where
  "processorConfig U R p =
     bind_res
       (wrap_err ''failed getting settings for processor %v: %w'' [pr_Name p]
          (settingsWithEnvVars U R (pr_Settings p)))
       (\<lambda>settings. Ok \<lparr>yp_ID = pr_ID p, yp_Plugin = pr_Plugin p, yp_Condition = pr_Condition p,
                        yp_Workers = pr_Workers p, yp_Settings = settings\<rparr>)"

definition connectorConfig :: "unicode \<Rightarrow> reader \<Rightarrow> ConduitConnector \<Rightarrow> y_Connector res" where
  "connectorConfig U R c =
     bind_res
       (for_each (\<lambda>p. wrap_err ''failed building processor: %w'' [] (processorConfig U R p))
          (cn_Processors c))
       (\<lambda>processors. bind_res
          (wrap_err ''failed getting settings for connector %v: %w'' [cn_Name c]
             (settingsWithEnvVars U R (cn_Settings c)))
          (\<lambda>settings. Ok \<lparr>yc_ID = cn_ID c, yc_Type = cn_Type c, yc_Plugin = cn_PluginName c,
                           yc_Name = cn_Name c, yc_Settings = settings,
                           yc_Processors = processors\<rparr>))"

text \<open>\<^verbatim>\<open>*conduit.Spec.Running\<close> is dereferenced unconditionally: nil panics.\<close>

definition PipelineConfigYAML ::
  "unicode \<Rightarrow> reader \<Rightarrow> (y_Configuration \<Rightarrow> string res) \<Rightarrow> Conduit \<Rightarrow> string res" where
  "PipelineConfigYAML U R marshal conduit =
     (let spec = c_Spec conduit
      in case sp_Running spec of
           None \<Rightarrow> Panic ''invalid memory address or nil pointer dereference''
         | Some running \<Rightarrow>
             bind_res
               (for_each (\<lambda>cc. wrap_err ''failed building connector: %w'' [] (connectorConfig U R cc))
                  (sp_Connectors spec))
               (\<lambda>connectors. bind_res
                 (for_each (\<lambda>p. wrap_err ''failed building processor: %w'' [] (processorConfig U R p))
                    (sp_Processors spec))
                 (\<lambda>processors. marshal
                    \<lparr>y_Version = pipelineConfigVersion,
                     y_Pipelines =
                       [\<lparr>yl_ID = sp_ID spec, yl_Status = (if running then ''running'' else ''stopped''),
                         yl_Name = sp_Name spec, yl_Description = sp_Description spec,
                         yl_Connectors = connectors, yl_Processors = processors\<rparr>]\<rparr>)))"

section \<open>The schema registry secret\<close>

definition valueOrSecret :: "(NamespacedName \<Rightarrow> Secret res) \<Rightarrow> SettingsVar \<Rightarrow> string res" where
  "valueOrSecret getSecret v =
     (case sv_SecretRef v of
        None \<Rightarrow> Ok (sv_Value v)
      | Some ref \<Rightarrow>
          bind_res
            (wrap_err ''failed to get %q secret: %w'' [sk_Name ref]
               (getSecret \<lparr>nn_Name = sk_Name ref, nn_Namespace = []\<rparr>))
            (\<lambda>secret. case se_Data secret (sk_Key ref) of
                Some val \<Rightarrow> Ok val
              | None \<Rightarrow> Ok []))"

definition SchemaRegistryConfig ::
  "'u url_pkg \<Rightarrow> reader \<Rightarrow> Conduit \<Rightarrow> (string \<rightharpoonup> string) res" where
  "SchemaRegistryConfig P R c =
     (case sp_Registry (c_Spec c) of
        None \<Rightarrow> Ok Map.empty
      | Some reg \<Rightarrow>
          if sr_URL reg = [] then Ok Map.empty
          else
            bind_res (wrap_err ''failed to parse registry URL: %w'' [] (url_Parse P (sr_URL reg)))
              (\<lambda>u. let nsclient = ns_get_secret R (om_Namespace (c_Meta c)) in
                bind_res
                  (wrap_err ''failed to resolve registry username: %w'' []
                     (valueOrSecret nsclient (sr_Username reg)))
                  (\<lambda>user. bind_res
                    (wrap_err ''failed to resolve registry username: %w'' []
                       (valueOrSecret nsclient (sr_Password reg)))
                    (\<lambda>password.
                       let u = (if password \<noteq> [] then url_set_UserPassword P u user password else u)
                       in Ok [schemaRegistryTypeEnvVar \<mapsto> ''confluent'',
                              schemaRegistryConnStringEnvVar \<mapsto> url_String P u]))))"

section \<open>What is read\<close>

text \<open>The pipeline is rendered from config maps alone, the registry's data from secrets alone.\<close>

lemma settings_reads_configmaps:
  assumes "get_configmap R = get_configmap R'"
  shows "settingsWithEnvVars U R s = settingsWithEnvVars U R' s"
proof -
  have "setting_value U R v = setting_value U R' v" for v
    unfolding setting_value_def configMapValue_def assms ..
  then have "settings_loop U R s m = settings_loop U R' s m" for m
    by (induction s arbitrary: m) simp_all
  then show ?thesis by (simp add: settingsWithEnvVars_def)
qed

lemma PipelineConfigYAML_reads_configmaps:
  assumes "get_configmap R = get_configmap R'"
  shows "PipelineConfigYAML U R m c = PipelineConfigYAML U R' m c"
proof -
  note s = settings_reads_configmaps [OF assms]
  have "processorConfig U R = processorConfig U R'" by (simp add: processorConfig_def s fun_eq_iff)
  moreover from this have "connectorConfig U R = connectorConfig U R'"
    by (simp add: connectorConfig_def s fun_eq_iff)
  ultimately show ?thesis unfolding PipelineConfigYAML_def by (simp only:)
qed

lemma SchemaRegistryConfig_reads_secrets:
  assumes "ns_get_secret R = ns_get_secret R'"
  shows "SchemaRegistryConfig P R c = SchemaRegistryConfig P R' c"
  unfolding SchemaRegistryConfig_def assms ..

section \<open>What the settings loop computes\<close>

text \<open>The last setting of a name wins.\<close>

lemma settings_loop_Ok_iff:
  "settings_loop U R s m = Ok m' \<longleftrightarrow>
     (\<exists>vals. list_all2 (\<lambda>v val. setting_value U R v = Ok val) s vals
        \<and> m' = m ++ map_of (rev (zip (map sv_Name s) vals)))"
proof (induction s arbitrary: m)
  case Nil
  then show ?case by auto
next
  case (Cons v s)
  show ?case
  proof
    assume "settings_loop U R (v # s) m = Ok m'"
    then obtain x where x: "setting_value U R v = Ok x"
      "settings_loop U R s (m(sv_Name v \<mapsto> x)) = Ok m'" by auto
    then obtain vals where "list_all2 (\<lambda>v val. setting_value U R v = Ok val) s vals"
      "m' = m(sv_Name v \<mapsto> x) ++ map_of (rev (zip (map sv_Name s) vals))"
      unfolding Cons.IH by blast
    with x show "\<exists>vals. list_all2 (\<lambda>v val. setting_value U R v = Ok val) (v # s) vals
        \<and> m' = m ++ map_of (rev (zip (map sv_Name (v # s)) vals))"
      by (intro exI [of _ "x # vals"]) (simp add: map_add_upd_left)
  next
    assume "\<exists>vals. list_all2 (\<lambda>v val. setting_value U R v = Ok val) (v # s) vals
        \<and> m' = m ++ map_of (rev (zip (map sv_Name (v # s)) vals))"
    then obtain x vals where x: "setting_value U R v = Ok x"
      "list_all2 (\<lambda>v val. setting_value U R v = Ok val) s vals"
      "m' = m(sv_Name v \<mapsto> x) ++ map_of (rev (zip (map sv_Name s) vals))"
      by (auto simp: list_all2_Cons1 map_add_upd_left)
    then have "settings_loop U R s (m(sv_Name v \<mapsto> x)) = Ok m'"
      unfolding Cons.IH by blast
    with x show "settings_loop U R (v # s) m = Ok m'" by simp
  qed
qed

lemma settings_value_origin:
  assumes "settingsWithEnvVars U R s = Ok m" and "m n = Some x"
  obtains v where "v \<in> set s" "sv_Name v = n" "setting_value U R v = Ok x"
proof -
  obtain vals where vals: "list_all2 (\<lambda>v val. setting_value U R v = Ok val) s vals"
    "m = map_of (rev (zip (map sv_Name s) vals))"
    using assms(1) by (auto simp: settingsWithEnvVars_def settings_loop_Ok_iff)
  with assms(2) have "(n, x) \<in> set (zip (map sv_Name s) vals)"
    by (auto dest: map_of_rev_Some_in)
  with vals(1) obtain i where "i < length s" "sv_Name (s ! i) = n" "setting_value U R (s ! i) = Ok x"
    by (auto simp: list_all2_conv_all_nth set_zip)
  then show thesis by (intro that [of "s ! i"]) auto
qed

lemma set_settings_env:
  "set (settings_env U s) =
     {\<lparr>ev_Name = envVarName U (sk_Key ref), ev_Value = [], ev_SecretKeyRef = Some ref\<rparr> | v ref.
        v \<in> set s \<and> sv_SecretRef v = Some ref}"
  by (induction s) (auto split: option.splits)

lemma set_EnvVars:
  "set (EnvVars U c) =
     {\<lparr>ev_Name = envVarName U (sk_Key ref), ev_Value = [], ev_SecretKeyRef = Some ref\<rparr> | cc v ref.
        cc \<in> set (sp_Connectors (c_Spec c)) \<and> v \<in> set (cn_Settings cc) \<and> sv_SecretRef v = Some ref}"
proof -
  have "set (EnvVars_loop U ccs) = (\<Union>cc \<in> set ccs. set (settings_env U (cn_Settings cc)))" for ccs
    by (induction ccs) auto
  then show ?thesis by (simp add: EnvVars_def set_settings_env) blast
qed

section \<open>A connector with one secret\<close>

definition demo_secret_connector :: "string \<Rightarrow> string \<Rightarrow> ConduitConnector" where
  "demo_secret_connector type secret =
     \<lparr>cn_ID = type, cn_Name = type, cn_Type = type, cn_Plugin = ''builtin:postgres'',
      cn_PluginName = ''builtin:postgres'', cn_PluginPkg = [], cn_PluginVersion = ''latest'',
      cn_Settings = [secret_setting ''url'' ''url'' secret], cn_Processors = []\<rparr>"

definition two_secrets :: "string \<Rightarrow> string \<Rightarrow> Conduit" where
  "two_secrets a b =
     SecretConduit\<lparr>c_Spec := (c_Spec SecretConduit)\<lparr>sp_Connectors :=
       [demo_secret_connector ''source'' a, demo_secret_connector ''destination'' b]\<rparr>\<rparr>"

section \<open>Properties\<close>

text \<open>
  C22: the rendered settings of a connector. When rendering succeeds, the settings are exactly those
  named, the last one of a name wins, a setting with a secret reference and no value is the text
  \<^verbatim>\<open>${NAME}\<close>, and the container's environment holds that very name, taken from that very
  secret key.
\<close>

theorem connector_secrets_backed:
  assumes "cc \<in> set (sp_Connectors (c_Spec c))" and "connectorConfig U R cc = Ok y"
  shows "dom (yc_Settings y) = sv_Name ` set (cn_Settings cc)
    \<and> (\<forall>n x. yc_Settings y n = Some x \<longrightarrow> (\<exists>v \<in> set (cn_Settings cc). sv_Name v = n
          \<and> setting_value U R v = Ok x
          \<and> (\<forall>ref. sv_SecretRef v = Some ref \<longrightarrow> sv_Value v = [] \<longrightarrow>
               (\<exists>e \<in> set (EnvVars U c). x = ''${'' @ ev_Name e @ ''}'' \<and> ev_SecretKeyRef e = Some ref))))"
proof -
  have m: "settingsWithEnvVars U R (cn_Settings cc) = Ok (yc_Settings y)"
    using assms(2) by (auto simp: connectorConfig_def)
  then obtain vals where "list_all2 (\<lambda>v val. setting_value U R v = Ok val) (cn_Settings cc) vals"
    "yc_Settings y = map_of (rev (zip (map sv_Name (cn_Settings cc)) vals))"
    by (auto simp: settingsWithEnvVars_def settings_loop_Ok_iff)
  then have "dom (yc_Settings y) = sv_Name ` set (cn_Settings cc)"
    by (simp add: dom_map_of_conv_image_fst list_all2_lengthD flip: set_map)
  moreover have "\<exists>v \<in> set (cn_Settings cc). sv_Name v = n \<and> setting_value U R v = Ok x
        \<and> (\<forall>ref. sv_SecretRef v = Some ref \<longrightarrow> sv_Value v = [] \<longrightarrow>
             (\<exists>e \<in> set (EnvVars U c). x = ''${'' @ ev_Name e @ ''}'' \<and> ev_SecretKeyRef e = Some ref))"
    if "yc_Settings y n = Some x" for n x
  proof -
    obtain v where v: "v \<in> set (cn_Settings cc)" "sv_Name v = n" "setting_value U R v = Ok x"
      by (rule settings_value_origin [OF m \<open>yc_Settings y n = Some x\<close>])
    have "\<exists>e \<in> set (EnvVars U c). x = ''${'' @ ev_Name e @ ''}'' \<and> ev_SecretKeyRef e = Some ref"
      if "sv_SecretRef v = Some ref" "sv_Value v = []" for ref
      using v that assms(1)
      by (intro bexI [of _ "\<lparr>ev_Name = envVarName U (sk_Key ref), ev_Value = [], ev_SecretKeyRef = Some ref\<rparr>"])
        (auto simp: setting_value_def set_EnvVars)
    with v show ?thesis by blast
  qed
  ultimately show ?thesis by blast
qed

text \<open>A reader on which every lookup fails, for examples that need none.\<close>

definition no_objects :: reader where
  "no_objects =
     \<lparr>get_conduit = (\<lambda>_. Err (NotFound ''not found'')), get_configmap = (\<lambda>_. Err (NotFound ''not found'')),
      get_secret = (\<lambda>_. Err (NotFound ''not found'')),
      ns_get_secret = (\<lambda>_ _. Err (NotFound ''not found''))\<rparr>"

theorem connector_secrets_backed_witness:
  "\<exists>cc y e. cc \<in> set (sp_Connectors (c_Spec SecretConduit))
     \<and> connectorConfig ascii_tables no_objects cc = Ok y
     \<and> e \<in> set (EnvVars ascii_tables SecretConduit)
     \<and> yc_Settings y ''saslUsername'' = Some (''${'' @ ev_Name e @ ''}'')
     \<and> ev_SecretKeyRef e = Some \<lparr>sk_Name = ''objref1'', sk_Key = ''key1'', sk_Optional = None\<rparr>"
proof -
  let ?cc = "hd (sp_Connectors (c_Spec SecretConduit))"
  have mem: "?cc \<in> set (sp_Connectors (c_Spec SecretConduit))" by (simp add: SecretConduit_def)
  obtain y where y: "connectorConfig ascii_tables no_objects ?cc = Ok y"
    "yc_Settings y ''saslUsername'' \<noteq> None"
    by (simp add: SecretConduit_def connectorConfig_def settingsWithEnvVars_def setting_value_def
        value_setting_def secret_setting_def)
  then obtain x where x: "yc_Settings y ''saslUsername'' = Some x" by blast
  then obtain v where v: "v \<in> set (cn_Settings ?cc)" "sv_Name v = ''saslUsername''"
    "\<forall>ref. sv_SecretRef v = Some ref \<longrightarrow> sv_Value v = [] \<longrightarrow>
       (\<exists>e \<in> set (EnvVars ascii_tables SecretConduit).
          x = ''${'' @ ev_Name e @ ''}'' \<and> ev_SecretKeyRef e = Some ref)"
    using connector_secrets_backed [OF mem y(1)] by blast
  then have "v = secret_setting ''saslUsername'' ''key1'' ''objref1''"
    by (auto simp: SecretConduit_def value_setting_def secret_setting_def)
  with v(3) obtain e where "e \<in> set (EnvVars ascii_tables SecretConduit)" "x = ''${'' @ ev_Name e @ ''}''"
    "ev_SecretKeyRef e = Some \<lparr>sk_Name = ''objref1'', sk_Key = ''key1'', sk_Optional = None\<rparr>"
    by (auto simp: secret_setting_def)
  with mem y x show ?thesis by blast
qed

text \<open>
  C30: a generated environment variable name consists of ASCII letters, digits and underscores,
  whatever bytes the secret key has, and for an ASCII key it is the key in upper case with every
  other character replaced by an underscore, of the same length.
\<close>

theorem envVarName_class:
  "list_all word_char (envVarName U k)
   \<and> (list_all ascii k \<longrightarrow>
        envVarName U k = map (\<lambda>c. if word_char (upper_byte c) then upper_byte c else CHR ''_'') k)"
proof (intro conjI impI)
  show "list_all word_char (envVarName U k)"
    by (simp add: envVarName_def replace_special_class)
  assume "list_all ascii k"
  then show "envVarName U k = map (\<lambda>c. if word_char (upper_byte c) then upper_byte c else CHR ''_'') k"
    by (simp add: envVarName_def ToUpper_def replace_special_ascii list_all_iff)
qed

theorem envVarName_class_witness:
  "envVarName ascii_tables ''setting3-%s-key'' = ''SETTING3__S_KEY''"
proof -
  have "list_all ascii ''setting3-%s-key''" by (simp add: ascii_def)
  then have "envVarName ascii_tables ''setting3-%s-key'' =
      map (\<lambda>c. if word_char (upper_byte c) then upper_byte c else CHR ''_'') ''setting3-%s-key''"
    using envVarName_class by blast
  also have "\<dots> = ''SETTING3__S_KEY''"
    by (simp add: char_eval)
  finally show ?thesis .
qed

text \<open>
  Secrets of processors. The rendered settings of a processor refer to an environment variable
  for a secret, but the container's environment is collected from connector settings alone: a
  Conduit whose only secret is a processor's has an empty environment and a configuration that
  refers to it.
\<close>

theorem processor_secret_not_in_env:
  "\<exists>p \<in> set (sp_Processors (c_Spec SampleConduit)). \<exists>y.
     processorConfig ascii_tables R p = Ok y
     \<and> yp_Settings y ''setting01'' = Some ''${SETTING01__P_KEY}''
     \<and> EnvVars ascii_tables SampleConduit = []"
proof -
  have "replace_special (ToUpper ascii_tables ''setting01-%p-key'') = ''SETTING01__P_KEY''"
    by (subst replace_special_ascii) (simp_all add: ToUpper_def char_eval)
  then show ?thesis
    by (simp add: SampleConduit_def proc1_def processorConfig_def settingsWithEnvVars_def
        setting_value_def value_setting_def secret_setting_def EnvVars_def envVarName_def)
qed

text \<open>
  Two secrets with the same key share one environment variable name: for any two secret names
  there is a Conduit whose environment defines one name twice, from the two different secrets.
\<close>

theorem env_name_collision:
  "\<exists>e1 \<in> set (EnvVars U (two_secrets a b)). \<exists>e2 \<in> set (EnvVars U (two_secrets a b)).
     ev_Name e1 = ev_Name e2
     \<and> map_option sk_Name (ev_SecretKeyRef e1) = Some a
     \<and> map_option sk_Name (ev_SecretKeyRef e2) = Some b"
  by (simp add: EnvVars_def two_secrets_def demo_secret_connector_def secret_setting_def)

text \<open>
  The pipeline configuration. It is produced exactly when the desired run state is set and every
  connector and processor renders; it then is the encoding of one pipeline with the resource's
  identity, the status that the run state asks for, and the connectors and processors in their order.
\<close>

theorem PipelineConfigYAML_Ok_iff:
  "PipelineConfigYAML U R marshal c = Ok out \<longleftrightarrow>
     (\<exists>running cs ps. sp_Running (c_Spec c) = Some running
        \<and> list_all2 (\<lambda>cc y. connectorConfig U R cc = Ok y) (sp_Connectors (c_Spec c)) cs
        \<and> list_all2 (\<lambda>p y. processorConfig U R p = Ok y) (sp_Processors (c_Spec c)) ps
        \<and> marshal \<lparr>y_Version = ''2.2'', y_Pipelines =
             [\<lparr>yl_ID = sp_ID (c_Spec c), yl_Status = (if running then ''running'' else ''stopped''),
               yl_Name = sp_Name (c_Spec c), yl_Description = sp_Description (c_Spec c),
               yl_Connectors = cs, yl_Processors = ps\<rparr>]\<rparr> = Ok out)"
  by (cases "sp_Running (c_Spec c)") (simp_all add: PipelineConfigYAML_def Let_def for_each_Ok_iff)


text \<open>A URL package on text, for the example: user information goes in front.\<close>

definition text_urls :: "string url_pkg" where
  "text_urls = \<lparr>url_Parse = Ok, url_set_UserPassword = (\<lambda>u a b. a @ '':'' @ b @ ''@'' @ u),
                url_String = (\<lambda>u. u)\<rparr>"


end
