(* ===== verification/Kube_Client.thy ===== *)
theory Kube_Client
  imports Go_IO Pipeline_Config
begin

text \<open>
  The interface to \<^verbatim>\<open>sigs.k8s.io/controller-runtime\<close>, which the reconciler calls and the
  repository does not contain: the client, \<^verbatim>\<open>controllerutil\<close> and the event recorder. The
  calls are the fields of a record that the reconciler takes as an argument; the locales
  \<open>create_or_update\<close> and \<open>kube_client\<close> state what the library documents; an in-memory
  API server shows that the documented behaviour can be had.
\<close>

section \<open>The state of one reconciliation\<close>

text \<open>
  \<open>loc\<close> is what the handlers share through the pointer to the resource: the local copy of the
  Conduit, the events recorded so far, and the number of clock readings. A handler runs on the
  API server's state paired with it.
\<close>

record loc =
  lc_conduit :: Conduit
  lc_events :: "event list"
  lc_tick :: nat

type_synonym 'w rt = "'w \<times> loc"

datatype OperationResult = OperationResultNone | OperationResultCreated | OperationResultUpdated

definition local_io :: "(loc, 'a) io \<Rightarrow> ('w rt, 'a) io" where
  "local_io m = (\<lambda>(w, l). case m l of (r, l') \<Rightarrow> (r, (w, l')))"

lemma local_io_run [simp]: "local_io m (w, l) = (fst (m l), (w, snd (m l)))"
  by (simp add: local_io_def split: prod.splits)

section \<open>The calls\<close>

text \<open>
  \<open>cou_X obj f\<close> is \<^verbatim>\<open>controllerutil.CreateOrUpdate\<close> for the kind \<open>X\<close>: the mutate
  function \<open>f\<close> gets the object and acts on the shared local state. \<^verbatim>\<open>Update\<close> and
  \<^verbatim>\<open>Status().Update\<close> return the object as the server stored it.
\<close>

record 'w client =
  cl_reader :: "'w \<Rightarrow> reader"
  cl_Update :: "Conduit \<Rightarrow> 'w \<Rightarrow> Conduit res \<times> 'w"
  cl_StatusUpdate :: "Conduit \<Rightarrow> 'w \<Rightarrow> Conduit res \<times> 'w"
  cou_ConfigMap :: "ConfigMap \<Rightarrow> (ConfigMap \<Rightarrow> (loc, ConfigMap) io) \<Rightarrow> ('w rt, OperationResult) io"
  cou_Secret :: "Secret \<Rightarrow> (Secret \<Rightarrow> (loc, Secret) io) \<Rightarrow> ('w rt, OperationResult) io"
  cou_PersistentVolumeClaim :: "PersistentVolumeClaim
    \<Rightarrow> (PersistentVolumeClaim \<Rightarrow> (loc, PersistentVolumeClaim) io) \<Rightarrow> ('w rt, OperationResult) io"
  cou_Deployment :: "Deployment \<Rightarrow> (Deployment \<Rightarrow> (loc, Deployment) io) \<Rightarrow> ('w rt, OperationResult) io"
  cou_Service :: "Service \<Rightarrow> (Service \<Rightarrow> (loc, Service) io) \<Rightarrow> ('w rt, OperationResult) io"
  SetControllerReference :: "Conduit \<Rightarrow> ObjectMeta \<Rightarrow> ObjectMeta res"
  ContainsFinalizer :: "string list \<Rightarrow> string \<Rightarrow> bool"
  AddFinalizer :: "string list \<Rightarrow> string \<Rightarrow> string list"
  RemoveFinalizer :: "string list \<Rightarrow> string \<Rightarrow> string list"
  Semantic_DeepEqual :: "ConduitStatus \<Rightarrow> ConduitStatus \<Rightarrow> bool"

section \<open>The documented behaviour\<close>

definition same_key :: "ObjectMeta \<Rightarrow> ObjectMeta \<Rightarrow> bool" where
  "same_key a b \<longleftrightarrow> om_Name a = om_Name b \<and> om_Namespace a = om_Namespace b"

text \<open>
  \<^verbatim>\<open>CreateOrUpdate\<close> fails before it calls the mutate function, or calls it once, on the given
  object or on the stored object with the same name and namespace. An error of the mutate
  function is returned and nothing is written. Otherwise the write succeeds, or its error is
  returned. The local state changes through the mutate function only.
\<close>

locale create_or_update =
  fixes cou :: "'o \<Rightarrow> ('o \<Rightarrow> (loc, 'o) io) \<Rightarrow> ('w rt, OperationResult) io"
    and meta :: "'o \<Rightarrow> ObjectMeta"
  assumes cou_outcome: "cou obj f (w, l) = (r, (w', l')) \<Longrightarrow>
      (\<exists>e. r = Err e \<and> w' = w \<and> l' = l)
    \<or> (\<exists>obj' x. same_key (meta obj) (meta obj') \<and> f obj' l = (x, l')
        \<and> (case x of
             Err e \<Rightarrow> r = Err e \<and> w' = w
           | Panic p \<Rightarrow> r = Panic p \<and> w' = w
           | Ok obj'' \<Rightarrow> (\<exists>e. r = Err e) \<or> (\<exists>op. r = Ok op)))"
begin

lemma cou_cases:
  assumes "cou obj f (w, l) = (r, (w', l'))"
  obtains (before) e where "r = Err e" "w' = w" "l' = l"
    | (mutate_Err) obj' e where "same_key (meta obj) (meta obj')" "f obj' l = (Err e, l')"
        "r = Err e" "w' = w"
    | (mutate_Panic) obj' p where "same_key (meta obj) (meta obj')" "f obj' l = (Panic p, l')"
        "r = Panic p" "w' = w"
    | (mutate_Ok) obj' obj'' where "same_key (meta obj) (meta obj')" "f obj' l = (Ok obj'', l')"
        "(\<exists>e. r = Err e) \<or> (\<exists>op. r = Ok op)"
proof -
  from cou_outcome [OF assms] consider e where "r = Err e" "w' = w" "l' = l"
    | obj' x where "same_key (meta obj) (meta obj')" "f obj' l = (x, l')"
        "case x of Err e \<Rightarrow> r = Err e \<and> w' = w | Panic p \<Rightarrow> r = Panic p \<and> w' = w
          | Ok obj'' \<Rightarrow> (\<exists>e. r = Err e) \<or> (\<exists>op. r = Ok op)"
    by blast
  then show thesis
  proof cases
    case 1
    then show thesis by (rule before)
  next
    case (2 obj' x)
    then show thesis
      using mutate_Err mutate_Panic mutate_Ok by (cases x) simp_all
  qed
qed

lemma cou_Ok:
  assumes "cou obj f (w, l) = (Ok op, (w', l'))"
  obtains obj' obj'' where "same_key (meta obj) (meta obj')" "f obj' l = (Ok obj'', l')"
  using assms by (cases rule: cou_cases) (auto intro: that)

lemma cou_Panic:
  assumes "cou obj f (w, l) = (Panic p, (w', l'))"
  obtains obj' where "same_key (meta obj) (meta obj')" "f obj' l = (Panic p, l')"
  using assms by (cases rule: cou_cases) (auto intro: that)

text \<open>A property of the local state that the mutate function keeps is kept.\<close>

lemma cou_local:
  assumes "\<And>o' x l'. same_key (meta obj) (meta o') \<Longrightarrow> f o' l = (x, l') \<Longrightarrow> P l'" and "P l"
  shows "P (snd (snd (cou obj f (w, l))))"
proof -
  obtain r w' l' where run: "cou obj f (w, l) = (r, (w', l'))" by (metis surj_pair)
  then show ?thesis using cou_outcome [OF run] assms by auto
qed

end

locale kube_client =
  fixes C :: "'w client"
  assumes config_maps: "create_or_update (cou_ConfigMap C) cm_Meta"
    and secrets: "create_or_update (cou_Secret C) se_Meta"
    and claims: "create_or_update (cou_PersistentVolumeClaim C) pvc_Meta"
    and deployments: "create_or_update (cou_Deployment C) d_Meta"
    and services: "create_or_update (cou_Service C) s_Meta"
    and contains_iff: "ContainsFinalizer C fs f \<longleftrightarrow> f \<in> set fs"
    and set_add: "set (AddFinalizer C fs f) = insert f (set fs)"
    and set_remove: "set (RemoveFinalizer C fs f) = set fs - {f}"
    and status_stored: "cl_StatusUpdate C c w = (Ok c', w') \<Longrightarrow>
          c_Status c' = c_Status c \<and> c_Spec c' = c_Spec c"
    and owner_set: "SetControllerReference C c m = Ok m' \<Longrightarrow>
          m' = m\<lparr>om_Controller := Some (om_Name (c_Meta c))\<rparr>"

sublocale kube_client \<subseteq> cms: create_or_update "cou_ConfigMap C" cm_Meta
  by (rule config_maps)

sublocale kube_client \<subseteq> ses: create_or_update "cou_Secret C" se_Meta
  by (rule secrets)

sublocale kube_client \<subseteq> pvcs: create_or_update "cou_PersistentVolumeClaim C" pvc_Meta
  by (rule claims)

sublocale kube_client \<subseteq> deps: create_or_update "cou_Deployment C" d_Meta
  by (rule deployments)

sublocale kube_client \<subseteq> svcs: create_or_update "cou_Service C" s_Meta
  by (rule services)

section \<open>An in-memory API server\<close>

type_synonym key = "string \<times> string"

record cluster =
  w_Conduits :: "key \<rightharpoonup> Conduit"
  w_ConfigMaps :: "key \<rightharpoonup> ConfigMap"
  w_Secrets :: "key \<rightharpoonup> Secret"
  w_Claims :: "key \<rightharpoonup> PersistentVolumeClaim"
  w_Deployments :: "key \<rightharpoonup> Deployment"
  w_Services :: "key \<rightharpoonup> Service"

definition key_of :: "ObjectMeta \<Rightarrow> key" where
  "key_of m = (om_Namespace m, om_Name m)"

definition found :: "(key \<rightharpoonup> 'o) \<Rightarrow> NamespacedName \<Rightarrow> 'o res" where
  "found m nn = (case m (nn_Namespace nn, nn_Name nn) of
       Some obj \<Rightarrow> Ok obj | None \<Rightarrow> Err (NotFound (nn_Name nn @ '' not found'')))"

text \<open>
  Reads find what was written; objects are stored under the key of their metadata. As in the
  library, a mutate function that changes the key is refused, and the result says whether the object
  was new, changed or the same as before.
\<close>

definition ref_current :: "('o \<Rightarrow> ObjectMeta) \<Rightarrow> 'o \<Rightarrow> 'o option \<Rightarrow> 'o" where
  "ref_current meta obj stored =
     (case stored of
        None \<Rightarrow> obj
      | Some o' \<Rightarrow> if key_of (meta o') = key_of (meta obj) then o' else obj)"

definition ref_cou ::
  "('o \<Rightarrow> ObjectMeta) \<Rightarrow> ('w \<Rightarrow> key \<rightharpoonup> 'o) \<Rightarrow> (key \<Rightarrow> 'o \<Rightarrow> 'w \<Rightarrow> 'w)
     \<Rightarrow> 'o \<Rightarrow> ('o \<Rightarrow> (loc, 'o) io) \<Rightarrow> ('w rt, OperationResult) io" where
  "ref_cou meta objs store obj f = (\<lambda>(w, l).
     let k = key_of (meta obj)
     in case f (ref_current meta obj (objs w k)) l of
          (Err e, l') \<Rightarrow> (Err e, (w, l'))
        | (Panic p, l') \<Rightarrow> (Panic p, (w, l'))
        | (Ok new, l') \<Rightarrow>
            if key_of (meta new) \<noteq> k
            then (Err (Ext ''MutateFn cannot mutate object name and/or object namespace''), (w, l'))
            else (Ok (if objs w k = None then OperationResultCreated
                      else if objs w k = Some new then OperationResultNone else OperationResultUpdated),
                  (store k new w, l')))"

lemma ref_cou_contract: "create_or_update (ref_cou meta objs store) meta"
proof
  fix obj f w l r w' l'
  assume run: "ref_cou meta objs store obj f (w, l) = (r, (w', l'))"
  let ?cur = "ref_current meta obj (objs w (key_of (meta obj)))"
  have key: "same_key (meta obj) (meta ?cur)"
    by (auto simp: ref_current_def same_key_def key_of_def split: option.splits)
  obtain x l1 where f: "f ?cur l = (x, l1)" by (metis surj_pair)
  have "l' = l1 \<and> (case x of
             Err e \<Rightarrow> r = Err e \<and> w' = w
           | Panic p \<Rightarrow> r = Panic p \<and> w' = w
           | Ok obj'' \<Rightarrow> (\<exists>e. r = Err e) \<or> (\<exists>op. r = Ok op))"
    using run f by (cases x) (auto simp: ref_cou_def Let_def split: if_splits)
  with key f show "(\<exists>e. r = Err e \<and> w' = w \<and> l' = l)
    \<or> (\<exists>obj' x. same_key (meta obj) (meta obj') \<and> f obj' l = (x, l')
        \<and> (case x of
             Err e \<Rightarrow> r = Err e \<and> w' = w
           | Panic p \<Rightarrow> r = Panic p \<and> w' = w
           | Ok obj'' \<Rightarrow> (\<exists>e. r = Err e) \<or> (\<exists>op. r = Ok op)))"
    by blast
qed

definition ref_reader :: "cluster \<Rightarrow> reader" where
  "ref_reader w =
     \<lparr>get_conduit = found (w_Conduits w), get_configmap = found (w_ConfigMaps w),
      get_secret = found (w_Secrets w),
      ns_get_secret = (\<lambda>ns nn. found (w_Secrets w) (nn\<lparr>nn_Namespace := ns\<rparr>))\<rparr>"

text \<open>An object that is being deleted goes away with its last finalizer.\<close>

definition ref_put :: "Conduit \<Rightarrow> cluster \<Rightarrow> Conduit res \<times> cluster" where
  "ref_put c w = (Ok c, w\<lparr>w_Conduits := (w_Conduits w)(key_of (c_Meta c) :=
     if om_DeletionTimestamp (c_Meta c) \<noteq> None \<and> om_Finalizers (c_Meta c) = [] then None else Some c)\<rparr>)"

definition ref_client :: "cluster client" where
  "ref_client =
     \<lparr>cl_reader = ref_reader, cl_Update = ref_put, cl_StatusUpdate = ref_put,
      cou_ConfigMap = ref_cou cm_Meta w_ConfigMaps (\<lambda>k o' w. w\<lparr>w_ConfigMaps := (w_ConfigMaps w)(k \<mapsto> o')\<rparr>),
      cou_Secret = ref_cou se_Meta w_Secrets (\<lambda>k o' w. w\<lparr>w_Secrets := (w_Secrets w)(k \<mapsto> o')\<rparr>),
      cou_PersistentVolumeClaim =
        ref_cou pvc_Meta w_Claims (\<lambda>k o' w. w\<lparr>w_Claims := (w_Claims w)(k \<mapsto> o')\<rparr>),
      cou_Deployment =
        ref_cou d_Meta w_Deployments (\<lambda>k o' w. w\<lparr>w_Deployments := (w_Deployments w)(k \<mapsto> o')\<rparr>),
      cou_Service = ref_cou s_Meta w_Services (\<lambda>k o' w. w\<lparr>w_Services := (w_Services w)(k \<mapsto> o')\<rparr>),
      SetControllerReference = (\<lambda>c m. Ok (m\<lparr>om_Controller := Some (om_Name (c_Meta c))\<rparr>)),
      ContainsFinalizer = (\<lambda>fs f. f \<in> set fs),
      AddFinalizer = (\<lambda>fs f. if f \<in> set fs then fs else fs @ [f]),
      RemoveFinalizer = (\<lambda>fs f. filter (\<lambda>x. x \<noteq> f) fs),
      Semantic_DeepEqual = (\<lambda>a b. a = b)\<rparr>"

interpretation ref_api: kube_client ref_client
  by (rule kube_client.intro) (auto simp: ref_client_def ref_put_def ref_cou_contract)

definition empty_cluster :: cluster where
  "empty_cluster = \<lparr>w_Conduits = Map.empty, w_ConfigMaps = Map.empty, w_Secrets = Map.empty,
     w_Claims = Map.empty, w_Deployments = Map.empty, w_Services = Map.empty\<rparr>"

end
