(* ===== verification/Json_Merge.thy ===== *)
theory Json_Merge
  imports Kube_Types
begin

text \<open>
  The closure \<open>merge\<close> of \<^verbatim>\<open>CreateOrUpdateDeployment\<close>
  (\<^verbatim>\<open>internal/controller/conduit_controller.go\<close>): the desired deployment specification is
  encoded by \<^verbatim>\<open>encoding/json\<close> and decoded into the current one. The encoder leaves out a field
  tagged \<^verbatim>\<open>omitempty\<close> that has its zero value; the decoder then leaves the current value of
  that field alone. A struct, or the target of a pointer, is decoded field by field. An array is
  decoded element by element into the elements the slice already has, and the slice is then cut
  to the new length. The functions below follow the tags of \<^verbatim>\<open>k8s.io/api\<close> v0.32.
\<close>

section \<open>Scalars, pointers and slices\<close>

definition omit_list :: "'a list \<Rightarrow> 'a list \<Rightarrow> 'a list" where
  "omit_list current updated = (if updated = [] then current else updated)"

definition omit_int :: "int \<Rightarrow> int \<Rightarrow> int" where
  "omit_int current updated = (if updated = 0 then current else updated)"

definition omit_bool :: "bool \<Rightarrow> bool \<Rightarrow> bool" where
  "omit_bool current updated = (if updated then True else current)"

definition omit_val :: "'a option \<Rightarrow> 'a option \<Rightarrow> 'a option" where
  "omit_val current updated = (case updated of None \<Rightarrow> current | Some v \<Rightarrow> Some v)"

text \<open>A pointer to a struct: a nil target is allocated, with zero fields, before it is filled.\<close>

definition omit_ptr :: "'a \<Rightarrow> ('a \<Rightarrow> 'a \<Rightarrow> 'a) \<Rightarrow> 'a option \<Rightarrow> 'a option \<Rightarrow> 'a option" where
  "omit_ptr zero f current updated =
     (case updated of
        None \<Rightarrow> current
      | Some u \<Rightarrow> Some (f (case current of None \<Rightarrow> zero | Some c \<Rightarrow> c) u))"

fun decode_array :: "'a \<Rightarrow> ('a \<Rightarrow> 'a \<Rightarrow> 'a) \<Rightarrow> 'a list \<Rightarrow> 'a list \<Rightarrow> 'a list" where
  "decode_array zero f current [] = []"
| "decode_array zero f [] (u # us) = f zero u # decode_array zero f [] us"
| "decode_array zero f (c # cs) (u # us) = f c u # decode_array zero f cs us"

definition omit_slice :: "'a \<Rightarrow> ('a \<Rightarrow> 'a \<Rightarrow> 'a) \<Rightarrow> 'a list \<Rightarrow> 'a list \<Rightarrow> 'a list" where
  "omit_slice zero f current updated =
     (if updated = [] then current else decode_array zero f current updated)"

section \<open>The structs of a deployment\<close>

definition zero_SecretKeySelector :: SecretKeySelector where
  "zero_SecretKeySelector = \<lparr>sk_Name = [], sk_Key = [], sk_Optional = None\<rparr>"

definition merge_SecretKeySelector :: "SecretKeySelector \<Rightarrow> SecretKeySelector \<Rightarrow> SecretKeySelector" where
  "merge_SecretKeySelector c u =
     \<lparr>sk_Name = omit_list (sk_Name c) (sk_Name u), sk_Key = sk_Key u,
      sk_Optional = omit_val (sk_Optional c) (sk_Optional u)\<rparr>"

definition zero_EnvVar :: EnvVar where
  "zero_EnvVar = \<lparr>ev_Name = [], ev_Value = [], ev_SecretKeyRef = None\<rparr>"

definition merge_EnvVar :: "EnvVar \<Rightarrow> EnvVar \<Rightarrow> EnvVar" where
  "merge_EnvVar c u =
     \<lparr>ev_Name = ev_Name u, ev_Value = omit_list (ev_Value c) (ev_Value u),
      ev_SecretKeyRef = omit_ptr zero_SecretKeySelector merge_SecretKeySelector
        (ev_SecretKeyRef c) (ev_SecretKeyRef u)\<rparr>"

definition merge_VolumeMount :: "VolumeMount \<Rightarrow> VolumeMount \<Rightarrow> VolumeMount" where
  "merge_VolumeMount c u =
     \<lparr>vm_Name = vm_Name u, vm_MountPath = vm_MountPath u,
      vm_ReadOnly = omit_bool (vm_ReadOnly c) (vm_ReadOnly u)\<rparr>"

definition merge_ContainerPort :: "ContainerPort \<Rightarrow> ContainerPort \<Rightarrow> ContainerPort" where
  "merge_ContainerPort c u =
     \<lparr>cp_Name = omit_list (cp_Name c) (cp_Name u), cp_ContainerPort = cp_ContainerPort u,
      cp_Protocol = omit_list (cp_Protocol c) (cp_Protocol u)\<rparr>"

definition zero_Probe :: Probe where
  "zero_Probe = \<lparr>pb_Path = [], pb_Scheme = [], pb_Port = [], pb_InitialDelaySeconds = 0,
     pb_TimeoutSeconds = 0, pb_PeriodSeconds = 0, pb_SuccessThreshold = 0, pb_FailureThreshold = 0\<rparr>"

definition merge_Probe :: "Probe \<Rightarrow> Probe \<Rightarrow> Probe" where
  "merge_Probe c u =
     \<lparr>pb_Path = omit_list (pb_Path c) (pb_Path u), pb_Scheme = omit_list (pb_Scheme c) (pb_Scheme u),
      pb_Port = pb_Port u,
      pb_InitialDelaySeconds = omit_int (pb_InitialDelaySeconds c) (pb_InitialDelaySeconds u),
      pb_TimeoutSeconds = omit_int (pb_TimeoutSeconds c) (pb_TimeoutSeconds u),
      pb_PeriodSeconds = omit_int (pb_PeriodSeconds c) (pb_PeriodSeconds u),
      pb_SuccessThreshold = omit_int (pb_SuccessThreshold c) (pb_SuccessThreshold u),
      pb_FailureThreshold = omit_int (pb_FailureThreshold c) (pb_FailureThreshold u)\<rparr>"

definition merge_Container :: "Container \<Rightarrow> Container \<Rightarrow> Container" where
  "merge_Container c u =
     \<lparr>k_Name = k_Name u,
      k_Image = omit_list (k_Image c) (k_Image u),
      k_ImagePullPolicy = omit_list (k_ImagePullPolicy c) (k_ImagePullPolicy u),
      k_Command = omit_slice [] (\<lambda>_ s. s) (k_Command c) (k_Command u),
      k_Args = omit_slice [] (\<lambda>_ s. s) (k_Args c) (k_Args u),
      k_Ports = omit_slice \<lparr>cp_Name = [], cp_ContainerPort = 0, cp_Protocol = []\<rparr> merge_ContainerPort
        (k_Ports c) (k_Ports u),
      k_ReadinessProbe = omit_ptr zero_Probe merge_Probe (k_ReadinessProbe c) (k_ReadinessProbe u),
      k_VolumeMounts = omit_slice \<lparr>vm_Name = [], vm_MountPath = [], vm_ReadOnly = False\<rparr>
        merge_VolumeMount (k_VolumeMounts c) (k_VolumeMounts u),
      k_Env = omit_slice zero_EnvVar merge_EnvVar (k_Env c) (k_Env u)\<rparr>"

definition merge_ConfigMapVolumeSource ::
  "ConfigMapVolumeSource \<Rightarrow> ConfigMapVolumeSource \<Rightarrow> ConfigMapVolumeSource" where
  "merge_ConfigMapVolumeSource c u =
     \<lparr>cv_Name = omit_list (cv_Name c) (cv_Name u),
      cv_DefaultMode = omit_val (cv_DefaultMode c) (cv_DefaultMode u)\<rparr>"

definition merge_Volume :: "Volume \<Rightarrow> Volume \<Rightarrow> Volume" where
  "merge_Volume c u =
     \<lparr>vo_Name = vo_Name u,
      vo_PersistentVolumeClaim = omit_val (vo_PersistentVolumeClaim c) (vo_PersistentVolumeClaim u),
      vo_ConfigMap = omit_ptr \<lparr>cv_Name = [], cv_DefaultMode = None\<rparr> merge_ConfigMapVolumeSource
        (vo_ConfigMap c) (vo_ConfigMap u)\<rparr>"

definition zero_Volume :: Volume where
  "zero_Volume = \<lparr>vo_Name = [], vo_PersistentVolumeClaim = None, vo_ConfigMap = None\<rparr>"

text \<open>
  The containers of a pod template have no \<^verbatim>\<open>omitempty\<close> tag. Encoded maps merge key by key.
  The encoder cannot fail on these types, so the errors of \<^verbatim>\<open>json.Marshal\<close> and
  \<^verbatim>\<open>json.Unmarshal\<close> do not arise.
\<close>

definition merge :: "DeploymentSpec \<Rightarrow> DeploymentSpec \<Rightarrow> DeploymentSpec" where
  "merge current updated =
     \<lparr>ds_Strategy = omit_list (ds_Strategy current) (ds_Strategy updated),
      ds_Replicas = omit_val (ds_Replicas current) (ds_Replicas updated),
      ds_MatchLabels = ds_MatchLabels current ++ ds_MatchLabels updated,
      ds_Labels = ds_Labels current ++ ds_Labels updated,
      ds_Annotations = ds_Annotations current ++ ds_Annotations updated,
      ds_RestartPolicy = omit_list (ds_RestartPolicy current) (ds_RestartPolicy updated),
      ds_InitContainers = omit_slice zero_Container merge_Container
        (ds_InitContainers current) (ds_InitContainers updated),
      ds_Containers = decode_array zero_Container merge_Container
        (ds_Containers current) (ds_Containers updated),
      ds_Volumes = omit_slice zero_Volume merge_Volume (ds_Volumes current) (ds_Volumes updated)\<rparr>"

section \<open>What a merge keeps and what it overwrites\<close>

lemma omit_simps [simp]:
  "omit_list c [] = c" "u \<noteq> [] \<Longrightarrow> omit_list c u = u" "omit_int i 0 = i" "j \<noteq> 0 \<Longrightarrow> omit_int i j = j"
  "omit_val x None = x" "omit_val x (Some v) = Some v" "omit_ptr z f y None = y"
  "omit_slice z f s [] = s" "t \<noteq> [] \<Longrightarrow> omit_slice z f s t = decode_array z f s t"
  by (simp_all add: omit_list_def omit_int_def omit_val_def omit_ptr_def omit_slice_def)

lemma length_decode_array [simp]: "length (decode_array z f c u) = length u"
  by (induction z f c u rule: decode_array.induct) auto

lemma decode_array_nth:
  "i < length u \<Longrightarrow> decode_array z f c u ! i = f (if i < length c then c ! i else z) (u ! i)"
proof (induction z f c u arbitrary: i rule: decode_array.induct)
  case (2 z f u us)
  then show ?case by (cases i) auto
next
  case (3 z f c cs u us)
  then show ?case by (cases i) auto
qed simp

lemma decode_array_map:
  "(\<And>c u. u \<in> set us \<Longrightarrow> g (f c u) = h u) \<Longrightarrow> map g (decode_array z f cs us) = map h us"
  by (induction z f cs us rule: decode_array.induct) auto

lemma decode_array_const [simp]: "decode_array z (\<lambda>_ s. s) c u = u"
  by (rule nth_equalityI) (simp_all add: decode_array_nth)

text \<open>Decoding the same document again changes nothing when that holds for the elements.\<close>

lemma decode_array_idem:
  "(\<And>c u. f (f c u) u = f c u) \<Longrightarrow> decode_array z f (decode_array z f c u) u = decode_array z f c u"
  by (induction z f c u rule: decode_array.induct) auto

lemma omit_slice_idem:
  "(\<And>c u. f (f c u) u = f c u) \<Longrightarrow> omit_slice z f (omit_slice z f c u) u = omit_slice z f c u"
  by (simp add: omit_slice_def decode_array_idem)

lemma omit_ptr_idem:
  "(\<And>c u. f (f c u) u = f c u) \<Longrightarrow> omit_ptr z f (omit_ptr z f c u) u = omit_ptr z f c u"
  by (simp add: omit_ptr_def split: option.splits)

lemma omit_idem [simp]:
  "omit_list (omit_list c u) u = omit_list c u" "omit_int (omit_int i j) j = omit_int i j"
  "omit_bool (omit_bool b d) d = omit_bool b d" "omit_val (omit_val x y) y = omit_val x y"
  by (simp_all add: omit_list_def omit_int_def omit_bool_def omit_val_def split: option.splits)

lemmas idem_rules = omit_slice_idem omit_ptr_idem decode_array_idem

lemma merge_parts_idem:
  "merge_SecretKeySelector (merge_SecretKeySelector sc su) su = merge_SecretKeySelector sc su"
  "merge_VolumeMount (merge_VolumeMount mc mu) mu = merge_VolumeMount mc mu"
  "merge_ContainerPort (merge_ContainerPort pc pu) pu = merge_ContainerPort pc pu"
  "merge_Probe (merge_Probe bc bu) bu = merge_Probe bc bu"
  "merge_ConfigMapVolumeSource (merge_ConfigMapVolumeSource vc vu) vu = merge_ConfigMapVolumeSource vc vu"
  by (simp_all add: merge_SecretKeySelector_def merge_VolumeMount_def merge_ContainerPort_def
      merge_Probe_def merge_ConfigMapVolumeSource_def)

lemma merge_EnvVar_idem: "merge_EnvVar (merge_EnvVar c u) u = merge_EnvVar c u"
  by (simp add: merge_EnvVar_def idem_rules merge_parts_idem)

lemma merge_Volume_idem: "merge_Volume (merge_Volume c u) u = merge_Volume c u"
  by (simp add: merge_Volume_def idem_rules merge_parts_idem)

lemma merge_Container_idem: "merge_Container (merge_Container c u) u = merge_Container c u"
  by (simp add: merge_Container_def idem_rules merge_parts_idem merge_EnvVar_idem)

lemma map_add_twice [simp]: "m ++ n ++ n = m ++ n"
  by (auto simp: fun_eq_iff map_add_def split: option.splits)

lemma merge_idem: "merge (merge c u) u = merge c u"
  by (simp add: merge_def idem_rules merge_Container_idem merge_Volume_idem)

end
