(* ===== verification/Semver.thy ===== *)
theory Semver
  imports Go_Paths
begin

text \<open>
  The interface to \<^verbatim>\<open>github.com/Masterminds/semver/v3\<close>, which the operator calls and the
  repository does not contain. The three entry points are a record that the model's functions
  take as an argument; the locale \<open>semver_lib\<close> states what the library documents about the
  constraint strings that occur in the source. A small parser and comparison
  (\<open>ref_semver\<close>) shows that the documented behaviour is consistent.
\<close>

section \<open>The calls\<close>

text \<open>
  \<open>Check\<close> takes a pointer: a version that failed to parse is passed on as nil
  (\<^const>\<open>None\<close>), and what happens then is up to the library.
\<close>

record ('v, 'c) semver =
  NewVersion :: "string \<Rightarrow> 'v res"
  NewConstraint :: "string \<Rightarrow> 'c res"
  Check :: "'c \<Rightarrow> 'v option \<Rightarrow> bool res"

section \<open>Version numbers\<close>

datatype version = Version (major: nat) (minor: nat) (patch: nat)

text \<open>Precedence of release versions: by major, minor and patch number.\<close>

instantiation version :: linorder
begin

definition less_version :: "version \<Rightarrow> version \<Rightarrow> bool" where
  "less_version a b \<longleftrightarrow> major a < major b \<or> (major a = major b \<and>
     (minor a < minor b \<or> (minor a = minor b \<and> patch a < patch b)))"

definition less_eq_version :: "version \<Rightarrow> version \<Rightarrow> bool" where
  "less_eq_version (a::version) b \<longleftrightarrow> a < b \<or> a = b"

instance
  by standard (auto simp: less_version_def less_eq_version_def version.expand,
      metis linorder_neqE_nat version.expand)

end

lemma Version_less [simp]:
  "Version a b c < Version x y z \<longleftrightarrow> a < x \<or> (a = x \<and> (b < y \<or> (b = y \<and> c < z)))"
  by (simp add: less_version_def)

lemma Version_less_eq [simp]:
  "Version a b c \<le> Version x y z \<longleftrightarrow> a < x \<or> (a = x \<and> (b < y \<or> (b = y \<and> c \<le> z)))"
  by (auto simp: less_eq_version_def)

section \<open>The documented behaviour\<close>

text \<open>
  The constraint strings of the source and the release versions they stand for: a tilde range
  allows patch changes, a caret range below 1.0.0 allows patch changes, a comma is a
  conjunction. A version with a pre-release part matches none of them.
\<close>

definition documented :: "(string \<times> (version \<Rightarrow> bool)) list" where
  "documented =
     [(''~0.11.x'', \<lambda>v. Version 0 11 0 \<le> v \<and> v < Version 0 12 0),
      (''~0.12.x'', \<lambda>v. Version 0 12 0 \<le> v \<and> v < Version 0 13 0),
      (''<= 0.13.4, >= 0.13.0'', \<lambda>v. v \<le> Version 0 13 4 \<and> Version 0 13 0 \<le> v),
      (''^0.13.5'', \<lambda>v. Version 0 13 5 \<le> v \<and> v < Version 0 14 0),
      (''>= 0.11.0'', \<lambda>v. Version 0 11 0 \<le> v)]"

locale semver_lib =
  fixes S :: "('v, 'c) semver"
    and release :: "'v \<Rightarrow> version"
    and prerelease :: "'v \<Rightarrow> bool"
  assumes documented_rules:
    "(rule, P) \<in> set documented \<Longrightarrow> \<exists>c. NewConstraint S rule = Ok c
        \<and> (\<forall>v. Check S c (Some v) = Ok (\<not> prerelease v \<and> P (release v)))"
begin

lemma rule_checks:
  assumes "(rule, P) \<in> set documented" and "NewConstraint S rule = r"
  obtains c where "r = Ok c" "\<And>v. Check S c (Some v) = Ok (\<not> prerelease v \<and> P (release v))"
  using documented_rules [OF assms(1)] assms(2) by auto

end

section \<open>A reference instance\<close>

text \<open>
  Versions \<^verbatim>\<open>major.minor.patch\<close> with an optional pre-release suffix after a dash, and
  constraints as comma-separated comparisons with the operators of the source.
\<close>

datatype semver_value = SemverValue (sv_release: version) (sv_pre: bool)

definition is_digit :: "char \<Rightarrow> bool" where
  "is_digit c \<longleftrightarrow> byte_in 48 c 57"

definition parse_nat :: "string \<Rightarrow> nat option" where
  "parse_nat s =
     (if s \<noteq> [] \<and> list_all is_digit s then Some (foldl (\<lambda>n c. 10 * n + (of_char c - 48)) 0 s)
      else None)"

definition parse_release :: "string \<Rightarrow> version option" where
  "parse_release s =
     (case map parse_nat (Split s CHR ''.'') of
        [Some a, Some b, Some c] \<Rightarrow> Some (Version a b c)
      | _ \<Rightarrow> None)"

definition parse_semver :: "string \<Rightarrow> semver_value option" where
  "parse_semver s =
     (case Split s CHR ''-'' of
        [r] \<Rightarrow> map_option (\<lambda>v. SemverValue v False) (parse_release r)
      | r # _ \<Rightarrow> map_option (\<lambda>v. SemverValue v True) (parse_release r)
      | [] \<Rightarrow> None)"

text \<open>A comparison: an operator and a version, a trailing \<^verbatim>\<open>x\<close> standing for 0.\<close>

definition x_to_zero :: "string \<Rightarrow> string" where
  "x_to_zero s = map (\<lambda>c. if c = CHR ''x'' then CHR ''0'' else c) s"

definition comparison :: "string \<Rightarrow> version \<Rightarrow> version \<Rightarrow> bool option" where
  "comparison op c v =
     (if op = ''~'' then Some (c \<le> v \<and> v < Version (major c) (Suc (minor c)) 0)
      else if op = ''^''
      then Some (c \<le> v \<and> (if major c = 0 then v < Version 0 (Suc (minor c)) 0
                            else v < Version (Suc (major c)) 0 0))
      else if op = ''<='' then Some (v \<le> c)
      else if op = ''>='' then Some (c \<le> v)
      else None)"

definition op_char :: "char \<Rightarrow> bool" where
  "op_char c \<longleftrightarrow> c \<in> set ''~^<>=''"

definition parse_comparison :: "string \<Rightarrow> (string \<times> version) option" where
  "parse_comparison s =
     (let t = TrimSpace s; op = takeWhile op_char t; rest = TrimSpace (dropWhile op_char t)
      in case parse_release (x_to_zero rest) of
           Some c \<Rightarrow> if comparison op c c = None then None else Some (op, c)
         | None \<Rightarrow> None)"

definition parse_constraint :: "string \<Rightarrow> (string \<times> version) list option" where
  "parse_constraint s =
     (let cs = map parse_comparison (Split s CHR '','')
      in if None \<in> set cs then None else Some (map the cs))"

definition ref_semver :: "(semver_value, (string \<times> version) list) semver" where
  "ref_semver =
     \<lparr>NewVersion = (\<lambda>s. case parse_semver s of
                          Some v \<Rightarrow> Ok v | None \<Rightarrow> Err (Ext ''Invalid Semantic Version'')),
      NewConstraint = (\<lambda>s. case parse_constraint s of
                          Some c \<Rightarrow> Ok c | None \<Rightarrow> Err (Ext ''improper constraint'')),
      Check = (\<lambda>c v. case v of
                 None \<Rightarrow> Panic ''invalid memory address or nil pointer dereference''
               | Some v \<Rightarrow> Ok (\<not> sv_pre v
                   \<and> list_all (\<lambda>(op, b). comparison op b (sv_release v) = Some True) c))\<rparr>"

lemmas semver_eval = parse_constraint_def parse_comparison_def parse_release_def parse_nat_def
  TrimSpace_def op_char_def x_to_zero_def comparison_def is_digit_def byte_in_def parse_semver_def

lemma parse_documented:
  "parse_constraint ''~0.11.x'' = Some [(''~'', Version 0 11 0)]"
  "parse_constraint ''~0.12.x'' = Some [(''~'', Version 0 12 0)]"
  "parse_constraint ''<= 0.13.4, >= 0.13.0'' =
     Some [(''<='', Version 0 13 4), (''>='', Version 0 13 0)]"
  "parse_constraint ''^0.13.5'' = Some [(''^'', Version 0 13 5)]"
  "parse_constraint ''>= 0.11.0'' = Some [(''>='', Version 0 11 0)]"
  by (simp_all add: semver_eval)

interpretation ref: semver_lib ref_semver sv_release sv_pre
proof
  fix rule :: string and P :: "version \<Rightarrow> bool"
  assume "(rule, P) \<in> set documented"
  then show "\<exists>c. NewConstraint ref_semver rule = Ok c
      \<and> (\<forall>v. Check ref_semver c (Some v) = Ok (\<not> sv_pre v \<and> P (sv_release v)))"
    by (auto simp: documented_def ref_semver_def parse_documented comparison_def)
qed

end
