(* ===== verification/Version_Flags.thy ===== *)
theory Version_Flags
  imports Semver Conduit_Types
begin

text \<open>
  Model of \<^verbatim>\<open>pkg/conduit/version.go\<close>: the command line of the Conduit server for each
  supported version. Go iterates over the constraint map in an unspecified order, so the order
  is an argument: a list that holds the entries of \<open>version_constraints\<close>.
\<close>

section \<open>Arguments\<close>

record Args =
  a_PipelineFile :: string
  a_ConnectorsPath :: string
  a_DBPath :: string
  a_ProcessorsPath :: string
  a_LogFormat :: string

record Flags =
  f_args :: Args

definition zero_Args :: Args where
  "zero_Args = \<lparr>a_PipelineFile = [], a_ConnectorsPath = [], a_DBPath = [], a_ProcessorsPath = [],
                a_LogFormat = []\<rparr>"

fun apply_options :: "(Args \<Rightarrow> Args) list \<Rightarrow> Args \<Rightarrow> Args" where
  "apply_options [] args = args"
| "apply_options (fn # fns) args = apply_options fns (fn args)"

definition NewFlags :: "(Args \<Rightarrow> Args) list \<Rightarrow> Flags" where
  "NewFlags fns = \<lparr>f_args = apply_options fns zero_Args\<rparr>"

definition WithPipelineFile :: "string \<Rightarrow> Args \<Rightarrow> Args" where
  "WithPipelineFile file a = a\<lparr>a_PipelineFile := file\<rparr>"

definition WithConnectorsPath :: "string \<Rightarrow> Args \<Rightarrow> Args" where
  "WithConnectorsPath path a = a\<lparr>a_ConnectorsPath := path\<rparr>"

definition WithDBPath :: "string \<Rightarrow> Args \<Rightarrow> Args" where
  "WithDBPath path a = a\<lparr>a_DBPath := path\<rparr>"

definition WithProcessorsPath :: "string \<Rightarrow> Args \<Rightarrow> Args" where
  "WithProcessorsPath path a = a\<lparr>a_ProcessorsPath := path\<rparr>"

definition WithLogFormat :: "string \<Rightarrow> Args \<Rightarrow> Args" where
  "WithLogFormat format a = a\<lparr>a_LogFormat := format\<rparr>"

section \<open>Command lines\<close>

definition v011 :: "Flags \<Rightarrow> string list" where
  "v011 f =
     [''-pipelines.path'', a_PipelineFile (f_args f),
      ''-connectors.path'', a_ConnectorsPath (f_args f),
      ''-db.type'', ''sqlite'',
      ''-db.sqlite.path'', a_DBPath (f_args f),
      ''-pipelines.exit-on-error'',
      ''-processors.path'', a_ProcessorsPath (f_args f),
      ''-log.format'', a_LogFormat (f_args f)]"

definition v012 :: "Flags \<Rightarrow> string list" where
  "v012 f =
     [''--pipelines.path'', a_PipelineFile (f_args f),
      ''--connectors.path'', a_ConnectorsPath (f_args f),
      ''--db.type'', ''sqlite'',
      ''--db.sqlite.path'', a_DBPath (f_args f),
      ''--pipelines.exit-on-degraded'',
      ''--pipelines.error-recovery.max-retries'', ''0'',
      ''--processors.path'', a_ProcessorsPath (f_args f),
      ''--log.format'', a_LogFormat (f_args f)]"

definition v013upto4 :: "Flags \<Rightarrow> string list" where
  "v013upto4 f =
     [''run'',
      ''--pipelines.path'', a_PipelineFile (f_args f),
      ''--connectors.path'', a_ConnectorsPath (f_args f),
      ''--db.type'', ''sqlite'',
      ''--db.sqlite.path'', a_DBPath (f_args f),
      ''--pipelines.exit-on-degraded'',
      ''--pipelines.error-recovery.max-retries'', ''0'',
      ''--processors.path'', a_ProcessorsPath (f_args f),
      ''--log.format'', a_LogFormat (f_args f)]"

definition v0134plus :: "Flags \<Rightarrow> string list" where
  "v0134plus f =
     [''run'',
      ''--pipelines.path'', path_Dir (a_PipelineFile (f_args f)),
      ''--connectors.path'', a_ConnectorsPath (f_args f),
      ''--db.type'', ''sqlite'',
      ''--db.sqlite.path'', a_DBPath (f_args f),
      ''--pipelines.exit-on-degraded'',
      ''--pipelines.error-recovery.max-retries'', ''0'',
      ''--processors.path'', a_ProcessorsPath (f_args f),
      ''--log.format'', a_LogFormat (f_args f)]"

definition version_constraints :: "(string \<times> string) list" where
  "version_constraints =
     [(''v011'', ''~0.11.x''), (''v012'', ''~0.12.x''),
      (''v013.4'', ''<= 0.13.4, >= 0.13.0''), (''v013.5+'', ''^0.13.5'')]"

text \<open>
  The loop over the constraints. The inner \<^verbatim>\<open>switch\<close> has no default: a key it does not
  know lets the loop go on.
\<close>

fun ForVersion_loop ::
  "('v, 'c) semver \<Rightarrow> Flags \<Rightarrow> string \<Rightarrow> 'v option \<Rightarrow> (string \<times> string) list \<Rightarrow> string list res" where
  "ForVersion_loop S f ver v [] = Err (Errorf ''version %s not supported'' [ver])"
| "ForVersion_loop S f ver v ((key, rule) # rest) =
     bind_res (wrap_err ''parse error occured while creating constraint: %w'' [] (NewConstraint S rule))
       (\<lambda>c. bind_res (Check S c v)
         (\<lambda>ok. if ok \<and> key = ''v011'' then Ok (v011 f)
               else if ok \<and> key = ''v012'' then Ok (v012 f)
               else if ok \<and> key = ''v013.4'' then Ok (v013upto4 f)
               else if ok \<and> key = ''v013.5+'' then Ok (v0134plus f)
               else ForVersion_loop S f ver v rest))"

text \<open>The error of \<^verbatim>\<open>semver.NewVersion\<close> is discarded; the version is nil then.\<close>

definition ForVersion ::
  "('v, 'c) semver \<Rightarrow> (string \<times> string) list \<Rightarrow> Flags \<Rightarrow> string \<Rightarrow> string list res" where
  "ForVersion S constraints f ver =
     (let sanitized = fst (CutPrefix ver ''v'')
      in case NewVersion S sanitized of
           Ok v \<Rightarrow> ForVersion_loop S f ver (Some v) constraints
         | Err e \<Rightarrow> ForVersion_loop S f ver None constraints
         | Panic p \<Rightarrow> Panic p)"

section \<open>The result as a function of the version\<close>

text \<open>The reference: which command line a release version gets.\<close>

definition flags_of :: "Flags \<Rightarrow> version \<Rightarrow> string list option" where
  "flags_of f v =
     (if major v \<noteq> 0 then None
      else if minor v = 11 then Some (v011 f)
      else if minor v = 12 then Some (v012 f)
      else if minor v = 13 then Some (if patch v \<le> 4 then v013upto4 f else v0134plus f)
      else None)"

definition key_range :: "string \<Rightarrow> version \<Rightarrow> bool" where
  "key_range key v \<longleftrightarrow> (case map_of version_constraints key of
      None \<Rightarrow> False | Some rule \<Rightarrow> (case map_of documented rule of None \<Rightarrow> False | Some P \<Rightarrow> P v))"

definition key_flags :: "Flags \<Rightarrow> string \<Rightarrow> string list" where
  "key_flags f key =
     (if key = ''v011'' then v011 f else if key = ''v012'' then v012 f
      else if key = ''v013.4'' then v013upto4 f else v0134plus f)"

lemma key_range_simps:
  "key_range ''v011'' v \<longleftrightarrow> major v = 0 \<and> minor v = 11"
  "key_range ''v012'' v \<longleftrightarrow> major v = 0 \<and> minor v = 12"
  "key_range ''v013.4'' v \<longleftrightarrow> major v = 0 \<and> minor v = 13 \<and> patch v \<le> 4"
  "key_range ''v013.5+'' v \<longleftrightarrow> major v = 0 \<and> minor v = 13 \<and> 5 \<le> patch v"
  by (cases v; auto simp: key_range_def version_constraints_def documented_def)+

lemma flags_of_key:
  assumes "(key, rule) \<in> set version_constraints" and "key_range key v"
  shows "flags_of f v = Some (key_flags f key)"
  using assms by (auto simp: version_constraints_def key_range_simps flags_of_def key_flags_def)

lemma flags_of_None:
  assumes "\<And>key rule. (key, rule) \<in> set version_constraints \<Longrightarrow> \<not> key_range key v"
  shows "flags_of f v = None"
  using assms [of "''v011''" "''~0.11.x''"] assms [of "''v012''" "''~0.12.x''"]
    assms [of "''v013.4''" "''<= 0.13.4, >= 0.13.0''"] assms [of "''v013.5+''" "''^0.13.5''"]
  by (auto simp: version_constraints_def key_range_simps flags_of_def)

lemma version_rule_documented:
  assumes "(key, rule) \<in> set version_constraints"
  obtains P where "(rule, P) \<in> set documented" "key_range key = P"
proof -
  have key: "map_of version_constraints key = Some rule"
    using assms by (auto simp: version_constraints_def)
  have "map_of documented rule \<noteq> None"
    using assms by (auto simp: version_constraints_def documented_def)
  then obtain P where P: "map_of documented rule = Some P" by blast
  then have "(rule, P) \<in> set documented" by (rule map_of_SomeD)
  moreover have "key_range key = P" by (simp add: fun_eq_iff key_range_def key P)
  ultimately show thesis by (rule that)
qed

context semver_lib
begin

lemma ForVersion_step:
  assumes "(key, rule) \<in> set version_constraints"
  shows "ForVersion_loop S f ver (Some v) ((key, rule) # rest) =
    (if \<not> prerelease v \<and> key_range key (release v) then Ok (key_flags f key)
     else ForVersion_loop S f ver (Some v) rest)"
proof -
  obtain P where P: "(rule, P) \<in> set documented" "key_range key = P"
    by (rule version_rule_documented [OF assms])
  obtain c where c: "NewConstraint S rule = Ok c"
    "\<And>v. Check S c (Some v) = Ok (\<not> prerelease v \<and> P (release v))"
    using documented_rules [OF P(1)] by blast
  show ?thesis
    using assms by (auto simp: c P(2) version_constraints_def key_flags_def)
qed

lemma ForVersion_loop_result:
  assumes "set constraints \<subseteq> set version_constraints"
  shows "ForVersion_loop S f ver (Some v) constraints =
    (if \<not> prerelease v \<and> (\<exists>(key, rule) \<in> set constraints. key_range key (release v))
     then Ok (the (flags_of f (release v)))
     else Err (Errorf ''version %s not supported'' [ver]))"
  using assms
proof (induction constraints)
  case Nil
  then show ?case by simp
next
  case (Cons kr rest)
  obtain key rule where kr: "kr = (key, rule)" by (cases kr)
  with Cons.prems have mem: "(key, rule) \<in> set version_constraints" by simp
  with Cons show ?case
    by (auto simp: kr ForVersion_step [OF mem] flags_of_key simp del: ForVersion_loop.simps)
qed

lemma ForVersion_total:
  assumes "set constraints = set version_constraints" and "NewVersion S (TrimPrefix ver ''v'') = Ok v"
  shows "ForVersion S constraints f ver =
    (case (if prerelease v then None else flags_of f (release v)) of
       Some args \<Rightarrow> Ok args
     | None \<Rightarrow> Err (Errorf ''version %s not supported'' [ver]))"
proof (cases "\<exists>(key, rule) \<in> set version_constraints. key_range key (release v)")
  case True
  then obtain key rule where "(key, rule) \<in> set version_constraints" "key_range key (release v)"
    by auto
  from flags_of_key [OF this] True show ?thesis
    by (simp add: ForVersion_def assms ForVersion_loop_result)
next
  case False
  then have "flags_of f (release v) = None" by (intro flags_of_None) auto
  with False show ?thesis
    by (simp add: ForVersion_def assms ForVersion_loop_result)
qed

text \<open>A version that does not parse is handed on as nil, whatever constraint comes first.\<close>

lemma ForVersion_nil:
  assumes "set constraints = set version_constraints" and "NewVersion S (TrimPrefix ver ''v'') = Err e"
    and "\<And>c. Check S c None = Panic p"
  shows "ForVersion S constraints f ver = Panic p"
proof -
  obtain key rule rest where order: "constraints = (key, rule) # rest"
    using assms(1) by (cases constraints) (auto simp: version_constraints_def)
  then have "(key, rule) \<in> set version_constraints" using assms(1) by auto
  then obtain P where "(rule, P) \<in> set documented" by (rule version_rule_documented)
  from documented_rules [OF this] show ?thesis
    by (auto simp: ForVersion_def order assms(2,3))
qed

end

section \<open>Properties\<close>

text \<open>
  C6: for every iteration order of the constraint map, the command line is the same function of
  the parsed version: 0.11, 0.12, 0.13 up to patch 4 and 0.13 from patch 5 have their own, and
  every other version, and every pre-release, is the error that names it.
\<close>

theorem ForVersion_deterministic:
  assumes "semver_lib S release prerelease"
    and "set order = set version_constraints"
    and "NewVersion S (TrimPrefix ver ''v'') = Ok v"
  shows "ForVersion S order f ver =
    (case (if prerelease v then None else flags_of f (release v)) of
       Some args \<Rightarrow> Ok args
     | None \<Rightarrow> Err (Errorf ''version %s not supported'' [ver]))"
  by (rule semver_lib.ForVersion_total [OF assms])

theorem ForVersion_deterministic_witness:
  "ForVersion ref_semver (rev version_constraints) (NewFlags [WithDBPath ''db'']) ''v0.13.6'' =
     Ok (v0134plus (NewFlags [WithDBPath ''db'']))"
proof -
  have v: "NewVersion ref_semver (TrimPrefix ''v0.13.6'' ''v'') = Ok (SemverValue (Version 0 13 6) False)"
    by (simp add: ref_semver_def semver_eval TrimPrefix_def)
  show ?thesis
    using ForVersion_deterministic [OF ref.semver_lib_axioms _ v, of "rev version_constraints"]
    by (simp add: flags_of_def)
qed

end
