(* ===== verification/Containers.thy ===== *)
theory Containers
  imports Kube_Types Version_Flags
begin

text \<open>
  Model of \<^verbatim>\<open>internal/controller/conduit_containers.go\<close> and
  \<^verbatim>\<open>internal/controller/conduit_volumes.go\<close>: the init containers that build connectors and
  download processors, the container of the Conduit server, and the volumes. The Go interface
  \<^verbatim>\<open>Buildable\<close> is the pair of functions \<open>steps\<close> and \<open>key\<close>; the command builder is
  generic in it, so its operations take the one they call as an argument.
\<close>

section \<open>Builds\<close>

abbreviation (input) "builderTempPath \<equiv> ''/tmp/connectors''"

record connectorBuild =
  cb_name :: string
  cb_goPkg :: string
  cb_tmpDir :: string
  cb_targetDir :: string
  cb_ldflags :: string

definition connectorBuild_steps :: "connectorBuild \<Rightarrow> string list" where
  "connectorBuild_steps cb =
     [''mkdir -p '' @ cb_tmpDir cb @ '' '' @ cb_targetDir cb,
      ''env CGO_ENABLED=0 GOBIN='' @ path_Join [cb_tmpDir cb, cb_name cb] @ '' ''
        @ ''go install '' @ cb_ldflags cb @ '' '' @ cb_goPkg cb,
      ''install -D '' @ path_Join [cb_tmpDir cb, cb_name cb, ''connector''] @ '' ''
        @ path_Join [cb_targetDir cb, cb_name cb]]"

definition connectorBuild_key :: "connectorBuild \<Rightarrow> string" where
  "connectorBuild_key cb = cb_goPkg cb"

record processorBuild =
  pb_targetDir :: string
  pb_procURL :: string
  pb_name :: string

definition processorBuild_steps :: "processorBuild \<Rightarrow> string list" where
  "processorBuild_steps pb =
     [sprintf ''wget -O %s/%s %s'' [pb_targetDir pb, path_Base (pb_procURL pb), pb_procURL pb]]"

definition processorBuild_key :: "processorBuild \<Rightarrow> string" where
  "processorBuild_key pb = pb_name pb"

section \<open>The command builder\<close>

record 'b commandBuilder =
  b_done :: "(string \<rightharpoonup> bool) option"
  b_builds :: "'b list"

definition new_builder :: "'b commandBuilder" where
  "new_builder = \<lparr>b_done = None, b_builds = []\<rparr>"

fun collect_steps :: "('b \<Rightarrow> string list) \<Rightarrow> 'b list \<Rightarrow> string list \<Rightarrow> string list" where
  "collect_steps steps [] final = final"
| "collect_steps steps (build # builds) final = collect_steps steps builds (final @ steps build)"

definition renderScript :: "('b \<Rightarrow> string list) \<Rightarrow> 'b commandBuilder \<Rightarrow> string" where
  "renderScript steps c = Join (collect_steps steps (b_builds c) []) '' && ''"

definition builder_empty :: "'b commandBuilder \<Rightarrow> bool" where
  "builder_empty c \<longleftrightarrow> length (b_builds c) = 0"

definition addBuild :: "('b \<Rightarrow> string) \<Rightarrow> 'b commandBuilder \<Rightarrow> 'b \<Rightarrow> 'b commandBuilder" where
  "addBuild key c b =
     (let done = (case b_done c of None \<Rightarrow> Map.empty | Some m \<Rightarrow> m);
          c = c\<lparr>b_done := Some done\<rparr>;
          k = key b
      in if done k \<noteq> None then c
         else c\<lparr>b_builds := b_builds c @ [b], b_done := Some (done(k \<mapsto> True))\<rparr>)"

section \<open>Init containers\<close>

definition storage_mount :: VolumeMount where
  "storage_mount = \<lparr>vm_Name = ConduitStorageVolumeMount, vm_MountPath = ConduitVolumePath,
                    vm_ReadOnly = False\<rparr>"

definition init_container :: "string \<Rightarrow> string list \<Rightarrow> Container" where
  "init_container name args =
     zero_Container\<lparr>k_Name := name, k_Image := ConduitInitImage, k_ImagePullPolicy := ''IfNotPresent'',
       k_Args := args, k_VolumeMounts := [storage_mount]\<rparr>"

definition connector_build_of :: "ConduitConnector \<Rightarrow> connectorBuild" where
  "connector_build_of c =
     \<lparr>cb_name = sprintf ''%s-%s'' [path_Base (cn_Plugin c), cn_PluginVersion c],
      cb_goPkg = cn_PluginPkg c,
      cb_tmpDir = builderTempPath,
      cb_targetDir = ConduitConnectorsPath,
      cb_ldflags = ''-ldflags '' @ [CHR 0x22] @ ''-X '' @ [CHR 0x27] @ ''github.com/'' @ cn_Plugin c
        @ ''.version='' @ cn_PluginVersion c @ [CHR 0x27, CHR 0x22]\<rparr>"

text \<open>The loop over the connectors, with the builder and \<open>allProcessors\<close>.\<close>

fun connector_loop ::
  "ConduitConnector list \<Rightarrow> connectorBuild commandBuilder \<Rightarrow> ConduitProcessor list
     \<Rightarrow> connectorBuild commandBuilder \<times> ConduitProcessor list" where
  "connector_loop [] builder allProcessors = (builder, allProcessors)"
| "connector_loop (c # cc) builder allProcessors =
     connector_loop cc
       (if \<not> HasPrefix (cn_Plugin c) ''builtin''
        then addBuild connectorBuild_key builder (connector_build_of c) else builder)
       (if length (cn_Processors c) > 0 then allProcessors @ cn_Processors c else allProcessors)"

fun processor_loop ::
  "ConduitProcessor list \<Rightarrow> processorBuild commandBuilder \<Rightarrow> processorBuild commandBuilder" where
  "processor_loop [] pBuilder = pBuilder"
| "processor_loop (p # ps) pBuilder =
     processor_loop ps
       (if \<not> HasPrefix (pr_Plugin p) ''builtin'' \<and> pr_ProcessorURL p \<noteq> []
        then addBuild processorBuild_key pBuilder
               \<lparr>pb_targetDir = ConduitProcessorsPath, pb_procURL = pr_ProcessorURL p,
                pb_name = pr_Plugin p\<rparr>
        else pBuilder)"

definition ConduitInitContainers ::
  "ConduitConnector list \<Rightarrow> ConduitProcessor list \<Rightarrow> Container list" where
  "ConduitInitContainers cc cp =
     (let containers = [init_container ConduitInitContainerName
            [''sh'', ''-xe'', ''-c'',
             sprintf ''mkdir -p %s %s'' [ConduitProcessorsPath, ConduitConnectorsPath]]];
          (builder, allProcessors) = connector_loop cc new_builder cp;
          pBuilder = processor_loop allProcessors new_builder;
          containers =
            (if \<not> builder_empty builder
             then containers @ [init_container (ConduitInitContainerName @ ''-connectors'')
                    [''sh'', ''-xe'', ''-c'', renderScript connectorBuild_steps builder]]
             else containers)
      in if \<not> builder_empty pBuilder
         then containers @ [init_container (ConduitInitContainerName @ ''-processors'')
                [''sh'', ''-xe'', ''-c'', renderScript processorBuild_steps pBuilder]]
         else containers)"

section \<open>The server container\<close>

definition ConduitRuntimeContainer ::
  "('v, 'c) semver \<Rightarrow> (string \<times> string) list \<Rightarrow> string \<Rightarrow> string \<Rightarrow> EnvVar list \<Rightarrow> Flags
     \<Rightarrow> Container res" where
  "ConduitRuntimeContainer S order img version envVars flags =
     bind_res (ForVersion S order flags version)
       (\<lambda>args. Ok
         \<lparr>k_Name = ConduitContainerName,
          k_Image = img @ '':'' @ version,
          k_ImagePullPolicy = ''Always'',
          k_Command = [''/app/conduit''],
          k_Args = args,
          k_Ports =
            [\<lparr>cp_Name = ''http'', cp_ContainerPort = 8080, cp_Protocol = ''TCP''\<rparr>,
             \<lparr>cp_Name = ''grpc'', cp_ContainerPort = 8084, cp_Protocol = ''TCP''\<rparr>],
          k_ReadinessProbe = Some
            \<lparr>pb_Path = ''/healthz'', pb_Scheme = ''HTTP'', pb_Port = ''http'',
             pb_InitialDelaySeconds = 5, pb_TimeoutSeconds = 1, pb_PeriodSeconds = 10,
             pb_SuccessThreshold = 1, pb_FailureThreshold = 3\<rparr>,
          k_VolumeMounts =
            [storage_mount,
             \<lparr>vm_Name = ConduitPipelineVolumeMount, vm_MountPath = ConduitPipelinePath,
              vm_ReadOnly = True\<rparr>],
          k_Env = envVars\<rparr>)"

section \<open>Volumes\<close>

definition ConduitVolumeClaim :: "NamespacedName \<Rightarrow> string \<Rightarrow> PersistentVolumeClaim" where
  "ConduitVolumeClaim nn sz =
     \<lparr>pvc_Meta = new_meta (nn_Name nn) (nn_Namespace nn), pvc_AccessModes = [''ReadWriteOnce''],
      pvc_Storage = sz, pvc_Phase = []\<rparr>"

definition ConduitVolume :: "string \<Rightarrow> Volume" where
  "ConduitVolume claimName =
     \<lparr>vo_Name = ConduitStorageVolumeMount, vo_PersistentVolumeClaim = Some claimName,
      vo_ConfigMap = None\<rparr>"

text \<open>The file mode is octal 440, readable for user and group.\<close>

definition ConduitPipelineVol :: "string \<Rightarrow> Volume" where
  "ConduitPipelineVol refName =
     \<lparr>vo_Name = ConduitPipelineVolumeMount,
      vo_PersistentVolumeClaim = None,
      vo_ConfigMap = Some \<lparr>cv_Name = refName, cv_DefaultMode = Some (4 * 64 + 4 * 8 + 0)\<rparr>\<rparr>"

section \<open>What the builder computes\<close>

text \<open>The reference: the first element for each key, in order.\<close>

fun first_by :: "('b \<Rightarrow> 'k) \<Rightarrow> 'b list \<Rightarrow> 'b list" where
  "first_by k [] = []"
| "first_by k (x # xs) = x # filter (\<lambda>y. k y \<noteq> k x) (first_by k xs)"

lemma key_set_first_by: "k ` set (first_by k xs) = k ` set xs"
  by (induction xs) (auto simp: image_iff, metis image_iff)

lemma distinct_first_by: "distinct (map k (first_by k xs))"
  by (induction xs) (auto simp: distinct_map inj_on_def)

lemma first_by_eq_Nil [simp]: "first_by k xs = [] \<longleftrightarrow> xs = []"
  by (cases xs) auto

lemma first_by_snoc:
  "first_by k (xs @ [x]) = first_by k xs @ (if k x \<in> k ` set xs then [] else [x])"
  by (induction xs) auto

lemma first_by_distinct: "distinct (map k xs) \<Longrightarrow> first_by k xs = xs"
proof (induction xs)
  case (Cons x xs)
  then have "filter (\<lambda>y. k y \<noteq> k x) xs = xs" by (auto simp: filter_id_conv image_iff)
  with Cons show ?case by simp
qed simp

lemma collect_steps_concat: "collect_steps steps bs final = final @ concat (map steps bs)"
  by (induction bs arbitrary: final) auto

text \<open>The generic part: facts for any implementation of \<^verbatim>\<open>Buildable\<close>.\<close>

locale buildable =
  fixes steps :: "'b \<Rightarrow> string list" and key :: "'b \<Rightarrow> string"
begin

lemma addBuild_first_by:
  "let c = foldl (addBuild key) new_builder bs
   in b_builds c = first_by key bs
      \<and> (case b_done c of None \<Rightarrow> bs = [] | Some m \<Rightarrow> dom m = key ` set bs)"
proof (induction bs rule: rev_induct)
  case Nil
  then show ?case by (simp add: new_builder_def)
next
  case (snoc b bs)
  then show ?case
    by (auto simp: Let_def addBuild_def first_by_snoc dom_def split: option.splits)
qed

lemma builds_first_by: "b_builds (foldl (addBuild key) new_builder bs) = first_by key bs"
  using addBuild_first_by by (simp add: Let_def)

lemma script_first_by:
  "renderScript steps (foldl (addBuild key) new_builder bs) =
     Join (concat (map steps (first_by key bs))) '' && ''"
  by (simp add: renderScript_def collect_steps_concat builds_first_by)

lemma empty_iff: "builder_empty (foldl (addBuild key) new_builder bs) \<longleftrightarrow> bs = []"
  by (simp add: builder_empty_def builds_first_by)

end

interpretation connector_builds: buildable connectorBuild_steps connectorBuild_key .

interpretation processor_builds: buildable processorBuild_steps processorBuild_key .

definition standalone_connectors :: "ConduitConnector list \<Rightarrow> ConduitConnector list" where
  "standalone_connectors cc = filter (\<lambda>c. \<not> HasPrefix (cn_Plugin c) ''builtin'') cc"

definition standalone_processors :: "ConduitProcessor list \<Rightarrow> ConduitProcessor list" where
  "standalone_processors ps =
     filter (\<lambda>p. \<not> HasPrefix (pr_Plugin p) ''builtin'' \<and> pr_ProcessorURL p \<noteq> []) ps"

definition processor_build_of :: "ConduitProcessor \<Rightarrow> processorBuild" where
  "processor_build_of p =
     \<lparr>pb_targetDir = ConduitProcessorsPath, pb_procURL = pr_ProcessorURL p, pb_name = pr_Plugin p\<rparr>"

lemma connector_loop_foldl:
  "connector_loop cc builder ps =
     (foldl (addBuild connectorBuild_key) builder (map connector_build_of (standalone_connectors cc)),
      ps @ concat (map cn_Processors cc))"
  by (induction cc arbitrary: builder ps) (auto simp: standalone_connectors_def)

lemma processor_loop_foldl:
  "processor_loop ps builder =
     foldl (addBuild processorBuild_key) builder (map processor_build_of (standalone_processors ps))"
  by (induction ps arbitrary: builder) (auto simp: standalone_processors_def processor_build_of_def)

section \<open>Properties\<close>

text \<open>
  C21: the init containers. The first one makes the directories. A second one follows exactly when
  some connector is not built in; its script runs the build steps of each distinct package once, in
  the order of the connectors. A last one follows exactly when a processor of the pipeline or of a
  connector is not built in and has a URL; it downloads each distinct plugin once, those of the
  pipeline first.
\<close>

theorem ConduitInitContainers_eq:
  "ConduitInitContainers cc cp =
     (let cs = map connector_build_of (standalone_connectors cc);
          ps = map processor_build_of (standalone_processors (cp @ concat (map cn_Processors cc)))
      in [init_container ''conduit-init'' [''sh'', ''-xe'', ''-c'',
            ''mkdir -p /conduit.storage/processors /conduit.storage/connectors'']]
         @ (if cs = [] then [] else [init_container ''conduit-init-connectors'' [''sh'', ''-xe'', ''-c'',
              Join (concat (map connectorBuild_steps (first_by cb_goPkg cs))) '' && '']])
         @ (if ps = [] then [] else [init_container ''conduit-init-processors'' [''sh'', ''-xe'', ''-c'',
              Join (concat (map processorBuild_steps (first_by pb_name ps))) '' && '']]))"
proof -
  have "connectorBuild_key = cb_goPkg" "processorBuild_key = pb_name"
    by (simp_all add: fun_eq_iff connectorBuild_key_def processorBuild_key_def)
  then show ?thesis
    using connector_builds.script_first_by connector_builds.empty_iff
      processor_builds.script_first_by processor_builds.empty_iff
    by (simp add: ConduitInitContainers_def Let_def connector_loop_foldl processor_loop_foldl)
qed


text \<open>A standalone connector as the defaulter leaves it.\<close>

definition demo_connector :: ConduitConnector where
  "demo_connector = \<lparr>cn_ID = ''c1'', cn_Name = ''c1'', cn_Type = ''source'',
     cn_Plugin = ''conduitio/conduit-connector-http'', cn_PluginName = ''standalone:http'',
     cn_PluginPkg = ''github.com/conduitio/conduit-connector-http/cmd/connector@v0.1.0'',
     cn_PluginVersion = ''v0.1.0'', cn_Settings = [], cn_Processors = []\<rparr>"


end
