(* ===== verification/Reconciler.thy ===== *)
theory Reconciler
  imports Kube_Client Json_Merge Containers
begin

text \<open>
  Model of \<^verbatim>\<open>internal/controller/conduit_controller.go\<close>: the reconciler, one definition per
  handler and one per mutate closure. The closures are functions on the object that
  \<^verbatim>\<open>CreateOrUpdate\<close> passes them and on the shared local state. Log output is left out.
\<close>

section \<open>The reconciler and its environment\<close>

text \<open>
  \<open>re_keys\<close> gives the keys of a secret's data, and \<open>re_constraints\<close> the version constraints,
  in the iteration order of the Go map; \<open>re_clk n\<close> is the \<open>n\<close>-th reading of the clock.
\<close>

record ('w, 'u, 'v, 'c) rec_env =
  re_client :: "'w client"
  re_unicode :: unicode
  re_clk :: "nat \<Rightarrow> time"
  re_showTime :: "time \<Rightarrow> string"
  re_marshal :: "y_Configuration \<Rightarrow> string res"
  re_url :: "'u url_pkg"
  re_semver :: "('v, 'c) semver"
  re_constraints :: "(string \<times> string) list"
  re_keys :: "Secret \<Rightarrow> string list"

record ConduitReconciler =
  r_meta :: ConduitInstanceMetadata
  r_flags :: Flags

definition NewConduitReconciler :: "ConduitInstanceMetadata \<Rightarrow> ConduitReconciler" where
  "NewConduitReconciler meta =
     \<lparr>r_meta = meta,
      r_flags = NewFlags
        [WithPipelineFile ConduitPipelineFile,
         WithConnectorsPath ConduitConnectorsPath,
         WithDBPath ConduitDBPath,
         WithProcessorsPath ConduitProcessorsPath,
         WithLogFormat (im_LogFormat meta)]\<rparr>"

definition nn_String :: "NamespacedName \<Rightarrow> string" where
  "nn_String nn = nn_Namespace nn @ ''/'' @ nn_Name nn"

section \<open>Effects on the shared local state\<close>

definition Eventf :: "string \<Rightarrow> string \<Rightarrow> string \<Rightarrow> string list \<Rightarrow> (loc, unit) io" where
  "Eventf eventtype reason messageFmt args = modify_io (\<lambda>l. l\<lparr>lc_events := lc_events l @
     [\<lparr>e_Type = eventtype, e_Reason = reason, e_Format = messageFmt, e_Args = args\<rparr>]\<rparr>)"

definition c_SetCondition ::
  "('w, 'u, 'v, 'c) rec_env \<Rightarrow> ConditionType \<Rightarrow> ConditionStatus \<Rightarrow> string \<Rightarrow> string \<Rightarrow> (loc, unit) io" where
  "c_SetCondition E ct status reason message = modify_io (\<lambda>l. l
     \<lparr>lc_conduit := (lc_conduit l)\<lparr>c_Status :=
        Status_SetCondition (re_clk E) (lc_tick l) (c_Status (lc_conduit l)) ct status reason message\<rparr>,
      lc_tick := lc_tick l + 2\<rparr>)"

definition own :: "('w, 'u, 'v, 'c) rec_env \<Rightarrow> ObjectMeta \<Rightarrow> (loc, ObjectMeta) io" where
  "own E m = (\<lambda>l. (SetControllerReference (re_client E) (lc_conduit l) m, l))"

definition get_c :: "('w rt, Conduit) io" where
  "get_c = gets_io (\<lambda>(w, l). lc_conduit l)"

definition get_R :: "('w, 'u, 'v, 'c) rec_env \<Rightarrow> ('w rt, reader) io" where
  "get_R E = gets_io (\<lambda>(w, l). cl_reader (re_client E) w)"

text \<open>
  How every handler ends: the call of \<^verbatim>\<open>CreateOrUpdate\<close>, the warning and the False condition
  when it fails, and the event for an update or a creation.
\<close>

definition child_tail ::
  "('w, 'u, 'v, 'c) rec_env \<Rightarrow> ('w rt, OperationResult) io \<Rightarrow> NamespacedName \<Rightarrow> string
     \<Rightarrow> ConditionType \<Rightarrow> string \<Rightarrow> string \<times> string list \<Rightarrow> string \<times> string list \<Rightarrow> ('w rt, unit) io" where
  "child_tail E call nn failedFmt ct errReason updated created =
     err_io call
       (\<lambda>err.
          bind_io (local_io (Eventf ''Warning'' ErroredReason failedFmt [nn_String nn, Error err])) (\<lambda>_.
          bind_io (local_io (c_SetCondition E ct ConditionFalse errReason (Error err))) (\<lambda>_.
          lift_res (Err err))))
       (\<lambda>op. case op of
            OperationResultUpdated \<Rightarrow> local_io (Eventf ''Normal'' UpdatedReason (fst updated) (snd updated))
          | OperationResultCreated \<Rightarrow> local_io (Eventf ''Normal'' CreatedReason (fst created) (snd created))
          | OperationResultNone \<Rightarrow> ret_io ())"

section \<open>Config map and secret\<close>

definition cmFn :: "('w, 'u, 'v, 'c) rec_env \<Rightarrow> string \<Rightarrow> ConfigMap \<Rightarrow> (loc, ConfigMap) io" where
  "cmFn E y cm =
     (let cm = cm\<lparr>cm_Data := [''pipeline.yaml'' \<mapsto> y]\<rparr> in
      bind_io (c_SetCondition E ConditionConduitConfigReady ConditionTrue ''ConfigReady''
                 ''Pipeline configuration created'') (\<lambda>_.
      bind_io (own E (cm_Meta cm)) (\<lambda>m. ret_io (cm\<lparr>cm_Meta := m\<rparr>))))"

definition CreateOrUpdateConfig :: "('w, 'u, 'v, 'c) rec_env \<Rightarrow> ('w rt, unit) io" where
  "CreateOrUpdateConfig E =
     bind_io get_c (\<lambda>c. bind_io (get_R E) (\<lambda>R.
       let nn = NamespacedName_of c;
           cm = \<lparr>cm_Meta = new_meta (nn_Name nn) (nn_Namespace nn), cm_Data = Map.empty\<rparr>
       in bind_io (lift_res (PipelineConfigYAML (re_unicode E) R (re_marshal E) c)) (\<lambda>y.
          child_tail E (cou_ConfigMap (re_client E) cm (cmFn E y)) nn
            ''Failed to reconcile config %q: %s'' ConditionConduitConfigReady ''ConfigError''
            (''Conduit config %q updated'', [nn_String nn])
            (''Conduit config %q created'', [nn_String nn]))))"

definition secretFn ::
  "('w, 'u, 'v, 'c) rec_env \<Rightarrow> (string \<rightharpoonup> string) \<Rightarrow> Secret \<Rightarrow> (loc, Secret) io" where
  "secretFn E secretData secret =
     (let secret = secret\<lparr>se_Data := secretData\<rparr> in
      bind_io (c_SetCondition E ConditionConduitSecretReady ConditionTrue ''SecretReady''
                 ''Conduit secret created'') (\<lambda>_.
      bind_io (own E (se_Meta secret)) (\<lambda>m. ret_io (secret\<lparr>se_Meta := m\<rparr>))))"

definition CreateOrUpdateSecret :: "('w, 'u, 'v, 'c) rec_env \<Rightarrow> ('w rt, unit) io" where
  "CreateOrUpdateSecret E =
     bind_io get_c (\<lambda>c. bind_io (get_R E) (\<lambda>R.
       let nn = NamespacedName_of c;
           secret = \<lparr>se_Meta = new_meta (nn_Name nn) (nn_Namespace nn), se_Data = Map.empty\<rparr>
       in bind_io (lift_res (SchemaRegistryConfig (re_url E) R c)) (\<lambda>secretData.
          child_tail E (cou_Secret (re_client E) secret (secretFn E secretData)) nn
            ''Failed to reconcile config %q: %s'' ConditionConduitSecretReady ''ConduitSecretError''
            (''Conduit secret %q updated'', [nn_String nn])
            (''Conduit secret %q created'', [nn_String nn]))))"

section \<open>Volume claim\<close>

definition pvcFn ::
  "('w, 'u, 'v, 'c) rec_env \<Rightarrow> NamespacedName \<Rightarrow> PersistentVolumeClaim \<Rightarrow> (loc, PersistentVolumeClaim) io" where
  "pvcFn E nn pvc =
     bind_io
       (if pvc_Phase pvc = ''Bound''
        then bind_io (gets_io lc_conduit) (\<lambda>c.
             bind_io (if ConditionChanged (c_Status c) ConditionConduitVolumeReady ConditionTrue
                      then Eventf ''Normal'' VolBoundReason ''Conduit db volume %q bound'' [nn_String nn]
                      else ret_io ()) (\<lambda>_.
             c_SetCondition E ConditionConduitVolumeReady ConditionTrue ''VolumeReady'' (pvc_Phase pvc)))
        else c_SetCondition E ConditionConduitVolumeReady ConditionFalse ''VolumeReady'' (pvc_Phase pvc))
       (\<lambda>_. bind_io (own E (pvc_Meta pvc)) (\<lambda>m. ret_io (pvc\<lparr>pvc_Meta := m\<rparr>)))"

definition CreateOrUpdateVolume :: "('w, 'u, 'v, 'c) rec_env \<Rightarrow> ('w rt, unit) io" where
  "CreateOrUpdateVolume E =
     bind_io get_c (\<lambda>c.
       let nn = NamespacedName_of c; pvc = ConduitVolumeClaim nn ''1Gi''
       in child_tail E (cou_PersistentVolumeClaim (re_client E) pvc (pvcFn E nn)) nn
            ''Failed to reconcile volume %q: %s'' ConditionConduitVolumeReady ''VolumeClaimError''
            (''Conduit db volume %q updated'', [nn_String nn])
            (''Conduit db volume %q created'', [nn_String nn]))"

section \<open>Deployment\<close>

definition getReplicas :: "Conduit \<Rightarrow> int" where
  "getReplicas c = (case sp_Running (c_Spec c) of Some True \<Rightarrow> 1 | _ \<Rightarrow> 0)"

text \<open>\<^verbatim>\<open>*d.Spec.Replicas\<close> panics on a nil pointer.\<close>

definition deploymentRunningStatus :: "Deployment \<Rightarrow> (ConditionStatus \<times> string) res" where
  "deploymentRunningStatus d =
     (case ds_Replicas (d_Spec d) of
        None \<Rightarrow> Panic ''invalid memory address or nil pointer dereference''
      | Some replicas \<Rightarrow>
          if replicas = 0 then Ok (ConditionFalse, StoppedReason)
          else if dst_Replicas (d_Status d) = 0 then Ok (ConditionUnknown, PendingReason)
          else if dst_ReadyReplicas (d_Status d) \<ge> dst_Replicas (d_Status d)
          then Ok (ConditionTrue, RunningReason)
          else if dst_UnavailableReplicas (d_Status d) \<ge> dst_Replicas (d_Status d)
          then Ok (ConditionFalse, DegradedReason)
          else Ok (ConditionUnknown, PendingReason))"

definition deployment_env :: "('w, 'u, 'v, 'c) rec_env \<Rightarrow> Conduit \<Rightarrow> Secret \<Rightarrow> EnvVar list" where
  "deployment_env E c secret =
     (let envVars = EnvVars (re_unicode E) c;
          vars = envVarsFromSecret (re_keys E secret) secret
      in if length vars > 0 then sort_by ev_Name (envVars @ vars) else envVars)"

definition deployment_spec :: "Conduit \<Rightarrow> NamespacedName \<Rightarrow> int \<Rightarrow> Container \<Rightarrow> DeploymentSpec" where
  "deployment_spec c nn replicas container =
     \<lparr>ds_Strategy = ''Recreate'',
      ds_Replicas = Some replicas,
      ds_MatchLabels = Map.empty,
      ds_Labels = Map.empty,
      ds_Annotations = Map.empty,
      ds_RestartPolicy = ''Always'',
      ds_InitContainers = ConduitInitContainers (sp_Connectors (c_Spec c)) (sp_Processors (c_Spec c)),
      ds_Containers = [container],
      ds_Volumes = [ConduitVolume (nn_Name nn), ConduitPipelineVol (nn_Name nn)]\<rparr>"

text \<open>The switch on the running status.\<close>

definition set_running ::
  "('w, 'u, 'v, 'c) rec_env \<Rightarrow> NamespacedName \<Rightarrow> string \<Rightarrow> ConditionStatus \<Rightarrow> string \<Rightarrow> string \<Rightarrow> (loc, unit) io" where
  "set_running E nn version runningStatus reason readyReplicas =
     (let changed = (\<lambda>fmt. bind_io (gets_io lc_conduit) (\<lambda>c.
            bind_io (if ConditionChanged (c_Status c) ConditionConduitDeploymentRunning runningStatus
                     then Eventf ''Normal'' reason fmt [nn_String nn, version] else ret_io ()) (\<lambda>_.
            c_SetCondition E ConditionConduitDeploymentRunning runningStatus reason readyReplicas)))
      in if runningStatus = ConditionTrue then changed ''Conduit deployment %q running, config %q''
         else if runningStatus = ConditionFalse then changed ''Conduit deployment %q stopped, config %q''
         else Eventf ''Normal'' reason ''Conduit deployment %q pending, config %q'' [nn_String nn, version])"

definition deploymentFn ::
  "('w, 'u, 'v, 'c) rec_env \<Rightarrow> ConduitReconciler \<Rightarrow> NamespacedName \<Rightarrow> int
     \<Rightarrow> (string \<rightharpoonup> string) \<Rightarrow> (string \<rightharpoonup> string) \<Rightarrow> (string \<rightharpoonup> string) \<Rightarrow> ConfigMap \<Rightarrow> Secret
     \<Rightarrow> Deployment \<Rightarrow> (loc, Deployment) io" where
  "deploymentFn E r nn replicas matchLabels labels annotations cm secret deployment =
     bind_io (gets_io lc_conduit) (\<lambda>c.
       let envVars = deployment_env E c secret in
       bind_io (lift_res (ConduitRuntimeContainer (re_semver E) (re_constraints E)
                  (sp_Image (c_Spec c)) (sp_Version (c_Spec c)) envVars (r_flags r))) (\<lambda>container.
       let spec = deployment_spec c nn replicas container;
           merged = merge (d_Spec deployment) spec;
           merged = merged\<lparr>ds_MatchLabels := matchLabels, ds_Labels := labels,
                           ds_Annotations := annotations\<rparr>;
           deployment = deployment\<lparr>d_Spec := merged\<rparr>;
           readyReplicas = itoa (dst_ReadyReplicas (d_Status deployment)) @ ''/'' @ itoa replicas
       in bind_io (lift_res (deploymentRunningStatus deployment)) (\<lambda>(runningStatus, reason).
          bind_io (set_running E nn (om_ResourceVersion (cm_Meta cm)) runningStatus reason readyReplicas) (\<lambda>_.
          bind_io (own E (d_Meta deployment)) (\<lambda>m. ret_io (deployment\<lparr>d_Meta := m\<rparr>))))))"

abbreviation (input) "name_label \<equiv> ''app.kubernetes.io/name''"
abbreviation (input) "config_version_annotation \<equiv> ''operator.conduit.io/config-map-version''"

definition deployment_labels :: "ConduitReconciler \<Rightarrow> Conduit \<Rightarrow> NamespacedName \<Rightarrow> string \<rightharpoonup> string" where
  "deployment_labels r c nn =
     (im_Labels (r_meta r) ++ om_Labels (c_Meta c))(name_label \<mapsto> nn_Name nn)"

definition deployment_annotations ::
  "ConduitReconciler \<Rightarrow> Conduit \<Rightarrow> ConfigMap \<Rightarrow> string \<rightharpoonup> string" where
  "deployment_annotations r c cm =
     (im_PodAnnotations (r_meta r) ++ om_Annotations (c_Meta c))
       (config_version_annotation \<mapsto> om_ResourceVersion (cm_Meta cm))"

definition CreateOrUpdateDeployment ::
  "('w, 'u, 'v, 'c) rec_env \<Rightarrow> ConduitReconciler \<Rightarrow> ('w rt, unit) io" where
  "CreateOrUpdateDeployment E r =
     bind_io get_c (\<lambda>c. bind_io (get_R E) (\<lambda>R.
       let nn = NamespacedName_of c;
           replicas = getReplicas c;
           matchLabels = [name_label \<mapsto> nn_Name nn];
           deployment = \<lparr>d_Meta = new_meta (nn_Name nn) (nn_Namespace nn),
             d_Spec = zero_DeploymentSpec, d_Status = zero_DeploymentStatus\<rparr>
       in err_io (lift_res (get_configmap R nn))
            (\<lambda>err. bind_io (local_io (Eventf ''Warning'' ErroredReason ''Failed to get %q configmap: %s''
                              [nn_String nn, Error err])) (\<lambda>_. lift_res (Err err)))
            (\<lambda>cm. err_io (lift_res (get_secret R nn))
               (\<lambda>err. bind_io (local_io (Eventf ''Warning'' ErroredReason ''Failed to get %q secret: %s''
                                 [nn_String nn, Error err])) (\<lambda>_. lift_res (Err err)))
               (\<lambda>secret. child_tail E
                  (cou_Deployment (re_client E) deployment
                     (deploymentFn E r nn replicas matchLabels (deployment_labels r c nn)
                        (deployment_annotations r c cm) cm secret)) nn
                  ''Failed to reconcile deployment %q: %s'' ConditionConduitDeploymentRunning ''DeploymentError''
                  (''Conduit deployment %q updated, config %q'',
                     [nn_String nn, om_ResourceVersion (cm_Meta cm)])
                  (''Conduit deployment %q created'', [nn_String nn])))))"

section \<open>Service\<close>

definition serviceFn :: "('w, 'u, 'v, 'c) rec_env \<Rightarrow> NamespacedName \<Rightarrow> Service \<Rightarrow> (loc, Service) io" where
  "serviceFn E nn service =
     (let service = service
            \<lparr>s_Type := ''ClusterIP'',
             s_Ports :=
               [\<lparr>po_Name = ''http'', po_Protocol = ''TCP'', po_Port = 8080, po_TargetPort = 8080\<rparr>,
                \<lparr>po_Name = ''grpc'', po_Protocol = ''TCP'', po_Port = 8084, po_TargetPort = 8084\<rparr>],
             s_Selector := [name_label \<mapsto> nn_Name nn]\<rparr>
      in bind_io (c_SetCondition E ConditionConduitServiceReady ConditionTrue ''ServiceReady''
                    (''Address http://'' @ s_ClusterIP service @ '':8080 grpc://'' @ s_ClusterIP service
                       @ '':8084'')) (\<lambda>_.
         bind_io (own E (s_Meta service)) (\<lambda>m. ret_io (service\<lparr>s_Meta := m\<rparr>))))"

definition CreateOrUpdateService :: "('w, 'u, 'v, 'c) rec_env \<Rightarrow> ('w rt, unit) io" where
  "CreateOrUpdateService E =
     bind_io get_c (\<lambda>c.
       let nn = NamespacedName_of c;
           service = \<lparr>s_Meta = new_meta (nn_Name nn) (nn_Namespace nn), s_Type = [], s_Ports = [],
                      s_Selector = Map.empty, s_ClusterIP = []\<rparr>
       in child_tail E (cou_Service (re_client E) service (serviceFn E nn)) nn
            ''Failed to reconcile service %q: %s'' ConditionConduitServiceReady ''ServiceError''
            (''Conduit service %q updated'', [nn_String nn])
            (''Conduit service %q created'', [nn_String nn]))"

section \<open>Status\<close>

definition status_update :: "('w, 'u, 'v, 'c) rec_env \<Rightarrow> ('w rt, unit) io" where
  "status_update E = (\<lambda>(w, l).
     case cl_StatusUpdate (re_client E) (lc_conduit l) w of
       (Ok c, w') \<Rightarrow> (Ok (), (w', l\<lparr>lc_conduit := c\<rparr>))
     | (Err e, w') \<Rightarrow> (Err e, (w', l))
     | (Panic p, w') \<Rightarrow> (Panic p, (w', l)))"

definition stamp_status :: "('w, 'u, 'v, 'c) rec_env \<Rightarrow> (loc, unit) io" where
  "stamp_status E = modify_io (\<lambda>l.
     let c = lc_conduit l
     in l\<lparr>lc_conduit := c\<lparr>c_Status := (c_Status c)
             \<lparr>st_UpdatedAt := Some (re_clk E (lc_tick l)),
              st_ObservedGeneration := om_Generation (c_Meta c)\<rparr>\<rparr>,
          lc_tick := lc_tick l + 1\<rparr>)"

definition UpdateStatus :: "('w, 'u, 'v, 'c) rec_env \<Rightarrow> ('w rt, unit) io" where
  "UpdateStatus E =
     bind_io get_c (\<lambda>c. bind_io (get_R E) (\<lambda>R.
     bind_io (lift_res (get_conduit R \<lparr>nn_Name = om_Name (c_Meta c),
                                      nn_Namespace = om_Namespace (c_Meta c)\<rparr>)) (\<lambda>latestConduit.
       if \<not> Semantic_DeepEqual (re_client E) (c_Status latestConduit) (c_Status c)
       then bind_io (local_io (stamp_status E)) (\<lambda>_.
            err_io (status_update E)
              (\<lambda>err. bind_io (local_io (Eventf ''Warning'' ErroredReason ''Failed to update status: %s''
                                [Error err])) (\<lambda>_. lift_res (Err err)))
              (\<lambda>_. local_io (Eventf ''Normal'' UpdatedReason ''Status updated'' [])))
       else ret_io ())))"

section \<open>The reconcile loop\<close>

definition update_conduit :: "('w, 'u, 'v, 'c) rec_env \<Rightarrow> ('w rt, unit) io" where
  "update_conduit E = (\<lambda>(w, l).
     case cl_Update (re_client E) (lc_conduit l) w of
       (Ok c, w') \<Rightarrow> (Ok (), (w', l\<lparr>lc_conduit := c\<rparr>))
     | (Err e, w') \<Rightarrow> (Err e, (w', l))
     | (Panic p, w') \<Rightarrow> (Panic p, (w', l)))"

definition set_finalizers :: "(string list \<Rightarrow> string list) \<Rightarrow> loc \<Rightarrow> loc" where
  "set_finalizers f l =
     (let c = lc_conduit l
      in l\<lparr>lc_conduit := c\<lparr>c_Meta := (c_Meta c)\<lparr>om_Finalizers := f (om_Finalizers (c_Meta c))\<rparr>\<rparr>\<rparr>)"

text \<open>
  \<^verbatim>\<open>if err := step(); err != nil { errs = errors.Join(errs, fmt.Errorf(fmt, err)) }\<close> followed
  by the rest of the loop.
\<close>

definition join_step ::
  "string \<Rightarrow> ('s, unit) io \<Rightarrow> (go_error option \<Rightarrow> ('s, 'a) io) \<Rightarrow> go_error option \<Rightarrow> ('s, 'a) io" where
  "join_step fmt step rest errs =
     err_io step (\<lambda>err. rest (errors_Join errs (Some (Wrapf fmt [] err)))) (\<lambda>_. rest errs)"

text \<open>The result: after how many seconds the request is queued again (0: not at all), and the error.\<close>

definition reconcile_children ::
  "('w, 'u, 'v, 'c) rec_env \<Rightarrow> ConduitReconciler \<Rightarrow> ('w rt, nat \<times> go_error option) io" where
  "reconcile_children E r =
     join_step ''error reconciling config: %w'' (CreateOrUpdateConfig E)
    (join_step ''error reconciling config: %w'' (CreateOrUpdateSecret E)
    (join_step ''error reconciling volume: %w'' (CreateOrUpdateVolume E)
    (join_step ''error reconciling deployment: %w'' (CreateOrUpdateDeployment E r)
    (join_step ''error reconciling service: %w'' (CreateOrUpdateService E)
    (join_step ''error updating status: %w'' (UpdateStatus E)
       (\<lambda>errs. ret_io (10, errs))))))) None"

text \<open>What a visit does with the resource it found.\<close>

definition reconcile_found ::
  "('w, 'u, 'v, 'c) rec_env \<Rightarrow> ConduitReconciler \<Rightarrow> NamespacedName \<Rightarrow> Conduit
     \<Rightarrow> ('w rt, nat \<times> go_error option) io" where
  "reconcile_found E r req conduit =
     (case om_DeletionTimestamp (c_Meta conduit) of
        Some deletedAt \<Rightarrow>
          bind_io (local_io (modify_io (set_finalizers
                     (\<lambda>fs. RemoveFinalizer (re_client E) fs ConduitFinalizer)))) (\<lambda>_.
          err_io (update_conduit E)
            (\<lambda>err. ret_io (10, Some err))
            (\<lambda>_. bind_io (local_io (Eventf ''Normal'' DeletedReason ''Conduit %q was deleted on %q''
                             [nn_String req, re_showTime E deletedAt])) (\<lambda>_. ret_io (0, None))))
      | None \<Rightarrow>
          if \<not> ContainsFinalizer (re_client E) (om_Finalizers (c_Meta conduit)) ConduitFinalizer
          then bind_io (local_io (modify_io (set_finalizers
                          (\<lambda>fs. AddFinalizer (re_client E) fs ConduitFinalizer)))) (\<lambda>_.
               err_io (update_conduit E)
                 (\<lambda>err. ret_io (10, Some err))
                 (\<lambda>_. ret_io (10, None)))
          else reconcile_children E r)"

definition Reconcile ::
  "('w, 'u, 'v, 'c) rec_env \<Rightarrow> ConduitReconciler \<Rightarrow> NamespacedName \<Rightarrow> ('w rt, nat \<times> go_error option) io" where
  "Reconcile E r req =
     bind_io (get_R E) (\<lambda>R.
     err_io (lift_res (get_conduit R req))
       (\<lambda>err. ret_io (0, if IsNotFound err then None else Some err))
       (\<lambda>conduit.
          bind_io (modify_io (\<lambda>(w, l). (w, l\<lparr>lc_conduit := conduit\<rparr>))) (\<lambda>_.
          reconcile_found E r req conduit)))"

section \<open>What a handler may change\<close>

definition view :: "loc \<Rightarrow> cond_view" where
  "view l = cview (st_Conditions (c_Status (lc_conduit l)))"

definition one_each :: "loc \<Rightarrow> bool" where
  "one_each l \<longleftrightarrow> distinct (map cType (st_Conditions (c_Status (lc_conduit l))))"

text \<open>
  The handler for the condition \<open>ct\<close> leaves metadata and specification alone, adds events at
  the end, keeps the status invariant, keeps one condition per type, and changes no condition but
  \<open>ct\<close> and Ready.
\<close>

definition wf_loc :: "loc \<Rightarrow> bool" where
  "wf_loc l \<longleftrightarrow> wf_status (c_Status (lc_conduit l))"

definition child_rel :: "ConditionType \<Rightarrow> loc \<Rightarrow> loc \<Rightarrow> bool" where
  "child_rel ct l l' \<longleftrightarrow>
     c_Meta (lc_conduit l') = c_Meta (lc_conduit l) \<and> c_Spec (lc_conduit l') = c_Spec (lc_conduit l)
     \<and> (\<exists>es. lc_events l' = lc_events l @ es)
     \<and> (wf_loc l \<longrightarrow> wf_loc l')
     \<and> (one_each l \<longrightarrow> one_each l' \<and> (\<forall>ct'. ct' \<noteq> ct \<and> ct' \<noteq> ''Ready'' \<longrightarrow> view l' ct' = view l ct'))"

definition rt_rel :: "ConditionType \<Rightarrow> 'w rt \<Rightarrow> 'w rt \<Rightarrow> bool" where
  "rt_rel ct s s' \<longleftrightarrow> child_rel ct (snd s) (snd s')"

interpretation child: frame "child_rel ct"
  by unfold_locales (auto simp: child_rel_def)

interpretation rtf: frame "rt_rel ct"
  unfolding rt_rel_def by unfold_locales (auto intro: child.R_refl child.R_trans)

lemma framed_local: "framed (child_rel ct) m \<Longrightarrow> framed (rt_rel ct) (local_io m)"
  by (auto simp: framed_def rt_rel_def local_io_def split: prod.splits)
    (metis prod.sel(2))

lemma framed_Eventf: "framed (child_rel ct) (Eventf t r f as)"
  by (simp add: framed_def Eventf_def child_rel_def one_each_def view_def wf_loc_def)

lemma framed_own: "framed (child_rel ct) (own E m)"
  by (simp add: framed_def own_def child.R_refl)

lemma view_SetCondition:
  assumes "one_each l"
  shows "view (snd (c_SetCondition E ct st r m l)) = spec_SetCondition ConduitConditions (view l) ct (st, r, m)"
  using assms by (simp add: c_SetCondition_def view_def one_each_def cview_Status_SetCondition)

lemma framed_SetCondition: "framed (child_rel ct) (c_SetCondition E ct st r m)"
proof (rule framedI)
  fix l
  let ?l = "snd (c_SetCondition E ct st r m l)"
  have "wf_loc ?l" if "one_each l"
    using that by (simp add: one_each_def c_SetCondition_def wf_loc_def wf_Status_SetCondition)
  moreover have "one_each l" if "wf_loc l" for l
    using that by (simp add: one_each_def wf_loc_def wf_status_distinct)
  ultimately show "child_rel ct l ?l"
    unfolding child_rel_def
    by (simp add: view_SetCondition spec_SetCondition_other) (simp add: c_SetCondition_def)
qed

lemma framed_get: "framed (rt_rel ct) get_c" "framed (rt_rel ct) (get_R E)"
  by (simp_all add: get_c_def get_R_def rtf.framed_pure)

lemmas mutate_frames = child.framed_intros framed_Eventf framed_own framed_SetCondition

lemma framed_cmFn: "framed (child_rel ''ConfigReady'') (cmFn E y cm)"
  unfolding cmFn_def Let_def by (intro mutate_frames)

lemma framed_secretFn: "framed (child_rel ''SecretReady'') (secretFn E d s)"
  unfolding secretFn_def Let_def by (intro mutate_frames)

lemma framed_serviceFn: "framed (child_rel ''ServiceReady'') (serviceFn E nn s)"
  unfolding serviceFn_def Let_def by (intro mutate_frames)

lemma framed_pvcFn: "framed (child_rel ''VolumeBound'') (pvcFn E nn pvc)"
  unfolding pvcFn_def by (intro mutate_frames)

lemma framed_set_running: "framed (child_rel ''DeploymentRunning'') (set_running E nn v st r m)"
  unfolding set_running_def Let_def by (intro mutate_frames)

lemma framed_deploymentFn:
  "framed (child_rel ''DeploymentRunning'') (deploymentFn E r nn k ml ls as cm s d)"
  unfolding deploymentFn_def Let_def by (intro mutate_frames framed_set_running)

context create_or_update
begin

lemma framed_cou:
  assumes "\<And>o'. framed (child_rel ct) (f o')"
  shows "framed (rt_rel ct) (cou obj f)"
proof (rule framedI)
  fix s :: "'w rt"
  obtain w l where s: "s = (w, l)" by (cases s)
  have "child_rel ct l (snd (snd (cou obj f (w, l))))"
    by (rule cou_local) (metis framedD [OF assms] prod.sel(2), rule child.R_refl)
  then show "rt_rel ct s (snd (cou obj f s))" by (simp add: s rt_rel_def)
qed

end

lemma framed_child_tail:
  "framed (rt_rel ct) call \<Longrightarrow> framed (rt_rel ct) (child_tail E call nn f ct er u c)"
  unfolding child_tail_def
  by (intro rtf.framed_intros framed_local framed_Eventf framed_SetCondition)
    (auto split: OperationResult.splits intro: rtf.framed_intros framed_local framed_Eventf)

text \<open>When the call of \<^verbatim>\<open>CreateOrUpdate\<close> fails, the condition reports the error.\<close>

lemma child_tail_Err:
  assumes "framed (rt_rel ct) call" and "one_each l" and "ct \<noteq> ''Ready''"
    and "child_tail E call nn f ct er u c (w, l) = (Err e, (w', l'))"
  shows "view l' ct = Some (''False'', er, Error e)"
proof -
  obtain r w1 l1 where call: "call (w, l) = (r, (w1, l1))" by (metis surj_pair)
  have "rt_rel ct (w, l) (w1, l1)" using framedD [OF assms(1), of "(w, l)"] by (simp add: call)
  then have one: "one_each l1" using assms(2) by (simp add: rt_rel_def child_rel_def)
  let ?l = "snd (Eventf ''Warning'' ''Error'' f [nn_String nn, Error e] l1)"
  have "one_each ?l" using one by (simp add: Eventf_def one_each_def)
  moreover have "l' = snd (c_SetCondition E ct ''False'' er (Error e) ?l)"
    using assms(4) call
    by (cases r)
      (auto simp: child_tail_def err_io_def bind_io_def Eventf_def c_SetCondition_def
        split: OperationResult.splits)
  ultimately show ?thesis using assms(3) by (simp add: view_SetCondition spec_SetCondition_same)
qed

lemma child_tail_Ok:
  assumes "child_tail E call nn f ct er u c (w, l) = (Ok (), (w', l'))"
  obtains op l1 where "call (w, l) = (Ok op, (w', l1))" "lc_conduit l' = lc_conduit l1"
proof -
  obtain r w1 l1 where call: "call (w, l) = (r, (w1, l1))" by (metis surj_pair)
  then show thesis
    using assms that
    by (cases r) (auto simp: child_tail_def err_io_def bind_io_def Eventf_def c_SetCondition_def
        split: OperationResult.splits)
qed

section \<open>The contract of a handler\<close>

text \<open>
  What the reconcile loop may expect of each of the five handlers: the frame above, and that an
  error it returns is either reported in its own condition or leaves that condition as it was.
\<close>

locale child_step =
  fixes step :: "('w rt, unit) io"
    and ct :: ConditionType
  assumes step_framed: "framed (rt_rel ct) step"
    and step_Err: "one_each l \<Longrightarrow> step (w, l) = (Err e, (w', l')) \<Longrightarrow>
      view l' ct = view l ct \<or> (\<exists>reason. view l' ct = Some (''False'', reason, Error e))"
begin

lemma step_rel: "step (w, l) = (x, (w', l')) \<Longrightarrow> child_rel ct l l'"
  using framedD [OF step_framed, of "(w, l)"] by (simp add: rt_rel_def)

lemma step_identity:
  "step (w, l) = (x, (w', l')) \<Longrightarrow>
     c_Meta (lc_conduit l') = c_Meta (lc_conduit l) \<and> c_Spec (lc_conduit l') = c_Spec (lc_conduit l)"
  using step_rel by (simp add: child_rel_def)

lemma step_wf: "step (w, l) = (x, (w', l')) \<Longrightarrow> wf_loc l \<Longrightarrow> wf_loc l'"
  using step_rel by (simp add: child_rel_def)

lemma step_one_each: "step (w, l) = (x, (w', l')) \<Longrightarrow> one_each l \<Longrightarrow> one_each l'"
  using step_rel by (simp add: child_rel_def)

lemma step_other:
  "step (w, l) = (x, (w', l')) \<Longrightarrow> one_each l \<Longrightarrow> ct' \<noteq> ct \<Longrightarrow> ct' \<noteq> ''Ready'' \<Longrightarrow> view l' ct' = view l ct'"
  using step_rel by (simp add: child_rel_def)

end

locale reconciler = kube_client "re_client E"
  for E :: "('w, 'u, 'v, 'c) rec_env"

lemma get_c_run [simp]: "bind_io get_c f (w, l) = f (lc_conduit l) (w, l)"
  by (simp add: get_c_def)

lemma get_R_run [simp]: "bind_io (get_R E) f (w, l) = f (cl_reader (re_client E) w) (w, l)"
  by (simp add: get_R_def)

lemma after_lift_Err:
  assumes "bind_io (lift_res r) f s = (Err e, s')"
  obtains "r = Err e" "s' = s" | a where "r = Ok a" "f a s = (Err e, s')"
  using assms by (cases r) auto

sublocale reconciler \<subseteq> config: child_step "CreateOrUpdateConfig E" "''ConfigReady''"
proof
  show "framed (rt_rel ''ConfigReady'') (CreateOrUpdateConfig E)"
    unfolding CreateOrUpdateConfig_def Let_def
    by (intro rtf.framed_intros framed_get framed_child_tail cms.framed_cou framed_cmFn)
  fix l w e w' l'
  assume one: "one_each l" and run: "CreateOrUpdateConfig E (w, l) = (Err e, (w', l'))"
  from run show "view l' ''ConfigReady'' = view l ''ConfigReady''
      \<or> (\<exists>reason. view l' ''ConfigReady'' = Some (''False'', reason, Error e))"
    unfolding CreateOrUpdateConfig_def Let_def
    by (auto elim!: after_lift_Err
        dest!: child_tail_Err [OF cms.framed_cou [OF framed_cmFn] one, rotated])
qed

sublocale reconciler \<subseteq> secret: child_step "CreateOrUpdateSecret E" "''SecretReady''"
proof
  show "framed (rt_rel ''SecretReady'') (CreateOrUpdateSecret E)"
    unfolding CreateOrUpdateSecret_def Let_def
    by (intro rtf.framed_intros framed_get framed_child_tail ses.framed_cou framed_secretFn)
  fix l w e w' l'
  assume one: "one_each l" and run: "CreateOrUpdateSecret E (w, l) = (Err e, (w', l'))"
  from run show "view l' ''SecretReady'' = view l ''SecretReady''
      \<or> (\<exists>reason. view l' ''SecretReady'' = Some (''False'', reason, Error e))"
    unfolding CreateOrUpdateSecret_def Let_def
    by (auto elim!: after_lift_Err
        dest!: child_tail_Err [OF ses.framed_cou [OF framed_secretFn] one, rotated])
qed

sublocale reconciler \<subseteq> volume: child_step "CreateOrUpdateVolume E" "''VolumeBound''"
proof
  show "framed (rt_rel ''VolumeBound'') (CreateOrUpdateVolume E)"
    unfolding CreateOrUpdateVolume_def Let_def
    by (intro rtf.framed_intros framed_get framed_child_tail pvcs.framed_cou framed_pvcFn)
  fix l w e w' l'
  assume one: "one_each l" and run: "CreateOrUpdateVolume E (w, l) = (Err e, (w', l'))"
  from run show "view l' ''VolumeBound'' = view l ''VolumeBound''
      \<or> (\<exists>reason. view l' ''VolumeBound'' = Some (''False'', reason, Error e))"
    unfolding CreateOrUpdateVolume_def Let_def
    by (auto dest!: child_tail_Err [OF pvcs.framed_cou [OF framed_pvcFn] one, rotated])
qed

sublocale reconciler \<subseteq> service: child_step "CreateOrUpdateService E" "''ServiceReady''"
proof
  show "framed (rt_rel ''ServiceReady'') (CreateOrUpdateService E)"
    unfolding CreateOrUpdateService_def Let_def
    by (intro rtf.framed_intros framed_get framed_child_tail svcs.framed_cou framed_serviceFn)
  fix l w e w' l'
  assume one: "one_each l" and run: "CreateOrUpdateService E (w, l) = (Err e, (w', l'))"
  from run show "view l' ''ServiceReady'' = view l ''ServiceReady''
      \<or> (\<exists>reason. view l' ''ServiceReady'' = Some (''False'', reason, Error e))"
    unfolding CreateOrUpdateService_def Let_def
    by (auto dest!: child_tail_Err [OF svcs.framed_cou [OF framed_serviceFn] one, rotated])
qed

lemma err_event_run:
  "bind_io (local_io (Eventf t r f as)) (\<lambda>_. lift_res x) (w, l) = (x, (w, snd (Eventf t r f as l)))"
  by (simp add: bind_io_def Eventf_def)

lemma view_Eventf [simp]: "view (snd (Eventf t r f as l)) = view l"
  by (simp add: Eventf_def view_def)

sublocale reconciler \<subseteq> deployment: child_step "CreateOrUpdateDeployment E r" "''DeploymentRunning''"
proof
  show "framed (rt_rel ''DeploymentRunning'') (CreateOrUpdateDeployment E r)"
    unfolding CreateOrUpdateDeployment_def Let_def
    by (intro rtf.framed_intros framed_get framed_child_tail deps.framed_cou framed_deploymentFn
        framed_local framed_Eventf)
  fix l w e w' l'
  assume one: "one_each l" and run: "CreateOrUpdateDeployment E r (w, l) = (Err e, (w', l'))"
  let ?R = "cl_reader (re_client E) w" and ?nn = "NamespacedName_of (lc_conduit l)"
  show "view l' ''DeploymentRunning'' = view l ''DeploymentRunning''
      \<or> (\<exists>reason. view l' ''DeploymentRunning'' = Some (''False'', reason, Error e))"
    using run unfolding CreateOrUpdateDeployment_def Let_def
    by (cases "get_configmap ?R ?nn"; cases "get_secret ?R ?nn")
      (auto simp: err_event_run
        dest!: child_tail_Err [OF deps.framed_cou [OF framed_deploymentFn] one, rotated])
qed

section \<open>The loop runs every step\<close>

text \<open>
  The specification of the loop: run the steps in order on the state the step before left,
  collect the wrapped errors, and stop early only at a panic.
\<close>

fun run_steps :: "(string \<times> ('s, unit) io) list \<Rightarrow> ('s, go_error list) io" where
  "run_steps [] = ret_io []"
| "run_steps ((fmt, step) # steps) =
     err_io step
       (\<lambda>err. bind_io (run_steps steps) (\<lambda>errs. ret_io (Wrapf fmt [] err # errs)))
       (\<lambda>_. run_steps steps)"

fun join_all :: "(string \<times> ('s, unit) io) list \<Rightarrow> (go_error option \<Rightarrow> ('s, 'a) io) \<Rightarrow> go_error option
    \<Rightarrow> ('s, 'a) io" where
  "join_all [] k = k"
| "join_all ((fmt, step) # steps) k = join_step fmt step (join_all steps k)"

definition steps :: "('w, 'u, 'v, 'c) rec_env \<Rightarrow> ConduitReconciler \<Rightarrow> (string \<times> ('w rt, unit) io) list" where
  "steps E r =
     [(''error reconciling config: %w'', CreateOrUpdateConfig E),
      (''error reconciling config: %w'', CreateOrUpdateSecret E),
      (''error reconciling volume: %w'', CreateOrUpdateVolume E),
      (''error reconciling deployment: %w'', CreateOrUpdateDeployment E r),
      (''error reconciling service: %w'', CreateOrUpdateService E),
      (''error updating status: %w'', UpdateStatus E)]"

lemma reconcile_children_steps:
  "reconcile_children E r = join_all (steps E r) (\<lambda>errs. ret_io (10, errs)) None"
  by (simp add: reconcile_children_def steps_def)

lemma run_steps_no_err: "never_err (run_steps ss)"
  by (induction ss rule: run_steps.induct) (auto intro!: never_err_err never_err_bind)

lemma run_steps_wrapped:
  "run_steps ss s = (Ok es, s') \<Longrightarrow> concat (map error_leaves es) = es"
proof (induction ss arbitrary: s es)
  case Nil
  then show ?case by simp
next
  case (Cons st ss)
  obtain fmt step where st: "st = (fmt, step)" by (cases st)
  obtain x s1 where x: "step s = (x, s1)" by (metis surj_pair)
  show ?case
    using Cons st x by (cases x) (auto simp: err_io_def bind_io_Ok_iff)
qed

lemma join_all_run_steps:
  assumes "run_steps ss s = (x, s')"
  shows "case x of
      Ok es \<Rightarrow> \<exists>errs'. join_all ss k errs s = k errs' s' \<and>
        opt_leaves errs' = opt_leaves errs @ concat (map error_leaves es)
        \<and> (errs' = None \<longleftrightarrow> errs = None \<and> es = [])
    | Err e \<Rightarrow> False
    | Panic p \<Rightarrow> join_all ss k errs s = (Panic p, s')"
  using assms
proof (induction ss arbitrary: s errs x s')
  case Nil
  then show ?case by auto
next
  case (Cons st ss)
  obtain fmt step where st: "st = (fmt, step)" by (cases st)
  obtain y s1 where y: "step s = (y, s1)" by (metis surj_pair)
  obtain z s2 where z: "run_steps ss s1 = (z, s2)" by (metis surj_pair)
  have no: "z \<noteq> Err e" for e using never_errD [OF run_steps_no_err, of ss s1] by (simp add: z)
  show ?case
  proof (cases y)
    case (Ok u)
    with Cons.prems st y z have "x = z" "s' = s2" by (simp_all add: err_io_def)
    with Cons.IH [OF z, of errs] Ok st y show ?thesis by (cases z) (simp_all add: join_step_def err_io_def)
  next
    case (Err e)
    let ?errs = "errors_Join errs (Some (Wrapf fmt [] e))"
    have run: "join_all (st # ss) k errs s = join_all ss k ?errs s1"
      by (simp add: st join_step_def err_io_def y Err)
    from Cons.prems st y z Err show ?thesis
      using Cons.IH [OF z, of ?errs] no unfolding run
      by (cases z) (auto simp: err_io_def bind_io_def intro!: exI [of _ "Some _"])
  next
    case (Panic p)
    with Cons.prems st y show ?thesis by (auto simp: join_step_def err_io_def)
  qed
qed

section \<open>The status invariant through the loop\<close>

lemma one_each_wf: "wf_loc l \<Longrightarrow> one_each l"
  by (simp add: one_each_def wf_loc_def wf_status_distinct)

text \<open>Status fields that are not conditions do not matter for the invariant.\<close>

lemma wf_status_conditions: "st_Conditions s' = st_Conditions s \<Longrightarrow> wf_status s' = wf_status s"
  by (simp add: wf_status_def)

definition wf_rt :: "'w rt \<Rightarrow> bool" where
  "wf_rt s \<longleftrightarrow> wf_loc (snd s)"

lemma keeps_rt_rel: "framed (rt_rel ct) m \<Longrightarrow> framed (keeps wf_rt) m"
  by (simp add: framed_def rt_rel_def child_rel_def keeps_def wf_rt_def)

lemma keeps_local: "(\<And>l. wf_loc l \<Longrightarrow> wf_loc (snd (m l))) \<Longrightarrow> framed (keeps wf_rt) (local_io m)"
  by (auto simp: framed_def keeps_def wf_rt_def)

lemma keeps_get: "framed (keeps wf_rt) get_c" "framed (keeps wf_rt) (get_R E)"
  by (simp_all add: get_c_def get_R_def keeps.framed_pure)

lemma keeps_Eventf: "framed (keeps wf_rt) (local_io (Eventf t r f as))"
  by (rule keeps_local) (simp add: Eventf_def wf_loc_def)

lemma keeps_stamp: "framed (keeps wf_rt) (local_io (stamp_status E))"
proof (rule keeps_local)
  fix l assume "wf_loc l"
  then show "wf_loc (snd (stamp_status E l))"
    unfolding wf_loc_def stamp_status_def Let_def io_simps
    by (subst wf_status_conditions [of _ "c_Status (lc_conduit l)"]) simp_all
qed

context frame
begin

lemma framed_join_all:
  "(\<And>f st. (f, st) \<in> set ss \<Longrightarrow> framed R st) \<Longrightarrow> (\<And>e. framed R (k e)) \<Longrightarrow> framed R (join_all ss k errs)"
proof (induction ss arbitrary: errs)
  case Nil
  then show ?case by simp
next
  case (Cons st ss)
  obtain f m where st: "st = (f, m)" by (cases st)
  show ?case
    unfolding st join_all.simps join_step_def
    by (intro framed_err Cons.IH Cons.prems(2)) (use Cons.prems(1) st in auto)
qed

end

context reconciler
begin

lemma keeps_status_update: "framed (keeps wf_rt) (status_update E)"
proof (rule framedI)
  fix s :: "'w rt"
  obtain w l where s: "s = (w, l)" by (cases s)
  obtain x w' where x: "cl_StatusUpdate (re_client E) (lc_conduit l) w = (x, w')" by (metis surj_pair)
  then show "keeps wf_rt s (snd (status_update E s))"
    using status_stored [of "lc_conduit l" w _ w']
    by (cases x) (auto simp: s status_update_def keeps_def wf_rt_def wf_loc_def)
qed

lemma keeps_UpdateStatus: "framed (keeps wf_rt) (UpdateStatus E)"
  unfolding UpdateStatus_def
  by (intro keeps.framed_intros keeps_get keeps_Eventf keeps_status_update keeps_stamp)

lemma keeps_children: "framed (keeps wf_rt) (reconcile_children E r)"
  unfolding reconcile_children_steps
  by (rule keeps.framed_join_all)
    (auto simp: steps_def intro: keeps_rt_rel config.step_framed secret.step_framed volume.step_framed
      deployment.step_framed service.step_framed keeps_UpdateStatus keeps.framed_pure)

end

end
