(* ===== verification/Reconciler_Run.thy ===== *)
theory Reconciler_Run
  imports Reconciler
begin

text \<open>
  The reconciler on the in-memory API server: the instance on which the examples of this
  development run it, and a reconciliation in which every step succeeds.
\<close>

section \<open>An environment on the in-memory API server\<close>

definition registry_keys :: "Secret \<Rightarrow> string list" where
  "registry_keys s = filter (\<lambda>k. se_Data s k \<noteq> None)
     [''CONDUIT_SCHEMA_REGISTRY_TYPE'', ''CONDUIT_SCHEMA_REGISTRY_CONFLUENT_CONNECTION_STRING'']"

definition ref_env ::
  "(cluster, string, semver_value, (string \<times> version) list) rec_env" where
  "ref_env =
     \<lparr>re_client = ref_client, re_unicode = ascii_tables, re_clk = int, re_showTime = itoa,
      re_marshal = (\<lambda>y. Ok ''yaml''), re_url = text_urls, re_semver = ref_semver,
      re_constraints = version_constraints, re_keys = registry_keys\<rparr>"


definition start :: "Conduit \<Rightarrow> loc" where
  "start c = \<lparr>lc_conduit = c, lc_events = [], lc_tick = 0\<rparr>"

definition with_finalizers :: "Conduit \<Rightarrow> string list \<Rightarrow> Conduit" where
  "with_finalizers c fs = c\<lparr>c_Meta := (c_Meta c)\<lparr>om_Finalizers := fs\<rparr>\<rparr>"

lemma with_finalizers_simps [simp]:
  "c_Spec (with_finalizers c fs) = c_Spec c" "c_Status (with_finalizers c fs) = c_Status c"
  "om_Finalizers (c_Meta (with_finalizers c fs)) = fs"
  by (simp_all add: with_finalizers_def)

definition stored :: "Conduit \<Rightarrow> cluster" where
  "stored c = empty_cluster\<lparr>w_Conduits := [key_of (c_Meta c) \<mapsto> c]\<rparr>"

definition req_of :: "Conduit \<Rightarrow> NamespacedName" where
  "req_of c = \<lparr>nn_Name = om_Name (c_Meta c), nn_Namespace = om_Namespace (c_Meta c)\<rparr>"

lemma get_stored [simp]: "get_conduit (cl_reader (re_client ref_env) (stored c)) (req_of c) = Ok c"
  by (simp add: ref_env_def ref_client_def ref_reader_def found_def stored_def req_of_def key_of_def)

section \<open>A complete run\<close>

text \<open>
  The handlers on the in-memory API server, one step at a time: what each of them stores and
  what it leaves as the local copy of the resource. Every mutate function gets the stored object,
  if there is one.
\<close>

lemma ref_own: "re_client E = ref_client \<Longrightarrow>
    own E m l = (Ok (m\<lparr>om_Controller := Some (om_Name (c_Meta (lc_conduit l)))\<rparr>), l)"
  by (simp add: own_def ref_client_def)

lemma key_of_owner [simp]: "key_of (m\<lparr>om_Controller := x\<rparr>) = key_of m"
  by (simp add: key_of_def)

lemma key_of_new [simp]: "key_of (new_meta n ns) = (ns, n)"
  by (simp add: key_of_def new_meta_def)

lemma ref_current_key [simp]: "key_of (meta (ref_current meta obj st)) = key_of (meta obj)"
  by (simp add: ref_current_def split: option.splits)

lemma ref_current_stored: "key_of (meta o') = key_of (meta obj) \<Longrightarrow> ref_current meta obj (Some o') = o'"
  by (simp add: ref_current_def)

lemma SetCondition_run: "fst (c_SetCondition E ct st r m l) = Ok ()"
  by (simp add: c_SetCondition_def)

lemma Eventf_run: "fst (Eventf t r f as l) = Ok ()"
  by (simp add: Eventf_def)

lemma SetCondition_identity [simp]:
  "c_Meta (lc_conduit (snd (c_SetCondition E ct st r m l))) = c_Meta (lc_conduit l)"
  "c_Spec (lc_conduit (snd (c_SetCondition E ct st r m l))) = c_Spec (lc_conduit l)"
  by (simp_all add: c_SetCondition_def)

lemma Eventf_conduit [simp]: "lc_conduit (snd (Eventf t r f as l)) = lc_conduit l"
  by (simp add: Eventf_def)

lemma bind_fst_Ok: "fst (m s) = Ok a \<Longrightarrow> bind_io m f s = f a (snd (m s))"
  by (cases "m s") (simp add: bind_io_def)

text \<open>A mutate function that succeeds and keeps the key makes the whole handler succeed.\<close>

lemma ref_child_tail:
  assumes "f (ref_current meta obj (objs w k)) l = (Ok new, l1)" and "key_of (meta new) = k"
    and "key_of (meta obj) = k"
  shows "\<exists>l'. child_tail E (ref_cou meta objs store obj f) nn ff ct er u c (w, l) =
    (Ok (), (store k new w, l')) \<and> lc_conduit l' = lc_conduit l1"
  by (simp add: child_tail_def ref_cou_def err_io_def Let_def assms Eventf_run)

lemma ref_cou_fields:
  "cou_ConfigMap ref_client = ref_cou cm_Meta w_ConfigMaps (\<lambda>k o' w. w\<lparr>w_ConfigMaps := (w_ConfigMaps w)(k \<mapsto> o')\<rparr>)"
  "cou_Secret ref_client = ref_cou se_Meta w_Secrets (\<lambda>k o' w. w\<lparr>w_Secrets := (w_Secrets w)(k \<mapsto> o')\<rparr>)"
  "cou_PersistentVolumeClaim ref_client =
     ref_cou pvc_Meta w_Claims (\<lambda>k o' w. w\<lparr>w_Claims := (w_Claims w)(k \<mapsto> o')\<rparr>)"
  "cou_Deployment ref_client =
     ref_cou d_Meta w_Deployments (\<lambda>k o' w. w\<lparr>w_Deployments := (w_Deployments w)(k \<mapsto> o')\<rparr>)"
  "cou_Service ref_client = ref_cou s_Meta w_Services (\<lambda>k o' w. w\<lparr>w_Services := (w_Services w)(k \<mapsto> o')\<rparr>)"
  by (simp_all add: ref_client_def)

lemma set_running_run: "fst (set_running E nn v st r m l) = Ok ()"
  by (simp add: set_running_def Let_def bind_fst_Ok SetCondition_run Eventf_run)

lemma set_running_identity [simp]:
  "c_Meta (lc_conduit (snd (set_running E nn v st r m l))) = c_Meta (lc_conduit l)"
  "c_Spec (lc_conduit (snd (set_running E nn v st r m l))) = c_Spec (lc_conduit l)"
  by (simp_all add: set_running_def Let_def bind_fst_Ok Eventf_run)

lemma running_status_total: "ds_Replicas (d_Spec d) = Some n \<Longrightarrow> \<exists>st. deploymentRunningStatus d = Ok st"
  by (simp add: deploymentRunningStatus_def)

text \<open>Where the children of a resource are stored, and what a handler makes of the stored object.\<close>

definition child_key :: "Conduit \<Rightarrow> key" where
  "child_key c = (om_Namespace (c_Meta c), ''conduit-server-'' @ om_Name (c_Meta c))"

lemma child_key_nn [simp]: "(nn_Namespace (NamespacedName_of c), nn_Name (NamespacedName_of c)) = child_key c"
  by (simp add: NamespacedName_of_def child_key_def)

definition owned :: "Conduit \<Rightarrow> ObjectMeta \<Rightarrow> ObjectMeta" where
  "owned c m = m\<lparr>om_Controller := Some (om_Name (c_Meta c))\<rparr>"

lemma key_of_owned [simp]: "key_of (owned c m) = key_of m"
  by (simp add: owned_def)

lemma owned_again [simp]: "owned c (owned c m) = owned c m"
  by (simp add: owned_def)

abbreviation (input) "child_meta c \<equiv> new_meta (nn_Name (NamespacedName_of c)) (nn_Namespace (NamespacedName_of c))"

definition cur_cm :: "cluster \<Rightarrow> Conduit \<Rightarrow> ConfigMap" where
  "cur_cm w c = ref_current cm_Meta \<lparr>cm_Meta = child_meta c, cm_Data = Map.empty\<rparr> (w_ConfigMaps w (child_key c))"

definition cur_secret :: "cluster \<Rightarrow> Conduit \<Rightarrow> Secret" where
  "cur_secret w c = ref_current se_Meta \<lparr>se_Meta = child_meta c, se_Data = Map.empty\<rparr> (w_Secrets w (child_key c))"

definition cur_pvc :: "cluster \<Rightarrow> Conduit \<Rightarrow> PersistentVolumeClaim" where
  "cur_pvc w c = ref_current pvc_Meta (ConduitVolumeClaim (NamespacedName_of c) ''1Gi'') (w_Claims w (child_key c))"

definition cur_deployment :: "cluster \<Rightarrow> Conduit \<Rightarrow> Deployment" where
  "cur_deployment w c = ref_current d_Meta \<lparr>d_Meta = child_meta c, d_Spec = zero_DeploymentSpec,
     d_Status = zero_DeploymentStatus\<rparr> (w_Deployments w (child_key c))"

definition cur_service :: "cluster \<Rightarrow> Conduit \<Rightarrow> Service" where
  "cur_service w c = ref_current s_Meta \<lparr>s_Meta = child_meta c, s_Type = [], s_Ports = [],
     s_Selector = Map.empty, s_ClusterIP = []\<rparr> (w_Services w (child_key c))"

lemma cur_keys [simp]:
  "key_of (cm_Meta (cur_cm w c)) = child_key c" "key_of (se_Meta (cur_secret w c)) = child_key c"
  "key_of (pvc_Meta (cur_pvc w c)) = child_key c" "key_of (d_Meta (cur_deployment w c)) = child_key c"
  "key_of (s_Meta (cur_service w c)) = child_key c"
  by (simp_all add: cur_cm_def cur_secret_def cur_pvc_def cur_deployment_def cur_service_def
      ConduitVolumeClaim_def)

lemma claim_meta [simp]: "pvc_Meta (ConduitVolumeClaim nn sz) = new_meta (nn_Name nn) (nn_Namespace nn)"
  by (simp add: ConduitVolumeClaim_def)

definition exposed :: "Conduit \<Rightarrow> Service \<Rightarrow> Service" where
  "exposed c s = s\<lparr>s_Meta := owned c (s_Meta s), s_Type := ''ClusterIP'',
     s_Ports :=
       [\<lparr>po_Name = ''http'', po_Protocol = ''TCP'', po_Port = 8080, po_TargetPort = 8080\<rparr>,
        \<lparr>po_Name = ''grpc'', po_Protocol = ''TCP'', po_Port = 8084, po_TargetPort = 8084\<rparr>],
     s_Selector := [name_label \<mapsto> nn_Name (NamespacedName_of c)]\<rparr>"

text \<open>The deployment's mutate function with the arguments that the handler gives it.\<close>

definition deploy ::
  "('w, 'u, 'v, 'c) rec_env \<Rightarrow> ConduitReconciler \<Rightarrow> Conduit \<Rightarrow> ConfigMap \<Rightarrow> Secret \<Rightarrow> Deployment
     \<Rightarrow> (loc, Deployment) io" where
  "deploy E r c cm s = (let nn = NamespacedName_of c in
     deploymentFn E r nn (getReplicas c) [name_label \<mapsto> nn_Name nn] (deployment_labels r c nn)
       (deployment_annotations r c cm) cm s)"

locale on_server =
  fixes E :: "(cluster, 'u, 'v, 'c) rec_env"
  assumes server: "re_client E = ref_client"

sublocale on_server \<subseteq> reconciler E
  unfolding reconciler_def server by (rule ref_api.kube_client_axioms)

interpretation ref_rec: on_server ref_env
  by unfold_locales (simp add: ref_env_def)

context on_server
begin

lemmas ref_simps = server ref_cou_fields

lemma reader [simp]: "cl_reader ref_client w = ref_reader w"
  by (simp add: ref_client_def)

lemma config_step:
  assumes "lc_conduit l = c"
    and "PipelineConfigYAML (re_unicode E) (ref_reader w) (re_marshal E) c = Ok y"
  shows "\<exists>l'. CreateOrUpdateConfig E (w, l) = (Ok (), (w\<lparr>w_ConfigMaps := (w_ConfigMaps w)(child_key c \<mapsto>
        (cur_cm w c)\<lparr>cm_Data := [''pipeline.yaml'' \<mapsto> y], cm_Meta := owned c (cm_Meta (cur_cm w c))\<rparr>)\<rparr>, l'))
    \<and> lc_conduit l' = lc_conduit (snd (c_SetCondition E ''ConfigReady'' ''True'' ''ConfigReady''
        ''Pipeline configuration created'' l))"
  unfolding CreateOrUpdateConfig_def Let_def get_c_run get_R_run ref_simps assms(1) reader assms(2) bind_io_ret
  by (rule ref_child_tail)
    (simp_all add: cmFn_def Let_def bind_fst_Ok SetCondition_run ref_own [OF server] owned_def assms(1)
      cur_cm_def [symmetric])

lemma secret_step:
  assumes "lc_conduit l = c" and "SchemaRegistryConfig (re_url E) (ref_reader w) c = Ok sd"
  shows "\<exists>l'. CreateOrUpdateSecret E (w, l) = (Ok (), (w\<lparr>w_Secrets := (w_Secrets w)(child_key c \<mapsto>
        (cur_secret w c)\<lparr>se_Data := sd, se_Meta := owned c (se_Meta (cur_secret w c))\<rparr>)\<rparr>, l'))
    \<and> lc_conduit l' = lc_conduit (snd (c_SetCondition E ''SecretReady'' ''True'' ''SecretReady''
        ''Conduit secret created'' l))"
  unfolding CreateOrUpdateSecret_def Let_def get_c_run get_R_run ref_simps assms(1) reader assms(2) bind_io_ret
  by (rule ref_child_tail)
    (simp_all add: secretFn_def Let_def bind_fst_Ok SetCondition_run ref_own [OF server] owned_def assms(1)
      cur_secret_def [symmetric])

lemma volume_step:
  assumes "lc_conduit l = c"
  shows "\<exists>l'. CreateOrUpdateVolume E (w, l) = (Ok (), (w\<lparr>w_Claims := (w_Claims w)(child_key c \<mapsto>
        (cur_pvc w c)\<lparr>pvc_Meta := owned c (pvc_Meta (cur_pvc w c))\<rparr>)\<rparr>, l'))
    \<and> lc_conduit l' = lc_conduit (snd (pvcFn E (NamespacedName_of c) (cur_pvc w c) l))"
  unfolding CreateOrUpdateVolume_def Let_def get_c_run ref_simps assms(1)
  by (rule ref_child_tail)
    (simp_all add: pvcFn_def Let_def bind_fst_Ok SetCondition_run Eventf_run ref_own [OF server] owned_def
      assms(1) cur_pvc_def [symmetric])

lemma service_step:
  assumes "lc_conduit l = c"
  shows "\<exists>l'. CreateOrUpdateService E (w, l) = (Ok (), (w\<lparr>w_Services := (w_Services w)(child_key c \<mapsto>
        exposed c (cur_service w c))\<rparr>, l'))
    \<and> lc_conduit l' = lc_conduit (snd (serviceFn E (NamespacedName_of c) (cur_service w c) l))"
  unfolding CreateOrUpdateService_def Let_def get_c_run ref_simps assms(1)
  by (rule ref_child_tail)
    (simp_all add: serviceFn_def Let_def bind_fst_Ok SetCondition_run ref_own [OF server] owned_def assms(1)
      cur_service_def [symmetric] exposed_def)

text \<open>The deployment's mutate function succeeds whenever there is a command line for the version.\<close>

lemma deploymentFn_total:
  assumes "lc_conduit l = c"
    and "ForVersion (re_semver E) (re_constraints E) (r_flags r) (sp_Version (c_Spec c)) = Ok args"
  shows "\<exists>new l1. deploymentFn E r nn k ml ls as cm s d l = (Ok new, l1) \<and> d_Meta new = owned c (d_Meta d)"
proof -
  obtain kont where kont: "ConduitRuntimeContainer (re_semver E) (re_constraints E)
      (sp_Image (c_Spec c)) (sp_Version (c_Spec c)) (deployment_env E c s) (r_flags r) = Ok kont"
    by (simp add: ConduitRuntimeContainer_def assms(2))
  let ?d = "d\<lparr>d_Spec := (merge (d_Spec d) (deployment_spec c nn k kont))
      \<lparr>ds_MatchLabels := ml, ds_Labels := ls, ds_Annotations := as\<rparr>\<rparr>"
  obtain st reason where st: "deploymentRunningStatus ?d = Ok (st, reason)"
    using running_status_total [of ?d k] by (auto simp: merge_def deployment_spec_def)
  with st show ?thesis
    by (simp add: deploymentFn_def kont Let_def bind_fst_Ok set_running_run ref_own [OF server]
        assms(1) owned_def)
qed

lemma deployment_step:
  assumes "lc_conduit l = c" and "w_ConfigMaps w (child_key c) = Some cm" and "w_Secrets w (child_key c) = Some s"
    and "deploy E r c cm s (cur_deployment w c) l = (Ok new, l1)"
    and "d_Meta new = owned c (d_Meta (cur_deployment w c))"
  shows "\<exists>l'. CreateOrUpdateDeployment E r (w, l) =
      (Ok (), (w\<lparr>w_Deployments := (w_Deployments w)(child_key c \<mapsto> new)\<rparr>, l')) \<and> lc_conduit l' = lc_conduit l1"
proof -
  have read: "get_configmap (ref_reader w) (NamespacedName_of c) = Ok cm"
    "get_secret (ref_reader w) (NamespacedName_of c) = Ok s"
    using assms(2,3) by (simp_all add: ref_reader_def found_def)
  show ?thesis
    unfolding CreateOrUpdateDeployment_def Let_def get_c_run get_R_run ref_simps assms(1) reader read
    by (simp add: err_io_def)
      (rule ref_child_tail, use assms(4,5) in \<open>simp_all add: deploy_def Let_def cur_deployment_def [symmetric]\<close>)
qed

lemma status_step:
  assumes "lc_conduit l = c" and "w_Conduits w (key_of (c_Meta c)) = Some c0"
    and "c_Meta c0 = c_Meta c" and "c_Spec c0 = c_Spec c" and "om_DeletionTimestamp (c_Meta c) = None"
  shows "\<exists>c' l'. UpdateStatus E (w, l) = (Ok (), (w\<lparr>w_Conduits := (w_Conduits w)(key_of (c_Meta c) \<mapsto> c')\<rparr>, l'))
    \<and> lc_conduit l' = c' \<and> c_Meta c' = c_Meta c \<and> c_Spec c' = c_Spec c
    \<and> st_Conditions (c_Status c') = st_Conditions (c_Status c) \<and> (c_Status c0 = c_Status c \<longrightarrow> c' = c)"
proof -
  have read: "get_conduit (ref_reader w) \<lparr>nn_Name = om_Name (c_Meta c), nn_Namespace = om_Namespace (c_Meta c)\<rparr> = Ok c0"
    using assms(2) by (simp add: ref_reader_def found_def key_of_def)
  show ?thesis
  proof (cases "c_Status c0 = c_Status c")
    case True
    then have "c0 = c" using assms(3,4) by (intro Conduit.equality) auto
    with assms(2) have "w\<lparr>w_Conduits := (w_Conduits w)(key_of (c_Meta c) \<mapsto> c)\<rparr> = w"
      by (intro cluster.equality) (auto simp: fun_eq_iff)
    with True read show ?thesis
      by (simp add: UpdateStatus_def server assms(1) ref_client_def)
  next
    case False
    then have "\<not> Semantic_DeepEqual ref_client (c_Status c0) (c_Status c)" by (simp add: ref_client_def)
    moreover have "cl_StatusUpdate ref_client = ref_put" by (simp add: ref_client_def)
    ultimately show ?thesis
      using read assms(5) False
      by (simp add: UpdateStatus_def server assms(1) err_io_def bind_fst_Ok
          stamp_status_def status_update_def ref_put_def Eventf_run Let_def)
  qed
qed

end

section \<open>A run of all steps\<close>

text \<open>What the steps need from outside: the pipeline, the registry settings, the command line.\<close>

definition renders ::
  "(cluster, 'u, 'v, 'c) rec_env \<Rightarrow> ConduitReconciler \<Rightarrow> cluster \<Rightarrow> Conduit \<Rightarrow> string \<Rightarrow> (string \<rightharpoonup> string) \<Rightarrow> bool" where
  "renders E r w c y sd \<longleftrightarrow>
     PipelineConfigYAML (re_unicode E) (ref_reader w) (re_marshal E) c = Ok y
     \<and> SchemaRegistryConfig (re_url E) (ref_reader w) c = Ok sd
     \<and> (case ForVersion (re_semver E) (re_constraints E) (r_flags r) (sp_Version (c_Spec c)) of
          Ok args \<Rightarrow> True | _ \<Rightarrow> False)"

definition same_resource :: "Conduit \<Rightarrow> Conduit \<Rightarrow> bool" where
  "same_resource c c' \<longleftrightarrow> c_Meta c' = c_Meta c \<and> c_Spec c' = c_Spec c"

lemma config_same_resource:
  assumes "same_resource c c'"
  shows "PipelineConfigYAML U R m c' = PipelineConfigYAML U R m c"
    and "SchemaRegistryConfig P R c' = SchemaRegistryConfig P R c"
proof -
  from assms have c: "c_Meta c' = c_Meta c" "c_Spec c' = c_Spec c" by (simp_all add: same_resource_def)
  show "PipelineConfigYAML U R m c' = PipelineConfigYAML U R m c"
    unfolding PipelineConfigYAML_def c ..
  show "SchemaRegistryConfig P R c' = SchemaRegistryConfig P R c"
    unfolding SchemaRegistryConfig_def c ..
qed

lemma same_resourceD:
  assumes "same_resource c c'"
  shows "child_key c' = child_key c" "NamespacedName_of c' = NamespacedName_of c"
    "cur_cm w c' = cur_cm w c" "cur_secret w c' = cur_secret w c" "cur_pvc w c' = cur_pvc w c"
    "cur_deployment w c' = cur_deployment w c" "cur_service w c' = cur_service w c"
    "owned c' m = owned c m" "exposed c' svc = exposed c svc" "deploy E r c' cm s = deploy E r c cm s"
    "renders E r w c' y sd = renders E r w c y sd"
  using assms
  by (simp_all add: same_resource_def child_key_def NamespacedName_of_def cur_cm_def cur_secret_def
      cur_pvc_def cur_deployment_def cur_service_def owned_def exposed_def deploy_def getReplicas_def
      deployment_labels_def deployment_annotations_def renders_def
      config_same_resource [OF assms])

text \<open>The server after each step.\<close>

definition put_config :: "cluster \<Rightarrow> Conduit \<Rightarrow> string \<Rightarrow> cluster" where
  "put_config w c y = w\<lparr>w_ConfigMaps := (w_ConfigMaps w)(child_key c \<mapsto>
     (cur_cm w c)\<lparr>cm_Data := [''pipeline.yaml'' \<mapsto> y], cm_Meta := owned c (cm_Meta (cur_cm w c))\<rparr>)\<rparr>"

definition put_secret :: "cluster \<Rightarrow> Conduit \<Rightarrow> (string \<rightharpoonup> string) \<Rightarrow> cluster" where
  "put_secret w c sd = w\<lparr>w_Secrets := (w_Secrets w)(child_key c \<mapsto>
     (cur_secret w c)\<lparr>se_Data := sd, se_Meta := owned c (se_Meta (cur_secret w c))\<rparr>)\<rparr>"

definition put_claim :: "cluster \<Rightarrow> Conduit \<Rightarrow> cluster" where
  "put_claim w c = w\<lparr>w_Claims := (w_Claims w)(child_key c \<mapsto>
     (cur_pvc w c)\<lparr>pvc_Meta := owned c (pvc_Meta (cur_pvc w c))\<rparr>)\<rparr>"

definition put_deployment :: "cluster \<Rightarrow> Conduit \<Rightarrow> Deployment \<Rightarrow> cluster" where
  "put_deployment w c d = w\<lparr>w_Deployments := (w_Deployments w)(child_key c \<mapsto> d)\<rparr>"

definition put_service :: "cluster \<Rightarrow> Conduit \<Rightarrow> cluster" where
  "put_service w c = w\<lparr>w_Services := (w_Services w)(child_key c \<mapsto> exposed c (cur_service w c))\<rparr>"

definition put_conduit :: "cluster \<Rightarrow> Conduit \<Rightarrow> cluster" where
  "put_conduit w c = w\<lparr>w_Conduits := (w_Conduits w)(key_of (c_Meta c) \<mapsto> c)\<rparr>"

lemmas put_defs = put_config_def put_secret_def put_claim_def put_deployment_def put_service_def put_conduit_def

lemma join_step_Ok: "step s = (Ok (), s') \<Longrightarrow> join_step fmt step rest errs s = rest errs s'"
  by (simp add: join_step_def err_io_def)

lemma SchemaRegistry_after_config:
  "SchemaRegistryConfig P (ref_reader (put_config w c y)) c' = SchemaRegistryConfig P (ref_reader w) c'"
  by (rule SchemaRegistryConfig_reads_secrets) (simp add: ref_reader_def put_defs)

lemma renders_cong:
  assumes "w_ConfigMaps w' = w_ConfigMaps w" and "w_Secrets w' = w_Secrets w"
    and "c_Spec c' = c_Spec c" and "om_Namespace (c_Meta c') = om_Namespace (c_Meta c)"
  shows "renders E r w' c' y sd = renders E r w c y sd"
proof -
  have R: "get_configmap (ref_reader w') = get_configmap (ref_reader w)"
    "ns_get_secret (ref_reader w') = ns_get_secret (ref_reader w)"
    by (simp_all add: ref_reader_def assms)
  show ?thesis
    unfolding renders_def PipelineConfigYAML_reads_configmaps [OF R(1)] SchemaRegistryConfig_reads_secrets [OF R(2)]
    unfolding PipelineConfigYAML_def SchemaRegistryConfig_def assms ..
qed

context on_server
begin

lemma same_after: "child_rel ct l l' \<Longrightarrow> same_resource c (lc_conduit l) \<Longrightarrow> same_resource c (lc_conduit l')"
  by (simp add: child_rel_def same_resource_def)

lemma children_run:
  assumes "lc_conduit l = c" and "renders E r w c y sd"
    and "w_Conduits w (key_of (c_Meta c)) = Some c0" and "same_resource c c0"
    and "om_DeletionTimestamp (c_Meta c) = None"
  obtains w1 w2 w3 w4 w5 l1 l2 l3 l4 l5 l6 d ld c' where
    "CreateOrUpdateConfig E (w, l) = (Ok (), (w1, l1))"
    "CreateOrUpdateSecret E (w1, l1) = (Ok (), (w2, l2))"
    "CreateOrUpdateVolume E (w2, l2) = (Ok (), (w3, l3))"
    "CreateOrUpdateDeployment E r (w3, l3) = (Ok (), (w4, l4))"
    "CreateOrUpdateService E (w4, l4) = (Ok (), (w5, l5))"
    "UpdateStatus E (w5, l5) = (Ok (), (put_conduit w5 c', l6))"
    "w1 = put_config w c y" "w2 = put_secret w1 c sd" "w3 = put_claim w2 c"
    "w4 = put_deployment w3 c d" "w5 = put_service w4 c"
    "deploy E r c (the (w_ConfigMaps w1 (child_key c))) (the (w_Secrets w2 (child_key c)))
       (cur_deployment w c) l3 = (Ok d, ld)" "lc_conduit l4 = lc_conduit ld"
    "d_Meta d = owned c (d_Meta (cur_deployment w c))"
    "same_resource c (lc_conduit l3)" "same_resource c c'"
    "st_Conditions (c_Status c') = st_Conditions (c_Status (lc_conduit l5))"
    "lc_conduit l3 = lc_conduit (snd (pvcFn E (NamespacedName_of c) (cur_pvc w c) l2))"
    "lc_conduit l5 = lc_conduit (snd (serviceFn E (NamespacedName_of c) (cur_service w c) l4))"
proof -
  note D = same_resourceD and R = assms(2) [unfolded renders_def]
  have s0: "same_resource c (lc_conduit l)" by (simp add: assms(1) same_resource_def)
  define w1 where "w1 = put_config w c y"
  obtain l1 where 1: "CreateOrUpdateConfig E (w, l) = (Ok (), (w1, l1))"
    using config_step [OF assms(1)] R unfolding w1_def put_defs by blast
  note s1 = same_after [OF config.step_rel [OF 1] s0]
  define w2 where "w2 = put_secret w1 c sd"
  have sd: "SchemaRegistryConfig (re_url E) (ref_reader w1) (lc_conduit l1) = Ok sd"
    using D(11) [OF s1, of E r w y sd] assms(2) by (simp add: renders_def w1_def SchemaRegistry_after_config)
  obtain l2 where 2: "CreateOrUpdateSecret E (w1, l1) = (Ok (), (w2, l2))"
    using secret_step [OF refl sd] unfolding w2_def put_defs D [OF s1] by blast
  note s2 = same_after [OF secret.step_rel [OF 2] s1]
  define w3 where "w3 = put_claim w2 c"
  have cur: "cur_pvc w2 c = cur_pvc w c" by (simp add: w2_def w1_def put_defs cur_pvc_def)
  obtain l3 where 3: "CreateOrUpdateVolume E (w2, l2) = (Ok (), (w3, l3))"
    and l3: "lc_conduit l3 = lc_conduit (snd (pvcFn E (NamespacedName_of c) (cur_pvc w c) l2))"
    using volume_step [OF refl, of w2 l2] unfolding w3_def put_defs D [OF s2] cur by blast
  note s3 = same_after [OF volume.step_rel [OF 3] s2]
  have cur: "cur_deployment w3 c = cur_deployment w c"
    by (simp add: w3_def w2_def w1_def put_defs cur_deployment_def)
  obtain cm s where cm: "w_ConfigMaps w1 (child_key c) = Some cm" "w_ConfigMaps w3 (child_key c) = Some cm"
    and s: "w_Secrets w2 (child_key c) = Some s" "w_Secrets w3 (child_key c) = Some s"
    by (simp add: w3_def w2_def w1_def put_defs)
  obtain args where "ForVersion (re_semver E) (re_constraints E) (r_flags r) (sp_Version (c_Spec (lc_conduit l3))) = Ok args"
    using R s3 by (auto simp: same_resource_def split: res.splits)
  from deploymentFn_total [OF refl this] obtain d ld where d: "deploy E r c cm s (cur_deployment w c) l3 = (Ok d, ld)"
    and own: "d_Meta d = owned c (d_Meta (cur_deployment w c))"
    unfolding D [OF s3] deploy_def Let_def by metis
  define w4 where "w4 = put_deployment w3 c d"
  have d': "deploy E r (lc_conduit l3) cm s (cur_deployment w3 (lc_conduit l3)) l3 = (Ok d, ld)"
    "d_Meta d = owned (lc_conduit l3) (d_Meta (cur_deployment w3 (lc_conduit l3)))"
    "w_ConfigMaps w3 (child_key (lc_conduit l3)) = Some cm" "w_Secrets w3 (child_key (lc_conduit l3)) = Some s"
    unfolding D [OF s3] cur by (rule d, rule own, rule cm(2), rule s(2))
  obtain l4 where 4: "CreateOrUpdateDeployment E r (w3, l3) = (Ok (), (w4, l4))" and l4: "lc_conduit l4 = lc_conduit ld"
    using deployment_step [OF refl d'(3,4,1,2)] unfolding w4_def put_defs D [OF s3] by blast
  note s4 = same_after [OF deployment.step_rel [OF 4] s3]
  define w5 where "w5 = put_service w4 c"
  have cur: "cur_service w4 c = cur_service w c"
    by (simp add: w4_def w3_def w2_def w1_def put_defs cur_service_def)
  obtain l5 where 5: "CreateOrUpdateService E (w4, l4) = (Ok (), (w5, l5))"
    and l5: "lc_conduit l5 = lc_conduit (snd (serviceFn E (NamespacedName_of c) (cur_service w c) l4))"
    using service_step [OF refl, of w4 l4] unfolding w5_def put_defs D [OF s4] cur by blast
  note s5 = same_after [OF service.step_rel [OF 5] s4]
  have meta: "c_Meta (lc_conduit l5) = c_Meta c" using s5 by (simp add: same_resource_def)
  have "w_Conduits w5 (key_of (c_Meta (lc_conduit l5))) = Some c0"
    using assms(3) meta by (simp add: w5_def w4_def w3_def w2_def w1_def put_defs)
  from status_step [OF refl this] assms(4,5) s5 meta obtain c' l6 where
    6: "UpdateStatus E (w5, l5) = (Ok (), (put_conduit w5 c', l6))" "lc_conduit l6 = c'"
      "same_resource c c'" "st_Conditions (c_Status c') = st_Conditions (c_Status (lc_conduit l5))"
    unfolding same_resource_def put_conduit_def by metis
  show thesis
    by (rule that [OF 1 2 3 4 5 6(1) w1_def w2_def w3_def w4_def w5_def _ l4 own s3 6(3,4) l3 l5])
      (simp add: cm s d)
qed

lemma children_clean:
  assumes "lc_conduit l = c" and "renders E r w c y sd"
    and "w_Conduits w (key_of (c_Meta c)) = Some c0" and "same_resource c c0"
    and "om_DeletionTimestamp (c_Meta c) = None"
  obtains w' l' where "reconcile_children E r (w, l) = (Ok (10, None), (w', l'))"
  using assms
  by (rule children_run)
    (simp add: reconcile_children_def join_step_Ok [where step = "CreateOrUpdateConfig E"]
      join_step_Ok [where step = "CreateOrUpdateSecret E"] join_step_Ok [where step = "CreateOrUpdateVolume E"]
      join_step_Ok [where step = "CreateOrUpdateDeployment E r"]
      join_step_Ok [where step = "CreateOrUpdateService E"] join_step_Ok [where step = "UpdateStatus E"])

end

section \<open>A resource for the examples\<close>

text \<open>
  A resource without connectors and processors, as the in-memory API server has it; every step
  of its reconciliation succeeds.
\<close>

definition bare_conduit :: Conduit where
  "bare_conduit = with_finalizers (SampleConduit\<lparr>c_Spec := (c_Spec SampleConduit)
     \<lparr>sp_Image := ''img'', sp_Registry := None, sp_Connectors := [], sp_Processors := []\<rparr>\<rparr>)
     [''finalizers.operator.conduit.io'']"

lemma bare_simps:
  "sp_Running (c_Spec bare_conduit) = Some True" "sp_Connectors (c_Spec bare_conduit) = []"
  "sp_Processors (c_Spec bare_conduit) = []" "sp_Registry (c_Spec bare_conduit) = None"
  "sp_Version (c_Spec bare_conduit) = ''v0.13.2''" "sp_Image (c_Spec bare_conduit) = ''img''"
  "om_Name (c_Meta bare_conduit) = ''sample''" "om_Namespace (c_Meta bare_conduit) = ''sample''"
  "om_DeletionTimestamp (c_Meta bare_conduit) = None"
  "om_Finalizers (c_Meta bare_conduit) = [''finalizers.operator.conduit.io'']"
  "st_Conditions (c_Status bare_conduit) = []"
  by (simp_all add: bare_conduit_def SampleConduit_def with_finalizers_def new_meta_def zero_status_def)

lemma bare_version:
  "\<exists>args. ForVersion (re_semver ref_env) (re_constraints ref_env) flags (sp_Version (c_Spec bare_conduit)) = Ok args"
proof -
  have "NewVersion ref_semver (TrimPrefix ''v0.13.2'' ''v'') = Ok (SemverValue (Version 0 13 2) False)"
    by (simp add: ref_semver_def semver_eval TrimPrefix_def)
  from ref.ForVersion_total [OF refl this] show ?thesis
    by (simp add: ref_env_def bare_simps flags_of_def)
qed

lemma bare_renders: "renders ref_env r w bare_conduit ''yaml'' Map.empty"
  using bare_version [of "r_flags r"]
  by (auto simp: renders_def PipelineConfigYAML_def SchemaRegistryConfig_def bare_simps ref_env_def)

lemma bare_deploymentFn:
  "\<exists>new l1. deploymentFn ref_env r nn k ml ls as cm s d (start bare_conduit) = (Ok new, l1)"
proof -
  have c: "lc_conduit (start bare_conduit) = bare_conduit" by (simp add: start_def)
  obtain args where "ForVersion (re_semver ref_env) (re_constraints ref_env) (r_flags r)
      (sp_Version (c_Spec bare_conduit)) = Ok args"
    using bare_version by blast
  from ref_rec.deploymentFn_total [OF c this] show ?thesis by metis
qed

lemma bare_run:
  "\<exists>w' l'. reconcile_children ref_env r (stored bare_conduit, start bare_conduit) = (Ok (10, None), (w', l'))"
  by (rule ref_rec.children_clean [OF _ bare_renders, of "start bare_conduit" "stored bare_conduit" bare_conduit])
    (auto simp: start_def stored_def same_resource_def bare_simps)

end
