(* ===== verification/Reconciler_Properties.thy ===== *)
theory Reconciler_Properties
  imports Reconciler_Run
begin

text \<open>
  The correctness properties of the reconciler: the finalizer protocol, that every step runs and
  every error is reported, what the status says after a step, and the desired state written for
  the deployment.
\<close>

section \<open>Facts about the handlers\<close>

lemma set_then_own:
  assumes "bind_io (c_SetCondition E ct st r m) (\<lambda>_. bind_io (own E mm) (\<lambda>x. ret_io (g x))) l = (Ok y, l')"
  shows "l' = snd (c_SetCondition E ct st r m l)"
  using assms by (auto simp: bind_io_def c_SetCondition_def own_def split: res.splits)

lemma spec_set_then_own:
  assumes "one_each l"
    and "bind_io (c_SetCondition E ct st r m) (\<lambda>_. bind_io (own E mm) (\<lambda>x. ret_io (g x))) l = (Ok y, l')"
  shows "view l' = spec_SetCondition ConduitConditions (view l) ct (st, r, m)"
  using set_then_own [OF assms(2)] assms(1) by (simp add: view_SetCondition)

lemma view_set_then_own:
  assumes "one_each l" and "ct \<noteq> ''Ready''"
    and "bind_io (c_SetCondition E ct st r m) (\<lambda>_. bind_io (own E mm) (\<lambda>x. ret_io (g x))) l = (Ok y, l')"
  shows "view l' ct = Some (st, r, m)"
  using set_then_own [OF assms(3)] assms(1,2)
  by (simp add: view_SetCondition spec_SetCondition_same)

lemma view_conduit: "lc_conduit l' = lc_conduit l \<Longrightarrow> view l' = view l"
  by (simp add: view_def)

lemma bind_lift_Ok:
  assumes "bind_io (lift_res r) f s = (Ok b, s')"
  obtains a where "r = Ok a" "f a s = (Ok b, s')"
  using assms by (cases r) auto

definition handler_list ::
  "('w, 'u, 'v, 'c) rec_env \<Rightarrow> ConduitReconciler \<Rightarrow> (ConditionType \<times> ('w rt, unit) io) list" where
  "handler_list E r =
     [(''ConfigReady'', CreateOrUpdateConfig E), (''SecretReady'', CreateOrUpdateSecret E),
      (''VolumeBound'', CreateOrUpdateVolume E), (''DeploymentRunning'', CreateOrUpdateDeployment E r),
      (''ServiceReady'', CreateOrUpdateService E)]"

context reconciler
begin

lemma handlers:
  assumes "(ct, step) \<in> set (handler_list E r)"
  shows "child_step step ct"
proof -
  from assms have "ct = ''ConfigReady'' \<and> step = CreateOrUpdateConfig E
    \<or> ct = ''SecretReady'' \<and> step = CreateOrUpdateSecret E
    \<or> ct = ''VolumeBound'' \<and> step = CreateOrUpdateVolume E
    \<or> ct = ''DeploymentRunning'' \<and> step = CreateOrUpdateDeployment E r
    \<or> ct = ''ServiceReady'' \<and> step = CreateOrUpdateService E"
    by (simp only: handler_list_def list.set insert_iff empty_iff prod.inject simp_thms)
  then show ?thesis
    by (elim disjE conjE)
      (simp_all only: config.child_step_axioms secret.child_step_axioms volume.child_step_axioms
        deployment.child_step_axioms service.child_step_axioms)
qed

lemma config_Ok:
  assumes "one_each l" and "CreateOrUpdateConfig E (w, l) = (Ok (), (w', l'))"
  shows "view l' ''ConfigReady'' = Some (''True'', ''ConfigReady'', ''Pipeline configuration created'')"
proof -
  from assms(2) obtain y op l1 cm where
    call: "cou_ConfigMap (re_client E) cm (cmFn E y) (w, l) = (Ok op, (w', l1))"
    and same: "lc_conduit l' = lc_conduit l1"
    unfolding CreateOrUpdateConfig_def Let_def get_c_run get_R_run
    by (elim bind_lift_Ok child_tail_Ok) blast
  obtain obj' obj'' where f: "cmFn E y obj' l = (Ok obj'', l1)"
    using cms.cou_Ok [OF call] by metis
  show ?thesis
    using view_set_then_own [OF assms(1) _ f [unfolded cmFn_def Let_def]]
    by (simp add: view_conduit [OF same])
qed

lemma secret_Ok:
  assumes "one_each l" and "CreateOrUpdateSecret E (w, l) = (Ok (), (w', l'))"
  shows "view l' ''SecretReady'' = Some (''True'', ''SecretReady'', ''Conduit secret created'')"
proof -
  from assms(2) obtain d op l1 s where
    call: "cou_Secret (re_client E) s (secretFn E d) (w, l) = (Ok op, (w', l1))"
    and same: "lc_conduit l' = lc_conduit l1"
    unfolding CreateOrUpdateSecret_def Let_def get_c_run get_R_run
    by (elim bind_lift_Ok child_tail_Ok) blast
  obtain obj' obj'' where f: "secretFn E d obj' l = (Ok obj'', l1)"
    using ses.cou_Ok [OF call] by metis
  show ?thesis
    using view_set_then_own [OF assms(1) _ f [unfolded secretFn_def Let_def]]
    by (simp add: view_conduit [OF same])
qed

lemma service_spec:
  assumes "one_each l" and "CreateOrUpdateService E (w, l) = (Ok (), (w', l'))"
  shows "\<exists>m. view l' = spec_SetCondition ConduitConditions (view l) ''ServiceReady''
    (''True'', ''ServiceReady'', m)"
proof -
  from assms(2) obtain nn op l1 s where
    call: "cou_Service (re_client E) s (serviceFn E nn) (w, l) = (Ok op, (w', l1))"
    and same: "lc_conduit l' = lc_conduit l1"
    unfolding CreateOrUpdateService_def Let_def get_c_run
    by (elim child_tail_Ok) blast
  obtain obj' obj'' where f: "serviceFn E nn obj' l = (Ok obj'', l1)"
    using svcs.cou_Ok [OF call] by metis
  show ?thesis
    using spec_set_then_own [OF assms(1) f [unfolded serviceFn_def Let_def]]
    by (auto simp: view_conduit [OF same])
qed

lemma same_view_UpdateStatus: "framed (same (\<lambda>s. view (snd s))) (UpdateStatus E)"
proof -
  have "framed (same (\<lambda>s. view (snd s))) (status_update E)"
  proof (rule framedI)
    fix s :: "'w rt"
    obtain w l where s: "s = (w, l)" by (cases s)
    obtain x w' where x: "cl_StatusUpdate (re_client E) (lc_conduit l) w = (x, w')" by (metis surj_pair)
    then show "same (\<lambda>s. view (snd s)) s (snd (status_update E s))"
      using status_stored [of "lc_conduit l" w _ w']
      by (cases x) (auto simp: s status_update_def same_def view_def)
  qed
  moreover have "framed (same (\<lambda>s. view (snd s))) (local_io (stamp_status E) :: ('w rt, unit) io)"
    by (auto simp: framed_def same_def stamp_status_def Let_def view_def)
  moreover have "framed (same (\<lambda>s. view (snd s))) (local_io (Eventf t r f as) :: ('w rt, unit) io)" for t r f as
    by (auto simp: framed_def same_def Eventf_def view_def)
  ultimately show ?thesis
    unfolding UpdateStatus_def get_c_def get_R_def
    by (intro same.framed_intros)
qed

lemma children_None:
  assumes "reconcile_children E r s = (Ok (k, None), s')"
  shows "run_steps (steps E r) s = (Ok [], s')"
proof -
  obtain x s1 where x: "run_steps (steps E r) s = (x, s1)" by (metis surj_pair)
  from join_all_run_steps [OF x, of "\<lambda>errs. ret_io (10 :: nat, errs)" None] assms x show ?thesis
    unfolding reconcile_children_steps by (cases x) auto
qed

end

lemma run_steps_Nil:
  "run_steps ((f, st) # ss) s = (Ok [], s') \<longleftrightarrow> (\<exists>s1. st s = (Ok (), s1) \<and> run_steps ss s1 = (Ok [], s'))"
proof -
  obtain x s1 where "st s = (x, s1)" by (metis surj_pair)
  then show ?thesis by (cases x) (auto simp: err_io_def bind_io_Ok_iff)
qed

lemma Reconcile_deleted:
  assumes "get_conduit (cl_reader (re_client E) w) req = Ok c"
    and "om_DeletionTimestamp (c_Meta c) = Some t"
    and "cl_Update (re_client E) (with_finalizers c
      (RemoveFinalizer (re_client E) (om_Finalizers (c_Meta c)) ConduitFinalizer)) w = (x, w')"
  shows "fst (Reconcile E r req (w, l)) = (case x of
      Ok _ \<Rightarrow> Ok (0, None) | Err e \<Rightarrow> Ok (10, Some e) | Panic p \<Rightarrow> Panic p)
    \<and> fst (snd (Reconcile E r req (w, l))) = w'"
  using assms
  by (cases x) (simp_all add: Reconcile_def reconcile_found_def bind_io_def err_io_def update_conduit_def set_finalizers_def
      Let_def with_finalizers_def Eventf_def get_R_def)

lemma Reconcile_first_visit:
  assumes "get_conduit (cl_reader (re_client E) w) req = Ok c"
    and "om_DeletionTimestamp (c_Meta c) = None"
    and "\<not> ContainsFinalizer (re_client E) (om_Finalizers (c_Meta c)) ConduitFinalizer"
    and "cl_Update (re_client E) (with_finalizers c
      (AddFinalizer (re_client E) (om_Finalizers (c_Meta c)) ConduitFinalizer)) w = (x, w')"
  shows "fst (Reconcile E r req (w, l)) = (case x of
      Ok _ \<Rightarrow> Ok (10, None) | Err e \<Rightarrow> Ok (10, Some e) | Panic p \<Rightarrow> Panic p)
    \<and> fst (snd (Reconcile E r req (w, l))) = w'"
  using assms
  by (cases x) (simp_all add: Reconcile_def reconcile_found_def bind_io_def err_io_def update_conduit_def set_finalizers_def
      Let_def with_finalizers_def get_R_def)

lemma Reconcile_children:
  assumes "get_conduit (cl_reader (re_client E) w) req = Ok c"
    and "om_DeletionTimestamp (c_Meta c) = None"
    and "ContainsFinalizer (re_client E) (om_Finalizers (c_Meta c)) ConduitFinalizer"
  shows "Reconcile E r req (w, l) = reconcile_children E r (w, l\<lparr>lc_conduit := c\<rparr>)"
  using assms by (simp add: Reconcile_def reconcile_found_def bind_io_def err_io_def get_R_def)

section \<open>Properties\<close>

text \<open>
  C11: how the finalizer is handled. A resource that is gone is no error and nothing is done. For a
  resource that is being deleted, or that does not carry the operator's finalizer yet, the only
  write is one update of the resource, which removes that finalizer and no other, or adds it;
  specification and status go back unchanged, no child object is touched, and a failed update is
  returned for a retry in ten seconds.
\<close>

theorem Reconcile_finalizer_protocol:
  assumes "kube_client (re_client E)"
    and "get_conduit (cl_reader (re_client E) w) req = Ok c"
    and "om_DeletionTimestamp (c_Meta c) \<noteq> None \<or> ''finalizers.operator.conduit.io'' \<notin> set (om_Finalizers (c_Meta c))"
  shows "\<exists>fs. set fs = (if om_DeletionTimestamp (c_Meta c) \<noteq> None
        then set (om_Finalizers (c_Meta c)) - {''finalizers.operator.conduit.io''}
        else insert ''finalizers.operator.conduit.io'' (set (om_Finalizers (c_Meta c))))
    \<and> (\<forall>x w'. cl_Update (re_client E) (with_finalizers c fs) w = (x, w') \<longrightarrow>
        fst (snd (Reconcile E r req (w, l))) = w'
        \<and> fst (Reconcile E r req (w, l)) = (case x of
            Ok _ \<Rightarrow> Ok (if om_DeletionTimestamp (c_Meta c) \<noteq> None then 0 else 10, None)
          | Err e \<Rightarrow> Ok (10, Some e)
          | Panic p \<Rightarrow> Panic p))"
proof (cases "om_DeletionTimestamp (c_Meta c)")
  case None
  then have "\<not> ContainsFinalizer (re_client E) (om_Finalizers (c_Meta c)) ConduitFinalizer"
    using assms(3) by (simp add: kube_client.contains_iff [OF assms(1)])
  with None show ?thesis
    using Reconcile_first_visit [OF assms(2) None]
    by (intro exI [of _ "AddFinalizer (re_client E) (om_Finalizers (c_Meta c)) ConduitFinalizer"])
      (simp add: kube_client.set_add [OF assms(1)])
next
  case (Some t)
  then show ?thesis
    using Reconcile_deleted [OF assms(2) Some]
    by (intro exI [of _ "RemoveFinalizer (re_client E) (om_Finalizers (c_Meta c)) ConduitFinalizer"])
      (simp add: kube_client.set_remove [OF assms(1)])
qed

theorem Reconcile_finalizer_protocol_witness:
  "\<exists>fs. set fs = {''finalizers.operator.conduit.io''}
     \<and> fst (Reconcile ref_env (NewConduitReconciler NewConduitInstanceMetadata) (req_of SampleConduit)
         (stored SampleConduit, start SampleConduit)) = Ok (10, None)"
proof -
  have none: "om_DeletionTimestamp (c_Meta SampleConduit) = None" "om_Finalizers (c_Meta SampleConduit) = []"
    by (simp_all add: SampleConduit_def new_meta_def)
  let ?R = "Reconcile ref_env (NewConduitReconciler NewConduitInstanceMetadata) (req_of SampleConduit)
      (stored SampleConduit, start SampleConduit)"
  have "om_DeletionTimestamp (c_Meta SampleConduit) \<noteq> None
      \<or> ''finalizers.operator.conduit.io'' \<notin> set (om_Finalizers (c_Meta SampleConduit))"
    by (simp add: none)
  from Reconcile_finalizer_protocol [OF ref_rec.kube_client_axioms get_stored this,
      of "NewConduitReconciler NewConduitInstanceMetadata" "start SampleConduit"]
  obtain fs where fs: "set fs = {''finalizers.operator.conduit.io''}" and
    run: "\<forall>x w'. cl_Update (re_client ref_env) (with_finalizers SampleConduit fs) (stored SampleConduit) = (x, w') \<longrightarrow>
       fst (snd ?R) = w' \<and> fst ?R = (case x of Ok _ \<Rightarrow> Ok (10, None) | Err e \<Rightarrow> Ok (10, Some e) | Panic p \<Rightarrow> Panic p)"
    unfolding none by (elim exE conjE) simp
  obtain w' where "cl_Update (re_client ref_env) (with_finalizers SampleConduit fs)
      (stored SampleConduit) = (Ok (with_finalizers SampleConduit fs), w')"
    by (simp add: ref_env_def ref_client_def ref_put_def)
  with run have "fst ?R = Ok (10, None)" by fastforce
  with fs show ?thesis by blast
qed

text \<open>
  C2: the loop refines its specification. Every one of the six steps runs, in order, on the state
  the step before left, also after errors; the errors that come back are exactly the errors of
  the steps in that order, each wrapped with the step's message; the request is queued again
  after ten seconds; and only a panic stops the loop early.
\<close>

theorem Reconcile_runs_every_step:
  assumes "kube_client (re_client E)"
    and "get_conduit (cl_reader (re_client E) w) req = Ok c"
    and "om_DeletionTimestamp (c_Meta c) = None"
    and "''finalizers.operator.conduit.io'' \<in> set (om_Finalizers (c_Meta c))"
  shows "case run_steps (steps E r) (w, l\<lparr>lc_conduit := c\<rparr>) of
      (Ok es, s') \<Rightarrow> (\<exists>errs. Reconcile E r req (w, l) = (Ok (10, errs), s')
        \<and> opt_leaves errs = es \<and> (errs = None \<longleftrightarrow> es = []))
    | (Err e, s') \<Rightarrow> False
    | (Panic p, s') \<Rightarrow> Reconcile E r req (w, l) = (Panic p, s')"
proof -
  have run: "Reconcile E r req (w, l) = reconcile_children E r (w, l\<lparr>lc_conduit := c\<rparr>)"
    using assms by (intro Reconcile_children) (simp_all add: kube_client.contains_iff)
  obtain x s' where x: "run_steps (steps E r) (w, l\<lparr>lc_conduit := c\<rparr>) = (x, s')" by (metis surj_pair)
  have "concat (map error_leaves es) = es" if "x = Ok es" for es
    using run_steps_wrapped [of "steps E r"] x that by simp
  then show ?thesis
    using join_all_run_steps [OF x, of "\<lambda>errs. ret_io (10 :: nat, errs)" None]
    unfolding run reconcile_children_steps x by (cases x) auto
qed

theorem Reconcile_runs_every_step_witness:
  "case run_steps (steps ref_env (NewConduitReconciler NewConduitInstanceMetadata))
      (stored (with_finalizers SampleConduit [''finalizers.operator.conduit.io'']),
       (start SampleConduit)\<lparr>lc_conduit := with_finalizers SampleConduit [''finalizers.operator.conduit.io'']\<rparr>) of
      (Err e, s') \<Rightarrow> False | _ \<Rightarrow> True"
  using Reconcile_runs_every_step [OF ref_rec.kube_client_axioms get_stored,
      of "with_finalizers SampleConduit [''finalizers.operator.conduit.io'']"
         "NewConduitReconciler NewConduitInstanceMetadata" "start SampleConduit"]
  by (auto simp: with_finalizers_def SampleConduit_def new_meta_def split: prod.splits res.splits)

text \<open>
  C12: reconciling keeps the status invariant. If the stored status has its conditions sorted, one
  per type, and Ready in agreement with the others, so has the status at the end, whichever
  steps failed on the way, a panic included.
\<close>

theorem Reconcile_keeps_status_invariant:
  assumes "kube_client (re_client E)"
    and "get_conduit (cl_reader (re_client E) w) req = Ok c" and "wf_status (c_Status c)"
    and "om_DeletionTimestamp (c_Meta c) = None"
    and "''finalizers.operator.conduit.io'' \<in> set (om_Finalizers (c_Meta c))"
  shows "wf_status (c_Status (lc_conduit (snd (snd (Reconcile E r req (w, l))))))"
proof -
  have "reconciler E" using assms(1) by (simp add: reconciler_def)
  then have "keeps wf_rt (w, l\<lparr>lc_conduit := c\<rparr>) (snd (reconcile_children E r (w, l\<lparr>lc_conduit := c\<rparr>)))"
    by (rule framedD [OF reconciler.keeps_children])
  moreover have "Reconcile E r req (w, l) = reconcile_children E r (w, l\<lparr>lc_conduit := c\<rparr>)"
    using assms by (intro Reconcile_children) (simp_all add: kube_client.contains_iff)
  ultimately show ?thesis using assms(3) by (simp add: keeps_def wf_rt_def wf_loc_def)
qed

theorem Reconcile_keeps_status_invariant_witness:
  "let c = with_finalizers SampleConduit [''finalizers.operator.conduit.io''] in
   wf_status (c_Status (lc_conduit (snd (snd (Reconcile ref_env
     (NewConduitReconciler NewConduitInstanceMetadata) (req_of c) (stored c, start c))))))"
  unfolding Let_def
  by (rule Reconcile_keeps_status_invariant [OF ref_rec.kube_client_axioms get_stored])
    (simp_all add: with_finalizers_def SampleConduit_def new_meta_def zero_status_def wf_status_def wf_conds_def)



lemma spec_Ready:
  assumes "v' = spec_SetCondition ConduitConditions v ct e"
  shows "v' ''Ready'' = Some (aggregate (cs_deps ConduitConditions) v')"
  unfolding assms spec_SetCondition_def Let_def
  by (simp add: aggregate_upd)

text \<open>
  C15: what a reconciliation without errors means. The configuration, secret and service conditions
  are True, and Ready is True exactly when, besides, the volume and the deployment condition are
  present and neither False nor Unknown.
\<close>

theorem clean_reconcile_status:
  assumes "kube_client (re_client E)" and "one_each l"
    and "reconcile_children E r (w, l) = (Ok (k, None), (w', l'))"
  shows "view l' ''ConfigReady'' = Some (''True'', ''ConfigReady'', ''Pipeline configuration created'')
    \<and> view l' ''SecretReady'' = Some (''True'', ''SecretReady'', ''Conduit secret created'')
    \<and> map_option fst (view l' ''ServiceReady'') = Some ''True''
    \<and> (map_option fst (view l' ''Ready'') = Some ''True'' \<longleftrightarrow>
        (\<forall>d \<in> {''VolumeBound'', ''DeploymentRunning''}. view l' d \<noteq> None
           \<and> map_option fst (view l' d) \<noteq> Some ''False'' \<and> map_option fst (view l' d) \<noteq> Some ''Unknown''))"
proof -
  have rec: "reconciler E" using assms(1) by (simp add: reconciler_def)
  obtain w1 l1 w2 l2 w3 l3 w4 l4 w5 l5 where
    1: "CreateOrUpdateConfig E (w, l) = (Ok (), (w1, l1))" and
    2: "CreateOrUpdateSecret E (w1, l1) = (Ok (), (w2, l2))" and
    3: "CreateOrUpdateVolume E (w2, l2) = (Ok (), (w3, l3))" and
    4: "CreateOrUpdateDeployment E r (w3, l3) = (Ok (), (w4, l4))" and
    5: "CreateOrUpdateService E (w4, l4) = (Ok (), (w5, l5))" and
    6: "UpdateStatus E (w5, l5) = (Ok (), (w', l'))"
    using reconciler.children_None [OF rec assms(3)]
    unfolding steps_def run_steps_Nil by (auto simp del: run_steps.simps simp: run_steps.simps(1))
  note cs = reconciler.handlers [OF rec, of _ _ r, unfolded handler_list_def]
  have c: "child_step (CreateOrUpdateConfig E) ''ConfigReady''"
    "child_step (CreateOrUpdateSecret E) ''SecretReady''"
    "child_step (CreateOrUpdateVolume E) ''VolumeBound''"
    "child_step (CreateOrUpdateDeployment E r) ''DeploymentRunning''"
    "child_step (CreateOrUpdateService E) ''ServiceReady''"
    by (rule cs, simp)+
  have one: "one_each l1" "one_each l2" "one_each l3" "one_each l4"
    using child_step.step_one_each [OF c(1) 1 assms(2)] child_step.step_one_each [OF c(2) 2]
      child_step.step_one_each [OF c(3) 3] child_step.step_one_each [OF c(4) 4] by blast+
  obtain m where m: "view l5 = spec_SetCondition ConduitConditions (view l4) ''ServiceReady''
      (''True'', ''ServiceReady'', m)"
    using reconciler.service_spec [OF rec one(4) 5] by blast
  have end_view: "view l' = view l5"
    using framedD [OF reconciler.same_view_UpdateStatus [OF rec], of "(w5, l5)"] by (simp add: 6 same_def)
  have config: "view l5 ''ConfigReady'' = view l1 ''ConfigReady''"
    using child_step.step_other [OF c(2) 2 one(1)] child_step.step_other [OF c(3) 3 one(2)]
      child_step.step_other [OF c(4) 4 one(3)] child_step.step_other [OF c(5) 5 one(4)] by simp
  have secret: "view l5 ''SecretReady'' = view l2 ''SecretReady''"
    using child_step.step_other [OF c(3) 3 one(2)] child_step.step_other [OF c(4) 4 one(3)]
      child_step.step_other [OF c(5) 5 one(4)] by simp
  have service: "view l5 ''ServiceReady'' = Some (''True'', ''ServiceReady'', m)"
    by (simp add: m spec_SetCondition_same)
  show ?thesis
    unfolding end_view config secret service
    using reconciler.config_Ok [OF rec assms(2) 1] reconciler.secret_Ok [OF rec one(1) 2]
      config secret service spec_Ready [OF m]
    by (auto simp: aggregate_status simp del: not_None_eq map_option_eq_Some)
qed

theorem clean_reconcile_status_witness:
  "\<exists>w' l'. reconcile_children ref_env (NewConduitReconciler NewConduitInstanceMetadata)
       (stored bare_conduit, start bare_conduit) = (Ok (10, None), (w', l'))
     \<and> map_option fst (view l' ''ServiceReady'') = Some ''True''"
proof -
  obtain w' l' where run: "reconcile_children ref_env (NewConduitReconciler NewConduitInstanceMetadata)
      (stored bare_conduit, start bare_conduit) = (Ok (10, None), (w', l'))"
    using bare_run by blast
  have "one_each (start bare_conduit)"
    by (simp add: one_each_def start_def bare_conduit_def SampleConduit_def zero_status_def)
  from clean_reconcile_status [OF ref_rec.kube_client_axioms this run] run show ?thesis by blast
qed

end
