(* ===== verification/Deployment_Properties.thy ===== *)
theory Deployment_Properties
  imports Reconciler_Run
begin

text \<open>
  The properties of the deployment that the reconciler writes: the desired state, its stability
  under repetition, the environment of the container, labels and annotations, and the condition
  that reports how the deployment is running.
\<close>

section \<open>What the mutate function computes\<close>

definition desired_spec ::
  "DeploymentSpec \<Rightarrow> DeploymentSpec \<Rightarrow> (string \<rightharpoonup> string) \<Rightarrow> (string \<rightharpoonup> string) \<Rightarrow> (string \<rightharpoonup> string)
     \<Rightarrow> DeploymentSpec" where
  "desired_spec current spec ml ls as =
     (merge current spec)\<lparr>ds_MatchLabels := ml, ds_Labels := ls, ds_Annotations := as\<rparr>"

lemma running_status_Some:
  assumes "ds_Replicas (d_Spec d) = Some n"
  obtains st reason where "deploymentRunningStatus d = Ok (st, reason)"
  using running_status_total [OF assms] by auto

lemma Replicas_desired [simp]:
  "ds_Replicas (desired_spec cur (deployment_spec c nn k kont) ml ls as) = Some k"
  by (simp add: desired_spec_def merge_def deployment_spec_def)

lemma deploymentFn_elim:
  assumes "deploymentFn E r nn k ml ls as cm s d l = (Ok d', l')"
  obtains kont m st reason where
    "ConduitRuntimeContainer (re_semver E) (re_constraints E) (sp_Image (c_Spec (lc_conduit l)))
       (sp_Version (c_Spec (lc_conduit l))) (deployment_env E (lc_conduit l) s) (r_flags r) = Ok kont"
    "d' = d\<lparr>d_Spec := desired_spec (d_Spec d) (deployment_spec (lc_conduit l) nn k kont) ml ls as,
        d_Meta := m\<rparr>"
    "SetControllerReference (re_client E) (lc_conduit l') (d_Meta d) = Ok m"
    "deploymentRunningStatus (d\<lparr>d_Spec := desired_spec (d_Spec d)
        (deployment_spec (lc_conduit l) nn k kont) ml ls as\<rparr>) = Ok (st, reason)"
    "l' = snd (set_running E nn (om_ResourceVersion (cm_Meta cm)) st reason
        (itoa (dst_ReadyReplicas (d_Status d)) @ ''/'' @ itoa k) l)"
proof -
  let ?c = "lc_conduit l"
  obtain kont where kont: "ConduitRuntimeContainer (re_semver E) (re_constraints E) (sp_Image (c_Spec ?c))
      (sp_Version (c_Spec ?c)) (deployment_env E ?c s) (r_flags r) = Ok kont"
    using assms unfolding deploymentFn_def Let_def bind_io_gets
    by (cases "ConduitRuntimeContainer (re_semver E) (re_constraints E) (sp_Image (c_Spec ?c))
      (sp_Version (c_Spec ?c)) (deployment_env E ?c s) (r_flags r)") auto
  let ?d = "d\<lparr>d_Spec := desired_spec (d_Spec d) (deployment_spec ?c nn k kont) ml ls as\<rparr>"
  obtain st reason where st: "deploymentRunningStatus ?d = Ok (st, reason)"
    by (rule running_status_Some [of ?d k]) simp_all
  let ?l = "snd (set_running E nn (om_ResourceVersion (cm_Meta cm)) st reason
      (itoa (dst_ReadyReplicas (d_Status d)) @ ''/'' @ itoa k) l)"
  have run: "bind_io (own E (d_Meta d)) (\<lambda>m. ret_io (?d\<lparr>d_Meta := m\<rparr>)) ?l = (Ok d', l')"
    using assms st unfolding deploymentFn_def Let_def bind_io_gets kont desired_spec_def [symmetric]
    by (simp add: bind_fst_Ok set_running_run)
  then obtain m where m: "SetControllerReference (re_client E) (lc_conduit ?l) (d_Meta d) = Ok m"
    "d' = ?d\<lparr>d_Meta := m\<rparr>" "l' = ?l"
    by (cases "SetControllerReference (re_client E) (lc_conduit ?l) (d_Meta d)")
      (auto simp: own_def bind_io_def)
  from that [OF kont, of m st reason] m st show thesis by simp
qed

lemma deploymentFn_run:
  assumes "ConduitRuntimeContainer (re_semver E) (re_constraints E) (sp_Image (c_Spec (lc_conduit l)))
       (sp_Version (c_Spec (lc_conduit l))) (deployment_env E (lc_conduit l) s) (r_flags r) = Ok kont"
    and "d' = d\<lparr>d_Spec := desired_spec (d_Spec d) (deployment_spec (lc_conduit l) nn k kont) ml ls as\<rparr>"
    and "deploymentRunningStatus d' = Ok (st, reason)"
  shows "deploymentFn E r nn k ml ls as cm s d l =
    bind_io (own E (d_Meta d)) (\<lambda>m. ret_io (d'\<lparr>d_Meta := m\<rparr>))
      (snd (set_running E nn (om_ResourceVersion (cm_Meta cm)) st reason
        (itoa (dst_ReadyReplicas (d_Status d)) @ ''/'' @ itoa k) l))"
  using assms(3) unfolding deploymentFn_def Let_def bind_io_gets assms(1) desired_spec_def [symmetric]
  by (simp add: assms(2) bind_fst_Ok set_running_run)

lemma ForVersion_not_Nil [simp]: "ForVersion S order f ver \<noteq> Ok []"
proof -
  have "ForVersion_loop S f ver v order \<noteq> Ok []" for v
    by (induction order) (auto simp: v011_def v012_def v013upto4_def v0134plus_def split: if_splits)
  then show ?thesis
    by (simp add: ForVersion_def Let_def split: res.splits)
qed

lemma runtime_container:
  assumes "ConduitRuntimeContainer S order img ver env flags = Ok kont"
  shows "k_Name kont = ''conduit-server'' \<and> k_Image kont = img @ '':'' @ ver \<and> k_Env kont = env
    \<and> ForVersion S order flags ver = Ok (k_Args kont) \<and> k_Args kont \<noteq> []"
  using assms by (auto simp: ConduitRuntimeContainer_def)

lemma merge_Container_fields:
  "k_Name (merge_Container c u) = k_Name u"
  "k_Image u \<noteq> [] \<Longrightarrow> k_Image (merge_Container c u) = k_Image u"
  "k_Args u \<noteq> [] \<Longrightarrow> k_Args (merge_Container c u) = k_Args u"
  "k_Env u = [] \<Longrightarrow> k_Env (merge_Container c u) = k_Env c"
  by (simp_all add: merge_Container_def)

lemma init_args: "u \<in> set (ConduitInitContainers cc cp) \<Longrightarrow> k_Args u \<noteq> []"
  by (auto simp: ConduitInitContainers_def Let_def init_container_def split: prod.splits if_splits)

lemma init_not_Nil: "ConduitInitContainers cc cp \<noteq> []"
  by (simp add: ConduitInitContainers_def Let_def split: prod.splits)

lemma desired_spec_again:
  "desired_spec (desired_spec cur spec ml ls as) spec ml ls as = desired_spec cur spec ml ls as"
proof -
  have "desired_spec (x\<lparr>ds_MatchLabels := a, ds_Labels := b, ds_Annotations := c\<rparr>) spec ml ls as =
      desired_spec x spec ml ls as" for x a b c
    by (simp add: desired_spec_def merge_def)
  then show ?thesis
    by (simp add: desired_spec_def [of cur] ) (simp add: desired_spec_def merge_idem)
qed

text \<open>The switch on the running status, read off the view of the conditions.\<close>

lemma view_set_running:
  assumes "one_each l"
  shows "view (snd (set_running E nn v st reason m l)) ''DeploymentRunning'' =
    (if st = ''True'' \<or> st = ''False'' then Some (st, reason, m) else view l ''DeploymentRunning'')"
proof -
  have "one_each (snd (Eventf t rr f as l))" for t rr f as
    using assms by (simp add: one_each_def Eventf_def)
  then have after: "view (snd (c_SetCondition E ''DeploymentRunning'' st' reason m (snd (Eventf t rr f as l))))
      ''DeploymentRunning'' = Some (st', reason, m)" for t rr f as st'
    by (simp add: view_SetCondition spec_SetCondition_same)
  have "view (snd (c_SetCondition E ''DeploymentRunning'' st' reason m l)) ''DeploymentRunning'' =
      Some (st', reason, m)" for st'
    using assms by (simp add: view_SetCondition spec_SetCondition_same)
  with after show ?thesis
    by (simp add: set_running_def Let_def bind_fst_Ok Eventf_run)
qed

section \<open>Properties\<close>

text \<open>
  C17: the desired deployment. Whatever deployment is there, the mutate function leaves one that
  has exactly the replicas asked for, is recreated on changes, has exactly the given labels,
  annotations and selector, runs one container with the image and version of the resource and
  the command line for that version, has the init containers of the resource with their scripts
  and the two volumes, and is controlled by the resource; its status is not touched.
\<close>

theorem deploymentFn_desired:
  assumes "kube_client (re_client E)"
    and "deploymentFn E r nn k ml ls as cm s d l = (Ok d', l')" and "c = lc_conduit l"
  shows "ds_Replicas (d_Spec d') = Some k \<and> ds_Strategy (d_Spec d') = ''Recreate''
    \<and> ds_MatchLabels (d_Spec d') = ml \<and> ds_Labels (d_Spec d') = ls \<and> ds_Annotations (d_Spec d') = as
    \<and> (\<exists>kont. ds_Containers (d_Spec d') = [kont] \<and> k_Name kont = ''conduit-server''
         \<and> k_Image kont = sp_Image (c_Spec c) @ '':'' @ sp_Version (c_Spec c)
         \<and> ForVersion (re_semver E) (re_constraints E) (r_flags r) (sp_Version (c_Spec c)) = Ok (k_Args kont))
    \<and> map (\<lambda>i. (k_Name i, k_Args i)) (ds_InitContainers (d_Spec d')) =
      map (\<lambda>i. (k_Name i, k_Args i)) (ConduitInitContainers (sp_Connectors (c_Spec c)) (sp_Processors (c_Spec c)))
    \<and> map vo_Name (ds_Volumes (d_Spec d')) = [''conduit-storage'', ''conduit-pipelines'']
    \<and> om_Controller (d_Meta d') = Some (om_Name (c_Meta c)) \<and> d_Status d' = d_Status d"
proof -
  let ?init = "ConduitInitContainers (sp_Connectors (c_Spec c)) (sp_Processors (c_Spec c))"
  have "framed (child_rel ''DeploymentRunning'') (deploymentFn E r nn k ml ls as cm s d)"
    by (rule framed_deploymentFn)
  from framedD [OF this, of l] have meta: "c_Meta (lc_conduit l') = c_Meta c"
    by (simp add: assms(2,3) child_rel_def)
  from assms(2) obtain kont m where
    kont: "ConduitRuntimeContainer (re_semver E) (re_constraints E) (sp_Image (c_Spec c))
       (sp_Version (c_Spec c)) (deployment_env E c s) (r_flags r) = Ok kont" and
    d': "d' = d\<lparr>d_Spec := desired_spec (d_Spec d) (deployment_spec c nn k kont) ml ls as, d_Meta := m\<rparr>" and
    m: "SetControllerReference (re_client E) (lc_conduit l') (d_Meta d) = Ok m"
    unfolding assms(3) by (rule deploymentFn_elim)
  have inits: "map (\<lambda>i. (k_Name i, k_Args i)) (decode_array zero_Container merge_Container cur ?init) =
      map (\<lambda>i. (k_Name i, k_Args i)) ?init" for cur
    by (rule decode_array_map) (simp add: merge_Container_fields init_args)
  obtain k1 where k1: "decode_array zero_Container merge_Container (ds_Containers (d_Spec d)) [kont] =
      [merge_Container k1 kont]"
    by (cases "ds_Containers (d_Spec d)") auto
  have vols: "map vo_Name (decode_array zero_Volume merge_Volume cur vs) = map vo_Name vs" for cur vs
    by (rule decode_array_map) (simp add: merge_Volume_def)
  note rc = runtime_container [OF kont]
  have "m = (d_Meta d)\<lparr>om_Controller := Some (om_Name (c_Meta c))\<rparr>"
    using kube_client.owner_set [OF assms(1) m] meta by simp
  then show ?thesis
    using rc by (simp add: d' desired_spec_def merge_def deployment_spec_def init_not_Nil inits k1 vols
        merge_Container_fields ConduitVolume_def ConduitPipelineVol_def)
qed

theorem deploymentFn_desired_witness:
  "\<exists>d' l'. deploymentFn ref_env (NewConduitReconciler NewConduitInstanceMetadata)
       (NamespacedName_of bare_conduit) 1 Map.empty Map.empty Map.empty
       \<lparr>cm_Meta = new_meta [] [], cm_Data = Map.empty\<rparr> \<lparr>se_Meta = new_meta [] [], se_Data = Map.empty\<rparr>
       \<lparr>d_Meta = new_meta [] [], d_Spec = zero_DeploymentSpec, d_Status = zero_DeploymentStatus\<rparr>
       (start bare_conduit) = (Ok d', l')
     \<and> ds_Replicas (d_Spec d') = Some 1"
proof -
  from bare_deploymentFn obtain d' l' where
    "deploymentFn ref_env (NewConduitReconciler NewConduitInstanceMetadata)
       (NamespacedName_of bare_conduit) 1 Map.empty Map.empty Map.empty
       \<lparr>cm_Meta = new_meta [] [], cm_Data = Map.empty\<rparr> \<lparr>se_Meta = new_meta [] [], se_Data = Map.empty\<rparr>
       \<lparr>d_Meta = new_meta [] [], d_Spec = zero_DeploymentSpec, d_Status = zero_DeploymentStatus\<rparr>
       (start bare_conduit) = (Ok d', l')" by metis
  from deploymentFn_desired [OF ref_rec.kube_client_axioms this refl] this show ?thesis by blast
qed

text \<open>
  C18: a deployment that was reconciled stays as it is. Running the mutate function again on its own
  result, with the same specification of the resource, gives the same deployment specification,
  so the controller does not keep rewriting the deployment.
\<close>

theorem deploymentFn_stable:
  assumes "deploymentFn E r nn k ml ls as cm s d l = (Ok d', l')"
    and "deploymentFn E r nn k ml ls as cm s d' l2 = (Ok d'', l2')"
    and "c_Spec (lc_conduit l2) = c_Spec (lc_conduit l)"
  shows "d_Spec d'' = d_Spec d'"
proof -
  have env: "deployment_env E (lc_conduit l2) s = deployment_env E (lc_conduit l) s"
    using assms(3) by (simp add: deployment_env_def EnvVars_def)
  have spec: "deployment_spec (lc_conduit l2) nn k x = deployment_spec (lc_conduit l) nn k x" for x
    using assms(3) by (simp add: deployment_spec_def)
  show ?thesis
    by (rule deploymentFn_elim [OF assms(1)], rule deploymentFn_elim [OF assms(2)])
      (simp add: assms(3) env spec desired_spec_again)
qed

theorem deploymentFn_stable_witness:
  "\<exists>d' l' d'' l2'. deploymentFn ref_env (NewConduitReconciler NewConduitInstanceMetadata)
       (NamespacedName_of bare_conduit) 1 Map.empty Map.empty Map.empty
       \<lparr>cm_Meta = new_meta [] [], cm_Data = Map.empty\<rparr> \<lparr>se_Meta = new_meta [] [], se_Data = Map.empty\<rparr>
       \<lparr>d_Meta = new_meta [] [], d_Spec = zero_DeploymentSpec, d_Status = zero_DeploymentStatus\<rparr>
       (start bare_conduit) = (Ok d', l')
     \<and> deploymentFn ref_env (NewConduitReconciler NewConduitInstanceMetadata)
       (NamespacedName_of bare_conduit) 1 Map.empty Map.empty Map.empty
       \<lparr>cm_Meta = new_meta [] [], cm_Data = Map.empty\<rparr> \<lparr>se_Meta = new_meta [] [], se_Data = Map.empty\<rparr>
       d' (start bare_conduit) = (Ok d'', l2')
     \<and> d_Spec d'' = d_Spec d'"
proof -
  let ?fn = "deploymentFn ref_env (NewConduitReconciler NewConduitInstanceMetadata)
       (NamespacedName_of bare_conduit) 1 Map.empty Map.empty Map.empty
       \<lparr>cm_Meta = new_meta [] [], cm_Data = Map.empty\<rparr> \<lparr>se_Meta = new_meta [] [], se_Data = Map.empty\<rparr>"
  obtain d' l' where 1: "?fn \<lparr>d_Meta = new_meta [] [], d_Spec = zero_DeploymentSpec,
      d_Status = zero_DeploymentStatus\<rparr> (start bare_conduit) = (Ok d', l')"
    using bare_deploymentFn by metis
  obtain d'' l2' where 2: "?fn d' (start bare_conduit) = (Ok d'', l2')"
    using bare_deploymentFn by metis
  from 1 2 deploymentFn_stable [OF 1 2 refl] show ?thesis by blast
qed

text \<open>
  The environment of the container does not depend on the order in which Go iterates over the
  secret's keys, as long as the variables have different names, and it is sorted by name as soon
  as the secret has a key.
\<close>

theorem deployment_env_order_independent:
  assumes "re_unicode E1 = re_unicode E2" and "mset (re_keys E1 s) = mset (re_keys E2 s)"
    and "distinct (map ev_Name (EnvVars (re_unicode E1) c @ envVarsFromSecret (re_keys E1 s) s))"
  shows "deployment_env E1 c s = deployment_env E2 c s
    \<and> (re_keys E1 s \<noteq> [] \<longrightarrow> sorted (map ev_Name (deployment_env E1 c s)))"
proof -
  let ?vs = "\<lambda>E. envVarsFromSecret (re_keys E s) s"
  have ms: "mset (?vs E1) = mset (?vs E2)" and empty: "?vs E1 = [] \<longleftrightarrow> ?vs E2 = []"
    using assms(2) by (auto simp: envVarsFromSecret_def)
  have "sort_by ev_Name (EnvVars (re_unicode E1) c @ ?vs E1) = sort_by ev_Name (EnvVars (re_unicode E1) c @ ?vs E2)"
    by (rule gsort.srt_perm_eq [OF assms(3)]) (simp add: ms)
  then show ?thesis
    using empty assms(1) by (simp add: deployment_env_def Let_def envVarsFromSecret_def)
qed

theorem deployment_env_order_independent_witness:
  "deployment_env (ref_env\<lparr>re_keys := \<lambda>s. [''a'', ''b'']\<rparr>) bare_conduit \<lparr>se_Meta = new_meta [] [], se_Data = Map.empty\<rparr> =
   deployment_env (ref_env\<lparr>re_keys := \<lambda>s. [''b'', ''a'']\<rparr>) bare_conduit \<lparr>se_Meta = new_meta [] [], se_Data = Map.empty\<rparr>"
  by (rule deployment_env_order_independent [THEN conjunct1])
    (simp_all add: EnvVars_def bare_simps envVarsFromSecret_def ref_env_def)

text \<open>
  A variable that is no longer wanted stays. When the desired environment is empty, the encoded
  container has no environment at all, and the decoder leaves the variables of the existing
  container, with their references to secrets, in place.
\<close>

theorem stale_environment_kept:
  assumes "deploymentFn E r nn k ml ls as cm s d l = (Ok d', l')"
    and "deployment_env E (lc_conduit l) s = []" and "ds_Containers (d_Spec d) = [old]"
  shows "\<exists>kont. ds_Containers (d_Spec d') = [kont] \<and> k_Env kont = k_Env old"
  by (rule deploymentFn_elim [OF assms(1)])
    (use assms(2,3) in \<open>auto simp: desired_spec_def merge_def deployment_spec_def merge_Container_fields
      dest!: runtime_container\<close>)

theorem stale_environment_kept_witness:
  "\<exists>d' l' kont. deploymentFn ref_env (NewConduitReconciler NewConduitInstanceMetadata)
       (NamespacedName_of bare_conduit) 1 Map.empty Map.empty Map.empty
       \<lparr>cm_Meta = new_meta [] [], cm_Data = Map.empty\<rparr> \<lparr>se_Meta = new_meta [] [], se_Data = Map.empty\<rparr>
       \<lparr>d_Meta = new_meta [] [], d_Spec = zero_DeploymentSpec\<lparr>ds_Containers :=
          [zero_Container\<lparr>k_Env := [\<lparr>ev_Name = ''PASSWORD'', ev_Value = [], ev_SecretKeyRef = None\<rparr>]\<rparr>]\<rparr>,
        d_Status = zero_DeploymentStatus\<rparr>
       (start bare_conduit) = (Ok d', l')
     \<and> ds_Containers (d_Spec d') = [kont] \<and> map ev_Name (k_Env kont) = [''PASSWORD'']"
proof -
  let ?old = "zero_Container\<lparr>k_Env := [\<lparr>ev_Name = ''PASSWORD'', ev_Value = [], ev_SecretKeyRef = None\<rparr>]\<rparr>"
  let ?s = "\<lparr>se_Meta = new_meta [] [], se_Data = Map.empty\<rparr>"
  obtain d' l' where run: "deploymentFn ref_env (NewConduitReconciler NewConduitInstanceMetadata)
       (NamespacedName_of bare_conduit) 1 Map.empty Map.empty Map.empty
       \<lparr>cm_Meta = new_meta [] [], cm_Data = Map.empty\<rparr> ?s
       \<lparr>d_Meta = new_meta [] [], d_Spec = zero_DeploymentSpec\<lparr>ds_Containers := [?old]\<rparr>,
        d_Status = zero_DeploymentStatus\<rparr> (start bare_conduit) = (Ok d', l')"
    using bare_deploymentFn by metis
  have env: "deployment_env ref_env (lc_conduit (start bare_conduit)) ?s = []"
    by (simp add: deployment_env_def EnvVars_def start_def bare_simps envVarsFromSecret_def ref_env_def
        registry_keys_def)
  from stale_environment_kept [OF run env, of ?old] obtain kont
    where "ds_Containers (d_Spec d') = [kont]" "k_Env kont = k_Env ?old" by auto
  with run show ?thesis by fastforce
qed

text \<open>
  C20: what the DeploymentRunning condition says after the mutate function. A deployment scaled to
  zero is stopped; otherwise, as long as the deployment controller has reported no replica, or
  neither all replicas ready nor all unavailable, the condition stays what it was; all replicas
  ready make it True, all unavailable make it False. The message is the ready replicas over the
  desired ones.
\<close>

theorem deployment_condition:
  assumes "deploymentFn E r nn k ml ls as cm s d l = (Ok d', l')" and "one_each l"
  shows "view l' ''DeploymentRunning'' =
    (let m = itoa (dst_ReadyReplicas (d_Status d)) @ ''/'' @ itoa k; n = dst_Replicas (d_Status d)
     in if k = 0 then Some (''False'', ''Stopped'', m)
        else if n = 0 then view l ''DeploymentRunning''
        else if n \<le> dst_ReadyReplicas (d_Status d) then Some (''True'', ''Running'', m)
        else if n \<le> dst_UnavailableReplicas (d_Status d) then Some (''False'', ''Degraded'', m)
        else view l ''DeploymentRunning'')"
  by (rule deploymentFn_elim [OF assms(1)])
    (auto simp: view_set_running [OF assms(2)] deploymentRunningStatus_def Let_def split: if_splits)

theorem deployment_condition_witness:
  "\<exists>d' l'. deploymentFn ref_env (NewConduitReconciler NewConduitInstanceMetadata)
       (NamespacedName_of bare_conduit) 1 Map.empty Map.empty Map.empty
       \<lparr>cm_Meta = new_meta [] [], cm_Data = Map.empty\<rparr> \<lparr>se_Meta = new_meta [] [], se_Data = Map.empty\<rparr>
       \<lparr>d_Meta = new_meta [] [], d_Spec = zero_DeploymentSpec,
        d_Status = zero_DeploymentStatus\<lparr>dst_Replicas := 1, dst_ReadyReplicas := 1\<rparr>\<rparr>
       (start bare_conduit) = (Ok d', l')
     \<and> map_option fst (view l' ''DeploymentRunning'') = Some ''True''"
proof -
  let ?d = "\<lparr>d_Meta = new_meta [] [], d_Spec = zero_DeploymentSpec,
        d_Status = zero_DeploymentStatus\<lparr>dst_Replicas := 1, dst_ReadyReplicas := 1\<rparr>\<rparr>"
  obtain d' l' where run: "deploymentFn ref_env (NewConduitReconciler NewConduitInstanceMetadata)
       (NamespacedName_of bare_conduit) 1 Map.empty Map.empty Map.empty
       \<lparr>cm_Meta = new_meta [] [], cm_Data = Map.empty\<rparr> \<lparr>se_Meta = new_meta [] [], se_Data = Map.empty\<rparr>
       ?d (start bare_conduit) = (Ok d', l')"
    using bare_deploymentFn by metis
  have "one_each (start bare_conduit)" by (simp add: one_each_def start_def bare_simps)
  from deployment_condition [OF run this] run show ?thesis by simp
qed

text \<open>The ports of the runtime container survive the merge.\<close>

lemma merged_ports:
  assumes "ConduitRuntimeContainer S order img ver env flags = Ok kont"
  shows "k_Ports (merge_Container c kont) = k_Ports kont"
proof -
  have ports: "k_Ports kont = [\<lparr>cp_Name = ''http'', cp_ContainerPort = 8080, cp_Protocol = ''TCP''\<rparr>,
      \<lparr>cp_Name = ''grpc'', cp_ContainerPort = 8084, cp_Protocol = ''TCP''\<rparr>]"
    using assms by (auto simp: ConduitRuntimeContainer_def)
  have "decode_array z merge_ContainerPort old (k_Ports kont) = k_Ports kont" for z old
    unfolding ports by (cases old; cases "tl old") (auto simp: merge_ContainerPort_def omit_list_def)
  then show ?thesis by (simp add: merge_Container_def omit_slice_def) (simp add: ports)
qed

text \<open>
  C19: the service reaches the deployment's pods. Whatever labels the operator's metadata and the
  resource carry, the selector of the service and the selector of the deployment match the labels
  of the pods, and every target port of the service is a port of the one container with the same
  name and protocol.
\<close>

theorem service_reaches_pods:
  assumes "serviceFn E nn svc l = (Ok svc', l1)"
    and "deploymentFn E r nn k [''app.kubernetes.io/name'' \<mapsto> nn_Name nn] (deployment_labels r c nn) as cm s d l2 =
      (Ok d', l3)"
  shows "s_Selector svc' \<subseteq>\<^sub>m ds_Labels (d_Spec d') \<and> ds_MatchLabels (d_Spec d') \<subseteq>\<^sub>m ds_Labels (d_Spec d')
    \<and> (\<exists>kont. ds_Containers (d_Spec d') = [kont]
        \<and> map (\<lambda>p. (po_Name p, po_TargetPort p, po_Protocol p)) (s_Ports svc') =
          map (\<lambda>p. (cp_Name p, cp_ContainerPort p, cp_Protocol p)) (k_Ports kont))"
proof -
  have svc: "s_Selector svc' = [''app.kubernetes.io/name'' \<mapsto> nn_Name nn]"
    "map (\<lambda>p. (po_Name p, po_TargetPort p, po_Protocol p)) (s_Ports svc') = [(''http'', 8080, ''TCP''), (''grpc'', 8084, ''TCP'')]"
    using assms(1) by (auto simp: serviceFn_def Let_def bind_fst_Ok SetCondition_run bind_io_Ok_iff)
  from assms(2) obtain kont where kont: "ConduitRuntimeContainer (re_semver E) (re_constraints E)
      (sp_Image (c_Spec (lc_conduit l2))) (sp_Version (c_Spec (lc_conduit l2)))
      (deployment_env E (lc_conduit l2) s) (r_flags r) = Ok kont"
    and d': "d_Spec d' = desired_spec (d_Spec d) (deployment_spec (lc_conduit l2) nn k kont)
      [''app.kubernetes.io/name'' \<mapsto> nn_Name nn] (deployment_labels r c nn) as"
    by (rule deploymentFn_elim) simp
  have "\<exists>x. ds_Containers (d_Spec d') = [merge_Container x kont]"
    by (cases "ds_Containers (d_Spec d)") (auto simp: d' desired_spec_def merge_def deployment_spec_def)
  moreover have "map (\<lambda>p. (cp_Name p, cp_ContainerPort p, cp_Protocol p)) (k_Ports kont) =
      [(''http'', 8080, ''TCP''), (''grpc'', 8084, ''TCP'')]"
    using kont by (auto simp: ConduitRuntimeContainer_def)
  ultimately show ?thesis
    using merged_ports [OF kont]
    by (auto simp: svc d' desired_spec_def deployment_labels_def map_le_def)
qed

theorem service_reaches_pods_witness:
  "\<exists>d' l' svc' l1. deploymentFn ref_env (NewConduitReconciler NewConduitInstanceMetadata)
       (NamespacedName_of bare_conduit) 1 [''app.kubernetes.io/name'' \<mapsto> nn_Name (NamespacedName_of bare_conduit)]
       (deployment_labels (NewConduitReconciler NewConduitInstanceMetadata) bare_conduit (NamespacedName_of bare_conduit))
       Map.empty
       \<lparr>cm_Meta = new_meta [] [], cm_Data = Map.empty\<rparr> \<lparr>se_Meta = new_meta [] [], se_Data = Map.empty\<rparr>
       \<lparr>d_Meta = new_meta [] [], d_Spec = zero_DeploymentSpec, d_Status = zero_DeploymentStatus\<rparr>
       (start bare_conduit) = (Ok d', l')
     \<and> serviceFn ref_env (NamespacedName_of bare_conduit)
         \<lparr>s_Meta = new_meta [] [], s_Type = [], s_Ports = [], s_Selector = Map.empty, s_ClusterIP = []\<rparr>
         (start bare_conduit) = (Ok svc', l1)
     \<and> s_Selector svc' \<subseteq>\<^sub>m ds_Labels (d_Spec d')"
proof -
  let ?r = "NewConduitReconciler NewConduitInstanceMetadata" and ?nn = "NamespacedName_of bare_conduit"
  let ?s = "\<lparr>s_Meta = new_meta [] [], s_Type = [], s_Ports = [], s_Selector = Map.empty, s_ClusterIP = []\<rparr>"
  obtain d' l' where d: "deploymentFn ref_env ?r ?nn 1 [''app.kubernetes.io/name'' \<mapsto> nn_Name ?nn]
      (deployment_labels ?r bare_conduit ?nn) Map.empty
      \<lparr>cm_Meta = new_meta [] [], cm_Data = Map.empty\<rparr> \<lparr>se_Meta = new_meta [] [], se_Data = Map.empty\<rparr>
      \<lparr>d_Meta = new_meta [] [], d_Spec = zero_DeploymentSpec, d_Status = zero_DeploymentStatus\<rparr>
      (start bare_conduit) = (Ok d', l')"
    using bare_deploymentFn by metis
  obtain svc' l1 where svc: "serviceFn ref_env ?nn ?s (start bare_conduit) = (Ok svc', l1)"
    by (simp add: serviceFn_def Let_def bind_fst_Ok SetCondition_run ref_own [OF ref_rec.server])
  from service_reaches_pods [OF svc d] d svc show ?thesis by blast
qed

end
