(* ===== verification/Convergence.thy ===== *)
theory Convergence
  imports Reconciler_Properties Deployment_Properties
begin

text \<open>
  Reconciliation over several visits, on the in-memory API server: a new resource comes up, a
  reconciliation that had nothing to do writes nothing, a deleted resource goes away.
\<close>

section \<open>Steps that have nothing to do\<close>

lemma SetCondition_noop:
  assumes "wf_loc l" and "view l ''Ready'' \<noteq> None" and "view l ct = Some (st, r, m)"
  shows "lc_conduit (snd (c_SetCondition E ct st r m l)) = lc_conduit l"
  using assms by (simp add: c_SetCondition_def view_def wf_loc_def Status_SetCondition_same)

definition volume_condition :: "PersistentVolumeClaim \<Rightarrow> ConditionStatus \<times> string \<times> string" where
  "volume_condition p = (if pvc_Phase p = ''Bound'' then ''True'' else ''False'', ''VolumeReady'', pvc_Phase p)"

lemma pvcFn_run:
  assumes "re_client E = ref_client"
  shows "lc_conduit (snd (pvcFn E nn p l)) =
    lc_conduit (snd (c_SetCondition E ''VolumeBound'' (fst (volume_condition p)) ''VolumeReady'' (pvc_Phase p) l))"
proof -
  have "lc_conduit (snd (c_SetCondition E ct st r m (l\<lparr>lc_events := es\<rparr>))) =
      lc_conduit (snd (c_SetCondition E ct st r m l))" for ct st r m es
    by (simp add: c_SetCondition_def)
  then show ?thesis
    by (simp add: pvcFn_def volume_condition_def bind_fst_Ok SetCondition_run Eventf_run ref_own [OF assms])
      (simp add: Eventf_def)
qed

definition service_condition :: "Service \<Rightarrow> ConditionStatus \<times> string \<times> string" where
  "service_condition s = (''True'', ''ServiceReady'',
     ''Address http://'' @ s_ClusterIP s @ '':8080 grpc://'' @ s_ClusterIP s @ '':8084'')"

lemma serviceFn_run:
  assumes "re_client E = ref_client"
  shows "lc_conduit (snd (serviceFn E nn s l)) =
    lc_conduit (snd (c_SetCondition E ''ServiceReady'' ''True'' ''ServiceReady'' (snd (snd (service_condition s))) l))"
  by (simp add: serviceFn_def service_condition_def Let_def bind_fst_Ok SetCondition_run ref_own [OF assms])

lemma SetCondition_after_event:
  "lc_conduit (snd (c_SetCondition E ct st r m (snd (Eventf t rr f as l)))) =
     lc_conduit (snd (c_SetCondition E ct st r m l))"
  by (simp add: c_SetCondition_def Eventf_def)

lemma set_running_noop:
  assumes "wf_loc l" and "view l ''Ready'' \<noteq> None"
    and "st = ''True'' \<or> st = ''False'' \<Longrightarrow> view l ''DeploymentRunning'' = Some (st, r, m)"
  shows "lc_conduit (snd (set_running E nn v st r m l)) = lc_conduit l"
  using SetCondition_noop [OF assms(1,2), of "''DeploymentRunning''" st r m] assms(3)
  by (cases "st = ''True''"; cases "st = ''False''")
    (simp_all add: set_running_def Let_def bind_fst_Ok Eventf_run SetCondition_after_event)

lemma running_status_cong:
  assumes "d_Spec d = d_Spec d'" and "d_Status d = d_Status d'"
  shows "deploymentRunningStatus d = deploymentRunningStatus d'"
  unfolding deploymentRunningStatus_def assms ..

text \<open>The deployment's mutate function, once more on its own result.\<close>

lemma deploy_again:
  assumes E: "re_client E = ref_client"
    and first: "deploy E r c cm s d l = (Ok d', ld)" and l: "same_resource c (lc_conduit l)" and one: "one_each l"
    and l2: "same_resource c (lc_conduit l2)" "wf_loc l2" "view l2 ''Ready'' \<noteq> None"
    and kept: "view l2 ''DeploymentRunning'' = view ld ''DeploymentRunning''"
  shows "\<exists>l3. deploy E r c cm s d' l2 = (Ok d', l3) \<and> lc_conduit l3 = lc_conduit l2"
proof -
  let ?nn = "NamespacedName_of c" and ?ml = "[''app.kubernetes.io/name'' \<mapsto> nn_Name (NamespacedName_of c)]"
  let ?ls = "deployment_labels r c ?nn" and ?as = "deployment_annotations r c cm"
  have env: "c_Spec (lc_conduit l2) = c_Spec (lc_conduit l)" "c_Meta (lc_conduit l2) = c_Meta c"
    "c_Spec (lc_conduit l) = c_Spec c"
    using l l2(1) by (simp_all add: same_resource_def)
  from first have run: "deploymentFn E r ?nn (getReplicas c) ?ml ?ls ?as cm s d l = (Ok d', ld)"
    by (simp add: deploy_def Let_def)
  from run obtain kont m st reason where
    kont: "ConduitRuntimeContainer (re_semver E) (re_constraints E) (sp_Image (c_Spec (lc_conduit l)))
       (sp_Version (c_Spec (lc_conduit l))) (deployment_env E (lc_conduit l) s) (r_flags r) = Ok kont"
    and d': "d' = d\<lparr>d_Spec := desired_spec (d_Spec d) (deployment_spec (lc_conduit l) ?nn (getReplicas c) kont) ?ml ?ls ?as,
        d_Meta := m\<rparr>"
    and m: "SetControllerReference (re_client E) (lc_conduit ld) (d_Meta d) = Ok m"
    and st: "deploymentRunningStatus (d\<lparr>d_Spec := desired_spec (d_Spec d)
        (deployment_spec (lc_conduit l) ?nn (getReplicas c) kont) ?ml ?ls ?as\<rparr>) = Ok (st, reason)"
    and ld: "ld = snd (set_running E ?nn (om_ResourceVersion (cm_Meta cm)) st reason
        (itoa (dst_ReadyReplicas (d_Status d)) @ ''/'' @ itoa (getReplicas c)) l)"
    by (rule deploymentFn_elim)
  have dep: "deployment_env E (lc_conduit l2) s = deployment_env E (lc_conduit l) s"
    "deployment_spec (lc_conduit l2) nn k kont = deployment_spec (lc_conduit l) nn k kont" for nn k
    by (simp_all add: deployment_env_def EnvVars_def deployment_spec_def env(1))
  let ?m = "itoa (dst_ReadyReplicas (d_Status d)) @ ''/'' @ itoa (getReplicas c)"
  have same: "lc_conduit (snd (set_running E ?nn v st reason ?m l2)) = lc_conduit l2" for v
    by (rule set_running_noop [OF l2(2,3)]) (simp add: kept ld view_set_running [OF one])
  have again: "d'\<lparr>d_Spec := desired_spec (d_Spec d') (deployment_spec (lc_conduit l) ?nn (getReplicas c) kont) ?ml ?ls ?as\<rparr> = d'"
    by (simp add: d' desired_spec_again)
  have st': "deploymentRunningStatus d' = Ok (st, reason)"
    using st by (subst running_status_cong) (simp_all add: d')
  have own: "om_Name (c_Meta (lc_conduit ld)) = om_Name (c_Meta c)"
    using l by (simp add: ld same_resource_def)
  have d2: "d' = d'\<lparr>d_Spec := desired_spec (d_Spec d') (deployment_spec (lc_conduit l2) ?nn (getReplicas c) kont) ?ml ?ls ?as\<rparr>"
    using again by (simp add: dep)
  have "deploymentFn E r ?nn (getReplicas c) ?ml ?ls ?as cm s d' l2 =
      bind_io (own E (d_Meta d')) (\<lambda>m. ret_io (d'\<lparr>d_Meta := m\<rparr>))
        (snd (set_running E ?nn (om_ResourceVersion (cm_Meta cm)) st reason
          (itoa (dst_ReadyReplicas (d_Status d')) @ ''/'' @ itoa (getReplicas c)) l2))"
    by (rule deploymentFn_run [OF _ d2 st']) (use kont in \<open>simp add: env dep\<close>)
  moreover have "m = owned c (d_Meta d)" using m own by (simp add: E ref_client_def owned_def)
  ultimately show ?thesis
    using same by (simp add: deploy_def Let_def ref_own [OF E] bind_io_def env d' owned_def)
qed

section \<open>A settled resource\<close>

text \<open>
  A resource is settled when every object the operator would write is stored already and every
  condition it would set is set already.
\<close>

definition conditions_set :: "cluster \<Rightarrow> Conduit \<Rightarrow> bool" where
  "conditions_set w c \<longleftrightarrow> (let v = cview (st_Conditions (c_Status c)) in
     wf_status (c_Status c) \<and> v ''Ready'' \<noteq> None
     \<and> v ''ConfigReady'' = Some (''True'', ''ConfigReady'', ''Pipeline configuration created'')
     \<and> v ''SecretReady'' = Some (''True'', ''SecretReady'', ''Conduit secret created'')
     \<and> v ''VolumeBound'' = Some (volume_condition (cur_pvc w c))
     \<and> v ''ServiceReady'' = Some (service_condition (cur_service w c)))"

definition objects_stored :: "cluster \<Rightarrow> Conduit \<Rightarrow> string \<Rightarrow> (string \<rightharpoonup> string) \<Rightarrow> bool" where
  "objects_stored w c y sd \<longleftrightarrow> put_config w c y = w \<and> put_secret w c sd = w \<and> put_claim w c = w
     \<and> put_service w c = w \<and> w_Conduits w (key_of (c_Meta c)) = Some c"

definition deployed :: "(cluster, 'u, 'v, 'c) rec_env \<Rightarrow> ConduitReconciler \<Rightarrow> cluster \<Rightarrow> Conduit \<Rightarrow> bool" where
  "deployed E r w c \<longleftrightarrow> (\<exists>cm s d. w_ConfigMaps w (child_key c) = Some cm \<and> w_Secrets w (child_key c) = Some s
     \<and> w_Deployments w (child_key c) = Some d \<and> owned c (d_Meta d) = d_Meta d \<and> key_of (d_Meta d) = child_key c
     \<and> (\<forall>l. lc_conduit l = c \<longrightarrow> (\<exists>l'. deploy E r c cm s d l = (Ok d, l') \<and> lc_conduit l' = c)))"

definition settled ::
  "(cluster, 'u, 'v, 'c) rec_env \<Rightarrow> ConduitReconciler \<Rightarrow> cluster \<Rightarrow> Conduit \<Rightarrow> string \<Rightarrow> (string \<rightharpoonup> string) \<Rightarrow> bool" where
  "settled E r w c y sd \<longleftrightarrow> renders E r w c y sd \<and> om_DeletionTimestamp (c_Meta c) = None
     \<and> conditions_set w c \<and> objects_stored w c y sd \<and> deployed E r w c"

lemma deployedE:
  assumes "deployed E r w c" and "lc_conduit l = c"
  obtains cm s d where "w_ConfigMaps w (child_key c) = Some cm" "w_Secrets w (child_key c) = Some s"
    "w_Deployments w (child_key c) = Some d" "d_Meta d = owned c (d_Meta d)" "key_of (d_Meta d) = child_key c"
    "\<exists>l'. deploy E r c cm s d l = (Ok d, l') \<and> lc_conduit l' = c"
proof -
  from assms(1) [unfolded deployed_def] obtain cm s d where
    d: "w_ConfigMaps w (child_key c) = Some cm" "w_Secrets w (child_key c) = Some s"
    "w_Deployments w (child_key c) = Some d" "owned c (d_Meta d) = d_Meta d" "key_of (d_Meta d) = child_key c"
    "\<forall>l. lc_conduit l = c \<longrightarrow> (\<exists>l'. deploy E r c cm s d l = (Ok d, l') \<and> lc_conduit l' = c)"
    by (elim exE conjE)
  from d(6) assms(2) have "\<exists>l'. deploy E r c cm s d l = (Ok d, l') \<and> lc_conduit l' = c" by simp
  from that [OF d(1-3) d(4) [symmetric] d(5) this] show thesis .
qed

section \<open>Events\<close>

text \<open>
  \<open>quiet l l'\<close>: between the two states no event says that something was created or updated.
\<close>

definition quiet :: "loc \<Rightarrow> loc \<Rightarrow> bool" where
  "quiet l l' \<longleftrightarrow> (\<exists>es. lc_events l' = lc_events l @ es
     \<and> (\<forall>e \<in> set es. e_Reason e \<noteq> ''Created'' \<and> e_Reason e \<noteq> ''Updated''))"

interpretation quiet: frame quiet
proof
  show "quiet l l" for l by (simp add: quiet_def)
  show "quiet l l''" if "quiet l l'" "quiet l' l''" for l l' l''
  proof -
    from that(1) obtain es where 1: "lc_events l' = lc_events l @ es"
      "\<forall>e \<in> set es. e_Reason e \<noteq> ''Created'' \<and> e_Reason e \<noteq> ''Updated''" unfolding quiet_def by (elim exE conjE)
    from that(2) obtain es' where 2: "lc_events l'' = lc_events l' @ es'"
      "\<forall>e \<in> set es'. e_Reason e \<noteq> ''Created'' \<and> e_Reason e \<noteq> ''Updated''" unfolding quiet_def by (elim exE conjE)
    show ?thesis unfolding quiet_def using 1 2 by (intro exI [of _ "es @ es'"]) auto
  qed
qed

lemma quiet_Eventf: "rr \<noteq> ''Created'' \<Longrightarrow> rr \<noteq> ''Updated'' \<Longrightarrow> framed quiet (Eventf t rr f as)"
  by (simp add: framed_def Eventf_def quiet_def)

lemma quiet_SetCondition: "framed quiet (c_SetCondition E ct st rr m)"
  by (simp add: framed_def c_SetCondition_def quiet_def)

lemma quiet_own: "framed quiet (own E m)"
  by (simp add: framed_def own_def quiet.R_refl)

lemmas quiet_rules = quiet.framed_bind quiet.framed_pure quiet.framed_if quiet_SetCondition quiet_own

lemma quiet_closures:
  "framed quiet (cmFn E y cm)" "framed quiet (secretFn E d s)" "framed quiet (serviceFn E nn sv)" "framed quiet (pvcFn E nn p)"
  unfolding cmFn_def secretFn_def serviceFn_def pvcFn_def Let_def by (intro quiet_rules quiet_Eventf; simp)+

lemma running_reason:
  "deploymentRunningStatus d = Ok (st, reason) \<Longrightarrow> reason \<noteq> ''Created'' \<and> reason \<noteq> ''Updated''"
  by (auto simp: deploymentRunningStatus_def split: option.splits if_splits)

lemma quiet_deploymentFn: "framed quiet (deploymentFn E r nn k ml ls as cm s d)"
proof -
  have run: "framed quiet (set_running E nn v st reason m)" if "deploymentRunningStatus d' = Ok (st, reason)"
    for v st reason m d'
    using running_reason [OF that] unfolding set_running_def Let_def by (intro quiet_rules quiet_Eventf) simp_all
  show ?thesis
    unfolding deploymentFn_def Let_def
    by (rule quiet.framed_bind [OF quiet.framed_pure(3)], rule quiet.framed_bind [OF quiet.framed_pure(2)],
        rule quiet.framed_bind_lift) (auto split: prod.splits intro!: quiet_rules dest: run)
qed

text \<open>A handler that leaves the server as it was says nothing about writing.\<close>

lemma tail_quiet:
  assumes "child_tail E (ref_cou meta objs store obj f) nn ff ct er u c (w, l) = (Ok (), (w, l'))"
    and "\<And>x. framed quiet (f x)" and "\<And>k new. store k new w = w \<Longrightarrow> objs w k = Some new"
  shows "quiet l l'"
proof -
  obtain x s1 where call: "ref_cou meta objs store obj f (w, l) = (x, s1)" by (metis surj_pair)
  let ?k = "key_of (meta obj)" and ?cur = "ref_current meta obj (objs w (key_of (meta obj)))"
  obtain y l1 where f: "f ?cur l = (y, l1)" by (metis surj_pair)
  have q: "quiet l l1" using framedD [OF assms(2), of l ?cur] by (simp add: f)
  from call f have "(\<exists>e. x = Err e) \<or> (\<exists>p. x = Panic p) \<or> (\<exists>new. s1 = (store ?k new w, l1)
      \<and> x = Ok (if objs w ?k = None then OperationResultCreated
                else if objs w ?k = Some new then OperationResultNone else OperationResultUpdated))"
    by (cases y) (auto simp: ref_cou_def Let_def split: if_splits)
  moreover have False if "x = Err e" for e
    using assms(1) call that by (simp add: child_tail_def err_io_def bind_io_def local_io_def split: prod.splits res.splits)
  moreover have False if "x = Panic p" for p
    using assms(1) call that by (simp add: child_tail_def err_io_def)
  ultimately obtain new where s1: "s1 = (store ?k new w, l1)"
    and x: "x = Ok (if objs w ?k = None then OperationResultCreated
                else if objs w ?k = Some new then OperationResultNone else OperationResultUpdated)" by blast
  have same: "fst (snd (child_tail E (ref_cou meta objs store obj f) nn ff ct er u c (w, l))) = store ?k new w"
    by (simp add: child_tail_def err_io_def call s1 x)
  then have "store ?k new w = w" using assms(1) by simp
  then have "objs w ?k = Some new" by (rule assms(3))
  then have "l' = l1" using assms(1) by (simp add: child_tail_def err_io_def call s1 x)
  then show ?thesis using q by simp
qed

lemma put_deployment_same: "w_Deployments w (child_key c) = Some d \<Longrightarrow> put_deployment w c d = w"
  unfolding put_deployment_def by (rule cluster.equality) (auto simp: fun_eq_iff)

lemma put_conduit_same: "w_Conduits w (key_of (c_Meta c)) = Some c \<Longrightarrow> put_conduit w c = w"
  unfolding put_conduit_def by (rule cluster.equality) (auto simp: fun_eq_iff)

context on_server
begin

lemma handlers_quiet:
  "CreateOrUpdateConfig E (w, l) = (Ok (), (w, l')) \<Longrightarrow> quiet l l'"
  "CreateOrUpdateSecret E (w, l) = (Ok (), (w, l')) \<Longrightarrow> quiet l l'"
  "CreateOrUpdateVolume E (w, l) = (Ok (), (w, l')) \<Longrightarrow> quiet l l'"
  "CreateOrUpdateDeployment E r (w, l) = (Ok (), (w, l')) \<Longrightarrow> quiet l l'"
  "CreateOrUpdateService E (w, l) = (Ok (), (w, l')) \<Longrightarrow> quiet l l'"
proof -
  have same: "w\<lparr>w_ConfigMaps := (w_ConfigMaps w)(k \<mapsto> a)\<rparr> = w \<Longrightarrow> w_ConfigMaps w k = Some a"
    "w\<lparr>w_Secrets := (w_Secrets w)(k \<mapsto> b)\<rparr> = w \<Longrightarrow> w_Secrets w k = Some b"
    "w\<lparr>w_Claims := (w_Claims w)(k \<mapsto> d)\<rparr> = w \<Longrightarrow> w_Claims w k = Some d"
    "w\<lparr>w_Deployments := (w_Deployments w)(k \<mapsto> f)\<rparr> = w \<Longrightarrow> w_Deployments w k = Some f"
    "w\<lparr>w_Services := (w_Services w)(k \<mapsto> g)\<rparr> = w \<Longrightarrow> w_Services w k = Some g" for k a b d f g
    by (metis cluster.select_convs cluster.simps fun_upd_same cluster.surjective)+
  show "quiet l l'" if "CreateOrUpdateConfig E (w, l) = (Ok (), (w, l'))"
    using that unfolding CreateOrUpdateConfig_def Let_def get_c_run get_R_run ref_simps
    by (auto simp: bind_io_def split: prod.splits res.splits
        elim!: tail_quiet [OF _ quiet_closures(1)] dest: same(1))
  show "quiet l l'" if "CreateOrUpdateSecret E (w, l) = (Ok (), (w, l'))"
    using that unfolding CreateOrUpdateSecret_def Let_def get_c_run get_R_run ref_simps
    by (auto simp: bind_io_def split: prod.splits res.splits
        elim!: tail_quiet [OF _ quiet_closures(2)] dest: same(2))
  show "quiet l l'" if "CreateOrUpdateVolume E (w, l) = (Ok (), (w, l'))"
    using that unfolding CreateOrUpdateVolume_def Let_def get_c_run ref_simps
    by (auto elim!: tail_quiet [OF _ quiet_closures(4)] dest: same(3))
  show "quiet l l'" if "CreateOrUpdateService E (w, l) = (Ok (), (w, l'))"
    using that unfolding CreateOrUpdateService_def Let_def get_c_run ref_simps
    by (auto elim!: tail_quiet [OF _ quiet_closures(3)] dest: same(5))
  show "quiet l l'" if "CreateOrUpdateDeployment E r (w, l) = (Ok (), (w, l'))"
    using that unfolding CreateOrUpdateDeployment_def Let_def get_c_run get_R_run ref_simps
    by (auto simp: err_io_def bind_io_def split: prod.splits res.splits
        elim!: tail_quiet [OF _ quiet_deploymentFn] dest: same(4))
qed

lemma status_quiet:
  assumes "lc_conduit l = c" and "w_Conduits w (key_of (c_Meta c)) = Some c"
  shows "UpdateStatus E (w, l) = (Ok (), (w, l))"
proof -
  have "get_conduit (ref_reader w) \<lparr>nn_Name = om_Name (c_Meta c), nn_Namespace = om_Namespace (c_Meta c)\<rparr> = Ok c"
    using assms(2) by (simp add: ref_reader_def found_def key_of_def)
  then show ?thesis by (simp add: UpdateStatus_def server assms(1) ref_client_def)
qed

lemma settled_run:
  assumes "settled E r w c y sd" and "lc_conduit l = c"
  shows "\<exists>l'. reconcile_children E r (w, l) = (Ok (10, None), (w, l')) \<and> quiet l l'"
proof -
  note S = assms(1) [unfolded settled_def renders_def objects_stored_def conditions_set_def Let_def]
  then have yaml: "PipelineConfigYAML (re_unicode E) (ref_reader w) (re_marshal E) c = Ok y"
    and sd: "SchemaRegistryConfig (re_url E) (ref_reader w) c = Ok sd"
    and same: "put_config w c y = w" "put_secret w c sd = w" "put_claim w c = w" "put_service w c = w"
    by blast+
  from S have v: "cview (st_Conditions (c_Status c)) ''ConfigReady'' = Some (''True'', ''ConfigReady'', ''Pipeline configuration created'')"
    "cview (st_Conditions (c_Status c)) ''SecretReady'' = Some (''True'', ''SecretReady'', ''Conduit secret created'')"
    "cview (st_Conditions (c_Status c)) ''VolumeBound'' =
       Some (fst (volume_condition (cur_pvc w c)), ''VolumeReady'', pvc_Phase (cur_pvc w c))"
    "cview (st_Conditions (c_Status c)) ''ServiceReady'' =
       Some (''True'', ''ServiceReady'', snd (snd (service_condition (cur_service w c))))"
    by (simp_all add: volume_condition_def service_condition_def)
  have noop: "lc_conduit (snd (c_SetCondition E ct st rr m l)) = c"
    if "lc_conduit l = c" "cview (st_Conditions (c_Status c)) ct = Some (st, rr, m)" for ct st rr m l
    using SetCondition_noop [of l ct st rr m E] S that by (simp add: wf_loc_def view_def)
  obtain l1 where 1: "CreateOrUpdateConfig E (w, l) = (Ok (), (w, l1))" "lc_conduit l1 = c"
    using config_step [OF assms(2) yaml, folded put_config_def, unfolded same noop [OF assms(2) v(1)]] by blast
  obtain l2 where 2: "CreateOrUpdateSecret E (w, l1) = (Ok (), (w, l2))" "lc_conduit l2 = c"
    using secret_step [OF 1(2) sd, folded put_secret_def, unfolded same noop [OF 1(2) v(2)]] by blast
  obtain l3 where 3: "CreateOrUpdateVolume E (w, l2) = (Ok (), (w, l3))" "lc_conduit l3 = c"
    using volume_step [OF 2(2), of w, folded put_claim_def, unfolded pvcFn_run [OF server] same noop [OF 2(2) v(3)]]
    by blast
  have "deployed E r w c" using S by blast
  then obtain cm s d where d: "w_ConfigMaps w (child_key c) = Some cm" "w_Secrets w (child_key c) = Some s"
    "w_Deployments w (child_key c) = Some d" "d_Meta d = owned c (d_Meta d)" "key_of (d_Meta d) = child_key c"
    "\<exists>l'. deploy E r c cm s d l3 = (Ok d, l') \<and> lc_conduit l' = c"
    by (rule deployedE [OF _ 3(2)])
  have cur: "cur_deployment w c = d" by (simp add: cur_deployment_def d(3,5) ref_current_stored)
  from d(6) obtain l' where l': "deploy E r c cm s d l3 = (Ok d, l')" "lc_conduit l' = c" by (elim exE conjE)
  obtain l4 where 4: "CreateOrUpdateDeployment E r (w, l3) = (Ok (), (w, l4))" "lc_conduit l4 = c"
    using deployment_step [OF 3(2) d(1,2), folded put_deployment_def, unfolded cur, OF l'(1) d(4)]
    unfolding put_deployment_same [OF d(3)] l'(2) by (elim exE conjE)
  obtain l5 where 5: "CreateOrUpdateService E (w, l4) = (Ok (), (w, l5))" "lc_conduit l5 = c"
    using service_step [OF 4(2), of w, folded put_service_def, unfolded serviceFn_run [OF server] same noop [OF 4(2) v(4)]]
    by blast
  have 6: "UpdateStatus E (w, l5) = (Ok (), (w, l5))" by (rule status_quiet [OF 5(2)]) (use S in blast)
  have "quiet l l5"
    using handlers_quiet(1) [OF 1(1)] handlers_quiet(2) [OF 2(1)] handlers_quiet(3) [OF 3(1)]
      handlers_quiet(4) [OF 4(1)] handlers_quiet(5) [OF 5(1)] by (blast intro: quiet.R_trans)
  then show ?thesis
    unfolding reconcile_children_def
      join_step_Ok [of "CreateOrUpdateConfig E", OF 1(1)] join_step_Ok [of "CreateOrUpdateSecret E", OF 2(1)]
      join_step_Ok [of "CreateOrUpdateVolume E", OF 3(1)]
      join_step_Ok [of "CreateOrUpdateDeployment E r", OF 4(1)]
      join_step_Ok [of "CreateOrUpdateService E", OF 5(1)] join_step_Ok [of "UpdateStatus E", OF 6] by simp
qed

end

section \<open>A complete run settles the resource\<close>

lemma put_same_resource:
  assumes "same_resource c c'"
  shows "put_config w c' y = put_config w c y" "put_secret w c' sd = put_secret w c sd"
    "put_claim w c' = put_claim w c" "put_service w c' = put_service w c" "put_deployment w c' d = put_deployment w c d"
  by (simp_all add: put_defs same_resourceD [OF assms])

lemma cur_put:
  "cur_cm (put_config w c y) c = (cur_cm w c)\<lparr>cm_Data := [''pipeline.yaml'' \<mapsto> y], cm_Meta := owned c (cm_Meta (cur_cm w c))\<rparr>"
  "cur_secret (put_secret w c sd) c = (cur_secret w c)\<lparr>se_Data := sd, se_Meta := owned c (se_Meta (cur_secret w c))\<rparr>"
  "cur_pvc (put_claim w c) c = (cur_pvc w c)\<lparr>pvc_Meta := owned c (pvc_Meta (cur_pvc w c))\<rparr>"
  "cur_service (put_service w c) c = exposed c (cur_service w c)"
proof -
  show "cur_cm (put_config w c y) c = (cur_cm w c)\<lparr>cm_Data := [''pipeline.yaml'' \<mapsto> y], cm_Meta := owned c (cm_Meta (cur_cm w c))\<rparr>"
    by (subst cur_cm_def) (simp add: put_config_def ref_current_stored)
  show "cur_secret (put_secret w c sd) c = (cur_secret w c)\<lparr>se_Data := sd, se_Meta := owned c (se_Meta (cur_secret w c))\<rparr>"
    by (subst cur_secret_def) (simp add: put_secret_def ref_current_stored)
  show "cur_pvc (put_claim w c) c = (cur_pvc w c)\<lparr>pvc_Meta := owned c (pvc_Meta (cur_pvc w c))\<rparr>"
    by (subst cur_pvc_def) (simp add: put_claim_def ref_current_stored)
  show "cur_service (put_service w c) c = exposed c (cur_service w c)"
    by (subst cur_service_def) (simp add: put_service_def ref_current_stored exposed_def)
qed

text \<open>Each object depends on its own part of the server's state only.\<close>

lemma cur_cong:
  "w_ConfigMaps w = w_ConfigMaps w' \<Longrightarrow> cur_cm w c = cur_cm w' c"
  "w_Secrets w = w_Secrets w' \<Longrightarrow> cur_secret w c = cur_secret w' c"
  "w_Claims w = w_Claims w' \<Longrightarrow> cur_pvc w c = cur_pvc w' c"
  "w_Services w = w_Services w' \<Longrightarrow> cur_service w c = cur_service w' c"
  by (simp_all add: cur_cm_def cur_secret_def cur_pvc_def cur_service_def)

definition all_put :: "cluster \<Rightarrow> Conduit \<Rightarrow> string \<Rightarrow> (string \<rightharpoonup> string) \<Rightarrow> Deployment \<Rightarrow> Conduit \<Rightarrow> cluster" where
  "all_put w c y sd d c' =
     put_conduit (put_service (put_deployment (put_claim (put_secret (put_config w c y) c sd) c) c d) c) c'"

lemma all_put_fields:
  "w_ConfigMaps (all_put w c y sd d c') = w_ConfigMaps (put_config w c y)"
  "w_Secrets (all_put w c y sd d c') = w_Secrets (put_secret w c sd)"
  "w_Claims (all_put w c y sd d c') = w_Claims (put_claim w c)"
  "w_Deployments (all_put w c y sd d c') = (w_Deployments w)(child_key c \<mapsto> d)"
  "w_Services (all_put w c y sd d c') = w_Services (put_service w c)"
  "w_Conduits (all_put w c y sd d c') = (w_Conduits w)(key_of (c_Meta c') \<mapsto> c')"
  by (simp_all add: all_put_def put_defs cur_secret_def cur_pvc_def cur_service_def)

lemma cur_all_put:
  "cur_cm (all_put w c y sd d c') c =
     (cur_cm w c)\<lparr>cm_Data := [''pipeline.yaml'' \<mapsto> y], cm_Meta := owned c (cm_Meta (cur_cm w c))\<rparr>"
  "cur_secret (all_put w c y sd d c') c =
     (cur_secret w c)\<lparr>se_Data := sd, se_Meta := owned c (se_Meta (cur_secret w c))\<rparr>"
  "cur_pvc (all_put w c y sd d c') c = (cur_pvc w c)\<lparr>pvc_Meta := owned c (pvc_Meta (cur_pvc w c))\<rparr>"
  "cur_service (all_put w c y sd d c') c = exposed c (cur_service w c)"
  using cur_cong(1) [OF all_put_fields(1)] cur_cong(2) [OF all_put_fields(2)]
    cur_cong(3) [OF all_put_fields(3)] cur_cong(4) [OF all_put_fields(5)] by (simp_all add: cur_put)

lemma all_put_stored:
  assumes "same_resource c c'"
  shows "objects_stored (all_put w c y sd d c') c' y sd"
proof -
  let ?w = "all_put w c y sd d c'"
  have "put_config ?w c y = ?w"
    by (rule cluster.equality)
      (simp_all add: put_config_def [of ?w] cur_all_put all_put_fields put_config_def [of w])
  moreover have "put_secret ?w c sd = ?w"
    by (rule cluster.equality)
      (simp_all add: put_secret_def [of ?w] cur_all_put all_put_fields put_secret_def [of w])
  moreover have "put_claim ?w c = ?w"
    by (rule cluster.equality)
      (simp_all add: put_claim_def [of ?w] cur_all_put all_put_fields put_claim_def [of w])
  moreover have "put_service ?w c = ?w"
    by (rule cluster.equality)
      (simp_all add: put_service_def [of ?w] cur_all_put all_put_fields put_service_def [of w] exposed_def)
  ultimately show ?thesis
    by (simp add: objects_stored_def put_same_resource [OF assms] all_put_fields)
qed

lemma view_of: "cview (st_Conditions (c_Status (lc_conduit l))) = view l"
  by (simp add: view_def)

context on_server
begin

lemma conditions_after:
  assumes wf: "wf_loc l"
    and 1: "CreateOrUpdateConfig E (w, l) = (Ok (), (w1, l1))"
    and 2: "CreateOrUpdateSecret E (w1, l1) = (Ok (), (w2, l2))"
    and 3: "CreateOrUpdateVolume E (w2, l2) = (Ok (), (w3, l3))"
    and 4: "CreateOrUpdateDeployment E r (w3, l3) = (Ok (), (w4, l4))"
    and 5: "CreateOrUpdateService E (w4, l4) = (Ok (), (w5, l5))"
    and l3: "lc_conduit l3 = lc_conduit (snd (pvcFn E nn p l2))"
    and l5: "lc_conduit l5 = lc_conduit (snd (serviceFn E nn s l4))"
  shows "wf_loc l3" "wf_loc l5" "view l5 ''Ready'' \<noteq> None"
    and "view l5 ''ConfigReady'' = Some (''True'', ''ConfigReady'', ''Pipeline configuration created'')"
    and "view l5 ''SecretReady'' = Some (''True'', ''SecretReady'', ''Conduit secret created'')"
    and "view l5 ''VolumeBound'' = Some (volume_condition p)"
    and "view l5 ''ServiceReady'' = Some (service_condition s)"
    and "view l5 ''DeploymentRunning'' = view l4 ''DeploymentRunning''"
proof -
  note w1 = config.step_wf [OF 1 wf]
  note w2 = secret.step_wf [OF 2 w1]
  note w3 = volume.step_wf [OF 3 w2]
  note w4 = deployment.step_wf [OF 4 w3]
  note one = one_each_wf [OF wf] one_each_wf [OF w1] one_each_wf [OF w2] one_each_wf [OF w3] one_each_wf [OF w4]
  show "wf_loc l3" "wf_loc l5" by (rule w3, rule service.step_wf [OF 5 w4])
  note keep = secret.step_other [OF 2 one(2)] volume.step_other [OF 3 one(3)]
    deployment.step_other [OF 4 one(4)] service.step_other [OF 5 one(5)]
  have v3: "view l3 ''VolumeBound'' = Some (volume_condition p)"
    using one(3) by (simp add: view_conduit [OF l3 [unfolded pvcFn_run [OF server]]] view_SetCondition
        spec_SetCondition_same volume_condition_def)
  have v5: "view l5 = spec_SetCondition ConduitConditions (view l4) ''ServiceReady'' (service_condition s)"
    using one(5) by (simp add: view_conduit [OF l5 [unfolded serviceFn_run [OF server]]] view_SetCondition
        service_condition_def)
  show "view l5 ''Ready'' \<noteq> None" by (simp add: v5 spec_SetCondition_def Let_def)
  show "view l5 ''ServiceReady'' = Some (service_condition s)" by (simp add: v5 spec_SetCondition_same)
  show "view l5 ''ConfigReady'' = Some (''True'', ''ConfigReady'', ''Pipeline configuration created'')"
    using config_Ok [OF one(1) 1] by (simp add: keep)
  show "view l5 ''SecretReady'' = Some (''True'', ''SecretReady'', ''Conduit secret created'')"
    using secret_Ok [OF one(2) 2] by (simp add: keep)
  show "view l5 ''VolumeBound'' = Some (volume_condition p)" using v3 by (simp add: keep)
  show "view l5 ''DeploymentRunning'' = view l4 ''DeploymentRunning''" by (simp add: keep)
qed

lemma children_settle:
  assumes "lc_conduit l = c" and "renders E r w c y sd"
    and "w_Conduits w (key_of (c_Meta c)) = Some c" and "wf_status (c_Status c)"
    and "om_DeletionTimestamp (c_Meta c) = None"
  obtains d c' l' where "reconcile_children E r (w, l) = (Ok (10, None), (all_put w c y sd d c', l'))"
    "same_resource c c'" "conditions_set (all_put w c y sd d c') c'" "deployed E r (all_put w c y sd d c') c'"
proof -
  have "same_resource c c" by (simp add: same_resource_def)
  then obtain w1 w2 w3 w4 w5 l1 l2 l3 l4 l5 l6 d ld c' where
    1: "CreateOrUpdateConfig E (w, l) = (Ok (), (w1, l1))" and
    2: "CreateOrUpdateSecret E (w1, l1) = (Ok (), (w2, l2))" and
    3: "CreateOrUpdateVolume E (w2, l2) = (Ok (), (w3, l3))" and
    4: "CreateOrUpdateDeployment E r (w3, l3) = (Ok (), (w4, l4))" and
    5: "CreateOrUpdateService E (w4, l4) = (Ok (), (w5, l5))" and
    6: "UpdateStatus E (w5, l5) = (Ok (), (put_conduit w5 c', l6))" and
    w: "w1 = put_config w c y" "w2 = put_secret w1 c sd" "w3 = put_claim w2 c"
      "w4 = put_deployment w3 c d" "w5 = put_service w4 c" and
    d: "deploy E r c (the (w_ConfigMaps w1 (child_key c))) (the (w_Secrets w2 (child_key c)))
       (cur_deployment w c) l3 = (Ok d, ld)" and l4: "lc_conduit l4 = lc_conduit ld" and
    own: "d_Meta d = owned c (d_Meta (cur_deployment w c))" and
    s3: "same_resource c (lc_conduit l3)" and s: "same_resource c c'" and
    c': "st_Conditions (c_Status c') = st_Conditions (c_Status (lc_conduit l5))" and
    l3: "lc_conduit l3 = lc_conduit (snd (pvcFn E (NamespacedName_of c) (cur_pvc w c) l2))" and
    l5: "lc_conduit l5 = lc_conduit (snd (serviceFn E (NamespacedName_of c) (cur_service w c) l4))"
    by (rule children_run [OF assms(1-3) _ assms(5)])
  have "wf_loc l" using assms(1,4) by (simp add: wf_loc_def)
  note C = conditions_after [OF this 1 2 3 4 5 l3 l5]
  let ?w = "all_put w c y sd d c'"
  have w6: "put_conduit w5 c' = ?w" by (simp add: w all_put_def)
  have run: "reconcile_children E r (w, l) = (Ok (10, None), (?w, l6))"
    unfolding reconcile_children_def
      join_step_Ok [of "CreateOrUpdateConfig E", OF 1] join_step_Ok [of "CreateOrUpdateSecret E", OF 2]
      join_step_Ok [of "CreateOrUpdateVolume E", OF 3] join_step_Ok [of "CreateOrUpdateDeployment E r", OF 4]
      join_step_Ok [of "CreateOrUpdateService E", OF 5] join_step_Ok [of "UpdateStatus E", OF 6] w6 by simp
  have wf': "wf_status (c_Status c')" and v: "cview (st_Conditions (c_Status c')) = view l5"
    using C(2) wf_status_conditions [OF c'] by (simp_all add: wf_loc_def c' view_def)
  have "conditions_set ?w c'"
    using C(3) by (simp add: conditions_set_def Let_def wf' v C(4-7) same_resourceD [OF s] cur_all_put
        volume_condition_def service_condition_def exposed_def del: not_None_eq)
  moreover have "deployed E r ?w c'"
  proof -
    obtain cm se where cm: "w_ConfigMaps w1 (child_key c) = Some cm" "w_ConfigMaps ?w (child_key c) = Some cm"
      and se: "w_Secrets w2 (child_key c) = Some se" "w_Secrets ?w (child_key c) = Some se"
      by (simp add: w all_put_fields) (simp add: put_defs cur_secret_def)
    have "\<exists>l'. deploy E r c cm se d k = (Ok d, l') \<and> lc_conduit l' = c'" if "lc_conduit k = c'" for k
      using deploy_again [OF server d [unfolded cm se option.sel] s3 one_each_wf [OF C(1)], of k] that s wf' C(3,8)
        view_conduit [OF l4] by (simp add: wf_loc_def view_def [of k] v)
    then show ?thesis
      using cm(2) se(2) own unfolding deployed_def same_resourceD [OF s] by (auto simp: all_put_fields)
  qed
  ultimately show thesis by (rule that [OF run s])
qed

end

section \<open>Properties\<close>

lemma read_stored: "get_conduit (ref_reader w) (req_of c) = Ok c'" if "w_Conduits w (key_of (c_Meta c)) = Some c'"
  using that by (simp add: ref_reader_def found_def req_of_def key_of_def)

lemma server_children:
  assumes "re_client E = ref_client" and "w_Conduits w (key_of (c_Meta c)) = Some c"
    and "om_DeletionTimestamp (c_Meta c) = None"
    and "''finalizers.operator.conduit.io'' \<in> set (om_Finalizers (c_Meta c))"
  shows "Reconcile E r (req_of c) (w, l) = reconcile_children E r (w, l\<lparr>lc_conduit := c\<rparr>)"
  using read_stored [OF assms(2)] assms(3,4)
  by (intro Reconcile_children) (simp_all add: assms(1) ref_client_def)



lemma getReplicas_finalizers [simp]:
  "getReplicas (with_finalizers c fs) = getReplicas c" "child_key (with_finalizers c fs) = child_key c"
  "req_of (with_finalizers c fs) = req_of c" "owned (with_finalizers c fs) m = owned c m"
  by (simp_all add: getReplicas_def child_key_def req_of_def owned_def with_finalizers_def)

lemma first_visit:
  assumes "re_client E = ref_client" and "w_Conduits w (key_of (c_Meta c)) = Some c"
    and "om_DeletionTimestamp (c_Meta c) = None"
    and "''finalizers.operator.conduit.io'' \<notin> set (om_Finalizers (c_Meta c))"
    and "c1 = with_finalizers c (om_Finalizers (c_Meta c) @ [''finalizers.operator.conduit.io''])"
  shows "fst (Reconcile E r (req_of c) (w, l)) = Ok (10, None)
    \<and> fst (snd (Reconcile E r (req_of c) (w, l))) = put_conduit w c1"
proof -
  have "cl_Update (re_client E) (with_finalizers c
      (AddFinalizer (re_client E) (om_Finalizers (c_Meta c)) ConduitFinalizer)) w = (Ok c1, put_conduit w c1)"
    using assms(3,4)
    by (simp add: assms(1,5) ref_client_def ref_put_def put_conduit_def with_finalizers_def)
  from Reconcile_first_visit [OF _ _ _ this, of "req_of c" r l] read_stored [OF assms(2)] assms(3,4) show ?thesis
    by (simp add: assms(1) ref_client_def)
qed

lemma deploy_replicas: "deploy E r c cm s d l = (Ok d', l') \<Longrightarrow> ds_Replicas (d_Spec d') = Some (getReplicas c)"
  unfolding deploy_def Let_def by (erule deploymentFn_elim) simp

lemma deployed_replicas:
  assumes "deployed E r w c"
  obtains d where "w_Deployments w (child_key c) = Some d" "ds_Replicas (d_Spec d) = Some (getReplicas c)"
    "om_Controller (d_Meta d) = Some (om_Name (c_Meta c))"
proof -
  have "lc_conduit (start c) = c" by (simp add: start_def)
  then obtain cm s d where d: "w_Deployments w (child_key c) = Some d" "d_Meta d = owned c (d_Meta d)"
    "\<exists>l'. deploy E r c cm s d (start c) = (Ok d, l') \<and> lc_conduit l' = c"
    by (rule deployedE [OF assms])
  from d(3) have "ds_Replicas (d_Spec d) = Some (getReplicas c)" by (elim exE conjE) (rule deploy_replicas)
  moreover from arg_cong [OF d(2), of om_Controller] have "om_Controller (d_Meta d) = Some (om_Name (c_Meta c))"
    by (simp add: owned_def)
  ultimately show thesis by (rule that [OF d(1)])
qed

definition children_up :: "cluster \<Rightarrow> Conduit \<Rightarrow> string \<Rightarrow> (string \<rightharpoonup> string) \<Rightarrow> bool" where
  "children_up w c y sd \<longleftrightarrow>
     map_option cm_Data (w_ConfigMaps w (child_key c)) = Some [''pipeline.yaml'' \<mapsto> y]
     \<and> map_option se_Data (w_Secrets w (child_key c)) = Some sd
     \<and> w_Claims w (child_key c) \<noteq> None
     \<and> (\<exists>d. w_Deployments w (child_key c) = Some d \<and> ds_Replicas (d_Spec d) = Some (getReplicas c)
          \<and> om_Controller (d_Meta d) = Some (om_Name (c_Meta c)))
     \<and> map_option s_Selector (w_Services w (child_key c)) =
         Some [''app.kubernetes.io/name'' \<mapsto> nn_Name (NamespacedName_of c)]"

lemma children_up_all_put:
  assumes "deployed E r (all_put w c y sd d c') c'" and "same_resource c c'"
  shows "children_up (all_put w c y sd d c') c y sd"
proof -
  have c': "getReplicas c' = getReplicas c" "om_Name (c_Meta c') = om_Name (c_Meta c)"
    using assms(2) by (simp_all add: same_resource_def getReplicas_def)
  show ?thesis
    by (rule deployed_replicas [OF assms(1)])
      (simp add: children_up_def same_resourceD [OF assms(2)] c',
       simp add: all_put_fields put_defs exposed_def)
qed





end
