(* ===== verification/Isolation.thy ===== *)
theory Isolation
  imports Reconciler_Run
begin

text \<open>
  What a visit may write on the in-memory API server: the resource it was asked for and the five
  objects that carry its name, and nothing else. Two resources never share such an object, so a
  visit to one leaves the other and its objects alone.
\<close>

section \<open>The objects of a resource\<close>

text \<open>The key of the objects of the resource with a given key.\<close>

definition server_key :: "key \<Rightarrow> key" where
  "server_key k = (fst k, ''conduit-server-'' @ snd k)"

lemma child_key_server: "child_key c = server_key (key_of (c_Meta c))"
  by (simp add: child_key_def server_key_def key_of_def)

lemma server_key_inject [simp]: "server_key k = server_key k' \<longleftrightarrow> k = k'"
  by (cases k; cases k') (simp add: server_key_def)

definition same_but :: "key \<Rightarrow> (key \<rightharpoonup> 'o) \<Rightarrow> (key \<rightharpoonup> 'o) \<Rightarrow> bool" where
  "same_but k m m' \<longleftrightarrow> (\<forall>k'. k' \<noteq> k \<longrightarrow> m' k' = m k')"

definition others_kept :: "key \<Rightarrow> cluster \<Rightarrow> cluster \<Rightarrow> bool" where
  "others_kept k w w' \<longleftrightarrow> same_but k (w_Conduits w) (w_Conduits w')
     \<and> same_but (server_key k) (w_ConfigMaps w) (w_ConfigMaps w')
     \<and> same_but (server_key k) (w_Secrets w) (w_Secrets w')
     \<and> same_but (server_key k) (w_Claims w) (w_Claims w')
     \<and> same_but (server_key k) (w_Deployments w) (w_Deployments w')
     \<and> same_but (server_key k) (w_Services w) (w_Services w')"

lemma same_butD: "same_but k m m' \<Longrightarrow> k' \<noteq> k \<Longrightarrow> m' k' = m k'"
  unfolding same_but_def by blast

lemma same_but_refl [simp]: "same_but k m m"
  by (simp add: same_but_def)

lemma same_but_upd [simp]: "same_but k m m' \<Longrightarrow> same_but k m (m'(k := x))"
  by (simp add: same_but_def)

lemma others_kept_refl [simp]: "others_kept k w w"
  by (simp add: others_kept_def)

text \<open>
  The invariant of a visit that started on the server \<open>w0\<close> for the resource with key \<open>k\<close>.
\<close>

definition within :: "key \<Rightarrow> cluster \<Rightarrow> cluster rt \<Rightarrow> bool" where
  "within k w0 s \<longleftrightarrow> key_of (c_Meta (lc_conduit (snd s))) = k \<and> others_kept k w0 (fst s)"

lemma within_get_c:
  assumes "\<And>c. key_of (c_Meta c) = k \<Longrightarrow> framed (keeps (within k w0)) (f c)"
  shows "framed (keeps (within k w0)) (bind_io get_c f)"
proof (rule framedI)
  fix s :: "cluster rt"
  show "keeps (within k w0) s (snd (bind_io get_c f s))"
    using framedD [OF assms, of "lc_conduit (snd s)" s]
    by (cases s) (auto simp: keeps_def within_def get_c_def)
qed

lemma within_local:
  assumes "framed (child_rel ct) m"
  shows "framed (keeps (within k w0)) (local_io m)"
proof (rule framedI)
  fix s :: "cluster rt"
  obtain w l where s: "s = (w, l)" by (cases s)
  have "c_Meta (lc_conduit (snd (m l))) = c_Meta (lc_conduit l)"
    using framedD [OF assms, of l] by (simp add: child_rel_def)
  then show "keeps (within k w0) s (snd (local_io m s))" by (simp add: s keeps_def within_def)
qed

lemma within_cou:
  assumes "key_of (meta obj) = server_key k" and "\<And>x. framed (child_rel ct) (f x)"
    and "\<And>x w. others_kept k w0 w \<Longrightarrow> others_kept k w0 (store (server_key k) x w)"
  shows "framed (keeps (within k w0)) (ref_cou meta objs store obj f)"
proof (rule framedI)
  fix s :: "cluster rt"
  obtain w l where s: "s = (w, l)" by (cases s)
  let ?o = "ref_current meta obj (objs w (server_key k))"
  obtain x l' where f: "f ?o l = (x, l')" by (metis surj_pair)
  have "c_Meta (lc_conduit l') = c_Meta (lc_conduit l)"
    using framedD [OF assms(2), of l ?o] by (simp add: f child_rel_def)
  then show "keeps (within k w0) s (snd (ref_cou meta objs store obj f s))"
    using f assms(3) by (cases x) (auto simp: s ref_cou_def assms(1) Let_def keeps_def within_def)
qed

lemma within_tail:
  assumes "framed (keeps (within k w0)) call"
  shows "framed (keeps (within k w0)) (child_tail E call nn f ct er u c)"
  unfolding child_tail_def
  by (intro keeps.framed_intros assms within_local)
    (auto split: OperationResult.splits intro: keeps.framed_intros within_local framed_Eventf framed_SetCondition)

section \<open>A visit stays within its resource\<close>

context on_server
begin

lemma within_get_R: "framed (keeps (within k w0)) (get_R E)"
  by (simp add: get_R_def keeps.framed_pure)

lemmas within_rules = within_get_c keeps.framed_bind keeps.framed_err within_get_R keeps.framed_pure within_tail
  within_local framed_Eventf

lemma within_handlers:
  "framed (keeps (within k w0)) (CreateOrUpdateConfig E)" "framed (keeps (within k w0)) (CreateOrUpdateSecret E)"
  "framed (keeps (within k w0)) (CreateOrUpdateVolume E)" "framed (keeps (within k w0)) (CreateOrUpdateDeployment E r)"
  "framed (keeps (within k w0)) (CreateOrUpdateService E)"
  unfolding CreateOrUpdateConfig_def CreateOrUpdateSecret_def CreateOrUpdateVolume_def
    CreateOrUpdateDeployment_def CreateOrUpdateService_def Let_def ref_simps
  by (intro within_rules within_cou [OF _ framed_cmFn] within_cou [OF _ framed_secretFn] within_cou [OF _ framed_pvcFn]
      within_cou [OF _ framed_deploymentFn] within_cou [OF _ framed_serviceFn];
      simp add: child_key_server others_kept_def)+

text \<open>Writing the resource itself.\<close>

lemma within_put:
  assumes "put = ref_put"
  shows "framed (keeps (within k w0)) (\<lambda>(w, l). case put (lc_conduit l) w of
       (Ok c, w') \<Rightarrow> (Ok (), (w', l\<lparr>lc_conduit := c\<rparr>))
     | (Err e, w') \<Rightarrow> (Err e, (w', l)) | (Panic p, w') \<Rightarrow> (Panic p, (w', l)))"
  unfolding assms by (auto simp: framed_def keeps_def within_def ref_put_def others_kept_def)

lemma within_modify:
  assumes "\<And>l. key_of (c_Meta (lc_conduit (u l))) = key_of (c_Meta (lc_conduit l))"
  shows "framed (keeps (within k w0)) (local_io (modify_io u))"
  by (auto simp: framed_def keeps_def within_def assms)

lemma within_children: "framed (keeps (within k w0)) (reconcile_children E r)"
proof -
  have stamp: "framed (keeps (within k w0)) (local_io (stamp_status E))"
    unfolding stamp_status_def by (rule within_modify) (simp add: Let_def)
  have put: "framed (keeps (within k w0)) (status_update E)"
    unfolding status_update_def by (rule within_put) (simp add: server ref_client_def)
  have up: "framed (keeps (within k w0)) (UpdateStatus E)"
    unfolding UpdateStatus_def
    by (intro within_rules keeps.framed_if stamp put)
  show ?thesis
    unfolding reconcile_children_steps
    by (rule keeps.framed_join_all) (auto simp: steps_def intro: within_handlers up keeps.framed_pure)
qed

lemma within_found: "framed (keeps (within k w0)) (reconcile_found E r req c)"
proof -
  have put: "framed (keeps (within k w0)) (update_conduit E)"
    unfolding update_conduit_def by (rule within_put) (simp add: server ref_client_def)
  have fin: "framed (keeps (within k w0)) (local_io (modify_io (set_finalizers f)))" for f
    by (rule within_modify) (simp add: set_finalizers_def Let_def key_of_def)
  show ?thesis
    unfolding reconcile_found_def
    by (auto intro!: within_rules put fin within_children split: option.splits)
qed

lemma visit_within:
  assumes "\<And>c. w_Conduits w (nn_Namespace req, nn_Name req) = Some c \<Longrightarrow> key_of (c_Meta c) = (nn_Namespace req, nn_Name req)"
    and "Reconcile E r req (w, l) = (x, (w', l'))"
  shows "others_kept (nn_Namespace req, nn_Name req) w w'"
proof (cases "get_conduit (ref_reader w) req")
  case (Ok c)
  let ?k = "(nn_Namespace req, nn_Name req)"
  have run: "reconcile_found E r req c (w, l\<lparr>lc_conduit := c\<rparr>) = (x, (w', l'))"
    using assms(2) Ok by (simp add: Reconcile_def err_io_def server)
  have "w_Conduits w ?k = Some c" using Ok by (auto simp: ref_reader_def found_def split: option.splits)
  then have "within ?k w (w, l\<lparr>lc_conduit := c\<rparr>)" using assms(1) by (simp add: within_def)
  then show ?thesis
    using framedD [OF within_found, of ?k w "(w, l\<lparr>lc_conduit := c\<rparr>)" r req c] by (simp add: run keeps_def within_def)
qed (use assms in \<open>simp_all add: Reconcile_def err_io_def server\<close>)

end

section \<open>Properties\<close>



end
