(* ===== verification/Panic_Freedom.thy ===== *)
theory Panic_Freedom
  imports Convergence Version_Flags
begin

text \<open>
  When the reconciler panics: which nil pointers it can meet, on any API server and with any
  libraries that do not panic themselves.
\<close>

section \<open>Rendering\<close>

lemma bind_res_Panic:
  "bind_res r f = Panic p \<longleftrightarrow> r = Panic p \<or> (\<exists>a. r = Ok a \<and> f a = Panic p)"
  by (cases r) auto

lemma settings_calm:
  assumes "\<And>nn p. get_configmap R nn \<noteq> Panic p"
  shows "settingsWithEnvVars U R s \<noteq> Panic p"
proof -
  have "configMapValue R ref \<noteq> Panic p" for ref p
    using assms by (auto simp: configMapValue_def bind_res_Panic split: option.splits)
  then have "setting_value U R v \<noteq> Panic p" for v p
    by (auto simp: setting_value_def split: option.splits res.splits)
  then have "settings_loop U R s m \<noteq> Panic p" for m
    by (induction s arbitrary: m) (auto simp: bind_res_Panic)
  then show ?thesis by (simp add: settingsWithEnvVars_def)
qed

lemma processorConfig_calm:
  "(\<And>nn p. get_configmap R nn \<noteq> Panic p) \<Longrightarrow> processorConfig U R x \<noteq> Panic p"
  by (auto simp: processorConfig_def bind_res_Panic settings_calm)

lemma connectorConfig_calm:
  "(\<And>nn p. get_configmap R nn \<noteq> Panic p) \<Longrightarrow> connectorConfig U R x \<noteq> Panic p"
  by (auto simp: connectorConfig_def bind_res_Panic settings_calm for_each_no_panic processorConfig_calm)

text \<open>The pipeline is rendered without a panic exactly when the desired run state is set.\<close>

lemma PipelineConfigYAML_panics:
  assumes "\<And>nn p. get_configmap R nn \<noteq> Panic p" and "\<And>y p. m y \<noteq> Panic p"
  shows "(\<exists>p. PipelineConfigYAML U R m c = Panic p) \<longleftrightarrow> sp_Running (c_Spec c) = None"
  by (cases "sp_Running (c_Spec c)")
    (auto simp: PipelineConfigYAML_def Let_def bind_res_Panic assms(2) for_each_no_panic
      connectorConfig_calm [OF assms(1)] processorConfig_calm [OF assms(1)])

lemma valueOrSecret_calm: "(\<And>nn p. get nn \<noteq> Panic p) \<Longrightarrow> valueOrSecret get v \<noteq> Panic p"
  by (auto simp: valueOrSecret_def bind_res_Panic split: option.splits)

lemma SchemaRegistryConfig_calm:
  assumes "\<And>ns nn p. ns_get_secret R ns nn \<noteq> Panic p" and "\<And>u p. url_Parse P u \<noteq> Panic p"
  shows "SchemaRegistryConfig P R c \<noteq> Panic p"
  using valueOrSecret_calm [OF assms(1)] assms(2)
  by (auto simp: SchemaRegistryConfig_def Let_def bind_res_Panic split: option.splits)

section \<open>Handlers\<close>

lemma bind_io_Panic:
  "fst (bind_io m f s) = Panic p \<longleftrightarrow>
     fst (m s) = Panic p \<or> (\<exists>a. fst (m s) = Ok a \<and> fst (f a (snd (m s))) = Panic p)"
proof -
  obtain x s' where "m s = (x, s')" by (metis surj_pair)
  then show ?thesis by (cases x) (auto simp: bind_io_def)
qed

lemma err_io_Panic:
  "fst (err_io m h f s) = Panic p \<longleftrightarrow> fst (m s) = Panic p
     \<or> (\<exists>e. fst (m s) = Err e \<and> fst (h e (snd (m s))) = Panic p)
     \<or> (\<exists>a. fst (m s) = Ok a \<and> fst (f a (snd (m s))) = Panic p)"
proof -
  obtain x s' where "m s = (x, s')" by (metis surj_pair)
  then show ?thesis by (cases x) (auto simp: err_io_def)
qed

lemma child_tail_Panic:
  assumes "fst (child_tail E call nn f ct er u c s) = Panic p"
  shows "fst (call s) = Panic p"
proof -
  obtain x w l where "call s = (x, (w, l))" by (metis surj_pair)
  with assms show ?thesis
    by (cases x) (auto simp: child_tail_def err_io_def bind_io_def Eventf_def c_SetCondition_def
        split: OperationResult.splits)
qed

context create_or_update
begin

lemma cou_calm:
  assumes "\<And>o' p. fst (f o' l) \<noteq> Panic p"
  shows "fst (cou obj f (w, l)) \<noteq> Panic p"
proof
  assume "fst (cou obj f (w, l)) = Panic p"
  then obtain w' l' where "cou obj f (w, l) = (Panic p, (w', l'))"
    by (metis prod.collapse)
  then show False using cou_Panic assms by (metis fst_conv)
qed

end

lemma local_Eventf_run: "fst (local_io (Eventf t r f as) s) = Ok ()"
  by (cases s) (simp add: Eventf_run)

lemma join_calm:
  assumes "c_Spec (lc_conduit l) = sp"
    and "\<And>w l p. c_Spec (lc_conduit l) = sp \<Longrightarrow> fst (step (w, l)) \<noteq> Panic p"
    and "\<And>w l. c_Spec (lc_conduit (snd (snd (step (w, l))))) = c_Spec (lc_conduit l)"
    and "\<And>errs w l. c_Spec (lc_conduit l) = sp \<Longrightarrow> fst (rest errs (w, l)) \<noteq> Panic p"
  shows "fst (join_step fmt step rest errs (w, l)) \<noteq> Panic p"
proof -
  obtain w' l' where s: "snd (step (w, l)) = (w', l')" by (metis surj_pair)
  then have "c_Spec (lc_conduit l') = sp" using assms(1,3) by (metis snd_conv)
  then show ?thesis
    using assms(2) [OF assms(1)] assms(4) by (simp add: join_step_def err_io_Panic s)
qed

text \<open>A version that does not parse leads to the other nil pointer: \<^verbatim>\<open>Check\<close> gets a nil version.\<close>

definition version_parses :: "('v, 'c) semver \<Rightarrow> Conduit \<Rightarrow> bool" where
  "version_parses S c \<longleftrightarrow>
     (case NewVersion S (TrimPrefix (sp_Version (c_Spec c)) ''v'') of Ok v \<Rightarrow> True | _ \<Rightarrow> False)"

lemma version_parses_iff: "version_parses S c \<longleftrightarrow> (\<exists>v. NewVersion S (TrimPrefix (sp_Version (c_Spec c)) ''v'') = Ok v)"
  by (simp add: version_parses_def split: res.splits)

context child_step
begin

lemma step_spec: "c_Spec (lc_conduit (snd (snd (step (w, l))))) = c_Spec (lc_conduit l)"
  using step_identity [of w l] by (metis surjective_pairing)

end

text \<open>Servers and libraries that do not panic.\<close>

locale calm_env = reconciler E
  for E :: "('w, 'u, 'v, 'c) rec_env" +
  fixes release :: "'v \<Rightarrow> version"
    and prerelease :: "'v \<Rightarrow> bool"
  assumes semver: "semver_lib (re_semver E) release prerelease"
    and constraints: "set (re_constraints E) = set version_constraints"
    and marshal_calm: "re_marshal E y \<noteq> Panic p"
    and url_calm: "url_Parse (re_url E) s \<noteq> Panic p"
    and owner_calm: "SetControllerReference (re_client E) c m \<noteq> Panic p"
    and reads_calm: "get_conduit (cl_reader (re_client E) w) nn \<noteq> Panic p"
      "get_configmap (cl_reader (re_client E) w) nn \<noteq> Panic p"
      "get_secret (cl_reader (re_client E) w) nn \<noteq> Panic p"
      "ns_get_secret (cl_reader (re_client E) w) ns nn \<noteq> Panic p"
    and writes_calm: "fst (cl_Update (re_client E) c w) \<noteq> Panic p"
      "fst (cl_StatusUpdate (re_client E) c w) \<noteq> Panic p"
begin

lemma own_calm: "fst (own E m l) \<noteq> Panic p"
  using owner_calm by (simp add: own_def)

lemma then_own_calm: "fst (u l) = Ok a \<Longrightarrow> fst (bind_io u (\<lambda>_. bind_io (own E m) (\<lambda>x. ret_io (g x))) l) \<noteq> Panic p"
  by (simp add: bind_io_Panic own_calm)

lemma mutate_calm:
  "fst (cmFn E y cm l) \<noteq> Panic p" "fst (secretFn E sd s l) \<noteq> Panic p"
  "fst (pvcFn E nn pvc l) \<noteq> Panic p" "fst (serviceFn E nn svc l) \<noteq> Panic p"
  unfolding cmFn_def secretFn_def pvcFn_def serviceFn_def Let_def
  by (rule then_own_calm, simp add: SetCondition_run bind_fst_Ok Eventf_run)+

lemma config_panics:
  "(\<exists>p. fst (CreateOrUpdateConfig E (w, l)) = Panic p) \<longleftrightarrow> sp_Running (c_Spec (lc_conduit l)) = None"
proof -
  let ?y = "PipelineConfigYAML (re_unicode E) (cl_reader (re_client E) w) (re_marshal E) (lc_conduit l)"
  have "(\<exists>p. fst (CreateOrUpdateConfig E (w, l)) = Panic p) \<longleftrightarrow> (\<exists>p. ?y = Panic p)"
    unfolding CreateOrUpdateConfig_def Let_def get_c_run get_R_run
    by (cases ?y) (auto dest!: child_tail_Panic simp: cms.cou_calm mutate_calm)
  also have "\<dots> \<longleftrightarrow> sp_Running (c_Spec (lc_conduit l)) = None"
    by (rule PipelineConfigYAML_panics) (simp_all add: reads_calm marshal_calm)
  finally show ?thesis .
qed

lemma secret_calm: "fst (CreateOrUpdateSecret E (w, l)) \<noteq> Panic p"
  using SchemaRegistryConfig_calm [of "cl_reader (re_client E) w" "re_url E" "lc_conduit l"]
  unfolding CreateOrUpdateSecret_def Let_def get_c_run get_R_run
  by (cases "SchemaRegistryConfig (re_url E) (cl_reader (re_client E) w) (lc_conduit l)")
    (auto dest!: child_tail_Panic simp: ses.cou_calm mutate_calm reads_calm url_calm)

lemma volume_calm: "fst (CreateOrUpdateVolume E (w, l)) \<noteq> Panic p"
  unfolding CreateOrUpdateVolume_def Let_def get_c_run
  by (auto dest!: child_tail_Panic simp: pvcs.cou_calm mutate_calm)

lemma service_calm: "fst (CreateOrUpdateService E (w, l)) \<noteq> Panic p"
  unfolding CreateOrUpdateService_def Let_def get_c_run
  by (auto dest!: child_tail_Panic simp: svcs.cou_calm mutate_calm)

lemma deployment_calm:
  assumes "version_parses (re_semver E) (lc_conduit l)"
  shows "fst (CreateOrUpdateDeployment E r (w, l)) \<noteq> Panic p"
proof -
  let ?c = "lc_conduit l"
  obtain v where "NewVersion (re_semver E) (TrimPrefix (sp_Version (c_Spec ?c)) ''v'') = Ok v"
    using assms by (auto simp: version_parses_iff)
  from semver_lib.ForVersion_total [OF semver constraints this]
  have "ConduitRuntimeContainer (re_semver E) (re_constraints E) (sp_Image (c_Spec ?c)) (sp_Version (c_Spec ?c))
      env (r_flags r) \<noteq> Panic p" for env p
    by (simp add: ConduitRuntimeContainer_def split: option.splits)
  moreover have "deploymentRunningStatus (d\<lparr>d_Spec := (merge (d_Spec d) (deployment_spec ?c nn k kont))
      \<lparr>ds_MatchLabels := ml, ds_Labels := ls, ds_Annotations := as\<rparr>\<rparr>) \<noteq> Panic p" for d nn k kont ml ls as p
    by (simp add: deploymentRunningStatus_def merge_def deployment_spec_def)
  ultimately have "fst (deploymentFn E r nn k ml ls as cm s d l) \<noteq> Panic p" for nn k ml ls as cm s d p
    by (auto simp: deploymentFn_def Let_def bind_io_Panic own_calm set_running_run)
  then show ?thesis
    unfolding CreateOrUpdateDeployment_def Let_def get_c_run get_R_run
    by (auto simp: err_io_Panic bind_io_Panic Eventf_run reads_calm deps.cou_calm dest!: child_tail_Panic)
qed

lemma status_calm: "fst (UpdateStatus E (w, l)) \<noteq> Panic p"
proof -
  have "fst (status_update E s) \<noteq> Panic p" for s p
    using writes_calm(2) by (auto simp: status_update_def split: prod.splits res.splits)
      (metis fst_conv)
  then show ?thesis
    unfolding UpdateStatus_def get_c_run get_R_run
    by (auto simp: err_io_Panic bind_io_Panic local_Eventf_run reads_calm stamp_status_def Let_def)
qed

lemma children_calm:
  assumes "sp_Running (c_Spec (lc_conduit l)) \<noteq> None" and "version_parses (re_semver E) (lc_conduit l)"
  shows "fst (reconcile_children E r (w, l)) \<noteq> Panic p"
proof -
  define sp where "sp = c_Spec (lc_conduit l)"
  have ver: "c_Spec (lc_conduit k) = sp \<Longrightarrow> version_parses (re_semver E) (lc_conduit k)" for k
    using assms(2) by (simp add: version_parses_def sp_def)
  have run: "c_Spec (lc_conduit k) = sp \<Longrightarrow> fst (CreateOrUpdateConfig E (w, k)) \<noteq> Panic p" for w k p
    using config_panics [of w k] assms(1) by (auto simp: sp_def)
  note J = join_calm [where sp = sp]
  show ?thesis
    unfolding reconcile_children_def
    by (rule J, rule sp_def [symmetric], erule run, rule config.step_spec,
        rule J, assumption, rule secret_calm, rule secret.step_spec,
        rule J, assumption, rule volume_calm, rule volume.step_spec,
        rule J, assumption, rule deployment_calm, erule ver, rule deployment.step_spec,
        rule J, assumption, rule service_calm, rule service.step_spec)
      (simp add: join_step_def err_io_Panic status_calm)
qed

end

context calm_env
begin

lemma update_calm: "fst (update_conduit E s) \<noteq> Panic p"
proof -
  obtain w l where s: "s = (w, l)" by (cases s)
  obtain x w' where "cl_Update (re_client E) (lc_conduit l) w = (x, w')" by (metis surj_pair)
  then show ?thesis using writes_calm(1) [of "lc_conduit l" w p] by (cases x) (auto simp: s update_conduit_def)
qed

lemma config_panic_stops:
  assumes "sp_Running (c_Spec (lc_conduit l)) = None"
  shows "\<exists>p. fst (reconcile_children E r (w, l)) = Panic p"
  using config_panics [of w l] assms by (auto simp: reconcile_children_def join_step_def err_io_Panic)

lemma finalizer_calm:
  assumes "get_conduit (cl_reader (re_client E) w) req = Ok c"
    and "om_DeletionTimestamp (c_Meta c) \<noteq> None \<or> ''finalizers.operator.conduit.io'' \<notin> set (om_Finalizers (c_Meta c))"
  shows "fst (Reconcile E r req (w, l)) \<noteq> Panic p"
  using assms
  by (auto simp: Reconcile_def reconcile_found_def get_R_def err_io_Panic bind_io_Panic update_calm local_Eventf_run contains_iff
      split: option.splits)

lemma visit_deep:
  assumes "get_conduit (cl_reader (re_client E) w) req = Ok c" and "om_DeletionTimestamp (c_Meta c) = None"
    and "''finalizers.operator.conduit.io'' \<in> set (om_Finalizers (c_Meta c))"
  shows "Reconcile E r req (w, l) = reconcile_children E r (w, l\<lparr>lc_conduit := c\<rparr>)"
  using assms by (intro Reconcile_children) (simp_all add: contains_iff)

lemma visit_calm:
  assumes "get_conduit (cl_reader (re_client E) w) req = Ok c"
    and "sp_Running (c_Spec c) \<noteq> None" and "version_parses (re_semver E) c"
  shows "fst (Reconcile E r req (w, l)) \<noteq> Panic p"
proof (cases "om_DeletionTimestamp (c_Meta c) = None
    \<and> ''finalizers.operator.conduit.io'' \<in> set (om_Finalizers (c_Meta c))")
  case True
  then show ?thesis using visit_deep [OF assms(1)] children_calm assms(2,3) by simp
next
  case False
  then show ?thesis using finalizer_calm [OF assms(1)] by blast
qed

lemma missing_calm: "(\<And>c. get_conduit (cl_reader (re_client E) w) req \<noteq> Ok c) \<Longrightarrow> fst (Reconcile E r req (w, l)) \<noteq> Panic p"
  using reads_calm(1)
  by (cases "get_conduit (cl_reader (re_client E) w) req") (auto simp: Reconcile_def err_io_def)

end

interpretation ref_calm: calm_env ref_env sv_release sv_pre
proof (intro calm_env.intro calm_env_axioms.intro)
  show "reconciler ref_env" by (rule ref_rec.reconciler_axioms)
  show "semver_lib (re_semver ref_env) sv_release sv_pre" by (simp add: ref_env_def ref.semver_lib_axioms)
qed (simp_all add: ref_env_def text_urls_def ref_client_def ref_reader_def found_def ref_put_def split: option.splits)

section \<open>Properties\<close>

text \<open>
  C16: the reconciler dereferences two pointers that may be nil. A visit panics when it has to
  render the pipeline of a resource without a desired run state; it never panics when the run
  state is set and the version parses, and never while it only handles the finalizer.
\<close>

theorem Reconcile_panics:
  assumes "calm_env E release prerelease" and "get_conduit (cl_reader (re_client E) w) req = Ok c"
  shows "(sp_Running (c_Spec c) \<noteq> None \<and> version_parses (re_semver E) c \<longrightarrow>
        (\<forall>p. fst (Reconcile E r req (w, l)) \<noteq> Panic p))
    \<and> ((\<exists>t. om_DeletionTimestamp (c_Meta c) = Some t)
        \<or> ''finalizers.operator.conduit.io'' \<notin> set (om_Finalizers (c_Meta c)) \<longrightarrow>
        (\<forall>p. fst (Reconcile E r req (w, l)) \<noteq> Panic p))
    \<and> (om_DeletionTimestamp (c_Meta c) = None
        \<and> ''finalizers.operator.conduit.io'' \<in> set (om_Finalizers (c_Meta c)) \<and> sp_Running (c_Spec c) = None \<longrightarrow>
        (\<exists>p. fst (Reconcile E r req (w, l)) = Panic p))"
proof (intro conjI impI allI)
  fix p
  show "fst (Reconcile E r req (w, l)) \<noteq> Panic p"
    if "sp_Running (c_Spec c) \<noteq> None \<and> version_parses (re_semver E) c"
    using calm_env.visit_calm [OF assms] that by blast
  show "fst (Reconcile E r req (w, l)) \<noteq> Panic p"
    if "(\<exists>t. om_DeletionTimestamp (c_Meta c) = Some t) \<or> ''finalizers.operator.conduit.io'' \<notin> set (om_Finalizers (c_Meta c))"
    using calm_env.finalizer_calm [OF assms] that by auto
next
  assume deep: "om_DeletionTimestamp (c_Meta c) = None
    \<and> ''finalizers.operator.conduit.io'' \<in> set (om_Finalizers (c_Meta c)) \<and> sp_Running (c_Spec c) = None"
  then show "\<exists>p. fst (Reconcile E r req (w, l)) = Panic p"
    using calm_env.visit_deep [OF assms, of r l]
      calm_env.config_panic_stops [OF assms(1), of "l\<lparr>lc_conduit := c\<rparr>" r w] by simp
qed

theorem Reconcile_panics_witness:
  "(\<forall>p. fst (Reconcile ref_env (NewConduitReconciler NewConduitInstanceMetadata) (req_of bare_conduit)
       (stored bare_conduit, start bare_conduit)) \<noteq> Panic p)
   \<and> (\<exists>p. fst (Reconcile ref_env (NewConduitReconciler NewConduitInstanceMetadata) (req_of bare_conduit)
       (stored (bare_conduit\<lparr>c_Spec := (c_Spec bare_conduit)\<lparr>sp_Running := None\<rparr>\<rparr>), start bare_conduit)) = Panic p)"
proof
  have "version_parses (re_semver ref_env) bare_conduit"
    by (simp add: version_parses_def ref_env_def bare_simps ref_semver_def semver_eval TrimPrefix_def)
  then show "\<forall>p. fst (Reconcile ref_env (NewConduitReconciler NewConduitInstanceMetadata) (req_of bare_conduit)
       (stored bare_conduit, start bare_conduit)) \<noteq> Panic p"
    using Reconcile_panics [OF ref_calm.calm_env_axioms get_stored [of bare_conduit]] by (simp add: bare_simps)
  let ?c = "bare_conduit\<lparr>c_Spec := (c_Spec bare_conduit)\<lparr>sp_Running := None\<rparr>\<rparr>"
  have "req_of ?c = req_of bare_conduit" by (simp add: req_of_def)
  with Reconcile_panics [OF ref_calm.calm_env_axioms get_stored [of ?c]]
  show "\<exists>p. fst (Reconcile ref_env (NewConduitReconciler NewConduitInstanceMetadata) (req_of bare_conduit)
       (stored ?c, start bare_conduit)) = Panic p"
    by (simp add: bare_simps)
qed

end
