(* ===== verification/Plugins.thy ===== *)
theory Plugins
  imports Go_Paths
begin

text \<open>
  Model of \<^verbatim>\<open>pkg/conduit/plugin.go\<close>: which connector plugins a Conduit resource may name.
  A nil error is \<^const>\<open>None\<close>.
\<close>

definition allowedGitHubOrgs :: "string list" where
  "allowedGitHubOrgs = [''conduitio/'', ''conduitio-labs/'', ''meroxa/'']"

definition forbiddenConnectors :: "string list" where
  "forbiddenConnectors =
     [''github.com/conduitio/conduit-connector-file'', ''conduitio/conduit-connector-file'']"

definition BuiltinConnectors :: "string list" where
  "BuiltinConnectors = [''kafka'', ''generator'', ''s3'', ''postgres'', ''log'']"

fun forbidden_loop :: "string \<Rightarrow> string list \<Rightarrow> bool" where
  "forbidden_loop name [] = False"
| "forbidden_loop name (fc # fcs) = (if name = fc then True else forbidden_loop name fcs)"

fun org_loop :: "string \<Rightarrow> string list \<Rightarrow> bool" where
  "org_loop name [] = False"
| "org_loop name (org # orgs) =
     (if HasPrefix name org then True
      else if HasPrefix name (''github.com/'' @ org) then True
      else org_loop name orgs)"

definition ValidatePlugin :: "unicode \<Rightarrow> string \<Rightarrow> go_error option" where
  "ValidatePlugin U name =
     (let trimmedName = ToLower U (TrimSpace name)
      in if TrimPrefix trimmedName ''builtin:'' \<in> set BuiltinConnectors then None
         else if forbidden_loop trimmedName forbiddenConnectors
         then Some (Errorf ''plugin %q is not supported'' [name])
         else if org_loop trimmedName allowedGitHubOrgs then None
         else Some (Errorf ''plugin %q is not supported'' [name]))"

definition ValidatePluginType :: "string \<Rightarrow> go_error option" where
  "ValidatePluginType t =
     (if t = ''source'' \<or> t = ''destination'' then None
      else Some (Errorf ''plugin type %q is not supported'' [t]))"

section \<open>Facts about the loops\<close>

lemma forbidden_loop_iff: "forbidden_loop name fcs \<longleftrightarrow> name \<in> set fcs"
  by (induction fcs) auto

lemma org_loop_iff:
  "org_loop name orgs \<longleftrightarrow>
     (\<exists>org \<in> set orgs. HasPrefix name org \<or> HasPrefix name (''github.com/'' @ org))"
  by (induction orgs) auto

lemma dropWhile_replicate_append:
  "dropWhile (\<lambda>c. c = x) (replicate n x @ s) = dropWhile (\<lambda>c. c = x) s"
  by (induction n) auto

lemma TrimSpace_pad:
  "TrimSpace (replicate m CHR '' '' @ s @ replicate n CHR '' '') = TrimSpace s"
proof -
  have front: "dropWhile (\<lambda>c. c = CHR '' '') (s @ replicate n CHR '' '') =
      (if list_all (\<lambda>c. c = CHR '' '') s then []
       else dropWhile (\<lambda>c. c = CHR '' '') s @ replicate n CHR '' '')"
    by (induction s) (auto simp: dropWhile_eq_Nil_conv)
  have nil: "list_all (\<lambda>c. c = CHR '' '') s \<Longrightarrow> dropWhile (\<lambda>c. c = CHR '' '') s = []"
    by (auto simp: dropWhile_eq_Nil_conv list_all_iff)
  show ?thesis
    by (auto simp: TrimSpace_def dropWhile_replicate_append front nil)
qed

lemma ascii_TrimSpace: "list_all ascii s \<Longrightarrow> list_all ascii (TrimSpace s)"
  by (auto simp: TrimSpace_def list_all_iff dest!: set_dropWhileD)

lemma lower_upper_byte: "ascii c \<Longrightarrow> lower_byte (upper_byte c) = lower_byte c"
proof -
  assume "ascii c"
  have "of_char (lower_byte (upper_byte c)) = (of_char (lower_byte c) :: nat)"
    by (auto simp: of_char_lower_byte of_char_upper_byte byte_in_def)
  then show ?thesis by (metis char_of_char)
qed

lemma upper_byte_space: "upper_byte c = CHR '' '' \<longleftrightarrow> c = CHR '' ''"
proof
  assume "upper_byte c = CHR '' ''"
  then have "of_char (upper_byte c) = (32::nat)" by simp
  then have "of_char c = (32::nat)"
    by (auto simp: of_char_upper_byte byte_in_def split: if_splits)
  then have "of_char c = (of_char CHR '' '' :: nat)" by simp
  then show "c = CHR '' ''" by (simp only: of_char_eq_iff)
qed (simp add: upper_byte_def byte_in_def)

lemma TrimSpace_map:
  assumes "\<And>c. f c = CHR '' '' \<longleftrightarrow> c = CHR '' ''"
  shows "TrimSpace (map f s) = map f (TrimSpace s)"
  by (simp add: TrimSpace_def dropWhile_map comp_def assms rev_map)

section \<open>Properties\<close>

text \<open>
  C28: what the plugin check accepts. A name is accepted exactly when its trimmed, lower-case form
  is a built-in connector, with or without the prefix \<^verbatim>\<open>builtin:\<close>, or lies in an allowed
  GitHub organization, with or without the host, and is not the forbidden file connector; every
  other name is rejected with the message naming it as the user wrote it.
\<close>

theorem ValidatePlugin_iff:
  "ValidatePlugin U name =
     (if (\<exists>b \<in> set BuiltinConnectors. ToLower U (TrimSpace name) \<in> {b, ''builtin:'' @ b})
         \<or> (ToLower U (TrimSpace name) \<notin> set forbiddenConnectors
            \<and> (\<exists>org \<in> set allowedGitHubOrgs. \<exists>rest.
                 ToLower U (TrimSpace name) \<in> {org @ rest, ''github.com/'' @ org @ rest}))
      then None else Some (Errorf ''plugin %q is not supported'' [name]))"
proof -
  let ?n = "ToLower U (TrimSpace name)"
  have "TrimPrefix ?n ''builtin:'' \<in> set BuiltinConnectors \<longleftrightarrow>
      (\<exists>b \<in> set BuiltinConnectors. ?n \<in> {b, ''builtin:'' @ b})"
  proof (cases "HasPrefix ?n ''builtin:''")
    case True
    then obtain t where "?n = ''builtin:'' @ t" by (auto simp: HasPrefix_iff)
    then show ?thesis by (auto simp: BuiltinConnectors_def TrimPrefix_def)
  next
    case False
    then have "?n \<noteq> ''builtin:'' @ b" for b by auto
    with False show ?thesis by (auto simp: TrimPrefix_def)
  qed
  then show ?thesis
    by (auto simp: ValidatePlugin_def Let_def forbidden_loop_iff org_loop_iff HasPrefix_iff)
qed

text \<open>
  The plugin check does not depend on the case of an ASCII name nor on spaces around it, so no
  respelling of that kind turns a rejected plugin into an accepted one, or the reverse.
\<close>

theorem ValidatePlugin_normalises:
  assumes "list_all ascii name"
  shows "(ValidatePlugin U (replicate m CHR '' '' @ map upper_byte name @ replicate n CHR '' '') = None)
       = (ValidatePlugin U name = None)"
proof -
  have "list_all ascii (TrimSpace name)" by (rule ascii_TrimSpace [OF assms])
  then have "ToLower U (map upper_byte (TrimSpace name)) = ToLower U (TrimSpace name)"
    by (simp add: ToLower_def list_all_iff lower_upper_byte)
  then show ?thesis
    by (simp add: ValidatePlugin_def Let_def TrimSpace_pad TrimSpace_map upper_byte_space)
qed

theorem ValidatePlugin_normalises_witness:
  "ValidatePlugin ascii_tables ''  BUILTIN:KAFKA '' = None"
proof -
  have a: "list_all ascii ''builtin:kafka''" by (simp add: ascii_def)
  have "ValidatePlugin ascii_tables ''builtin:kafka'' = None"
    by (simp add: ValidatePlugin_iff BuiltinConnectors_def TrimSpace_def ToLower_ascii [OF a]
        lower_byte_def byte_in_def)
  moreover have "replicate 2 CHR '' '' @ map upper_byte ''builtin:kafka'' @ replicate 1 CHR '' '' =
      ''  BUILTIN:KAFKA ''"
    by code_simp
  ultimately show ?thesis
    using ValidatePlugin_normalises [OF a, of ascii_tables 2 1] by (simp only:)
qed

end
