(* ===== verification/Validator.thy ===== *)
theory Validator
  imports Go_IO Plugins Pipeline_Config "HOL-Library.AList"
begin

text \<open>
  Model of \<^verbatim>\<open>pkg/conduit/conduit_validator.go\<close> and of the interfaces beside it
  (\<^verbatim>\<open>validator.go\<close>, \<^verbatim>\<open>plugin_registry.go\<close>, \<^verbatim>\<open>http_client.go\<close>). The state holds what the
  validator can leak or change: the requests made, the response bodies still open, the
  temporary files and the processor registry. What lies outside the repository (HTTP responses,
  the file system's verdicts, the JSON and YAML decoders, the parameter check of
  \<^verbatim>\<open>conduit-commons\<close>, the iteration order of Go maps) is the record \<open>val_env\<close>. Log output
  is left out.
\<close>

section \<open>Field errors\<close>

text \<open>
  The part of \<^verbatim>\<open>k8s.io/apimachinery/pkg/util/validation/field\<close> in use. A path is the list
  of its names; \<^verbatim>\<open>Child\<close> appends one.
\<close>

type_synonym path = "string list"

datatype bad_value = BadNil | BadString string | BadOption string

datatype error_type = ErrorTypeInvalid | ErrorTypeRequired | ErrorTypeInternal

record field_error =
  fe_Type :: error_type
  fe_Field :: path
  fe_BadValue :: bad_value
  fe_Detail :: string

definition Child :: "path \<Rightarrow> string \<Rightarrow> path" where
  "Child fp name = fp @ [name]"

definition field_Invalid :: "path \<Rightarrow> bad_value \<Rightarrow> string \<Rightarrow> field_error" where
  "field_Invalid fp val detail =
     \<lparr>fe_Type = ErrorTypeInvalid, fe_Field = fp, fe_BadValue = val, fe_Detail = detail\<rparr>"

definition field_Required :: "path \<Rightarrow> string \<Rightarrow> field_error" where
  "field_Required fp detail =
     \<lparr>fe_Type = ErrorTypeRequired, fe_Field = fp, fe_BadValue = BadString [], fe_Detail = detail\<rparr>"

definition field_InternalError :: "path \<Rightarrow> go_error \<Rightarrow> field_error" where
  "field_InternalError fp err =
     \<lparr>fe_Type = ErrorTypeInternal, fe_Field = fp, fe_BadValue = BadNil, fe_Detail = Error err\<rparr>"

section \<open>State and environment\<close>

record 'g sys =
  sy_requests :: "string list"
  sy_open :: "string list"
  sy_files :: "string \<rightharpoonup> string"
  sy_plugins :: 'g

record response =
  rs_StatusCode :: int
  rs_Body :: string
  rs_ReadErr :: "go_error option"

text \<open>The registry interface: \<^verbatim>\<open>Register\<close> reads the file at a path and changes the registry.\<close>

type_synonym 'g PluginRegistry =
  "string \<Rightarrow> (string \<rightharpoonup> string) \<Rightarrow> 'g \<Rightarrow> string res \<times> 'g"

abbreviation (input) "ErrPluginAlreadyRegistered \<equiv> ''plugin already registered''"

record Releases =
  rl_Name :: string
  rl_Latest :: bool

record ConnectorInfo =
  ci_Name :: string
  ci_URL :: string
  ci_Releases :: "Releases list"

record PluginInfo =
  pi_Name :: string
  pi_Org :: string
  pi_URL :: string
  pi_Version :: string

record 'p Specification =
  spc_SourceParams :: 'p
  spc_DestinationParams :: 'p

text \<open>
  \<open>http_Do\<close> may answer differently each time: it gets the requests made before.
  \<open>os_Write\<close> gives what ends up in a file when the data is written to it, and the error.
  \<open>YAMLSpecification\<close> and the function it returns have no error result: \<^const>\<open>None\<close> is a
  panic. \<open>range_plugins\<close> and \<open>range_errs\<close> give the order in which a Go map is iterated.
\<close>

record 'p val_env =
  http_NewRequest :: "string \<Rightarrow> go_error option"
  http_Do :: "string list \<Rightarrow> string \<Rightarrow> response res"
  os_CreateTemp :: "(string \<rightharpoonup> string) \<Rightarrow> string res"
  os_Write :: "string \<Rightarrow> string \<Rightarrow> string \<times> go_error option"
  os_Remove :: "string \<Rightarrow> go_error option"
  json_connectors :: "string \<Rightarrow> ConnectorInfo list res"
  YAMLSpecification :: "string \<Rightarrow> string \<Rightarrow> (unit \<Rightarrow> 'p Specification option) option"
  config_Validate :: "(string \<rightharpoonup> string) \<Rightarrow> 'p \<Rightarrow> go_error option"
  range_plugins :: "(string \<times> PluginInfo) list \<Rightarrow> (string \<times> PluginInfo) list"
  range_errs :: "(string \<times> go_error) list \<Rightarrow> (string \<times> go_error) list"

record Validator =
  v_client :: reader
  v_connectorList :: "(string \<times> PluginInfo) list"

abbreviation (input) "baseURL \<equiv> ''https://conduit.io/connectors/github.com''"
abbreviation (input) "connectorURL \<equiv> ''https://conduit.io/connectors.json''"
abbreviation (input) "nil_deref \<equiv> ''invalid memory address or nil pointer dereference''"

section \<open>Library calls\<close>

definition NewRequest :: "'p val_env \<Rightarrow> string \<Rightarrow> unit res" where
  "NewRequest E url = (case http_NewRequest E url of None \<Rightarrow> Ok () | Some e \<Rightarrow> Err e)"

definition HTTPClient_Do :: "'p val_env \<Rightarrow> string \<Rightarrow> ('g sys, response) io" where
  "HTTPClient_Do E url = (\<lambda>s.
     let s' = s\<lparr>sy_requests := sy_requests s @ [url]\<rparr>
     in case http_Do E (sy_requests s) url of
          Ok resp \<Rightarrow> (Ok resp, s'\<lparr>sy_open := url # sy_open s\<rparr>)
        | Err e \<Rightarrow> (Err e, s')
        | Panic p \<Rightarrow> (Panic p, s'))"

definition Body_Close :: "string \<Rightarrow> 'g sys \<Rightarrow> 'g sys" where
  "Body_Close url s = s\<lparr>sy_open := remove1 url (sy_open s)\<rparr>"

definition io_ReadAll :: "response \<Rightarrow> string res" where
  "io_ReadAll resp = (case rs_ReadErr resp of None \<Rightarrow> Ok (rs_Body resp) | Some e \<Rightarrow> Err e)"

definition CreateTemp :: "'p val_env \<Rightarrow> ('g sys, string) io" where
  "CreateTemp E = (\<lambda>s. case os_CreateTemp E (sy_files s) of
       Ok name \<Rightarrow> (Ok name, s\<lparr>sy_files := (sy_files s)(name \<mapsto> [])\<rparr>)
     | Err e \<Rightarrow> (Err e, s)
     | Panic p \<Rightarrow> (Panic p, s))"

definition io_Copy :: "'p val_env \<Rightarrow> string \<Rightarrow> response \<Rightarrow> ('g sys, unit) io" where
  "io_Copy E name resp = (\<lambda>s.
     let (written, werr) = os_Write E name (rs_Body resp);
         s' = s\<lparr>sy_files := (sy_files s)(name \<mapsto> written)\<rparr>
     in case werr of
          Some e \<Rightarrow> (Err e, s')
        | None \<Rightarrow> (case rs_ReadErr resp of Some e \<Rightarrow> (Err e, s') | None \<Rightarrow> (Ok (), s')))"

text \<open>The cleanup closure of \<^verbatim>\<open>pluginWASM\<close>: a failing removal is only logged.\<close>

definition remove_file :: "'p val_env \<Rightarrow> string \<Rightarrow> 'g sys \<Rightarrow> 'g sys" where
  "remove_file E name s =
     (case os_Remove E name of None \<Rightarrow> s\<lparr>sy_files := (sy_files s)(name := None)\<rparr> | Some e \<Rightarrow> s)"

definition no_error :: "'a option \<Rightarrow> 'a res" where
  "no_error x = (case x of Some a \<Rightarrow> Ok a | None \<Rightarrow> Panic ''failed to parse YAML specification'')"

text \<open>A method call on a nil interface panics.\<close>

definition Register :: "'g PluginRegistry option \<Rightarrow> string \<Rightarrow> ('g sys, string) io" where
  "Register reg file = (\<lambda>s. case reg of
       None \<Rightarrow> (Panic nil_deref, s)
     | Some r \<Rightarrow> (case r file (sy_files s) (sy_plugins s) of
           (name, g) \<Rightarrow> (name, s\<lparr>sy_plugins := g\<rparr>)))"

section \<open>The list of known connectors\<close>

fun latest_release :: "Releases list \<Rightarrow> string" where
  "latest_release [] = []"
| "latest_release (rel # rels) = (if rl_Latest rel then rl_Name rel else latest_release rels)"

definition plugin_of :: "unicode \<Rightarrow> ConnectorInfo \<Rightarrow> PluginInfo option" where
  "plugin_of U c =
     (case Split (ToLower U (ci_Name c)) CHR ''/'' of
        [org, name] \<Rightarrow>
          if org @ ''/'' \<in> set allowedGitHubOrgs
          then Some \<lparr>pi_Name = name, pi_Org = org, pi_URL = ci_URL c,
                     pi_Version = latest_release (ci_Releases c)\<rparr>
          else None
      | _ \<Rightarrow> None)"

fun plugins_loop ::
  "unicode \<Rightarrow> ConnectorInfo list \<Rightarrow> (string \<times> PluginInfo) list \<Rightarrow> (string \<times> PluginInfo) list" where
  "plugins_loop U [] plugins = plugins"
| "plugins_loop U (c # connectors) plugins =
     (case plugin_of U c of
        None \<Rightarrow> plugins_loop U connectors plugins
      | Some plugin \<Rightarrow> plugins_loop U connectors (AList.update (pi_Name plugin) plugin plugins))"

text \<open>The body is closed only once the status code has been found to be 200.\<close>

definition connectorList ::
  "unicode \<Rightarrow> 'p val_env \<Rightarrow> ('g sys, (string \<times> PluginInfo) list) io" where
  "connectorList U E =
     bind_io (lift_res (NewRequest E connectorURL)) (\<lambda>_.
     bind_io (HTTPClient_Do E connectorURL) (\<lambda>resp.
       if rs_StatusCode resp \<noteq> 200
       then lift_res (Err (Errorf ''getting connector list, status code: %d'' [itoa (rs_StatusCode resp)]))
       else defer_io (Body_Close connectorURL)
         (bind_io (lift_res (io_ReadAll resp)) (\<lambda>body.
          bind_io (lift_res (json_connectors E body)) (\<lambda>connectors.
            ret_io (plugins_loop U connectors []))))))"

definition NewValidator :: "unicode \<Rightarrow> 'p val_env \<Rightarrow> reader \<Rightarrow> ('g sys, Validator) io" where
  "NewValidator U E cl =
     err_io (connectorList U E)
       (\<lambda>err. ret_io \<lparr>v_client = cl, v_connectorList = []\<rparr>)
       (\<lambda>plugins. ret_io \<lparr>v_client = cl, v_connectorList = plugins\<rparr>)"

section \<open>Choosing the connector\<close>

definition formatPluginName :: "unicode \<Rightarrow> string \<Rightarrow> string" where
  "formatPluginName U pn =
     (case Split (TrimPrefix (ToLower U pn) ''github.com/'') CHR ''/'' of
        [part] \<Rightarrow>
          (let trimmedName = TrimPrefix part ''builtin:''
           in if trimmedName \<in> set BuiltinConnectors then ''conduit-connector-'' @ trimmedName else [])
      | [org, name] \<Rightarrow> name
      | _ \<Rightarrow> [])"

fun filter_loop :: "string \<Rightarrow> (string \<times> PluginInfo) list \<Rightarrow> PluginInfo res" where
  "filter_loop pluginName [] = Err (Errorf ''no matching plugin found in cache'' [])"
| "filter_loop pluginName ((k, p) # rest) =
     (if Contains (pi_Name p) pluginName then Ok p else filter_loop pluginName rest)"

definition filterConnector ::
  "unicode \<Rightarrow> 'p val_env \<Rightarrow> Validator \<Rightarrow> string \<Rightarrow> PluginInfo res" where
  "filterConnector U E v n =
     filter_loop (formatPluginName U n) (range_plugins E (v_connectorList v))"

section \<open>Connectors\<close>

definition validateConnectorPlugin ::
  "unicode \<Rightarrow> ConduitConnector \<Rightarrow> path \<Rightarrow> field_error option" where
  "validateConnectorPlugin U c fp =
     (case ValidatePlugin U (cn_Plugin c) of
        Some err \<Rightarrow> Some (field_Invalid (Child fp ''plugin'') (BadString (cn_Plugin c)) (Error err))
      | None \<Rightarrow> None)"

definition validateConnectorPluginType :: "ConduitConnector \<Rightarrow> path \<Rightarrow> field_error option" where
  "validateConnectorPluginType c fp =
     (case ValidatePluginType (cn_Type c) of
        Some err \<Rightarrow> Some (field_Invalid (Child fp ''type'') (BadString (cn_Type c)) (Error err))
      | None \<Rightarrow> None)"

definition fetchYAMLSpec ::
  "'p val_env \<Rightarrow> ConduitConnector \<Rightarrow> PluginInfo \<Rightarrow> ('g sys, unit \<Rightarrow> 'p Specification option) io" where
  "fetchYAMLSpec E c plugin =
     (if pi_Version plugin = []
      then lift_res (Err (Errorf ''no version found for connector %s'' [pi_Name plugin]))
      else
        let url = sprintf ''%s/%s/%s@%s/connector.yaml''
                    [baseURL, pi_Org plugin, pi_Name plugin, pi_Version plugin]
        in bind_io (lift_res (wrap_err ''creating the http request %w'' [] (NewRequest E url))) (\<lambda>_.
           err_io (HTTPClient_Do E url)
             (\<lambda>err. lift_res (Err (Wrapf ''getting yaml from cache with error %w'' [] err)))
             (\<lambda>resp. defer_io (Body_Close url)
                (if rs_StatusCode resp \<noteq> 200
                 then lift_res (Err (Errorf ''getting yaml, status code %d'' [itoa (rs_StatusCode resp)]))
                 else bind_io (lift_res (wrap_err ''reading response body %w'' [] (io_ReadAll resp)))
                   (\<lambda>body. lift_res (no_error (YAMLSpecification E body (cn_PluginVersion c))))))))"

text \<open>The secret is looked up without a namespace.\<close>

definition validator_valueOrSecret :: "Validator \<Rightarrow> SettingsVar \<Rightarrow> string res" where
  "validator_valueOrSecret v settings =
     (case sv_SecretRef settings of
        None \<Rightarrow> Ok (sv_Value settings)
      | Some ref \<Rightarrow>
          bind_res
            (wrap_err ''failed to get %q secret: %w'' [sk_Name ref]
               (get_secret (v_client v) \<lparr>nn_Name = sk_Name ref, nn_Namespace = []\<rparr>))
            (\<lambda>secret. case se_Data secret (sk_Key ref) of
                None \<Rightarrow> Err (Errorf ''secret ref key %s does not exist'' [sk_Key ref])
              | Some val \<Rightarrow> Ok val))"

text \<open>The loop over the settings: values and errors, both keyed by the setting's name.\<close>

fun parameter_loop ::
  "Validator \<Rightarrow> SettingsVar list \<Rightarrow> (string \<rightharpoonup> string) \<Rightarrow> (string \<times> go_error) list
     \<Rightarrow> ((string \<rightharpoonup> string) \<times> (string \<times> go_error) list) res" where
  "parameter_loop v [] settings errs = Ok (settings, errs)"
| "parameter_loop v (setting # rest) settings errs =
     (case validator_valueOrSecret v setting of
        Ok val \<Rightarrow> parameter_loop v rest (settings(sv_Name setting \<mapsto> val)) errs
      | Err e \<Rightarrow> parameter_loop v rest (settings(sv_Name setting \<mapsto> []))
                   (AList.update (sv_Name setting) e errs)
      | Panic p \<Rightarrow> Panic p)"

definition secrets_message :: "string \<Rightarrow> (string \<times> go_error) list \<Rightarrow> string" where
  "secrets_message name errs =
     sprintf ''getting secrets for connector %s: '' [name] @
     concat (map (\<lambda>(setting, err). sprintf ''{ setting: %s, err: %s} '' [setting, Error err]) errs)"

definition check_params ::
  "'p val_env \<Rightarrow> ConduitConnector \<Rightarrow> path \<Rightarrow> (string \<rightharpoonup> string) \<Rightarrow> 'p \<Rightarrow> field_error option" where
  "check_params E c fp config params =
     (case config_Validate E config params of
        Some err \<Rightarrow> Some (field_Invalid (Child fp ''parameter'') (BadString (cn_Type c)) (Error err))
      | None \<Rightarrow> None)"

definition validateConnectorParameters ::
  "unicode \<Rightarrow> 'p val_env \<Rightarrow> Validator \<Rightarrow> ConduitConnector \<Rightarrow> path \<Rightarrow> ('g sys, field_error option) io" where
  "validateConnectorParameters U E v c fp =
     (if \<not> (cn_Type c = ''source'' \<or> cn_Type c = ''destination'')
      then ret_io (Some (field_InternalError (Child fp ''parameter'')
                    (Errorf ''connector type %s is not recognized'' [cn_Type c])))
      else if length (v_connectorList v) = 0 then ret_io None
      else
        err_io (lift_res (filterConnector U E v (cn_PluginName c))) (\<lambda>err. ret_io None) (\<lambda>plugin.
        err_io (fetchYAMLSpec E c plugin) (\<lambda>err. ret_io None) (\<lambda>spec.
        bind_io (lift_res (parameter_loop v (cn_Settings c) Map.empty [])) (\<lambda>(settings, errs).
          if length errs > 0
          then ret_io (Some (field_InternalError (Child fp ''parameter'')
                 (Errorf (secrets_message (cn_Name c) (range_errs E errs)) [])))
          else if cn_Type c = ''source''
          then bind_io (lift_res (no_error (spec ()))) (\<lambda>sp.
                 ret_io (check_params E c fp settings (spc_SourceParams sp)))
          else if cn_Type c = ''destination''
          then bind_io (lift_res (no_error (spec ()))) (\<lambda>sp.
                 ret_io (check_params E c fp settings (spc_DestinationParams sp)))
          else ret_io None))))"

text \<open>The checks of the table, in order: the first one that fails decides.\<close>

fun first_error ::
  "(ConduitConnector \<Rightarrow> path \<Rightarrow> field_error option) list \<Rightarrow> ConduitConnector \<Rightarrow> path \<Rightarrow> field_error option" where
  "first_error [] c fp = None"
| "first_error (f # fs) c fp =
     (case f c fp of Some err \<Rightarrow> Some err | None \<Rightarrow> first_error fs c fp)"

definition ValidateConnector ::
  "unicode \<Rightarrow> 'p val_env \<Rightarrow> Validator \<Rightarrow> ConduitConnector \<Rightarrow> path \<Rightarrow> ('g sys, field_error option) io" where
  "ValidateConnector U E v c fp =
     (case first_error [validateConnectorPlugin U, validateConnectorPluginType] c fp of
        Some err \<Rightarrow> ret_io (Some err)
      | None \<Rightarrow> validateConnectorParameters U E v c fp)"

section \<open>Processors\<close>

definition pluginWASM :: "'p val_env \<Rightarrow> string \<Rightarrow> ('g sys, string) io" where
  "pluginWASM E processorURL =
     bind_io (lift_res (NewRequest E processorURL)) (\<lambda>_.
     bind_io (HTTPClient_Do E processorURL) (\<lambda>resp.
       if rs_StatusCode resp \<noteq> 200
       then lift_res (Err (Errorf
              ''non-sucessful status code while getting processor WASM, status code: %d''
              [itoa (rs_StatusCode resp)]))
       else defer_io (Body_Close processorURL)
         (bind_io (CreateTemp E) (\<lambda>file.
          bind_io (io_Copy E file resp) (\<lambda>_. ret_io file)))))"

definition validateProcessorPlugin :: "ConduitProcessor \<Rightarrow> path \<Rightarrow> field_error option" where
  "validateProcessorPlugin p fp =
     (if pr_Plugin p = [] then Some (field_Required (Child fp ''plugin'') ''plugin cannot be empty'')
      else None)"

definition validateStandaloneProcessor ::
  "'p val_env \<Rightarrow> ConduitProcessor \<Rightarrow> 'g PluginRegistry option \<Rightarrow> path \<Rightarrow> ('g sys, field_error option) io" where
  "validateStandaloneProcessor E p reg fp =
     (if pr_ProcessorURL p = [] then ret_io None
      else
        err_io (pluginWASM E (pr_ProcessorURL p))
          (\<lambda>err. ret_io (Some (field_InternalError (Child fp ''standalone'')
                   (Wrapf ''failed to save wasm to file: %w'' [] err))))
          (\<lambda>file. defer_io (remove_file E file)
             (err_io (Register reg file)
                (\<lambda>err. if errors_Is err ErrPluginAlreadyRegistered then ret_io None
                       else ret_io (Some (field_InternalError (Child fp ''standalone'')
                              (Wrapf ''failed to register: %w'' [] err))))
                (\<lambda>_. ret_io None))))"

definition ValidateProcessor ::
  "'p val_env \<Rightarrow> ConduitProcessor \<Rightarrow> 'g PluginRegistry option \<Rightarrow> path \<Rightarrow> ('g sys, field_error option) io" where
  "ValidateProcessor E p reg fp =
     (case validateProcessorPlugin p fp of
        Some err \<Rightarrow> ret_io (Some err)
      | None \<Rightarrow> validateStandaloneProcessor E p reg fp)"

section \<open>The service interface\<close>

record ('g, 'r) ValidatorService =
  vs_ValidateConnector :: "ConduitConnector \<Rightarrow> path \<Rightarrow> ('g sys, field_error option) io"
  vs_ValidateProcessor :: "ConduitProcessor \<Rightarrow> 'r option \<Rightarrow> path \<Rightarrow> ('g sys, field_error option) io"

definition as_service ::
  "unicode \<Rightarrow> 'p val_env \<Rightarrow> Validator \<Rightarrow> ('g, 'g PluginRegistry) ValidatorService" where
  "as_service U E v =
     \<lparr>vs_ValidateConnector = ValidateConnector U E v, vs_ValidateProcessor = ValidateProcessor E\<rparr>"

section \<open>What the service promises\<close>

text \<open>
  The contract of \<^verbatim>\<open>ValidatorService\<close> as the webhook uses it: a nil field error means that the
  plugin of a connector is supported and its type known, that a processor names a plugin, and
  no check returns an error in any other way.
\<close>

definition connector_supported :: "unicode \<Rightarrow> ConduitConnector \<Rightarrow> bool" where
  "connector_supported U c \<longleftrightarrow>
     ValidatePlugin U (cn_Plugin c) = None \<and> ValidatePluginType (cn_Type c) = None"

locale validator_service =
  fixes VC :: "ConduitConnector \<Rightarrow> path \<Rightarrow> ('g sys, field_error option) io"
    and VP :: "ConduitProcessor \<Rightarrow> 'r option \<Rightarrow> path \<Rightarrow> ('g sys, field_error option) io"
    and connector_ok :: "ConduitConnector \<Rightarrow> bool"
  assumes VC_sound: "fst (VC c fp s) = Ok None \<Longrightarrow> connector_ok c"
    and VP_sound: "fst (VP p r fp s) = Ok None \<Longrightarrow> pr_Plugin p \<noteq> []"
    and VC_never_err: "never_err (VC c fp)"
    and VP_never_err: "never_err (VP p r fp)"

lemma no_error_never [simp]: "no_error x \<noteq> Err e"
  by (simp add: no_error_def split: option.splits)

lemma parameter_loop_no_err [simp]: "parameter_loop v ss settings errs \<noteq> Err e"
  by (induction v ss settings errs rule: parameter_loop.induct)
    (simp_all del: fun_upd_apply split: res.splits)

lemma validateConnectorParameters_never_err: "never_err (validateConnectorParameters U E v c fp)"
  unfolding validateConnectorParameters_def
  by (auto split: prod.splits intro!: never_err_bind never_err_err)

lemma first_error_None:
  "first_error fs c fp = None \<longleftrightarrow> (\<forall>f \<in> set fs. f c fp = None)"
  by (induction fs) (auto split: option.splits)

lemma validate_checks_None:
  "first_error [validateConnectorPlugin U, validateConnectorPluginType] c fp = None \<longleftrightarrow>
     connector_supported U c"
  by (auto simp: connector_supported_def validateConnectorPlugin_def
      validateConnectorPluginType_def split: option.splits)

interpretation svc: validator_service "ValidateConnector U E v" "ValidateProcessor E"
  "connector_supported U"
proof
  show "never_err (ValidateConnector U E v c fp)" for c fp
    by (simp add: ValidateConnector_def validateConnectorParameters_never_err
        del: first_error.simps split: option.splits)
  show "never_err (ValidateProcessor E p r fp)" for p r fp
    unfolding ValidateProcessor_def validateStandaloneProcessor_def
    by (auto split: option.splits intro!: never_err_err never_err_defer)
  show "connector_supported U c" if "fst (ValidateConnector U E v c fp s) = Ok None" for c fp s
    using that validate_checks_None [of U c fp]
    by (auto simp: ValidateConnector_def simp del: first_error.simps split: option.splits)
  show "pr_Plugin p \<noteq> []" if "fst (ValidateProcessor E p r fp s) = Ok None" for p r fp s
    using that by (auto simp: ValidateProcessor_def validateProcessorPlugin_def)
qed

section \<open>Facts for the properties\<close>

definition listed_ok :: "(string \<times> PluginInfo) list \<Rightarrow> bool" where
  "listed_ok plugins \<longleftrightarrow> distinct (map fst plugins) \<and>
     (\<forall>(k, p) \<in> set plugins. k = pi_Name p \<and> pi_Org p @ ''/'' \<in> set allowedGitHubOrgs
        \<and> CHR ''/'' \<notin> set k)"

lemma plugin_of_ok:
  assumes "plugin_of U c = Some p"
  shows "pi_Org p @ ''/'' \<in> set allowedGitHubOrgs \<and> CHR ''/'' \<notin> set (pi_Name p)"
proof -
  obtain org name where split: "Split (ToLower U (ci_Name c)) CHR ''/'' = [org, name]"
    and p: "p = \<lparr>pi_Name = name, pi_Org = org, pi_URL = ci_URL c,
      pi_Version = latest_release (ci_Releases c)\<rparr>" "org @ ''/'' \<in> set allowedGitHubOrgs"
    using assms unfolding plugin_of_def by (simp split: list.splits if_splits)
  have "CHR ''/'' \<notin> set name"
    by (rule Split_no_sep [of _ "ToLower U (ci_Name c)"]) (simp add: split)
  with p show ?thesis by simp
qed

lemma set_alist_update: "set (AList.update k v al) \<subseteq> insert (k, v) (set al)"
  by (induction al) auto

lemma listed_ok_update:
  "listed_ok plugins \<Longrightarrow> plugin_of U c = Some p \<Longrightarrow> listed_ok (AList.update (pi_Name p) p plugins)"
  using plugin_of_ok [of U c p] set_alist_update [of "pi_Name p" p plugins]
  by (fastforce simp: listed_ok_def distinct_update)

lemma listed_ok_plugins_loop: "listed_ok plugins \<Longrightarrow> listed_ok (plugins_loop U cs plugins)"
  by (induction cs arbitrary: plugins) (auto split: option.splits intro: listed_ok_update)

lemma listed_ok_Nil [simp]: "listed_ok []"
  by (simp add: listed_ok_def)

lemma NewRequest_cases:
  obtains "NewRequest E url = Ok ()" | e where "NewRequest E url = Err e"
  by (cases "http_NewRequest E url") (auto simp: NewRequest_def)

lemma io_ReadAll_no_panic [simp]: "io_ReadAll resp \<noteq> Panic p"
  by (simp add: io_ReadAll_def split: option.splits)

text \<open>Fetching the specification closes what it opens.\<close>

lemma same_open_fetch: "framed (same sy_open) (fetchYAMLSpec E c p)"
proof (rule framedI)
  fix s
  show "same sy_open s (snd (fetchYAMLSpec E c p s))"
    by (cases rule: NewRequest_cases [of E "sprintf ''%s/%s/%s@%s/connector.yaml''
          [baseURL, pi_Org p, pi_Name p, pi_Version p]"])
      (auto simp: same_def fetchYAMLSpec_def Let_def bind_io_def err_io_def HTTPClient_Do_def
        Body_Close_def defer_io_def split: prod.splits res.splits if_splits)
qed

lemma same_files_fetch: "framed (same sy_files) (fetchYAMLSpec E c p)"
  by (rule framedI)
    (auto simp: same_def fetchYAMLSpec_def Let_def bind_io_def err_io_def HTTPClient_Do_def
      Body_Close_def defer_io_def split: prod.splits res.splits if_splits)

lemma framed_ValidateConnector:
  assumes "\<And>c p. framed (same q) (fetchYAMLSpec E c p)"
  shows "framed (same q) (ValidateConnector U E v c fp)"
  unfolding ValidateConnector_def validateConnectorParameters_def
  by (auto split: option.splits intro!: same.framed_intros assms)

lemma ValidateConnector_supported:
  "connector_supported U c \<Longrightarrow> ValidateConnector U E v c fp = validateConnectorParameters U E v c fp"
  by (simp add: ValidateConnector_def validate_checks_None [THEN iffD2] del: first_error.simps)

lemma supported_type: "connector_supported U c \<Longrightarrow> cn_Type c = ''source'' \<or> cn_Type c = ''destination''"
  by (auto simp: connector_supported_def ValidatePluginType_def split: if_splits)

text \<open>What the parameter loop collects.\<close>

lemma parameter_loop_plain:
  "\<forall>x \<in> set ss. sv_SecretRef x = None \<Longrightarrow>
     parameter_loop v ss m errs = Ok (m ++ map_of (rev (map (\<lambda>x. (sv_Name x, sv_Value x)) ss)), errs)"
  by (induction ss arbitrary: m)
    (simp_all add: validator_valueOrSecret_def map_add_upd_left del: fun_upd_apply)

lemma alist_update_not_Nil [simp]: "AList.update k v al \<noteq> []"
  by (cases al) auto

lemma parameter_loop_secrets:
  assumes "\<And>n. \<exists>e. get_secret (v_client v) \<lparr>nn_Name = n, nn_Namespace = []\<rparr> = Err e"
    and "errs \<noteq> [] \<or> (\<exists>x \<in> set ss. sv_SecretRef x \<noteq> None)"
  shows "\<exists>settings errs'. parameter_loop v ss m errs = Ok (settings, errs') \<and> errs' \<noteq> []"
  using assms(2)
proof (induction ss arbitrary: m errs)
  case Nil
  then show ?case by simp
next
  case (Cons x ss)
  show ?case
  proof (cases "sv_SecretRef x")
    case None
    then show ?thesis using Cons.prems Cons.IH by (simp add: validator_valueOrSecret_def)
  next
    case (Some ref)
    then obtain e where "validator_valueOrSecret v x = Err e"
      using assms(1) [of "sk_Name ref"] by (auto simp: validator_valueOrSecret_def)
    then show ?thesis using Cons.IH by simp
  qed
qed

lemma ValidateConnector_checked:
  assumes "connector_supported U c" and "v_connectorList v \<noteq> []"
    and "filterConnector U E v (cn_PluginName c) = Ok pl" and "fetchYAMLSpec E c pl s = (Ok spec, s')"
    and "parameter_loop v (cn_Settings c) Map.empty [] = Ok (settings, errs)"
  shows "ValidateConnector U E v c fp s =
    (if errs \<noteq> []
     then (Ok (Some (field_InternalError (Child fp ''parameter'')
            (Errorf (secrets_message (cn_Name c) (range_errs E errs)) []))), s')
     else bind_io (lift_res (no_error (spec ()))) (\<lambda>sp. ret_io (check_params E c fp settings
            (if cn_Type c = ''source'' then spc_SourceParams sp else spc_DestinationParams sp))) s')"
  using supported_type [OF assms(1)] assms(2)
  by (auto simp: ValidateConnector_supported [OF assms(1)] validateConnectorParameters_def
      assms(3-5) err_io_def)

text \<open>An environment for the examples: one response for every request, and no failures.\<close>

definition test_env :: "response \<Rightarrow> unit val_env" where
  "test_env resp =
     \<lparr>http_NewRequest = (\<lambda>url. None), http_Do = (\<lambda>before url. Ok resp),
      os_CreateTemp = (\<lambda>files. Ok ''/tmp/proc-1.wasm''), os_Write = (\<lambda>name data. (data, None)),
      os_Remove = (\<lambda>name. None),
      json_connectors = (\<lambda>body. Ok [\<lparr>ci_Name = ''conduitio/conduit-connector-kafka'', ci_URL = [],
         ci_Releases = [\<lparr>rl_Name = ''v0.9'', rl_Latest = False\<rparr>, \<lparr>rl_Name = ''v1.0'', rl_Latest = True\<rparr>]\<rparr>]),
      YAMLSpecification = (\<lambda>body ver. Some (\<lambda>_. Some \<lparr>spc_SourceParams = (), spc_DestinationParams = ()\<rparr>)),
      config_Validate = (\<lambda>config params. None),
      range_plugins = (\<lambda>l. l), range_errs = (\<lambda>l. l)\<rparr>"

definition http_ok :: "string \<Rightarrow> response" where
  "http_ok body = \<lparr>rs_StatusCode = 200, rs_Body = body, rs_ReadErr = None\<rparr>"

definition empty_sys :: "'g \<Rightarrow> 'g sys" where
  "empty_sys g = \<lparr>sy_requests = [], sy_open = [], sy_files = Map.empty, sy_plugins = g\<rparr>"

definition kafka_plugin :: PluginInfo where
  "kafka_plugin = \<lparr>pi_Name = ''conduit-connector-kafka'', pi_Org = ''conduitio'', pi_URL = [],
     pi_Version = ''v1.0''\<rparr>"

definition kafka_connector :: "SettingsVar list \<Rightarrow> ConduitConnector" where
  "kafka_connector settings =
     \<lparr>cn_ID = ''src'', cn_Name = ''src'', cn_Type = ''source'', cn_Plugin = ''builtin:kafka'',
      cn_PluginName = ''builtin:kafka'', cn_PluginPkg = [], cn_PluginVersion = ''latest'',
      cn_Settings = settings, cn_Processors = []\<rparr>"

lemma ToLower_lower: "list_all (\<lambda>c. ascii c \<and> lower_byte c = c) s \<Longrightarrow> ToLower U s = s"
  by (simp add: ToLower_def list_all_iff map_idI)

lemma builtin_supported:
  assumes "cn_Plugin c = ''builtin:'' @ b" and "b \<in> set BuiltinConnectors"
    and "cn_Type c = ''source'' \<or> cn_Type c = ''destination''"
  shows "connector_supported U c"
proof -
  have trim: "TrimSpace (''builtin:'' @ b) = ''builtin:'' @ b"
    using assms(2) by (auto simp: BuiltinConnectors_def TrimSpace_def)
  have "ToLower U (''builtin:'' @ b) = ''builtin:'' @ b"
    using assms(2) by (intro ToLower_lower) (auto simp: BuiltinConnectors_def char_eval)
  then show ?thesis
    using assms(2,3) TrimPrefix_append [of "''builtin:''" b]
    unfolding connector_supported_def ValidatePluginType_def ValidatePlugin_def Let_def assms(1) trim
    by (simp del: TrimPrefix_append append.simps)
qed

lemma kafka_supported: "connector_supported U (kafka_connector settings)"
  by (rule builtin_supported [where b = "''kafka''"]) (simp_all add: kafka_connector_def BuiltinConnectors_def)

lemma kafka_format: "formatPluginName U ''builtin:kafka'' = ''conduit-connector-kafka''"
proof -
  have "ToLower U ''builtin:kafka'' = ''builtin:kafka''"
    by (rule ToLower_lower) (simp add: char_eval)
  then show ?thesis
    by (simp add: formatPluginName_def TrimPrefix_def BuiltinConnectors_def Let_def)
qed

definition kafka_cache :: Validator where
  "kafka_cache = \<lparr>v_client = no_objects, v_connectorList = [(''conduit-connector-kafka'', kafka_plugin)]\<rparr>"

lemma kafka_listed:
  "filterConnector U (test_env resp) kafka_cache (cn_PluginName (kafka_connector ss)) = Ok kafka_plugin"
  by (simp add: filterConnector_def kafka_connector_def kafka_cache_def kafka_format test_env_def
      kafka_plugin_def)

lemma kafka_fetched:
  obtains s' where "fetchYAMLSpec (test_env (http_ok body)) c kafka_plugin s =
      (Ok (\<lambda>_. Some \<lparr>spc_SourceParams = (), spc_DestinationParams = ()\<rparr>), s')"
  by (simp add: fetchYAMLSpec_def kafka_plugin_def NewRequest_def test_env_def Let_def err_io_def
      HTTPClient_Do_def http_ok_def defer_io_def io_ReadAll_def no_error_def)

section \<open>Properties\<close>

text \<open>
  C27: building the validator never fails. Its cache has one entry per connector name, each entry
  belongs to an allowed organization and is stored under its own name, which has no slash; when
  the list cannot be fetched or decoded the cache is empty.
\<close>

theorem NewValidator_list:
  "case fst (NewValidator U E cl s) of
     Ok v \<Rightarrow> v_client v = cl \<and> listed_ok (v_connectorList v)
       \<and> ((\<exists>e. fst (connectorList U E s) = Err e) \<longrightarrow> v_connectorList v = [])
   | Err e \<Rightarrow> False
   | Panic p \<Rightarrow> http_Do E (sy_requests s) connectorURL = Panic p
       \<or> (\<exists>body. json_connectors E body = Panic p)"
proof (cases rule: NewRequest_cases [of E connectorURL])
  case 1
  then show ?thesis
    by (auto simp: NewValidator_def connectorList_def err_io_def bind_io_def HTTPClient_Do_def
        Let_def defer_io_def listed_ok_plugins_loop split: res.splits prod.splits if_splits)
next
  case (2 e)
  then show ?thesis
    by (simp add: NewValidator_def connectorList_def)
qed

theorem NewValidator_list_witness:
  "case fst (NewValidator ascii_tables (test_env (http_ok [])) no_objects (empty_sys ())) of
     Ok v \<Rightarrow> listed_ok (v_connectorList v) | _ \<Rightarrow> False"
  using NewValidator_list [where U = ascii_tables and E = "test_env (http_ok [])" and
      cl = no_objects and s = "empty_sys ()"]
  by (auto simp: test_env_def split: res.splits)

text \<open>
  C26: an outage does not block admission. A connector with a supported plugin and a known type is
  accepted when there is no connector list, when it is not in the list, and when its
  specification cannot be fetched.
\<close>

theorem ValidateConnector_fails_open:
  assumes "connector_supported U c"
    and "v_connectorList v = [] \<or> (\<exists>e. filterConnector U E v (cn_PluginName c) = Err e)
      \<or> (\<exists>p e. filterConnector U E v (cn_PluginName c) = Ok p \<and> fst (fetchYAMLSpec E c p s) = Err e)"
  shows "fst (ValidateConnector U E v c fp s) = Ok None"
  using assms(2) supported_type [OF assms(1)]
  by (auto simp: ValidateConnector_supported [OF assms(1)] validateConnectorParameters_def
      err_io_def split: prod.splits res.splits)

theorem ValidateConnector_fails_open_witness:
  "fst (ValidateConnector ascii_tables (test_env (http_ok []))
      \<lparr>v_client = no_objects, v_connectorList = []\<rparr> (kafka_connector []) [''spec''] (empty_sys ())) = Ok None"
  by (rule ValidateConnector_fails_open) (simp_all add: kafka_supported)

text \<open>
  Validating a connector closes every response body it opens and touches no file, whatever
  the responses are.
\<close>

theorem ValidateConnector_no_leak:
  "sy_open (snd (ValidateConnector U E v c fp s)) = sy_open s
     \<and> sy_files (snd (ValidateConnector U E v c fp s)) = sy_files s"
proof
  have "same sy_open s (snd (ValidateConnector U E v c fp s))"
    by (rule framedD [OF framed_ValidateConnector [OF same_open_fetch]])
  then show "sy_open (snd (ValidateConnector U E v c fp s)) = sy_open s" by (simp add: same_def)
  have "same sy_files s (snd (ValidateConnector U E v c fp s))"
    by (rule framedD [OF framed_ValidateConnector [OF same_files_fetch]])
  then show "sy_files (snd (ValidateConnector U E v c fp s)) = sy_files s" by (simp add: same_def)
qed



text \<open>
  The name under which a standalone connector is looked up is empty, and every listed name
  contains the empty string, so the specification that is applied to the settings is the one of
  whichever connector the map iteration yields first.
\<close>

theorem standalone_matches_any:
  assumes "list_all ascii x" and "CHR ''/'' \<notin> set x"
  shows "formatPluginName U (''standalone:'' @ x) = []
    \<and> filterConnector U E v (''standalone:'' @ x) =
        (case range_plugins E (v_connectorList v) of
           [] \<Rightarrow> Err (Errorf ''no matching plugin found in cache'' [])
         | (k, p) # _ \<Rightarrow> Ok p)"
proof -
  have lower: "ToLower U (''standalone:'' @ x) = ''standalone:'' @ map lower_byte x"
    using assms(1) by (simp add: ToLower_def char_eval)
  have "lower_byte c \<noteq> CHR ''/''" if "c \<in> set x" for c
  proof
    assume "lower_byte c = CHR ''/''"
    then have "of_char (lower_byte c) = (47::nat)" by simp
    then have "of_char c = (47::nat)"
      by (auto simp: of_char_lower_byte byte_in_def split: if_splits)
    then have "of_char c = (of_char CHR ''/'' :: nat)" by simp
    then have "c = CHR ''/''" by (simp only: of_char_eq_iff)
    with that assms(2) show False by blast
  qed
  then have "CHR ''/'' \<notin> set (''standalone:'' @ map lower_byte x)"
    by (simp add: image_iff) metis
  then have "Split (''standalone:'' @ map lower_byte x) CHR ''/'' = [''standalone:'' @ map lower_byte x]"
    by (rule Split_id)
  then have name: "formatPluginName U (''standalone:'' @ x) = []"
    unfolding formatPluginName_def lower by (simp add: TrimPrefix_def BuiltinConnectors_def)
  then show ?thesis
    by (simp add: filterConnector_def split: list.splits prod.splits)
qed

theorem standalone_matches_any_witness:
  "filterConnector ascii_tables (test_env (http_ok []))
     kafka_cache ''standalone:salesforce'' = Ok kafka_plugin"
  using standalone_matches_any [of "''salesforce''" ascii_tables "test_env (http_ok [])" kafka_cache]
  by (simp add: ascii_def test_env_def kafka_cache_def)

text \<open>
  C25: with plain settings, a connector whose specification was fetched is accepted exactly when
  the parameter check accepts the map of its settings, where the last setting of a name counts,
  against the source or destination parameters as the connector's type says.
\<close>

theorem ValidateConnector_parameters:
  assumes "connector_supported U c" and "v_connectorList v \<noteq> []"
    and "filterConnector U E v (cn_PluginName c) = Ok pl" and "fetchYAMLSpec E c pl s = (Ok spec, s')"
    and "\<forall>x \<in> set (cn_Settings c). sv_SecretRef x = None" and "spec () = Some sp"
  shows "ValidateConnector U E v c fp s =
    (Ok (check_params E c fp (map_of (rev (map (\<lambda>x. (sv_Name x, sv_Value x)) (cn_Settings c))))
       (if cn_Type c = ''source'' then spc_SourceParams sp else spc_DestinationParams sp)), s')"
  using assms(6)
  by (simp add: ValidateConnector_checked [OF assms(1-4) parameter_loop_plain [OF assms(5)]] no_error_def)

theorem ValidateConnector_parameters_witness:
  "fst (ValidateConnector ascii_tables (test_env (http_ok [])) kafka_cache
      (kafka_connector [value_setting ''servers'' ''a:9092'']) [''spec''] (empty_sys ())) = Ok None"
proof -
  obtain s' where "fetchYAMLSpec (test_env (http_ok []))
      (kafka_connector [value_setting ''servers'' ''a:9092'']) kafka_plugin (empty_sys ()) =
      (Ok (\<lambda>_. Some \<lparr>spc_SourceParams = (), spc_DestinationParams = ()\<rparr>), s')"
    by (rule kafka_fetched)
  from ValidateConnector_parameters [OF kafka_supported [of ascii_tables] _ kafka_listed this]
  show ?thesis
    by (simp add: kafka_cache_def kafka_connector_def value_setting_def check_params_def test_env_def)
qed

text \<open>
  With a client that, like the API server, has no secrets outside a namespace, every connector
  whose settings use a secret is rejected once its specification is known, because the lookup
  names no namespace.
\<close>

theorem secret_settings_rejected:
  assumes "connector_supported U c" and "v_connectorList v \<noteq> []"
    and "filterConnector U E v (cn_PluginName c) = Ok pl" and "fetchYAMLSpec E c pl s = (Ok spec, s')"
    and "x \<in> set (cn_Settings c)" and "sv_SecretRef x \<noteq> None"
    and "\<And>n. \<exists>e. get_secret (v_client v) \<lparr>nn_Name = n, nn_Namespace = []\<rparr> = Err e"
  shows "\<exists>fe. ValidateConnector U E v c fp s = (Ok (Some fe), s')
    \<and> fe_Type fe = ErrorTypeInternal \<and> fe_Field fe = Child fp ''parameter''"
proof -
  obtain settings errs where "parameter_loop v (cn_Settings c) Map.empty [] = Ok (settings, errs)"
    and "errs \<noteq> []"
    using parameter_loop_secrets [of v "[]" "cn_Settings c"] assms(5-7) by blast
  then show ?thesis
    by (simp add: ValidateConnector_checked [OF assms(1-4)] field_InternalError_def)
qed

theorem secret_settings_rejected_witness:
  "\<exists>fe. fst (ValidateConnector ascii_tables (test_env (http_ok [])) kafka_cache
      (kafka_connector [secret_setting ''password'' ''key'' ''name'']) [''spec''] (empty_sys ())) =
    Ok (Some fe)"
proof -
  let ?x = "secret_setting ''password'' ''key'' ''name''"
  obtain s' where f: "fetchYAMLSpec (test_env (http_ok [])) (kafka_connector [?x]) kafka_plugin
      (empty_sys ()) = (Ok (\<lambda>_. Some \<lparr>spc_SourceParams = (), spc_DestinationParams = ()\<rparr>), s')"
    by (rule kafka_fetched)
  have "?x \<in> set (cn_Settings (kafka_connector [?x]))" "sv_SecretRef ?x \<noteq> None"
    by (simp_all add: kafka_connector_def secret_setting_def)
  then have "\<exists>fe. ValidateConnector ascii_tables (test_env (http_ok [])) kafka_cache
      (kafka_connector [?x]) [''spec''] (empty_sys ()) = (Ok (Some fe), s')
      \<and> fe_Type fe = ErrorTypeInternal \<and> fe_Field fe = Child [''spec''] ''parameter''"
    by (intro secret_settings_rejected [OF kafka_supported _ kafka_listed f])
      (simp_all add: kafka_cache_def no_objects_def)
  then show ?thesis by (metis fst_conv)
qed

end
