(* ===== verification/Webhook.thy ===== *)
theory Webhook
  imports Validator Version_Flags
begin

text \<open>
  Model of \<^verbatim>\<open>internal/webhook/v1alpha/conduit_webhook.go\<close>: the defaulting and the validating
  admission webhook. The object passed in by the framework is a Conduit or something else; the
  schema registry client and the standalone processor registry, which come from Conduit, are
  arguments.
\<close>

section \<open>Defaulting\<close>

datatype runtime_object = ConduitObject Conduit | OtherObject string

text \<open>Every call of \<^verbatim>\<open>SetCondition\<close> reads the clock twice.\<close>

fun default_conditions ::
  "(nat \<Rightarrow> time) \<Rightarrow> nat \<Rightarrow> ConditionType list \<Rightarrow> ConduitStatus \<Rightarrow> ConduitStatus" where
  "default_conditions clk t [] status = status"
| "default_conditions clk t (ct # cts) status =
     (case Status_GetCondition status ct of
        None \<Rightarrow> default_conditions clk (t + 2) cts
                  (Status_SetCondition clk t status ct ConditionUnknown [] [])
      | Some cond \<Rightarrow> default_conditions clk t cts status)"

definition default_processor :: "ConduitProcessor \<Rightarrow> ConduitProcessor" where
  "default_processor p =
     (let p = (if pr_Workers p = 0 then p\<lparr>pr_Workers := 1\<rparr> else p)
      in if pr_ID p = [] then p\<lparr>pr_ID := pr_Name p\<rparr> else p)"

fun proccessorDefaulter :: "ConduitProcessor list \<Rightarrow> ConduitProcessor list" where
  "proccessorDefaulter [] = []"
| "proccessorDefaulter (p # pp) = default_processor p # proccessorDefaulter pp"

definition default_connector :: "unicode \<Rightarrow> ConduitConnector \<Rightarrow> ConduitConnector" where
  "default_connector U c =
     (let c = (if cn_ID c = [] then c\<lparr>cn_ID := cn_Name c\<rparr> else c);
          c = c\<lparr>cn_Processors := proccessorDefaulter (cn_Processors c)\<rparr>;
          c = (if cn_PluginVersion c = [] then c\<lparr>cn_PluginVersion := ''latest''\<rparr> else c);
          plugin = ToLower U (cn_Plugin c)
      in if plugin \<in> set BuiltinConnectors
         then let c = c\<lparr>cn_Plugin := ''builtin:'' @ plugin\<rparr> in c\<lparr>cn_PluginName := cn_Plugin c\<rparr>
         else if HasPrefix plugin ''builtin:'' then c\<lparr>cn_PluginName := cn_Plugin c\<rparr>
         else
           let pluginName = TrimPrefix (path_Base (cn_Plugin c)) ''conduit-connector-''
           in c\<lparr>cn_PluginPkg := ''github.com/'' @ cn_Plugin c @ ''/cmd/connector@'' @ cn_PluginVersion c,
               cn_PluginName := ''standalone:'' @ pluginName\<rparr>)"

fun connectors_loop :: "unicode \<Rightarrow> ConduitConnector list \<Rightarrow> ConduitConnector list" where
  "connectors_loop U [] = []"
| "connectors_loop U (c # cs) = default_connector U c # connectors_loop U cs"

definition default_spec :: "unicode \<Rightarrow> string \<Rightarrow> ConduitSpec \<Rightarrow> ConduitSpec" where
  "default_spec U objectName sp =
     (let sp = (if sp_Running sp = None then sp\<lparr>sp_Running := Some True\<rparr> else sp);
          sp = (if sp_Name sp = [] then sp\<lparr>sp_Name := objectName\<rparr> else sp);
          sp = (if sp_ID sp = [] then sp\<lparr>sp_ID := sp_Name sp\<rparr> else sp);
          sp = (if sp_Image sp = [] then sp\<lparr>sp_Image := ConduitImage\<rparr> else sp);
          sp = (if sp_Version sp = [] then sp\<lparr>sp_Version := ConduitVersion\<rparr> else sp);
          sp = sp\<lparr>sp_Connectors := connectors_loop U (sp_Connectors sp)\<rparr>
      in sp\<lparr>sp_Processors := proccessorDefaulter (sp_Processors sp)\<rparr>)"

definition Default :: "unicode \<Rightarrow> (nat \<Rightarrow> time) \<Rightarrow> nat \<Rightarrow> runtime_object \<Rightarrow> Conduit res" where
  "Default U clk t obj =
     (case obj of
        OtherObject typ \<Rightarrow> Err (Errorf ''expected an Conduit object but got %T'' [typ])
      | ConduitObject conduit \<Rightarrow>
          let conduit = conduit\<lparr>c_Status := default_conditions clk t
                (GetConditionTypes ConduitConditions) (c_Status conduit)\<rparr>
          in Ok (conduit\<lparr>c_Spec := default_spec U (om_Name (c_Meta conduit)) (c_Spec conduit)\<rparr>))"

section \<open>Validation\<close>

datatype admission_error =
    BadObject string
  | Invalid string "field_error list"
  | RegistryFailed field_error

text \<open>
  The libraries behind \<^verbatim>\<open>registryFactory\<close>: Conduit's schema registry client, the schema
  service made of it, and the standalone registry.
\<close>

record ('cl, 'sv, 'r) reg_lib =
  schemaregistry_NewClient :: "string \<Rightarrow> 'cl res"
  NewSchemaService :: "'cl \<Rightarrow> 'sv"
  standalone_NewRegistry :: "string \<Rightarrow> 'sv \<Rightarrow> 'r res"

definition opt_list :: "'a option \<Rightarrow> 'a list" where
  "opt_list x = (case x of None \<Rightarrow> [] | Some a \<Rightarrow> [a])"

text \<open>The package variable is set by \<^verbatim>\<open>init\<close>, which panics when the constraint does not parse.\<close>

definition conduitVerConstraint :: "('v, 'c) semver \<Rightarrow> 'c res" where
  "conduitVerConstraint S =
     (case NewConstraint S (''>= '' @ fst (CutPrefix ConduitEarliestAvailable ''v'')) of
        Ok c \<Rightarrow> Ok c
      | Err e \<Rightarrow> Panic (Error (Wrapf ''failed to create version constraint: %w'' [] e))
      | Panic p \<Rightarrow> Panic p)"

definition validateConduitVersion :: "('v, 'c) semver \<Rightarrow> string \<Rightarrow> field_error option res" where
  "validateConduitVersion S ver =
     (let sanitized = fst (CutPrefix ver ''v''); fp = Child [''spec''] ''version''
      in case NewVersion S sanitized of
           Err err \<Rightarrow> Ok (Some (field_Invalid fp (BadString ver) (Error err)))
         | Panic p \<Rightarrow> Panic p
         | Ok v \<Rightarrow>
             bind_res (conduitVerConstraint S) (\<lambda>constraint.
             bind_res (Check S constraint (Some v)) (\<lambda>ok.
               if \<not> ok
               then Ok (Some (field_Invalid fp (BadString ver)
                      (sprintf ''unsupported conduit version %q, minimum required %q''
                         [ver, ConduitEarliestAvailable])))
               else Ok None)))"

definition registryFactory ::
  "('cl, 'sv, 'r) reg_lib \<Rightarrow> SchemaRegistry \<Rightarrow> path \<Rightarrow> ('r option \<times> field_error option) res" where
  "registryFactory L r fp =
     (case schemaregistry_NewClient L (sr_URL r) of
        Err err \<Rightarrow> Ok (None, Some (field_Invalid fp (BadOption (sr_URL r))
                     (sprintf ''failed to create schema registry: %s'' [Error err])))
      | Panic p \<Rightarrow> Panic p
      | Ok cl \<Rightarrow>
          (let procSchemaService = NewSchemaService L cl
           in case standalone_NewRegistry L ''/tmp'' procSchemaService of
                Err err \<Rightarrow> Ok (None, Some (field_InternalError (Child fp ''schema'')
                             (Wrapf ''failed to create standalone registry: %w'' [] err)))
              | Panic p \<Rightarrow> Panic p
              | Ok reg \<Rightarrow> Ok (Some reg, None)))"

definition registry ::
  "('cl, 'sv, 'r) reg_lib \<Rightarrow> SchemaRegistry option \<Rightarrow> path \<Rightarrow> ('r option \<times> field_error option) res" where
  "registry L r fp =
     (case r of
        None \<Rightarrow> Ok (None, Some (field_InternalError fp (Errorf ''registry must be set'' [])))
      | Some r \<Rightarrow>
          if sr_URL r = [] then Ok (None, Some (field_InternalError fp (Errorf ''registry must be set'' [])))
          else registryFactory L r fp)"

definition validateRegistry :: "'u url_pkg \<Rightarrow> SchemaRegistry option \<Rightarrow> field_error option res" where
  "validateRegistry P sr =
     (case sr of
        None \<Rightarrow> Ok None
      | Some sr \<Rightarrow>
          if sr_URL sr = [] then Ok None
          else case url_Parse P (sr_URL sr) of
                 Err err \<Rightarrow> Ok (Some (field_Invalid (Child (Child [''spec''] ''schemaRegistry'') ''url'')
                              (BadString (sr_URL sr)) (Error err)))
               | Panic p \<Rightarrow> Panic p
               | Ok u \<Rightarrow> Ok None)"

fun validateProcessors ::
  "('g, 'r) ValidatorService \<Rightarrow> ConduitProcessor list \<Rightarrow> 'r option \<Rightarrow> path
     \<Rightarrow> ('g sys, field_error list) io" where
  "validateProcessors V [] r fp = ret_io []"
| "validateProcessors V (p # pp) r fp =
     bind_io (vs_ValidateProcessor V p r fp) (\<lambda>err.
     bind_io (validateProcessors V pp r fp) (\<lambda>errs. ret_io (opt_list err @ errs)))"

fun connector_checks ::
  "('g, 'r) ValidatorService \<Rightarrow> ConduitConnector list \<Rightarrow> 'r option \<Rightarrow> path
     \<Rightarrow> ('g sys, field_error list) io" where
  "connector_checks V [] r fp = ret_io []"
| "connector_checks V (c # cc) r fp =
     bind_io (vs_ValidateConnector V c fp) (\<lambda>err.
     bind_io (validateProcessors V (cn_Processors c) r fp) (\<lambda>procErrs.
     bind_io (connector_checks V cc r fp) (\<lambda>errs. ret_io (opt_list err @ procErrs @ errs))))"

definition validateConnectors ::
  "('g, 'r) ValidatorService \<Rightarrow> ConduitConnector list \<Rightarrow> 'r option \<Rightarrow> ('g sys, field_error list) io" where
  "validateConnectors V cc r = connector_checks V cc r (Child [''spec''] ''connectors'')"

definition ValidateCreate ::
  "('v, 'c) semver \<Rightarrow> ('cl, 'sv, 'r) reg_lib \<Rightarrow> 'u url_pkg \<Rightarrow> ('g, 'r) ValidatorService
     \<Rightarrow> runtime_object \<Rightarrow> ('g sys, admission_error option) io" where
  "ValidateCreate S L P V obj =
     (case obj of
        OtherObject typ \<Rightarrow> ret_io (Some (BadObject typ))
      | ConduitObject conduit \<Rightarrow>
          let sp = c_Spec conduit in
          bind_io (lift_res (validateConduitVersion S (sp_Version sp))) (\<lambda>versionErr.
          bind_io (lift_res (validateRegistry P (sp_Registry sp))) (\<lambda>urlErr.
          bind_io (lift_res (registry L (sp_Registry sp) [''schemaregistry''])) (\<lambda>(r, err).
          bind_io (validateConnectors V (sp_Connectors sp) r) (\<lambda>connErrs.
          bind_io (validateProcessors V (sp_Processors sp) r (Child [''spec''] ''processors'')) (\<lambda>procErrs.
            let errs = opt_list versionErr @ opt_list urlErr @ opt_list err @ connErrs @ procErrs
            in ret_io (if length errs > 0 then Some (Invalid (om_Name (c_Meta conduit)) errs)
                       else None)))))))"

definition ValidateUpdate ::
  "('cl, 'sv, 'r) reg_lib \<Rightarrow> ('g, 'r) ValidatorService \<Rightarrow> runtime_object
     \<Rightarrow> ('g sys, admission_error option) io" where
  "ValidateUpdate L V newObj =
     (case newObj of
        OtherObject typ \<Rightarrow> ret_io (Some (BadObject typ))
      | ConduitObject conduit \<Rightarrow>
          let sp = c_Spec conduit in
          bind_io (lift_res (registry L (sp_Registry sp) [''schemaregistry''])) (\<lambda>(r, err).
          case err of
            Some err \<Rightarrow> ret_io (Some (RegistryFailed err))
          | None \<Rightarrow>
              bind_io (validateConnectors V (sp_Connectors sp) r) (\<lambda>errs.
              if length errs > 0 then ret_io (Some (Invalid (om_Name (c_Meta conduit)) errs))
              else
                bind_io (validateProcessors V (sp_Processors sp) r (Child [''spec''] ''processors'')) (\<lambda>errs.
                if length errs > 0 then ret_io (Some (Invalid (om_Name (c_Meta conduit)) errs))
                else ret_io None))))"

definition ValidateDelete :: "runtime_object \<Rightarrow> admission_error option" where
  "ValidateDelete obj =
     (case obj of OtherObject typ \<Rightarrow> Some (BadObject typ) | ConduitObject conduit \<Rightarrow> None)"

section \<open>Facts about defaulting\<close>

definition has_condition :: "ConduitStatus \<Rightarrow> ConditionType \<Rightarrow> bool" where
  "has_condition s ct \<longleftrightarrow> Status_GetCondition s ct \<noteq> None"

abbreviation (input) "distinct_conditions s \<equiv> distinct (map cType (st_Conditions s))"

lemma has_condition_cview: "has_condition s ct \<longleftrightarrow> cview (st_Conditions s) ct \<noteq> None"
  by (simp add: has_condition_def Status_GetCondition_def cview_GetCondition [where l = ConduitConditions])

lemma has_condition_set:
  assumes "distinct_conditions s"
  shows "has_condition (Status_SetCondition clk t s ct st r m) ct' \<longleftrightarrow>
     ct' = ct \<or> ct' = ''Ready'' \<or> has_condition s ct'"
  by (simp add: has_condition_cview cview_Status_SetCondition [OF assms] spec_SetCondition_def Let_def
      del: not_None_eq)

lemma default_conditions_distinct:
  "distinct_conditions s \<Longrightarrow> distinct_conditions (default_conditions clk t cts s)"
  by (induction cts arbitrary: s t)
    (auto split: option.splits intro: wf_status_distinct wf_Status_SetCondition)

lemma default_conditions_has:
  "distinct_conditions s \<Longrightarrow> ct \<in> set cts \<or> has_condition s ct \<Longrightarrow>
     has_condition (default_conditions clk t cts s) ct"
proof (induction cts arbitrary: s t)
  case Nil
  then show ?case by simp
next
  case (Cons c cts)
  let ?s = "Status_SetCondition clk t s c ''Unknown'' [] []"
  have d: "distinct_conditions ?s"
    by (intro wf_status_distinct wf_Status_SetCondition Cons.prems(1))
  show ?case
  proof (cases "Status_GetCondition s c")
    case None
    have "ct \<in> set cts \<or> has_condition ?s ct"
      using Cons.prems by (auto simp: has_condition_set)
    with None show ?thesis using Cons.IH [OF d] by simp
  next
    case (Some cond)
    then have "ct \<in> set cts \<or> has_condition s ct"
      using Cons.prems(2) by (auto simp: has_condition_def)
    with Some show ?thesis using Cons.IH [OF Cons.prems(1)] by simp
  qed
qed

lemma default_conditions_done:
  "\<forall>ct \<in> set cts. has_condition s ct \<Longrightarrow> default_conditions clk t cts s = s"
  by (induction cts) (auto simp: has_condition_def)

lemma default_processor_idem [simp]: "default_processor (default_processor p) = default_processor p"
  by (simp add: default_processor_def Let_def)

lemma proccessorDefaulter_map: "proccessorDefaulter pp = map default_processor pp"
  by (induction pp) auto

lemma connectors_loop_map: "connectors_loop U cs = map (default_connector U) cs"
  by (induction cs) auto

lemma proccessorDefaulter_idem [simp]:
  "proccessorDefaulter (proccessorDefaulter pp) = proccessorDefaulter pp"
  by (simp add: proccessorDefaulter_map)

text \<open>The three cases of the plugin switch.\<close>

datatype plugin_kind = BareBuiltin | PrefixedBuiltin | Standalone

definition kind_of :: "unicode \<Rightarrow> string \<Rightarrow> plugin_kind" where
  "kind_of U p = (if ToLower U p \<in> set BuiltinConnectors then BareBuiltin
     else if HasPrefix (ToLower U p) ''builtin:'' then PrefixedBuiltin else Standalone)"

lemma builtin_lower: "b \<in> set BuiltinConnectors \<Longrightarrow> ToLower U (''builtin:'' @ b) = ''builtin:'' @ b"
  by (rule ToLower_lower) (auto simp: BuiltinConnectors_def char_eval)

lemma kind_of_builtin: "b \<in> set BuiltinConnectors \<Longrightarrow> kind_of U (''builtin:'' @ b) = PrefixedBuiltin"
  unfolding kind_of_def builtin_lower by (auto simp: BuiltinConnectors_def)

lemma default_connector_fields:
  "cn_ID (default_connector U c) = (if cn_ID c = [] then cn_Name c else cn_ID c)"
  "cn_Name (default_connector U c) = cn_Name c"
  "cn_Type (default_connector U c) = cn_Type c"
  "cn_Settings (default_connector U c) = cn_Settings c"
  "cn_PluginVersion (default_connector U c) =
     (if cn_PluginVersion c = [] then ''latest'' else cn_PluginVersion c)"
  "cn_Processors (default_connector U c) = proccessorDefaulter (cn_Processors c)"
  "cn_Plugin (default_connector U c) =
     (if kind_of U (cn_Plugin c) = BareBuiltin then ''builtin:'' @ ToLower U (cn_Plugin c)
      else cn_Plugin c)"
  "cn_PluginName (default_connector U c) =
     (case kind_of U (cn_Plugin c) of
        BareBuiltin \<Rightarrow> ''builtin:'' @ ToLower U (cn_Plugin c)
      | PrefixedBuiltin \<Rightarrow> cn_Plugin c
      | Standalone \<Rightarrow> ''standalone:'' @ TrimPrefix (path_Base (cn_Plugin c)) ''conduit-connector-'')"
  "cn_PluginPkg (default_connector U c) =
     (if kind_of U (cn_Plugin c) = Standalone
      then ''github.com/'' @ cn_Plugin c @ ''/cmd/connector@'' @
        (if cn_PluginVersion c = [] then ''latest'' else cn_PluginVersion c)
      else cn_PluginPkg c)"
  unfolding default_connector_def Let_def kind_of_def by simp_all

lemma kind_of_default: "kind_of U (cn_Plugin (default_connector U c)) =
    (if kind_of U (cn_Plugin c) = BareBuiltin then PrefixedBuiltin else kind_of U (cn_Plugin c))"
proof (cases "ToLower U (cn_Plugin c) \<in> set BuiltinConnectors")
  case True
  then show ?thesis
    using kind_of_builtin [OF True] by (simp add: default_connector_fields kind_of_def [of U "cn_Plugin c"])
next
  case False
  then show ?thesis by (simp add: default_connector_fields kind_of_def [of U "cn_Plugin c"])
qed

lemma default_connector_idem [simp]:
  "default_connector U (default_connector U c) = default_connector U c"
  by (rule ConduitConnector.equality)
    (simp_all add: default_connector_fields kind_of_default [unfolded default_connector_fields]
      split: plugin_kind.splits)

lemma default_spec_fields:
  "sp_ID (default_spec U n sp) = (if sp_ID sp = [] then sp_Name (default_spec U n sp) else sp_ID sp)"
  "sp_Name (default_spec U n sp) = (if sp_Name sp = [] then n else sp_Name sp)"
  "sp_Description (default_spec U n sp) = sp_Description sp"
  "sp_Image (default_spec U n sp) = (if sp_Image sp = [] then ConduitImage else sp_Image sp)"
  "sp_Running (default_spec U n sp) = (if sp_Running sp = None then Some True else sp_Running sp)"
  "sp_Version (default_spec U n sp) = (if sp_Version sp = [] then ConduitVersion else sp_Version sp)"
  "sp_Registry (default_spec U n sp) = sp_Registry sp"
  "sp_Connectors (default_spec U n sp) = map (default_connector U) (sp_Connectors sp)"
  "sp_Processors (default_spec U n sp) = map default_processor (sp_Processors sp)"
  unfolding default_spec_def Let_def connectors_loop_map proccessorDefaulter_map by simp_all

lemma default_spec_idem: "default_spec U n (default_spec U n sp) = default_spec U n sp"
  by (rule ConduitSpec.equality) (simp_all add: default_spec_fields comp_def)

lemma Default_Conduit:
  "Default U clk t (ConduitObject c) =
     Ok (c\<lparr>c_Spec := default_spec U (om_Name (c_Meta c)) (c_Spec c),
          c_Status := default_conditions clk t (GetConditionTypes ConduitConditions) (c_Status c)\<rparr>)"
  by (simp add: Default_def Let_def)

lemma PluginName_not_Nil: "cn_PluginName (default_connector U c) \<noteq> []"
  by (auto simp: default_connector_fields kind_of_def ToLower_def split: if_splits)

lemma default_processor_Workers: "pr_Workers (default_processor p) \<noteq> 0"
  by (simp add: default_processor_def Let_def)

section \<open>What acceptance means\<close>

context validator_service
begin

abbreviation (input) "V \<equiv> \<lparr>vs_ValidateConnector = VC, vs_ValidateProcessor = VP\<rparr>"

lemma processors_sound:
  "fst (validateProcessors V pp r fp s) = Ok [] \<Longrightarrow> p \<in> set pp \<Longrightarrow> pr_Plugin p \<noteq> []"
proof (induction pp arbitrary: s)
  case Nil
  then show ?case by simp
next
  case (Cons q pp)
  from Cons.prems(1) obtain err s1 errs s2 where
    run: "VP q r fp s = (Ok err, s1)" "validateProcessors V pp r fp s1 = (Ok errs, s2)"
    and nil: "opt_list err @ errs = []"
    by (auto elim!: bind_io_Ok_D)
  then have "fst (VP q r fp s) = Ok None" "fst (validateProcessors V pp r fp s1) = Ok []"
    by (auto simp: opt_list_def split: option.splits)
  with Cons.IH Cons.prems(2) VP_sound show ?case by auto
qed

lemma connectors_sound:
  "fst (connector_checks V cc r fp s) = Ok [] \<Longrightarrow> c \<in> set cc \<Longrightarrow>
     connector_ok c \<and> (\<forall>p \<in> set (cn_Processors c). pr_Plugin p \<noteq> [])"
proof (induction cc arbitrary: s)
  case Nil
  then show ?case by simp
next
  case (Cons d cc)
  from Cons.prems(1) obtain err s1 perrs s2 errs s3 where
    run: "VC d fp s = (Ok err, s1)" "validateProcessors V (cn_Processors d) r fp s1 = (Ok perrs, s2)"
      "connector_checks V cc r fp s2 = (Ok errs, s3)"
    and nil: "opt_list err @ perrs @ errs = []"
    by (auto elim!: bind_io_Ok_D)
  then have ok: "fst (VC d fp s) = Ok None" "fst (validateProcessors V (cn_Processors d) r fp s1) = Ok []"
    "fst (connector_checks V cc r fp s2) = Ok []"
    by (auto simp: opt_list_def split: option.splits)
  from Cons.prems(2) consider "c = d" | "c \<in> set cc" by auto
  then show ?case
  proof cases
    case 1
    with VC_sound [OF ok(1)] processors_sound [OF ok(2)] show ?thesis by simp
  next
    case 2
    then show ?thesis using Cons.IH [OF ok(3)] by simp
  qed
qed

lemma ValidateCreate_accepts:
  assumes "fst (ValidateCreate S L P V (ConduitObject c) s) = Ok None"
  shows "validateConduitVersion S (sp_Version (c_Spec c)) = Ok None
    \<and> validateRegistry P (sp_Registry (c_Spec c)) = Ok None
    \<and> (\<exists>r. registry L (sp_Registry (c_Spec c)) [''schemaregistry''] = Ok (r, None))
    \<and> (\<forall>cn \<in> set (sp_Connectors (c_Spec c)). connector_ok cn
         \<and> (\<forall>p \<in> set (cn_Processors cn). pr_Plugin p \<noteq> []))
    \<and> (\<forall>p \<in> set (sp_Processors (c_Spec c)). pr_Plugin p \<noteq> [])"
proof -
  from assms obtain e1 e2 r e3 e4 s4 e5 s5 where
    run: "validateConduitVersion S (sp_Version (c_Spec c)) = Ok e1"
      "validateRegistry P (sp_Registry (c_Spec c)) = Ok e2"
      "registry L (sp_Registry (c_Spec c)) [''schemaregistry''] = Ok (r, e3)"
      "validateConnectors V (sp_Connectors (c_Spec c)) r s = (Ok e4, s4)"
      "validateProcessors V (sp_Processors (c_Spec c)) r (Child [''spec''] ''processors'') s4 = (Ok e5, s5)"
    and nil: "opt_list e1 @ opt_list e2 @ opt_list e3 @ e4 @ e5 = []"
    by (auto simp: ValidateCreate_def Let_def split: prod.splits if_splits elim!: bind_io_Ok_D)
  then have "e1 = None" "e2 = None" "e3 = None" "e4 = []" "e5 = []"
    by (auto simp: opt_list_def split: option.splits)
  moreover have "fst (connector_checks V (sp_Connectors (c_Spec c)) r (Child [''spec''] ''connectors'') s) = Ok []"
    using run(4) \<open>e4 = []\<close> by (simp add: validateConnectors_def)
  moreover have "fst (validateProcessors V (sp_Processors (c_Spec c)) r (Child [''spec''] ''processors'') s4) = Ok []"
    using run(5) \<open>e5 = []\<close> by simp
  ultimately show ?thesis
    using run(1-3) connectors_sound processors_sound by metis
qed

lemma ValidateUpdate_accepts:
  assumes "fst (ValidateUpdate L V (ConduitObject c) s) = Ok None"
  shows "(\<exists>r. registry L (sp_Registry (c_Spec c)) [''schemaregistry''] = Ok (r, None))
    \<and> (\<forall>cn \<in> set (sp_Connectors (c_Spec c)). connector_ok cn
         \<and> (\<forall>p \<in> set (cn_Processors cn). pr_Plugin p \<noteq> []))
    \<and> (\<forall>p \<in> set (sp_Processors (c_Spec c)). pr_Plugin p \<noteq> [])"
proof -
  from assms obtain r s4 s5 where
    run: "registry L (sp_Registry (c_Spec c)) [''schemaregistry''] = Ok (r, None)"
      "validateConnectors V (sp_Connectors (c_Spec c)) r s = (Ok [], s4)"
      "validateProcessors V (sp_Processors (c_Spec c)) r (Child [''spec''] ''processors'') s4 = (Ok [], s5)"
    by (auto simp: ValidateUpdate_def Let_def split: prod.splits if_splits option.splits elim!: bind_io_Ok_D)
  have "fst (connector_checks V (sp_Connectors (c_Spec c)) r (Child [''spec''] ''connectors'') s) = Ok []"
    using run(2) by (simp add: validateConnectors_def)
  moreover have "fst (validateProcessors V (sp_Processors (c_Spec c)) r (Child [''spec''] ''processors'') s4) = Ok []"
    using run(3) by simp
  ultimately show ?thesis
    using run(1) connectors_sound processors_sound by metis
qed

end

lemma registry_present: "registry L reg fp = Ok (r, None) \<Longrightarrow> \<exists>sr. reg = Some sr \<and> sr_URL sr \<noteq> []"
  by (auto simp: registry_def split: option.splits if_splits)

lemma registry_accepted:
  assumes "registry L reg fp = Ok (r, None)" and "validateRegistry P reg = Ok None"
  shows "\<exists>sr u. reg = Some sr \<and> sr_URL sr \<noteq> [] \<and> url_Parse P (sr_URL sr) = Ok u"
  using assms by (auto simp: registry_def validateRegistry_def split: option.splits if_splits res.splits)

context semver_lib
begin

lemma version_constraint:
  obtains c where "conduitVerConstraint S = Ok c"
    "\<And>v. Check S c (Some v) = Ok (\<not> prerelease v \<and> Version 0 11 0 \<le> release v)"
proof -
  have "(''>= 0.11.0'', \<lambda>v. Version 0 11 0 \<le> v) \<in> set documented" by (simp add: documented_def)
  then obtain c where "NewConstraint S ''>= 0.11.0'' = Ok c"
    "\<And>v. Check S c (Some v) = Ok (\<not> prerelease v \<and> Version 0 11 0 \<le> release v)"
    using rule_checks by metis
  then show thesis by (intro that) (simp_all add: conduitVerConstraint_def TrimPrefix_def)
qed

lemma version_accepted:
  "validateConduitVersion S ver = Ok None \<longleftrightarrow>
     (\<exists>v. NewVersion S (TrimPrefix ver ''v'') = Ok v \<and> \<not> prerelease v \<and> Version 0 11 0 \<le> release v)"
  by (rule version_constraint) (auto simp: validateConduitVersion_def Let_def split: res.splits)

lemma version_panics:
  "validateConduitVersion S ver = Panic p \<longleftrightarrow> NewVersion S (TrimPrefix ver ''v'') = Panic p"
  by (rule version_constraint) (auto simp: validateConduitVersion_def Let_def split: res.splits)

end

section \<open>Properties\<close>

text \<open>
  C5: defaulting is idempotent. Whatever the case tables of the runtime and at whatever later time
  it runs again, the second run changes nothing, so a webhook that is called again for its own
  output leaves the resource alone.
\<close>

theorem Default_idempotent:
  assumes "distinct (map cType (st_Conditions (c_Status c)))"
  shows "\<exists>c'. Default U clk t (ConduitObject c) = Ok c' \<and> Default U clk' t' (ConduitObject c') = Ok c'"
proof -
  let ?types = "GetConditionTypes ConduitConditions"
  have "\<forall>ct \<in> set ?types. has_condition (default_conditions clk t ?types (c_Status c)) ct"
    using default_conditions_has [OF assms] by blast
  then show ?thesis
    by (simp add: Default_Conduit default_conditions_done default_spec_idem)
qed

theorem Default_idempotent_witness:
  "\<exists>c'. Default ascii_tables (\<lambda>n. 0) 0 (ConduitObject BadNameConduit) = Ok c'
     \<and> Default ascii_tables (\<lambda>n. 9) 0 (ConduitObject c') = Ok c'"
  by (rule Default_idempotent) (simp add: BadNameConduit_def zero_status_def)



text \<open>
  The version check accepts exactly the release versions from 0.11.0 on, and it panics only
  if the version parser does.
\<close>

theorem validateConduitVersion_iff:
  assumes "semver_lib S release prerelease"
  shows "(validateConduitVersion S ver = Ok None \<longleftrightarrow>
      (\<exists>v. NewVersion S (TrimPrefix ver ''v'') = Ok v \<and> \<not> prerelease v \<and> Version 0 11 0 \<le> release v))
    \<and> (\<forall>p. validateConduitVersion S ver = Panic p \<longleftrightarrow> NewVersion S (TrimPrefix ver ''v'') = Panic p)"
  using semver_lib.version_accepted [OF assms] semver_lib.version_panics [OF assms] by blast

theorem validateConduitVersion_iff_witness:
  "validateConduitVersion ref_semver ''v0.14.0'' = Ok None"
  using validateConduitVersion_iff [OF ref.semver_lib_axioms, of "''v0.14.0''"]
  by (simp add: ref_semver_def semver_eval TrimPrefix_def)

text \<open>
  C34: the version check and the command lines disagree. A version that the webhook admits has a
  command line exactly when it is below 0.14.0; from there on the resource is admitted and its
  deployment can never be built.
\<close>

theorem admitted_version_runs_iff:
  assumes "semver_lib S release prerelease" and "set order = set version_constraints"
    and "validateConduitVersion S ver = Ok None"
  shows "\<exists>v. NewVersion S (TrimPrefix ver ''v'') = Ok v
    \<and> ((\<exists>args. ForVersion S order f ver = Ok args) \<longleftrightarrow> release v < Version 0 14 0)"
proof -
  obtain v where v: "NewVersion S (TrimPrefix ver ''v'') = Ok v" "\<not> prerelease v"
    "Version 0 11 0 \<le> release v"
    using assms(3) unfolding semver_lib.version_accepted [OF assms(1)] by blast
  have "(\<exists>args. flags_of f (release v) = Some args) \<longleftrightarrow> release v < Version 0 14 0"
    using v(3) by (cases "release v") (auto simp: flags_of_def)
  then show ?thesis
    using v semver_lib.ForVersion_total [OF assms(1,2) v(1), of f]
    by (auto split: option.splits)
qed

theorem admitted_version_runs_iff_witness:
  "\<exists>v. NewVersion ref_semver (TrimPrefix ''v0.14.0'' ''v'') = Ok v
     \<and> ((\<exists>args. ForVersion ref_semver version_constraints (NewFlags []) ''v0.14.0'' = Ok args)
        \<longleftrightarrow> sv_release v < Version 0 14 0)"
proof (rule admitted_version_runs_iff [OF ref.semver_lib_axioms refl])
  show "validateConduitVersion ref_semver ''v0.14.0'' = Ok None"
    unfolding ref.version_accepted by (simp add: ref_semver_def semver_eval TrimPrefix_def)
qed

text \<open>A registry library and a validator without cache, for the examples.\<close>

definition test_lib :: "(string, string, unit PluginRegistry) reg_lib" where
  "test_lib = \<lparr>schemaregistry_NewClient = Ok, NewSchemaService = (\<lambda>cl. cl),
     standalone_NewRegistry = (\<lambda>dir svc. Ok (\<lambda>path files g. (Ok path, g)))\<rparr>"

definition test_service :: "(unit, unit PluginRegistry) ValidatorService" where
  "test_service = as_service ascii_tables (test_env (http_ok ''wasm''))
     \<lparr>v_client = no_objects, v_connectorList = []\<rparr>"

lemma ValidateConnector_no_cache:
  "connector_supported U c \<Longrightarrow>
     ValidateConnector U E \<lparr>v_client = cl, v_connectorList = []\<rparr> c fp = ret_io None"
  using supported_type by (auto simp: ValidateConnector_supported validateConnectorParameters_def)

lemma ValidateProcessor_downloads:
  assumes "pr_Plugin p \<noteq> []"
  shows "fst (ValidateProcessor (test_env (http_ok body)) p (Some (\<lambda>path files g. (Ok path, g))) fp s) = Ok None"
  using assms
  by (auto simp: ValidateProcessor_def validateProcessorPlugin_def validateStandaloneProcessor_def
      pluginWASM_def NewRequest_def test_env_def http_ok_def HTTPClient_Do_def Let_def bind_io_def
      err_io_def defer_io_def CreateTemp_def io_Copy_def Register_def)

lemma Sample_accepted:
  "fst (ValidateCreate ref_semver test_lib text_urls test_service (ConduitObject SampleConduit)
     (empty_sys ())) = Ok None"
proof -
  have version: "validateConduitVersion ref_semver ''v0.13.2'' = Ok None"
    unfolding ref.version_accepted by (simp add: ref_semver_def semver_eval TrimPrefix_def)
  have conn: "connector_supported U cn" if "cn \<in> set (sp_Connectors (c_Spec SampleConduit))" for U cn
    using that builtin_supported [of cn "''generator''"] builtin_supported [of cn "''log''"]
    by (auto simp: SampleConduit_def BuiltinConnectors_def)
  have checks: "connector_checks test_service cc r fp s = (Ok [], s)"
    if "\<forall>cn \<in> set cc. connector_supported ascii_tables cn \<and> cn_Processors cn = []" for cc r fp s
    using that by (induction cc)
      (simp_all add: test_service_def as_service_def ValidateConnector_no_cache opt_list_def bind_io_def)
  have procs: "\<forall>cn \<in> set (sp_Connectors (c_Spec SampleConduit)). cn_Processors cn = []"
    by (simp add: SampleConduit_def)
  obtain s' where "ValidateProcessor (test_env (http_ok ''wasm'')) (proc1 ''builtin:base64.encode'')
      (Some (\<lambda>path files g. (Ok path, g))) (Child [''spec''] ''processors'') (empty_sys ()) = (Ok None, s')"
    using ValidateProcessor_downloads [of "proc1 ''builtin:base64.encode''" "''wasm''"
        "Child [''spec''] ''processors''" "empty_sys ()"]
    by (cases "ValidateProcessor (test_env (http_ok ''wasm'')) (proc1 ''builtin:base64.encode'')
      (Some (\<lambda>path files g. (Ok path, g))) (Child [''spec''] ''processors'') (empty_sys ())")
      (auto simp: proc1_def)
  then have "validateProcessors test_service (sp_Processors (c_Spec SampleConduit))
      (Some (\<lambda>path files g. (Ok path, g))) (Child [''spec''] ''processors'') (empty_sys ()) = (Ok [], s')"
    by (simp add: SampleConduit_def test_service_def as_service_def bind_io_def opt_list_def)
  moreover have "sp_Version (c_Spec SampleConduit) = ''v0.13.2''"
    "registry test_lib (sp_Registry (c_Spec SampleConduit)) fp = Ok (Some (\<lambda>path files g. (Ok path, g)), None)"
    "validateRegistry text_urls (sp_Registry (c_Spec SampleConduit)) = Ok None" for fp
    by (simp_all add: SampleConduit_def registry_def registryFactory_def test_lib_def url_registry_def
        validateRegistry_def text_urls_def)
  ultimately show ?thesis
    using conn procs
    by (simp add: ValidateCreate_def Let_def version validateConnectors_def checks bind_io_def
        opt_list_def split: prod.splits)
qed



text \<open>
  Without a schema registry the registry passed to the processor checks is nil, and creating a
  resource whose first processor can be downloaded panics instead of being rejected.
\<close>

theorem ValidateCreate_nil_registry_panics:
  assumes "sp_Registry (c_Spec c) = None" and "sp_Connectors (c_Spec c) = []"
    and "sp_Processors (c_Spec c) = p # ps" and "pr_Plugin p \<noteq> []" and "pr_ProcessorURL p \<noteq> []"
    and "validateConduitVersion S (sp_Version (c_Spec c)) = Ok versionErr"
    and "pluginWASM E (pr_ProcessorURL p) s = (Ok file, s')"
  shows "ValidateCreate S L P (as_service U E v) (ConduitObject c) s =
    (Panic ''invalid memory address or nil pointer dereference'', remove_file E file s')"
  using assms
  by (simp add: ValidateCreate_def Let_def validateRegistry_def registry_def validateConnectors_def
      as_service_def ValidateProcessor_def validateProcessorPlugin_def validateStandaloneProcessor_def
      bind_io_def err_io_def defer_io_def Register_def)

theorem ValidateCreate_nil_registry_panics_witness:
  "\<exists>s. ValidateCreate ref_semver test_lib text_urls test_service
     (ConduitObject (SampleConduit\<lparr>c_Spec := (c_Spec SampleConduit)
        \<lparr>sp_Registry := None, sp_Connectors := []\<rparr>\<rparr>)) (empty_sys ()) =
   (Panic ''invalid memory address or nil pointer dereference'', s)"
proof -
  let ?E = "test_env (http_ok ''wasm'')" and ?p = "proc1 ''builtin:base64.encode''"
  let ?c = "SampleConduit\<lparr>c_Spec := (c_Spec SampleConduit)\<lparr>sp_Registry := None, sp_Connectors := []\<rparr>\<rparr>"
  have 1: "validateConduitVersion ref_semver (sp_Version (c_Spec ?c)) = Ok None"
    unfolding ref.version_accepted by (simp add: SampleConduit_def ref_semver_def semver_eval TrimPrefix_def)
  obtain s' where 2: "pluginWASM ?E (pr_ProcessorURL ?p) (empty_sys ()) = (Ok ''/tmp/proc-1.wasm'', s')"
    by (simp add: pluginWASM_def NewRequest_def test_env_def http_ok_def HTTPClient_Do_def Let_def
        bind_io_def defer_io_def CreateTemp_def io_Copy_def)
  show ?thesis
    unfolding test_service_def
    by (rule exI, rule ValidateCreate_nil_registry_panics [OF _ _ _ _ _ 1 2])
      (simp_all add: SampleConduit_def proc1_def)
qed

end
