(* ===== verification/Life_Cycle.thy ===== *)
theory Life_Cycle
  imports Panic_Freedom Webhook
begin

text \<open>
  The life of Conduit resources on the API server: users create, update and delete them through
  the admission webhooks, the operator visits them, and everyone else changes the other objects.
  The theory shows what holds of every resource in every reachable state.
\<close>

section \<open>Steps\<close>

text \<open>
  The status is a subresource: creation starts with an empty status and an update keeps the
  stored one. Only the server sets the deletion time.
\<close>

definition with_deletion :: "Conduit \<Rightarrow> time option \<Rightarrow> Conduit" where
  "with_deletion c t = c\<lparr>c_Meta := (c_Meta c)\<lparr>om_DeletionTimestamp := t\<rparr>\<rparr>"

inductive life ::
  "unicode \<Rightarrow> ('v, 'c) semver \<Rightarrow> ('cl, 'sv, 'r) reg_lib \<Rightarrow> 'p url_pkg \<Rightarrow> ('g, 'r) ValidatorService
     \<Rightarrow> (cluster, 'u, 'v2, 'c2) rec_env \<Rightarrow> ConduitReconciler \<Rightarrow> cluster \<Rightarrow> cluster \<Rightarrow> bool"
  for U S L P V E r where
  create: "Default U clk t (ConduitObject c) = Ok c'
    \<Longrightarrow> fst (ValidateCreate S L P V (ConduitObject c') s) = Ok None
    \<Longrightarrow> w_Conduits w (key_of (c_Meta c')) = None
    \<Longrightarrow> life U S L P V E r w (put_conduit w (with_deletion (c'\<lparr>c_Status := zero_status\<rparr>) None))"
| update: "w_Conduits w (key_of (c_Meta c)) = Some old
    \<Longrightarrow> Default U clk t (ConduitObject c) = Ok c'
    \<Longrightarrow> fst (ValidateUpdate L V (ConduitObject c') s) = Ok None
    \<Longrightarrow> life U S L P V E r w (snd (ref_put
          (with_deletion (c'\<lparr>c_Status := c_Status old\<rparr>) (om_DeletionTimestamp (c_Meta old))) w))"
| delete: "w_Conduits w k = Some c \<Longrightarrow> ValidateDelete (ConduitObject c) = None
    \<Longrightarrow> life U S L P V E r w (snd (ref_put (with_deletion c (Some t)) w))"
| visit: "Reconcile E r req (w, l) = (x, (w', l')) \<Longrightarrow> life U S L P V E r w w'"
| others: "w_Conduits w' = w_Conduits w \<Longrightarrow> life U S L P V E r w w'"

inductive reachable ::
  "unicode \<Rightarrow> ('v, 'c) semver \<Rightarrow> ('cl, 'sv, 'r) reg_lib \<Rightarrow> 'p url_pkg \<Rightarrow> ('g, 'r) ValidatorService
     \<Rightarrow> (cluster, 'u, 'v2, 'c2) rec_env \<Rightarrow> ConduitReconciler \<Rightarrow> cluster \<Rightarrow> bool"
  for U S L P V E r where
  start: "w_Conduits w = Map.empty \<Longrightarrow> reachable U S L P V E r w"
| step: "reachable U S L P V E r w \<Longrightarrow> life U S L P V E r w w' \<Longrightarrow> reachable U S L P V E r w'"

section \<open>What every stored resource satisfies\<close>

definition processor_admitted :: "ConduitProcessor \<Rightarrow> bool" where
  "processor_admitted p \<longleftrightarrow> pr_Plugin p \<noteq> [] \<and> pr_Workers p \<noteq> 0"

definition spec_admitted :: "unicode \<Rightarrow> ConduitSpec \<Rightarrow> bool" where
  "spec_admitted U sp \<longleftrightarrow> sp_Running sp \<noteq> None \<and> sp_Image sp \<noteq> [] \<and> sp_Version sp \<noteq> []
     \<and> (\<exists>reg. sp_Registry sp = Some reg \<and> sr_URL reg \<noteq> [])
     \<and> (\<forall>cn \<in> set (sp_Connectors sp). connector_supported U cn \<and> cn_PluginName cn \<noteq> []
          \<and> (\<forall>p \<in> set (cn_Processors cn). processor_admitted p))
     \<and> (\<forall>p \<in> set (sp_Processors sp). processor_admitted p)"

definition all_admitted :: "unicode \<Rightarrow> cluster \<Rightarrow> bool" where
  "all_admitted U w \<longleftrightarrow> (\<forall>k c. w_Conduits w k = Some c \<longrightarrow>
     key_of (c_Meta c) = k \<and> spec_admitted U (c_Spec c) \<and> wf_status (c_Status c))"

lemma all_admittedD:
  "all_admitted U w \<Longrightarrow> w_Conduits w k = Some c \<Longrightarrow>
     key_of (c_Meta c) = k \<and> spec_admitted U (c_Spec c) \<and> wf_status (c_Status c)"
  unfolding all_admitted_def by blast

lemma all_admitted_put:
  assumes "all_admitted U w" and "spec_admitted U (c_Spec c)" and "wf_status (c_Status c)"
  shows "all_admitted U (put_conduit w c)" "all_admitted U (snd (ref_put c w))"
  using assms by (simp_all add: all_admitted_def put_conduit_def ref_put_def)

lemma default_spec_admitted:
  assumes "Default U clk t (ConduitObject c) = Ok c'"
    and "\<exists>r. registry L (sp_Registry (c_Spec c')) fp = Ok (r, None)"
    and "\<forall>cn \<in> set (sp_Connectors (c_Spec c')). connector_supported U cn
         \<and> (\<forall>p \<in> set (cn_Processors cn). pr_Plugin p \<noteq> [])"
    and "\<forall>p \<in> set (sp_Processors (c_Spec c')). pr_Plugin p \<noteq> []"
  shows "spec_admitted U (c_Spec c')"
proof -
  let ?sp = "default_spec U (om_Name (c_Meta c)) (c_Spec c)"
  have sp: "c_Spec c' = ?sp" using assms(1) by (auto simp: Default_Conduit)
  have "\<exists>reg. sp_Registry ?sp = Some reg \<and> sr_URL reg \<noteq> []"
    using assms(2) registry_present unfolding sp by metis
  moreover have "pr_Workers p \<noteq> 0" if "p \<in> set (sp_Processors ?sp)
      \<or> (\<exists>cn \<in> set (sp_Connectors ?sp). p \<in> set (cn_Processors cn))" for p
    using that
    by (auto simp: default_spec_fields default_connector_fields(6) proccessorDefaulter_map default_processor_Workers)
  moreover have "\<forall>cn \<in> set (sp_Connectors ?sp). cn_PluginName cn \<noteq> []"
    by (auto simp: default_spec_fields PluginName_not_Nil)
  moreover have "sp_Running ?sp \<noteq> None" "sp_Image ?sp \<noteq> []" "sp_Version ?sp \<noteq> []"
    by (simp_all add: default_spec_fields del: not_None_eq)
  ultimately show ?thesis
    using assms(3,4) unfolding sp spec_admitted_def processor_admitted_def by metis
qed

section \<open>A visit keeps it\<close>

definition visiting :: "unicode \<Rightarrow> cluster rt \<Rightarrow> bool" where
  "visiting U s \<longleftrightarrow> all_admitted U (fst s) \<and> spec_admitted U (c_Spec (lc_conduit (snd s)))
     \<and> wf_status (c_Status (lc_conduit (snd s)))"

abbreviation (input) "conduits_kept \<equiv> same (\<lambda>s :: cluster rt. w_Conduits (fst s))"

lemma kept_local: "framed conduits_kept (local_io m)"
  by (auto simp: framed_def same_def)

lemma kept_get: "framed conduits_kept get_c" "framed conduits_kept (get_R E)"
  by (simp_all add: get_c_def get_R_def same.framed_pure)

lemma kept_cou:
  assumes "\<And>k o' w. w_Conduits (store k o' w) = w_Conduits w"
  shows "framed conduits_kept (ref_cou meta objs store obj f)"
proof (rule framedI)
  fix s :: "cluster rt"
  obtain w l where s: "s = (w, l)" by (cases s)
  obtain x l' where "f (ref_current meta obj (objs w (key_of (meta obj)))) l = (x, l')" by (metis surj_pair)
  then show "conduits_kept s (snd (ref_cou meta objs store obj f s))"
    by (cases x) (auto simp: s ref_cou_def Let_def same_def assms)
qed

lemma kept_tail: "framed conduits_kept call \<Longrightarrow> framed conduits_kept (child_tail E call nn f ct er u c)"
  unfolding child_tail_def
  by (intro same.framed_intros kept_local) (auto split: OperationResult.splits intro: same.framed_intros kept_local)

context on_server
begin

lemma kept_handlers:
  "framed conduits_kept (CreateOrUpdateConfig E)" "framed conduits_kept (CreateOrUpdateSecret E)"
  "framed conduits_kept (CreateOrUpdateVolume E)" "framed conduits_kept (CreateOrUpdateDeployment E r)"
  "framed conduits_kept (CreateOrUpdateService E)"
  unfolding CreateOrUpdateConfig_def CreateOrUpdateSecret_def CreateOrUpdateVolume_def
    CreateOrUpdateDeployment_def CreateOrUpdateService_def Let_def ref_simps
  by (intro same.framed_intros kept_get kept_tail kept_cou kept_local, simp)+

lemma visiting_handler:
  assumes "framed (rt_rel ct) m" and "framed conduits_kept m"
  shows "framed (keeps (visiting U)) m"
proof (rule framedI)
  fix s
  have "rt_rel ct s (snd (m s))" "conduits_kept s (snd (m s))"
    by (rule framedD [OF assms(1)], rule framedD [OF assms(2)])
  then show "keeps (visiting U) s (snd (m s))"
    by (auto simp: keeps_def visiting_def rt_rel_def child_rel_def same_def wf_loc_def all_admitted_def)
qed

lemma visiting_local:
  assumes "\<And>l. c_Spec (lc_conduit (snd (m l))) = c_Spec (lc_conduit l)"
    and "\<And>l. st_Conditions (c_Status (lc_conduit (snd (m l)))) = st_Conditions (c_Status (lc_conduit l))"
  shows "framed (keeps (visiting U)) (local_io m)"
  using wf_status_conditions [OF assms(2)] by (auto simp: framed_def keeps_def visiting_def assms(1))

lemma visiting_put:
  assumes "put = ref_put"
  shows "framed (keeps (visiting U)) (\<lambda>(w, l). case put (lc_conduit l) w of
       (Ok c, w') \<Rightarrow> (Ok (), (w', l\<lparr>lc_conduit := c\<rparr>))
     | (Err e, w') \<Rightarrow> (Err e, (w', l)) | (Panic p, w') \<Rightarrow> (Panic p, (w', l)))"
  unfolding assms using all_admitted_put(2)
  by (auto simp: framed_def keeps_def visiting_def ref_put_def)

lemma visiting_children: "framed (keeps (visiting U)) (reconcile_children E r)"
proof -
  have up: "framed (keeps (visiting U)) (UpdateStatus E)"
    unfolding UpdateStatus_def status_update_def
    by (intro keeps.framed_intros visiting_put visiting_local)
      (simp_all add: server ref_client_def get_c_def get_R_def keeps.framed_pure stamp_status_def Let_def Eventf_def)
  show ?thesis
    unfolding reconcile_children_steps
    by (rule keeps.framed_join_all)
      (auto simp: steps_def intro: visiting_handler config.step_framed secret.step_framed volume.step_framed
        deployment.step_framed service.step_framed kept_handlers up keeps.framed_pure)
qed

lemma visiting_found: "framed (keeps (visiting U)) (reconcile_found E r req c)"
proof -
  have "framed (keeps (visiting U)) (update_conduit E)"
    unfolding update_conduit_def by (rule visiting_put) (simp add: server ref_client_def)
  moreover have "framed (keeps (visiting U)) (local_io (modify_io (set_finalizers f)))" for f
    by (rule visiting_local) (simp_all add: set_finalizers_def Let_def)
  moreover have "framed (keeps (visiting U)) (local_io (Eventf t rr f as))" for t rr f as
    by (rule visiting_local) (simp_all add: Eventf_def)
  ultimately show ?thesis
    unfolding reconcile_found_def
    by (auto intro!: keeps.framed_bind keeps.framed_err keeps.framed_pure visiting_children split: option.splits)
qed

lemma visit_admitted:
  assumes "all_admitted U w" and "Reconcile E r req (w, l) = (x, (w', l'))"
  shows "all_admitted U w'"
proof (cases "get_conduit (ref_reader w) req")
  case (Ok c)
  then have run: "reconcile_found E r req c (w, l\<lparr>lc_conduit := c\<rparr>) = (x, (w', l'))"
    using assms(2) by (simp add: Reconcile_def err_io_def server)
  have "w_Conduits w (nn_Namespace req, nn_Name req) = Some c"
    using Ok by (auto simp: ref_reader_def found_def split: option.splits)
  then have "visiting U (w, l\<lparr>lc_conduit := c\<rparr>)"
    using all_admittedD [OF assms(1)] assms(1) by (auto simp: visiting_def)
  then show ?thesis
    using framedD [OF visiting_found, of U "(w, l\<lparr>lc_conduit := c\<rparr>)" r req c]
    by (simp add: run keeps_def visiting_def)
qed (use assms in \<open>simp_all add: Reconcile_def err_io_def server\<close>)

end

section \<open>Properties\<close>

lemma life_admitted:
  assumes "on_server E" and "life U S L P (as_service U VE v) E r w w'" and "all_admitted U w"
  shows "all_admitted U w'"
  using assms(2,3)
proof cases
  case (create clk t c c' s)
  note ok = svc.ValidateCreate_accepts [OF create(3) [unfolded as_service_def]]
  have "spec_admitted U (c_Spec c')" by (rule default_spec_admitted [OF create(2)]) (use ok in blast)+
  then show ?thesis
    unfolding create(1)
    by (intro all_admitted_put [OF assms(3)]) (simp_all add: with_deletion_def zero_status_def wf_status_def wf_conds_def)
next
  case (update c old clk t c' s)
  note ok = svc.ValidateUpdate_accepts [OF update(4) [unfolded as_service_def]]
  have "spec_admitted U (c_Spec c')" by (rule default_spec_admitted [OF update(3)]) (use ok in blast)+
  with all_admittedD [OF assms(3) update(2)] show ?thesis
    unfolding update(1) by (intro all_admitted_put [OF assms(3)]) (simp_all add: with_deletion_def)
next
  case (delete k c t)
  with all_admittedD [OF assms(3) delete(2)] show ?thesis
    unfolding delete(1) by (intro all_admitted_put [OF assms(3)]) (simp_all add: with_deletion_def)
next
  case (visit req l x l')
  then show ?thesis using on_server.visit_admitted [OF assms(1,3)] by blast
next
  case others
  then show ?thesis using assms(3) by (simp add: all_admitted_def)
qed

lemma reachable_all_admitted:
  assumes "reachable U S L P (as_service U VE v) E r w" and "on_server E"
  shows "all_admitted U w"
  using assms
proof (induction rule: reachable.induct)
  case (start w)
  then show ?case by (simp add: all_admitted_def)
next
  case (step w w')
  then show ?case using life_admitted by blast
qed


text \<open>A first resource, without connectors and processors, is created.\<close>

definition plain_conduit :: Conduit where
  "plain_conduit = SampleConduit\<lparr>c_Spec := (c_Spec SampleConduit)\<lparr>sp_Connectors := [], sp_Processors := []\<rparr>\<rparr>"

lemma plain_reachable:
  "\<exists>w c. reachable ascii_tables ref_semver test_lib text_urls test_service ref_env r w
     \<and> w_Conduits w (''sample'', ''sample'') = Some c \<and> sp_Version (c_Spec c) = ''v0.13.2''"
proof -
  obtain c' where c': "Default ascii_tables int 0 (ConduitObject plain_conduit) = Ok c'"
    by (simp add: Default_Conduit)
  then have sp: "c_Spec c' = default_spec ascii_tables ''sample'' (c_Spec plain_conduit)"
    "c_Meta c' = new_meta ''sample'' ''sample''"
    by (auto simp: Default_Conduit plain_conduit_def SampleConduit_def new_meta_def)
  have fields: "sp_Connectors (c_Spec c') = []" "sp_Processors (c_Spec c') = []" "sp_Version (c_Spec c') = ''v0.13.2''"
    "sp_Registry (c_Spec c') = Some (url_registry ''http://apicurio:8080/apis/ccompat/v7'')"
    by (simp_all add: sp default_spec_fields plain_conduit_def SampleConduit_def)
  have version: "validateConduitVersion ref_semver ''v0.13.2'' = Ok None"
    unfolding ref.version_accepted by (simp add: ref_semver_def semver_eval TrimPrefix_def)
  have "fst (ValidateCreate ref_semver test_lib text_urls test_service (ConduitObject c') (empty_sys ())) = Ok None"
    by (simp add: ValidateCreate_def Let_def fields version registry_def registryFactory_def test_lib_def
        url_registry_def validateRegistry_def text_urls_def validateConnectors_def opt_list_def)
  from life.create [OF c' this, of empty_cluster]
  have "life ascii_tables ref_semver test_lib text_urls test_service ref_env r empty_cluster
      (put_conduit empty_cluster (with_deletion (c'\<lparr>c_Status := zero_status\<rparr>) None))"
    by (simp add: empty_cluster_def)
  moreover have "reachable ascii_tables ref_semver test_lib text_urls test_service ref_env r empty_cluster"
    by (rule reachable.start) (simp add: empty_cluster_def)
  ultimately have "reachable ascii_tables ref_semver test_lib text_urls test_service ref_env r
      (put_conduit empty_cluster (with_deletion (c'\<lparr>c_Status := zero_status\<rparr>) None))" (is "reachable _ _ _ _ _ _ _ ?w")
    by (rule reachable.step [rotated])
  moreover have "w_Conduits ?w (''sample'', ''sample'') = Some (with_deletion (c'\<lparr>c_Status := zero_status\<rparr>) None)"
    "sp_Version (c_Spec (with_deletion (c'\<lparr>c_Status := zero_status\<rparr>) None)) = ''v0.13.2''"
    by (simp_all add: put_conduit_def with_deletion_def sp(2) key_of_def new_meta_def fields)
  ultimately show ?thesis by blast
qed




section \<open>An update to a version that does not parse\<close>

context on_server
begin

lemma deployment_panics:
  assumes "lc_conduit l = c" and "w_ConfigMaps w (child_key c) = Some cm" and "w_Secrets w (child_key c) = Some s"
    and "ForVersion (re_semver E) (re_constraints E) (r_flags r) (sp_Version (c_Spec c)) = Panic p"
  shows "fst (CreateOrUpdateDeployment E r (w, l)) = Panic p"
proof -
  have read: "get_configmap (ref_reader w) (NamespacedName_of c) = Ok cm"
    "get_secret (ref_reader w) (NamespacedName_of c) = Ok s"
    using assms(2,3) by (simp_all add: ref_reader_def found_def)
  show ?thesis
    unfolding CreateOrUpdateDeployment_def Let_def get_c_run get_R_run ref_simps assms(1) reader read
    by (simp add: err_io_def child_tail_def ref_cou_def Let_def deploymentFn_def assms(1) ConduitRuntimeContainer_def
        assms(4))
qed

lemma children_panic:
  assumes "lc_conduit l = c"
    and "PipelineConfigYAML (re_unicode E) (ref_reader w) (re_marshal E) c = Ok y"
    and "SchemaRegistryConfig (re_url E) (ref_reader w) c = Ok sd"
    and "ForVersion (re_semver E) (re_constraints E) (r_flags r) (sp_Version (c_Spec c)) = Panic p"
  shows "fst (reconcile_children E r (w, l)) = Panic p"
proof -
  note D = same_resourceD
  have s0: "same_resource c (lc_conduit l)" by (simp add: assms(1) same_resource_def)
  obtain l1 where 1: "CreateOrUpdateConfig E (w, l) = (Ok (), (put_config w c y, l1))" (is "_ = (_, (?w1, _))")
    using config_step [OF assms(1,2), folded put_config_def] by blast
  note s1 = same_after [OF config.step_rel [OF 1] s0]
  have "SchemaRegistryConfig (re_url E) (ref_reader ?w1) (lc_conduit l1) = Ok sd"
    by (simp add: SchemaRegistry_after_config config_same_resource(2) [OF s1] assms(3))
  from secret_step [OF refl this, folded put_secret_def] obtain l2 where
    2: "CreateOrUpdateSecret E (?w1, l1) = (Ok (), (put_secret ?w1 c sd, l2))" (is "_ = (_, (?w2, _))")
    by (auto simp: put_secret_def D [OF s1])
  note s2 = same_after [OF secret.step_rel [OF 2] s1]
  obtain l3 where 3: "CreateOrUpdateVolume E (?w2, l2) = (Ok (), (put_claim ?w2 c, l3))" (is "_ = (_, (?w3, _))")
    using volume_step [OF refl, of ?w2 l2] by (auto simp: put_claim_def D [OF s2])
  note s3 = same_after [OF volume.step_rel [OF 3] s2]
  have "\<exists>cm s. w_ConfigMaps ?w3 (child_key (lc_conduit l3)) = Some cm \<and> w_Secrets ?w3 (child_key (lc_conduit l3)) = Some s"
    by (simp add: D [OF s3] put_defs)
  moreover have "sp_Version (c_Spec (lc_conduit l3)) = sp_Version (c_Spec c)" using s3 by (simp add: same_resource_def)
  ultimately have "fst (CreateOrUpdateDeployment E r (?w3, l3)) = Panic p"
    using deployment_panics [OF refl] assms(4) by metis
  then show ?thesis
    unfolding reconcile_children_def
      join_step_Ok [of "CreateOrUpdateConfig E", OF 1] join_step_Ok [of "CreateOrUpdateSecret E", OF 2]
      join_step_Ok [of "CreateOrUpdateVolume E", OF 3] by (simp add: join_step_def err_io_Panic)
qed

end



end
