(* ===== verification/Go_Heap.thy ===== *)
theory Go_Heap
  imports Prelude
begin

text \<open>
  Memory with aliasing, for code that is about which pointers are shared: a heap of cells, typed
  pointers and slices into it, and the contract of a deep copy. The contract is a locale; the
  constructions below carry it from the copy of a struct to the copy of a pointer to it, of a
  slice of it, of two fields one after the other and of a struct around them, so that the
  contract of a generated copy function follows from those of its fields.
\<close>

section \<open>Cells, pointers and slices\<close>

type_synonym addr = nat

text \<open>Addresses below \<open>lim\<close> are in use; \<^verbatim>\<open>new\<close> and \<^verbatim>\<open>make\<close> take the next one.\<close>

record 'c heap =
  lim :: addr
  mem :: "addr \<Rightarrow> 'c"

text \<open>A pointer is nil or an address; a slice is nil or a window into an array cell.\<close>

type_synonym ptr = "addr option"

record window =
  sl_array :: addr
  sl_off :: nat
  sl_len :: nat

type_synonym slice = "window option"

definition reserve :: "'c heap \<Rightarrow> addr \<times> 'c heap" where
  "reserve h = (lim h, h\<lparr>lim := Suc (lim h)\<rparr>)"

definition store :: "addr \<Rightarrow> 'c \<Rightarrow> 'c heap \<Rightarrow> 'c heap" where
  "store a x h = h\<lparr>mem := (mem h)(a := x)\<rparr>"

definition elements :: "('c \<Rightarrow> 'a list) \<Rightarrow> 'c heap \<Rightarrow> window \<Rightarrow> 'a list" where
  "elements rd h s = take (sl_len s) (drop (sl_off s) (rd (mem h (sl_array s))))"

text \<open>
  \<^verbatim>\<open>if in != nil { *out = new(T); (*in).DeepCopyInto(*out) }\<close>. The new cell is written once, with
  the struct that \<^verbatim>\<open>DeepCopyInto\<close> leaves in it: that function starts by overwriting it, and
  nothing reads it before. \<open>rd\<close> and \<open>mk\<close> read and make a cell of type \<^verbatim>\<open>T\<close>.
\<close>

fun copy_new ::
  "('c \<Rightarrow> 'a) \<Rightarrow> ('a \<Rightarrow> 'c) \<Rightarrow> ('a \<Rightarrow> 'c heap \<Rightarrow> 'a \<times> 'c heap) \<Rightarrow> ptr \<Rightarrow> 'c heap \<Rightarrow> ptr \<times> 'c heap" where
  "copy_new rd mk into None h = (None, h)"
| "copy_new rd mk into (Some a) h =
     (let (p, h) = reserve h; (x, h) = into (rd (mem h a)) h in (Some p, store p (mk x) h))"

text \<open>\<^verbatim>\<open>for i := range *in { (*in)[i].DeepCopyInto(&(*out)[i]) }\<close>\<close>

fun copy_elems :: "('a \<Rightarrow> 'c heap \<Rightarrow> 'a \<times> 'c heap) \<Rightarrow> 'a list \<Rightarrow> 'c heap \<Rightarrow> 'a list \<times> 'c heap" where
  "copy_elems into [] h = ([], h)"
| "copy_elems into (x # xs) h =
     (let (y, h) = into x h; (ys, h) = copy_elems into xs h in (y # ys, h))"

text \<open>\<^verbatim>\<open>*out = make([]T, len(*in))\<close> and the loop.\<close>

definition copy_window ::
  "('c \<Rightarrow> 'a list) \<Rightarrow> ('a list \<Rightarrow> 'c) \<Rightarrow> ('a \<Rightarrow> 'c heap \<Rightarrow> 'a \<times> 'c heap) \<Rightarrow> window \<Rightarrow> 'c heap
     \<Rightarrow> window \<times> 'c heap" where
  "copy_window rd mk into s h =
     (let (p, h) = reserve h; (ys, h) = copy_elems into (elements rd h s) h
      in (\<lparr>sl_array = p, sl_off = 0, sl_len = length ys\<rparr>, store p (mk ys) h))"

fun copy_slice ::
  "('c \<Rightarrow> 'a list) \<Rightarrow> ('a list \<Rightarrow> 'c) \<Rightarrow> ('a \<Rightarrow> 'c heap \<Rightarrow> 'a \<times> 'c heap) \<Rightarrow> slice \<Rightarrow> 'c heap
     \<Rightarrow> slice \<times> 'c heap" where
  "copy_slice rd mk into None h = (None, h)"
| "copy_slice rd mk into (Some s) h = (let (s', h) = copy_window rd mk into s h in (Some s', h))"

text \<open>A value without pointers: \<^verbatim>\<open>*out = *in\<close>.\<close>

definition assign :: "'a \<Rightarrow> 'c heap \<Rightarrow> 'a \<times> 'c heap" where
  "assign x h = (x, h)"

section \<open>The contract of a deep copy\<close>

definition agree :: "addr set \<Rightarrow> 'c heap \<Rightarrow> 'c heap \<Rightarrow> bool" where
  "agree A h h' \<longleftrightarrow> (\<forall>a \<in> A. mem h' a = mem h a)"

lemma agree_refl [simp]: "agree A h h"
  by (simp add: agree_def)

lemma agree_trans: "agree A h h1 \<Longrightarrow> agree A h1 h2 \<Longrightarrow> agree A h h2"
  by (simp add: agree_def)

lemma agree_mono: "agree A h h' \<Longrightarrow> B \<subseteq> A \<Longrightarrow> agree B h h'"
  by (auto simp: agree_def)

lemma agree_Un [simp]: "agree (A \<union> B) h h' \<longleftrightarrow> agree A h h' \<and> agree B h h'"
  by (auto simp: agree_def)

lemma agree_insert [simp]: "agree (insert a A) h h' \<longleftrightarrow> mem h' a = mem h a \<and> agree A h h'"
  by (auto simp: agree_def)

lemma heap_simps [simp]:
  "lim (store a x h) = lim h" "mem (store a x h) b = (if b = a then x else mem h b)"
  by (simp_all add: store_def)

lemma agree_store [simp]: "a \<notin> A \<Longrightarrow> agree A h (store a x h') \<longleftrightarrow> agree A h h'"
  by (auto simp: agree_def)

text \<open>
  \<open>view h x\<close> is the value that \<open>x\<close> stands for, all pointers followed; \<open>foot h x\<close> are the
  addresses it is read from. A copy of \<open>x\<close> has the same value, uses new addresses only and
  writes to none in use.
\<close>

locale deep_copy =
  fixes view :: "'c heap \<Rightarrow> 'a \<Rightarrow> 'v"
    and foot :: "'c heap \<Rightarrow> 'a \<Rightarrow> addr set"
    and copy :: "'a \<Rightarrow> 'c heap \<Rightarrow> 'a \<times> 'c heap"
  assumes view_local: "agree (foot h x) h h' \<Longrightarrow> view h' x = view h x"
    and foot_local: "agree (foot h x) h h' \<Longrightarrow> foot h' x = foot h x"
    and copy_frame: "copy x h = (y, h') \<Longrightarrow> lim h \<le> lim h' \<and> agree {..<lim h} h h'"
    and copy_view: "copy x h = (y, h') \<Longrightarrow> foot h x \<subseteq> {..<lim h} \<Longrightarrow> view h' y = view h x"
    and copy_foot: "copy x h = (y, h') \<Longrightarrow> foot h x \<subseteq> {..<lim h} \<Longrightarrow> foot h' y \<subseteq> {lim h..<lim h'}"
begin

lemma agrees: "copy x h = (y, h') \<Longrightarrow> A \<subseteq> {..<lim h} \<Longrightarrow> agree A h h'"
  using copy_frame by (blast intro: agree_mono)

lemma grows: "copy x h = (y, h') \<Longrightarrow> lim h \<le> lim h'"
  using copy_frame by blast

text \<open>Copying something else, later or before, moves neither value nor footprint.\<close>

lemma kept:
  assumes "agree {..<lim h} h h'" and "foot h x \<subseteq> {..<lim h}"
  shows "view h' x = view h x" and "foot h' x = foot h x"
  using view_local foot_local agree_mono [OF assms] by blast+

text \<open>The copy and the original do not see each other's changes.\<close>

lemma independent:
  assumes "copy x h = (y, h')" and "foot h x \<subseteq> {..<lim h}"
  shows "agree (- foot h' x) h' h'' \<Longrightarrow> view h'' y = view h x"
    and "agree (- foot h' y) h' h'' \<Longrightarrow> view h'' x = view h x"
proof -
  have x: "foot h' x = foot h x" "view h' x = view h x"
    using kept [OF conjunct2 [OF copy_frame [OF assms(1)]] assms(2)] by simp_all
  have dis: "foot h' x \<inter> foot h' y = {}"
    using copy_foot [OF assms] assms(2) x(1) by fastforce
  show "view h'' y = view h x" if "agree (- foot h' x) h' h''"
  proof -
    have "agree (foot h' y) h' h''" using that dis by (blast intro: agree_mono)
    then show ?thesis using view_local copy_view [OF assms] by simp
  qed
  show "view h'' x = view h x" if "agree (- foot h' y) h' h''"
  proof -
    have "agree (foot h' x) h' h''" using that dis by (blast intro: agree_mono)
    then show ?thesis using view_local x(2) by simp
  qed
qed

end

text \<open>Values without pointers.\<close>

definition no_foot :: "'c heap \<Rightarrow> 'a \<Rightarrow> addr set" where
  "no_foot h x = {}"

interpretation plain: deep_copy "\<lambda>h x. x" no_foot assign
  by unfold_locales (auto simp: no_foot_def assign_def)

section \<open>Pointers\<close>

fun view_ptr :: "('c \<Rightarrow> 'a) \<Rightarrow> ('c heap \<Rightarrow> 'a \<Rightarrow> 'v) \<Rightarrow> 'c heap \<Rightarrow> ptr \<Rightarrow> 'v option" where
  "view_ptr rd view h None = None"
| "view_ptr rd view h (Some a) = Some (view h (rd (mem h a)))"

fun foot_ptr :: "('c \<Rightarrow> 'a) \<Rightarrow> ('c heap \<Rightarrow> 'a \<Rightarrow> addr set) \<Rightarrow> 'c heap \<Rightarrow> ptr \<Rightarrow> addr set" where
  "foot_ptr rd foot h None = {}"
| "foot_ptr rd foot h (Some a) = insert a (foot h (rd (mem h a)))"

lemma reserve_eq: "reserve h = (p, h1) \<longleftrightarrow> p = lim h \<and> h1 = h\<lparr>lim := Suc (lim h)\<rparr>"
  by (auto simp: reserve_def)

lemma agree_lim [simp]: "agree A (h\<lparr>lim := n\<rparr>) h' \<longleftrightarrow> agree A h h'" "agree A h (h'\<lparr>lim := n\<rparr>) \<longleftrightarrow> agree A h h'"
  by (simp_all add: agree_def)

context deep_copy
begin

text \<open>The copy of the contents, made after the new cell was reserved.\<close>

lemma after_reserve:
  assumes "copy x (h\<lparr>lim := Suc (lim h)\<rparr>) = (y, h')"
  shows "lim h < lim h'" and "agree {..<lim h} h h'" and "mem h' (lim h) = mem h (lim h)"
    and "foot h x \<subseteq> {..<lim h} \<Longrightarrow> view h' y = view h x"
    and "foot h x \<subseteq> {..<lim h} \<Longrightarrow> foot h' y \<subseteq> {lim h<..<lim h'}"
proof -
  let ?h = "h\<lparr>lim := Suc (lim h)\<rparr>"
  have same: "view ?h x = view h x" "foot ?h x = foot h x"
    using view_local [of h x ?h] foot_local [of h x ?h] by simp_all
  have frame: "Suc (lim h) \<le> lim h'" "agree {..<Suc (lim h)} h h'"
    using copy_frame [OF assms] by simp_all
  then show "lim h < lim h'" "agree {..<lim h} h h'" "mem h' (lim h) = mem h (lim h)"
    by (auto simp: agree_def)
  assume foot: "foot h x \<subseteq> {..<lim h}"
  have le: "foot ?h x \<subseteq> {..<lim ?h}" unfolding same(2) using foot by auto
  show "view h' y = view h x" using copy_view [OF assms le] by (simp add: same)
  show "foot h' y \<subseteq> {lim h<..<lim h'}" using copy_foot [OF assms le] by fastforce
qed

lemma reserved: "deep_copy view foot (\<lambda>x h. copy x (snd (reserve h)))"
proof
  fix h h' :: "'c heap" and x y
  show "view h' x = view h x" "foot h' x = foot h x" if "agree (foot h x) h h'"
    by (rule view_local [OF that], rule foot_local [OF that])
  assume "copy x (snd (reserve h)) = (y, h')"
  then have run: "copy x (h\<lparr>lim := Suc (lim h)\<rparr>) = (y, h')" by (simp add: reserve_def)
  note r = after_reserve [OF run]
  show "lim h \<le> lim h' \<and> agree {..<lim h} h h'" using r(1,2) by simp
  assume foot: "foot h x \<subseteq> {..<lim h}"
  show "view h' y = view h x" by (rule r(4) [OF foot])
  show "foot h' y \<subseteq> {lim h..<lim h'}" using r(5) [OF foot] by fastforce
qed

text \<open>The copy behind a test for nil.\<close>

lemma unless_nil:
  assumes "\<And>h. foot h n = {}"
  shows "deep_copy view foot (\<lambda>x h. if x \<noteq> n then copy x h else (x, h))"
proof
  fix h h' :: "'c heap" and x y
  show "view h' x = view h x" "foot h' x = foot h x" if "agree (foot h x) h h'"
    by (rule view_local [OF that], rule foot_local [OF that])
  assume "(if x \<noteq> n then copy x h else (x, h)) = (y, h')"
  then consider "copy x h = (y, h')" | "x = n" "y = n" "h' = h" by (auto split: if_splits)
  note run = this
  show "lim h \<le> lim h' \<and> agree {..<lim h} h h'"
    using run by cases (use copy_frame in simp_all)
  assume foot: "foot h x \<subseteq> {..<lim h}"
  show "view h' y = view h x" using run by cases (use copy_view [OF _ foot] in simp_all)
  show "foot h' y \<subseteq> {lim h..<lim h'}" using run by cases (use copy_foot [OF _ foot] assms in simp_all)
qed

lemma ptr:
  assumes rd_mk: "\<And>x. rd (mk x) = x"
  shows "deep_copy (view_ptr rd view) (foot_ptr rd foot) (copy_new rd mk copy)"
proof (unfold_locales)
  fix h h' :: "'c heap" and x :: ptr
  assume *: "agree (foot_ptr rd foot h x) h h'"
  show "view_ptr rd view h' x = view_ptr rd view h x"
    using * by (cases x) (auto dest: view_local)
  show "foot_ptr rd foot h' x = foot_ptr rd foot h x"
    using * by (cases x) (auto dest: foot_local)
next
  fix h h' :: "'c heap" and x y :: ptr
  assume run: "copy_new rd mk copy x h = (y, h')"
  show "lim h \<le> lim h' \<and> agree {..<lim h} h h'"
    using run by (cases x) (auto simp: Let_def reserve_def split: prod.splits
        dest: after_reserve(1,2) intro: less_imp_le)
  assume foot: "foot_ptr rd foot h x \<subseteq> {..<lim h}"
  have "view_ptr rd view h' y = view_ptr rd view h x \<and> foot_ptr rd foot h' y \<subseteq> {lim h..<lim h'}"
  proof (cases x)
    case (Some a)
    with run obtain z h2 where into: "copy (rd (mem h a)) (h\<lparr>lim := Suc (lim h)\<rparr>) = (z, h2)"
      and y: "y = Some (lim h)" and h': "h' = store (lim h) (mk z) h2"
      by (auto simp: Let_def reserve_def split: prod.splits)
    note r = after_reserve [OF into]
    have z: "view h2 z = view h (rd (mem h a))" "foot h2 z \<subseteq> {lim h<..<lim h2}"
      using foot r(4,5) by (auto simp: Some)
    then have "lim h \<notin> foot h2 z" by auto
    then have "agree (foot h2 z) h2 h'" by (simp add: h')
    then show ?thesis
      using z r(1) view_local [of h2 z h'] foot_local [of h2 z h'] by (auto simp: Some y h' rd_mk)
  qed (use run in simp)
  then show "view_ptr rd view h' y = view_ptr rd view h x" "foot_ptr rd foot h' y \<subseteq> {lim h..<lim h'}"
    by blast+
qed

end

section \<open>One copy after another\<close>

locale two_copies = a: deep_copy view1 foot1 copy1 + b: deep_copy view2 foot2 copy2
  for view1 :: "'c heap \<Rightarrow> 'a \<Rightarrow> 'v" and foot1 :: "'c heap \<Rightarrow> 'a \<Rightarrow> addr set"
    and copy1 :: "'a \<Rightarrow> 'c heap \<Rightarrow> 'a \<times> 'c heap"
    and view2 :: "'c heap \<Rightarrow> 'b \<Rightarrow> 'w" and foot2 :: "'c heap \<Rightarrow> 'b \<Rightarrow> addr set"
    and copy2 :: "'b \<Rightarrow> 'c heap \<Rightarrow> 'b \<times> 'c heap"
begin

lemma frame:
  assumes "copy1 x h = (x', h1)" and "copy2 y h1 = (y', h2)"
  shows "lim h \<le> lim h2" and "agree {..<lim h} h h2"
proof -
  have le: "lim h \<le> lim h1" by (rule a.grows [OF assms(1)])
  then show "lim h \<le> lim h2" using b.grows [OF assms(2)] by simp
  have "agree {..<lim h} h1 h2" using le by (intro b.agrees [OF assms(2)]) simp
  then show "agree {..<lim h} h h2" by (rule agree_trans [OF a.agrees [OF assms(1) order_refl]])
qed

lemma both:
  assumes run: "copy1 x h = (x', h1)" "copy2 y h1 = (y', h2)"
    and "foot1 h x \<subseteq> {..<lim h}" and "foot2 h y \<subseteq> {..<lim h}"
  shows "view1 h2 x' = view1 h x" and "view2 h2 y' = view2 h y"
    and "foot1 h2 x' \<subseteq> {lim h..<lim h2}" and "foot2 h2 y' \<subseteq> {lim h..<lim h2}"
proof -
  have le: "lim h \<le> lim h1" "lim h1 \<le> lim h2" using a.grows [OF run(1)] b.grows [OF run(2)] by simp_all
  have y: "view2 h1 y = view2 h y" "foot2 h1 y = foot2 h y"
    using b.kept [OF a.agrees [OF run(1) order_refl] assms(4)] by simp_all
  have y': "foot2 h1 y \<subseteq> {..<lim h1}" using assms(4) le by (auto simp: y)
  have x': "foot1 h1 x' \<subseteq> {lim h..<lim h1}" by (rule a.copy_foot [OF run(1) assms(3)])
  then have x'': "foot1 h1 x' \<subseteq> {..<lim h1}" by auto
  note kept = a.kept [OF b.agrees [OF run(2) order_refl] x'']
  show "view1 h2 x' = view1 h x" using kept(1) a.copy_view [OF run(1) assms(3)] by simp
  show "view2 h2 y' = view2 h y" using b.copy_view [OF run(2) y'] y by simp
  show "foot1 h2 x' \<subseteq> {lim h..<lim h2}" using x' le unfolding kept(2) by fastforce
  show "foot2 h2 y' \<subseteq> {lim h..<lim h2}" using b.copy_foot [OF run(2) y'] le by fastforce
qed

end

text \<open>Two fields.\<close>

definition copy_pair ::
  "('a \<Rightarrow> 'c heap \<Rightarrow> 'a \<times> 'c heap) \<Rightarrow> ('b \<Rightarrow> 'c heap \<Rightarrow> 'b \<times> 'c heap) \<Rightarrow> 'a \<times> 'b \<Rightarrow> 'c heap
     \<Rightarrow> ('a \<times> 'b) \<times> 'c heap" where
  "copy_pair c1 c2 p h = (let (x, h) = c1 (fst p) h; (y, h) = c2 (snd p) h in ((x, y), h))"

definition view_pair :: "('c heap \<Rightarrow> 'a \<Rightarrow> 'v) \<Rightarrow> ('c heap \<Rightarrow> 'b \<Rightarrow> 'w) \<Rightarrow> 'c heap \<Rightarrow> 'a \<times> 'b \<Rightarrow> 'v \<times> 'w" where
  "view_pair v1 v2 h p = (v1 h (fst p), v2 h (snd p))"

definition foot_pair :: "('c heap \<Rightarrow> 'a \<Rightarrow> addr set) \<Rightarrow> ('c heap \<Rightarrow> 'b \<Rightarrow> addr set) \<Rightarrow> 'c heap \<Rightarrow> 'a \<times> 'b \<Rightarrow> addr set" where
  "foot_pair f1 f2 h p = f1 h (fst p) \<union> f2 h (snd p)"

lemma deep_pair:
  assumes "deep_copy v1 f1 c1" and "deep_copy v2 f2 c2"
  shows "deep_copy (view_pair v1 v2) (foot_pair f1 f2) (copy_pair c1 c2)"
proof
  note two = two_copies.intro [OF assms]
  fix h h' x y
  have same: "view_pair v1 v2 h' x = view_pair v1 v2 h x \<and> foot_pair f1 f2 h' x = foot_pair f1 f2 h x"
    if "agree (foot_pair f1 f2 h x) h h'"
  proof -
    from that have "agree (f1 h (fst x)) h h'" "agree (f2 h (snd x)) h h'" by (simp_all add: foot_pair_def)
    note l = deep_copy.view_local [OF assms(1) this(1)] deep_copy.view_local [OF assms(2) this(2)]
      deep_copy.foot_local [OF assms(1) this(1)] deep_copy.foot_local [OF assms(2) this(2)]
    show ?thesis by (simp add: view_pair_def foot_pair_def l)
  qed
  then show "view_pair v1 v2 h' x = view_pair v1 v2 h x" "foot_pair f1 f2 h' x = foot_pair f1 f2 h x"
    if "agree (foot_pair f1 f2 h x) h h'"
    using that by simp_all
  assume "copy_pair c1 c2 x h = (y, h')"
  then obtain h1 where run: "c1 (fst x) h = (fst y, h1)" "c2 (snd x) h1 = (snd y, h')"
    by (auto simp: copy_pair_def split: prod.splits)
  show "lim h \<le> lim h' \<and> agree {..<lim h} h h'" using two_copies.frame [OF two run] by blast
  assume "foot_pair f1 f2 h x \<subseteq> {..<lim h}"
  then have "f1 h (fst x) \<subseteq> {..<lim h}" "f2 h (snd x) \<subseteq> {..<lim h}" by (simp_all add: foot_pair_def)
  note b = two_copies.both [OF two run this]
  show "view_pair v1 v2 h' y = view_pair v1 v2 h x" by (simp add: view_pair_def b(1,2))
  show "foot_pair f1 f2 h' y \<subseteq> {lim h..<lim h'}" using b(3,4) by (simp add: foot_pair_def)
qed

section \<open>Slices\<close>

definition foot_list :: "('c heap \<Rightarrow> 'a \<Rightarrow> addr set) \<Rightarrow> 'c heap \<Rightarrow> 'a list \<Rightarrow> addr set" where
  "foot_list foot h xs = (\<Union>x \<in> set xs. foot h x)"

definition view_slice :: "('c \<Rightarrow> 'a list) \<Rightarrow> ('c heap \<Rightarrow> 'a \<Rightarrow> 'v) \<Rightarrow> 'c heap \<Rightarrow> slice \<Rightarrow> 'v list option" where
  "view_slice rd view h s = map_option (\<lambda>w. map (view h) (elements rd h w)) s"

definition foot_slice :: "('c \<Rightarrow> 'a list) \<Rightarrow> ('c heap \<Rightarrow> 'a \<Rightarrow> addr set) \<Rightarrow> 'c heap \<Rightarrow> slice \<Rightarrow> addr set" where
  "foot_slice rd foot h s =
     (case s of None \<Rightarrow> {} | Some w \<Rightarrow> insert (sl_array w) (foot_list foot h (elements rd h w)))"

lemma foot_list_simps [simp]:
  "foot_list foot h [] = {}" "foot_list foot h (x # xs) = foot h x \<union> foot_list foot h xs"
  by (simp_all add: foot_list_def)

lemma elements_cong: "mem h' (sl_array w) = mem h (sl_array w) \<Longrightarrow> elements rd h' w = elements rd h w"
  by (simp add: elements_def)

lemma elements_whole: "rd (mem h p) = ys \<Longrightarrow> elements rd h \<lparr>sl_array = p, sl_off = 0, sl_len = length ys\<rparr> = ys"
  by (simp add: elements_def)

context deep_copy
begin

lemma list_local:
  assumes "agree (foot_list foot h xs) h h'"
  shows "map (view h') xs = map (view h) xs" and "foot_list foot h' xs = foot_list foot h xs"
proof -
  have each: "agree (foot h x) h h'" if "x \<in> set xs" for x
    using assms that by (auto simp: foot_list_def agree_def)
  show "map (view h') xs = map (view h) xs" using view_local [OF each] by simp
  show "foot_list foot h' xs = foot_list foot h xs" using foot_local [OF each] by (simp add: foot_list_def)
qed

lemma elems: "deep_copy (\<lambda>h. map (view h)) (foot_list foot) (copy_elems copy)"
proof
  fix h h' xs ys
  show "map (view h') xs = map (view h) xs" "foot_list foot h' xs = foot_list foot h xs"
    if "agree (foot_list foot h xs) h h'"
    using list_local [OF that] by simp_all
  assume run: "copy_elems copy xs h = (ys, h')"
  have all: "lim h \<le> lim h' \<and> agree {..<lim h} h h' \<and> (foot_list foot h xs \<subseteq> {..<lim h} \<longrightarrow>
      map (view h') ys = map (view h) xs \<and> foot_list foot h' ys \<subseteq> {lim h..<lim h'})"
    using run
  proof (induction xs arbitrary: h ys)
    case (Cons x xs)
    then obtain y zs h1 where x: "copy x h = (y, h1)" and xs: "copy_elems copy xs h1 = (zs, h')" and ys: "ys = y # zs"
      by (auto split: prod.splits)
    note IH = Cons.IH [OF xs]
    have le: "lim h \<le> lim h1" "lim h1 \<le> lim h'" and ag: "agree {..<lim h} h h1" "agree {..<lim h1} h1 h'"
      using copy_frame [OF x] IH by simp_all
    then have frame: "agree {..<lim h} h h'" by (auto intro: agree_trans agree_mono)
    have "map (view h') ys = map (view h) (x # xs) \<and> foot_list foot h' ys \<subseteq> {lim h..<lim h'}"
      if foot: "foot_list foot h (x # xs) \<subseteq> {..<lim h}"
    proof -
      have fx: "foot h x \<subseteq> {..<lim h}" and fxs: "foot_list foot h xs \<subseteq> {..<lim h}" using foot by simp_all
      have y: "view h1 y = view h x" "foot h1 y \<subseteq> {lim h..<lim h1}" by (rule copy_view [OF x fx], rule copy_foot [OF x fx])
      then have "agree (foot h1 y) h1 h'" using ag(2) by (fastforce elim: agree_mono)
      note y' = view_local [OF this] foot_local [OF this]
      have "agree (foot_list foot h xs) h h1" using ag(1) fxs by (rule agree_mono)
      note zs = list_local [OF this]
      have "foot_list foot h1 xs \<subseteq> {..<lim h1}" using fxs le(1) by (fastforce simp: zs)
      with IH have "map (view h') zs = map (view h1) xs" "foot_list foot h' zs \<subseteq> {lim h1..<lim h'}" by simp_all
      then show ?thesis using y y' zs le by (fastforce simp: ys)
    qed
    with frame le show ?case by simp
  qed simp
  then show "lim h \<le> lim h' \<and> agree {..<lim h} h h'" by blast
  assume "foot_list foot h xs \<subseteq> {..<lim h}"
  with all show "map (view h') ys = map (view h) xs" "foot_list foot h' ys \<subseteq> {lim h..<lim h'}" by blast+
qed

text \<open>The copy of a slice: an array cell of its own, then the elements.\<close>

lemma slice:
  assumes rd_mk: "\<And>xs. rd (mk xs) = xs"
  shows "deep_copy (view_slice rd view) (foot_slice rd foot) (copy_slice rd mk copy)"
proof
  fix h h' :: "'c heap" and x :: slice
  assume *: "agree (foot_slice rd foot h x) h h'"
  show "view_slice rd view h' x = view_slice rd view h x" "foot_slice rd foot h' x = foot_slice rd foot h x"
  proof (atomize (full), cases x)
    case (Some w)
    with * have w: "mem h' (sl_array w) = mem h (sl_array w)" "agree (foot_list foot h (elements rd h w)) h h'"
      by (simp_all add: foot_slice_def)
    show "view_slice rd view h' x = view_slice rd view h x \<and> foot_slice rd foot h' x = foot_slice rd foot h x"
      using list_local [OF w(2)] by (simp add: Some view_slice_def foot_slice_def elements_cong [OF w(1)])
  qed (simp add: view_slice_def foot_slice_def)
next
  fix h h' :: "'c heap" and x y :: slice
  assume run: "copy_slice rd mk copy x h = (y, h')"
  have all: "lim h \<le> lim h' \<and> agree {..<lim h} h h' \<and> (foot_slice rd foot h x \<subseteq> {..<lim h} \<longrightarrow>
      view_slice rd view h' y = view_slice rd view h x \<and> foot_slice rd foot h' y \<subseteq> {lim h..<lim h'})"
  proof (cases x)
    case (Some w)
    with run obtain ys h2 where elems: "copy_elems copy (elements rd h w) (h\<lparr>lim := Suc (lim h)\<rparr>) = (ys, h2)"
      and y: "y = Some \<lparr>sl_array = lim h, sl_off = 0, sl_len = length ys\<rparr>" and h': "h' = store (lim h) (mk ys) h2"
      by (auto simp: Let_def reserve_def copy_window_def elements_def split: prod.splits)
    note r = deep_copy.after_reserve [OF deep_copy.elems [OF deep_copy_axioms] elems]
    have ys: "elements rd h' (the y) = ys" by (simp add: y h' elements_whole rd_mk)
    have "view_slice rd view h' y = view_slice rd view h x \<and> foot_slice rd foot h' y \<subseteq> {lim h..<lim h'}"
      if "foot_slice rd foot h x \<subseteq> {..<lim h}"
    proof -
      have foot: "foot_list foot h (elements rd h w) \<subseteq> {..<lim h}" using that by (simp add: Some foot_slice_def)
      note v = r(4,5) [OF foot]
      then have "lim h \<notin> foot_list foot h2 ys" by auto
      then have "agree (foot_list foot h2 ys) h2 h'" by (simp add: h')
      note l = list_local [OF this]
      have "view_slice rd view h' y = Some (map (view h') ys)" "foot_slice rd foot h' y = insert (lim h) (foot_list foot h' ys)"
        using ys by (simp_all add: y view_slice_def foot_slice_def)
      then show ?thesis using v l r(1) by (auto simp: Some view_slice_def h')
    qed
    then show ?thesis using r(1,2) by (simp add: h')
  qed (use run in \<open>simp add: view_slice_def foot_slice_def\<close>)
  then show "lim h \<le> lim h' \<and> agree {..<lim h} h h'" by blast
  assume "foot_slice rd foot h x \<subseteq> {..<lim h}"
  with all show "view_slice rd view h' y = view_slice rd view h x" "foot_slice rd foot h' y \<subseteq> {lim h..<lim h'}"
    by blast+
qed

end

section \<open>Structs\<close>

text \<open>
  A struct is copied by \<^verbatim>\<open>*out = *in\<close>, which keeps the fields without pointers, and by a deep
  copy of the others: \<open>get\<close> reads those, \<open>put\<close> writes them, and the value of the struct is made
  of the rest and of their value.
\<close>

lemma deep_struct:
  assumes deep: "deep_copy v f c"
    and view: "\<And>h s. view h s = build (rest s) (v h (get s))"
    and foot: "\<And>h s. foot h s = f h (get s)"
    and copy: "\<And>s h. copy s h = (let (x, h') = c (get s) h in (put s x, h'))"
    and laws: "\<And>s x. get (put s x) = x" "\<And>s x. rest (put s x) = rest s"
  shows "deep_copy view foot copy"
proof
  fix h h' s t
  show "view h' s = view h s" "foot h' s = foot h s" if "agree (foot h s) h h'"
    using deep_copy.view_local [OF deep] deep_copy.foot_local [OF deep] that by (simp_all add: view foot)
  assume "copy s h = (t, h')"
  then have run: "c (get s) h = (get t, h')" and rest: "rest t = rest s"
    by (auto simp: copy laws split: prod.splits)
  show "lim h \<le> lim h' \<and> agree {..<lim h} h h'" by (rule deep_copy.copy_frame [OF deep run])
  assume "foot h s \<subseteq> {..<lim h}"
  then have le: "f h (get s) \<subseteq> {..<lim h}" by (simp add: foot)
  show "view h' t = view h s" by (simp add: view rest deep_copy.copy_view [OF deep run le])
  show "foot h' t \<subseteq> {lim h..<lim h'}" unfolding foot by (rule deep_copy.copy_foot [OF deep run le])
qed

end
