(* ===== verification/Deep_Copy.thy ===== *)
theory Deep_Copy
  imports Go_Heap Conduit_Types
begin

text \<open>
  Model of \<^verbatim>\<open>api/v1alpha/zz_generated.deepcopy.go\<close>: the copy functions of the resource types, on
  a heap, because they are about what is shared. Here a pointer field is an address and a slice a
  window into an array cell; a struct type is polymorphic in those fields, so that the same type
  also serves for the values that are read from the heap (\<open>'a option\<close> for a pointer,
  \<open>'a list option\<close> for a slice: nil and empty slices are different values, and a slice of
  pointers may have nil elements). The copy functions of \<^verbatim>\<open>k8s.io/api\<close> and
  \<^verbatim>\<open>k8s.io/apimachinery\<close> that the file calls are parameters with the contract of a deep copy.
\<close>

section \<open>Structs in memory\<close>

record mSecretKeySelector =
  ks_Name :: string
  ks_Key :: string
  ks_Optional :: ptr

record mSettingsVar =
  ms_Name :: string
  ms_Value :: string
  ms_SecretRef :: ptr
  ms_ConfigMapRef :: ptr

record mSchemaRegistry =
  mr_URL :: string
  mr_Username :: mSettingsVar
  mr_Password :: mSettingsVar
  mr_Token :: mSettingsVar

record mCondition =
  mc_Type :: ConditionType
  mc_Status :: ConditionStatus
  mc_Reason :: string
  mc_Message :: string
  mc_LastTransitionTime :: ptr

record 's gConditionSet =
  gt_main :: ConditionType
  gt_deps :: 's

record 's gProcessor =
  gp_ID :: string
  gp_Name :: string
  gp_Plugin :: string
  gp_ProcessorURL :: string
  gp_Condition :: string
  gp_Workers :: int
  gp_Settings :: 's

record ('s, 'p) gConnector =
  gk_ID :: string
  gk_Name :: string
  gk_Type :: string
  gk_Plugin :: string
  gk_PluginName :: string
  gk_PluginPkg :: string
  gk_PluginVersion :: string
  gk_Settings :: 's
  gk_Processors :: 'p

record ('b, 'r, 'k, 'p) gSpec =
  gs_ID :: string
  gs_Name :: string
  gs_Description :: string
  gs_Image :: string
  gs_Running :: 'b
  gs_Version :: string
  gs_Registry :: 'r
  gs_Connectors :: 'k
  gs_Processors :: 'p

record ('k, 't) gStatus =
  gu_ObservedGeneration :: int
  gu_Conditions :: 'k
  gu_UpdatedAt :: 't

record TypeMeta =
  tm_Kind :: string
  tm_APIVersion :: string

record ('m, 's, 't) gConduit =
  gd_TypeMeta :: TypeMeta
  gd_ObjectMeta :: 'm
  gd_Spec :: 's
  gd_Status :: 't

record ('m, 'i) gConduitList =
  gl_TypeMeta :: TypeMeta
  gl_ListMeta :: 'm
  gl_Items :: 'i

type_synonym mConditionSet = "slice gConditionSet"
type_synonym mProcessor = "slice gProcessor"
type_synonym mConnector = "(slice, slice) gConnector"
type_synonym mSpec = "(ptr, ptr, slice, slice) gSpec"
type_synonym mStatus = "(slice, ptr) gStatus"
type_synonym 'm mConduit = "('m, mSpec, mStatus) gConduit"
type_synonym 'l mConduitList = "('l, slice) gConduitList"

text \<open>
  One kind of cell per type that is allocated: structs behind pointers and arrays behind slices.
  Metadata (\<open>'m\<close>, \<open>'l\<close>) and what it points to (\<open>'x\<close>) belong to the library.
\<close>

datatype ('m, 'l, 'x) cell =
    BoolCell (bool_of: bool)
  | TimeCell (time_of: time)
  | SecretKeyCell (secret_of: mSecretKeySelector)
  | ConfigMapRefCell (ref_of: GlobalConfigMapRef)
  | SettingsVarCell (var_of: mSettingsVar)
  | SettingsCell (vars_of: "mSettingsVar list")
  | RegistryCell (registry_of: mSchemaRegistry)
  | ProcessorCell (processor_of: mProcessor)
  | ProcessorsCell (processors_of: "ptr list")
  | ConnectorCell (connector_of: mConnector)
  | ConnectorsCell (connectors_of: "ptr list")
  | ConditionCell (condition_of: mCondition)
  | ConditionsCell (conditions_of: "mCondition list")
  | ConditionTypesCell (types_of: "ConditionType list")
  | ConditionSetCell (condition_set_of: mConditionSet)
  | SpecCell (spec_of: mSpec)
  | StatusCell (status_of: mStatus)
  | ConduitCell (conduit_of: "'m mConduit")
  | ItemsCell (items_of: "'m mConduit list")
  | ConduitListCell (list_of: "'l mConduitList")
  | ForeignCell (foreign_of: 'x)

type_synonym ('m, 'l, 'x) memory = "('m, 'l, 'x) cell heap"
type_synonym ('a, 'm, 'l, 'x) copier = "'a \<Rightarrow> ('m, 'l, 'x) memory \<Rightarrow> 'a \<times> ('m, 'l, 'x) memory"

text \<open>The copy functions of the libraries.\<close>

record ('m, 'l, 'x) copy_lib =
  Time_DeepCopy :: "(ptr, 'm, 'l, 'x) copier"
  SecretKeySelector_DeepCopyInto :: "(mSecretKeySelector, 'm, 'l, 'x) copier"
  ObjectMeta_DeepCopyInto :: "('m, 'm, 'l, 'x) copier"
  ListMeta_DeepCopyInto :: "('l, 'm, 'l, 'x) copier"

section \<open>Copy functions\<close>

text \<open>
  A method \<^verbatim>\<open>DeepCopyInto(out)\<close> returns the struct it leaves in \<^verbatim>\<open>*out\<close>; a method \<^verbatim>\<open>DeepCopy\<close>
  of a pointer is nil for nil and otherwise a new cell with that struct.
\<close>

definition Condition_DeepCopyInto :: "('m, 'l, 'x) copy_lib \<Rightarrow> (mCondition, 'm, 'l, 'x) copier" where
  "Condition_DeepCopyInto L c h =
     (let (t, h) = (if mc_LastTransitionTime c \<noteq> None then Time_DeepCopy L (mc_LastTransitionTime c) h
                    else (mc_LastTransitionTime c, h))
      in (c\<lparr>mc_LastTransitionTime := t\<rparr>, h))"

definition Condition_DeepCopy :: "('m, 'l, 'x) copy_lib \<Rightarrow> (ptr, 'm, 'l, 'x) copier" where
  "Condition_DeepCopy L = copy_new condition_of ConditionCell (Condition_DeepCopyInto L)"

definition ConditionSet_DeepCopyInto :: "(mConditionSet, 'm, 'l, 'x) copier" where
  "ConditionSet_DeepCopyInto s h =
     (let (d, h) = copy_slice types_of ConditionTypesCell assign (gt_deps s) h in (s\<lparr>gt_deps := d\<rparr>, h))"

definition ConditionSet_DeepCopy :: "(ptr, 'm, 'l, 'x) copier" where
  "ConditionSet_DeepCopy = copy_new condition_set_of ConditionSetCell ConditionSet_DeepCopyInto"

text \<open>
  \<^verbatim>\<open>Conditions.DeepCopyInto\<close> makes a slice also for nil; \<^verbatim>\<open>Conditions.DeepCopy\<close> is nil for nil, and
  takes a cell for the slice header, which it returns by value.
\<close>

definition Conditions_DeepCopyInto :: "('m, 'l, 'x) copy_lib \<Rightarrow> (slice, 'm, 'l, 'x) copier" where
  "Conditions_DeepCopyInto L s h =
     (case s of
        None \<Rightarrow> (let (p, h) = reserve h
                 in (Some \<lparr>sl_array = p, sl_off = 0, sl_len = 0\<rparr>, store p (ConditionsCell []) h))
      | Some w \<Rightarrow>
          (let (w', h) = copy_window conditions_of ConditionsCell (Condition_DeepCopyInto L) w h in (Some w', h)))"

definition Conditions_DeepCopy :: "('m, 'l, 'x) copy_lib \<Rightarrow> (slice, 'm, 'l, 'x) copier" where
  "Conditions_DeepCopy L s h =
     (if s = None then (None, h) else let (out, h) = reserve h in Conditions_DeepCopyInto L s h)"

definition GlobalConfigMapRef_DeepCopyInto :: "(GlobalConfigMapRef, 'm, 'l, 'x) copier" where
  "GlobalConfigMapRef_DeepCopyInto r h = (r, h)"

definition GlobalConfigMapRef_DeepCopy :: "(ptr, 'm, 'l, 'x) copier" where
  "GlobalConfigMapRef_DeepCopy = copy_new ref_of ConfigMapRefCell GlobalConfigMapRef_DeepCopyInto"

definition SettingsVar_DeepCopyInto :: "('m, 'l, 'x) copy_lib \<Rightarrow> (mSettingsVar, 'm, 'l, 'x) copier" where
  "SettingsVar_DeepCopyInto L v h =
     (let (s, h) = copy_new secret_of SecretKeyCell (SecretKeySelector_DeepCopyInto L) (ms_SecretRef v) h;
          (r, h) = copy_new ref_of ConfigMapRefCell assign (ms_ConfigMapRef v) h
      in (v\<lparr>ms_SecretRef := s, ms_ConfigMapRef := r\<rparr>, h))"

definition SettingsVar_DeepCopy :: "('m, 'l, 'x) copy_lib \<Rightarrow> (ptr, 'm, 'l, 'x) copier" where
  "SettingsVar_DeepCopy L = copy_new var_of SettingsVarCell (SettingsVar_DeepCopyInto L)"

definition SchemaRegistry_DeepCopyInto :: "('m, 'l, 'x) copy_lib \<Rightarrow> (mSchemaRegistry, 'm, 'l, 'x) copier" where
  "SchemaRegistry_DeepCopyInto L r h =
     (let (u, h) = SettingsVar_DeepCopyInto L (mr_Username r) h;
          (p, h) = SettingsVar_DeepCopyInto L (mr_Password r) h;
          (t, h) = SettingsVar_DeepCopyInto L (mr_Token r) h
      in (r\<lparr>mr_Username := u, mr_Password := p, mr_Token := t\<rparr>, h))"

definition SchemaRegistry_DeepCopy :: "('m, 'l, 'x) copy_lib \<Rightarrow> (ptr, 'm, 'l, 'x) copier" where
  "SchemaRegistry_DeepCopy L = copy_new registry_of RegistryCell (SchemaRegistry_DeepCopyInto L)"

definition ConduitProcessor_DeepCopyInto :: "('m, 'l, 'x) copy_lib \<Rightarrow> (mProcessor, 'm, 'l, 'x) copier" where
  "ConduitProcessor_DeepCopyInto L p h =
     (let (s, h) = copy_slice vars_of SettingsCell (SettingsVar_DeepCopyInto L) (gp_Settings p) h
      in (p\<lparr>gp_Settings := s\<rparr>, h))"

definition ConduitProcessor_DeepCopy :: "('m, 'l, 'x) copy_lib \<Rightarrow> (ptr, 'm, 'l, 'x) copier" where
  "ConduitProcessor_DeepCopy L = copy_new processor_of ProcessorCell (ConduitProcessor_DeepCopyInto L)"

text \<open>In a slice of pointers a nil element stays nil, the others get a new cell.\<close>

definition ConduitConnector_DeepCopyInto :: "('m, 'l, 'x) copy_lib \<Rightarrow> (mConnector, 'm, 'l, 'x) copier" where
  "ConduitConnector_DeepCopyInto L k h =
     (let (s, h) = copy_slice vars_of SettingsCell (SettingsVar_DeepCopyInto L) (gk_Settings k) h;
          (p, h) = copy_slice processors_of ProcessorsCell
                     (copy_new processor_of ProcessorCell (ConduitProcessor_DeepCopyInto L)) (gk_Processors k) h
      in (k\<lparr>gk_Settings := s, gk_Processors := p\<rparr>, h))"

definition ConduitConnector_DeepCopy :: "('m, 'l, 'x) copy_lib \<Rightarrow> (ptr, 'm, 'l, 'x) copier" where
  "ConduitConnector_DeepCopy L = copy_new connector_of ConnectorCell (ConduitConnector_DeepCopyInto L)"

definition ConduitSpec_DeepCopyInto :: "('m, 'l, 'x) copy_lib \<Rightarrow> (mSpec, 'm, 'l, 'x) copier" where
  "ConduitSpec_DeepCopyInto L s h =
     (let (b, h) = copy_new bool_of BoolCell assign (gs_Running s) h;
          (r, h) = copy_new registry_of RegistryCell (SchemaRegistry_DeepCopyInto L) (gs_Registry s) h;
          (k, h) = copy_slice connectors_of ConnectorsCell
                     (copy_new connector_of ConnectorCell (ConduitConnector_DeepCopyInto L)) (gs_Connectors s) h;
          (p, h) = copy_slice processors_of ProcessorsCell
                     (copy_new processor_of ProcessorCell (ConduitProcessor_DeepCopyInto L)) (gs_Processors s) h
      in (s\<lparr>gs_Running := b, gs_Registry := r, gs_Connectors := k, gs_Processors := p\<rparr>, h))"

definition ConduitSpec_DeepCopy :: "('m, 'l, 'x) copy_lib \<Rightarrow> (ptr, 'm, 'l, 'x) copier" where
  "ConduitSpec_DeepCopy L = copy_new spec_of SpecCell (ConduitSpec_DeepCopyInto L)"

definition ConduitStatus_DeepCopyInto :: "('m, 'l, 'x) copy_lib \<Rightarrow> (mStatus, 'm, 'l, 'x) copier" where
  "ConduitStatus_DeepCopyInto L s h =
     (let (k, h) = copy_slice conditions_of ConditionsCell (Condition_DeepCopyInto L) (gu_Conditions s) h;
          (t, h) = (if gu_UpdatedAt s \<noteq> None then Time_DeepCopy L (gu_UpdatedAt s) h else (gu_UpdatedAt s, h))
      in (s\<lparr>gu_Conditions := k, gu_UpdatedAt := t\<rparr>, h))"

definition ConduitStatus_DeepCopy :: "('m, 'l, 'x) copy_lib \<Rightarrow> (ptr, 'm, 'l, 'x) copier" where
  "ConduitStatus_DeepCopy L = copy_new status_of StatusCell (ConduitStatus_DeepCopyInto L)"

definition Conduit_DeepCopyInto :: "('m, 'l, 'x) copy_lib \<Rightarrow> ('m mConduit, 'm, 'l, 'x) copier" where
  "Conduit_DeepCopyInto L c h =
     (let (m, h) = ObjectMeta_DeepCopyInto L (gd_ObjectMeta c) h;
          (s, h) = ConduitSpec_DeepCopyInto L (gd_Spec c) h;
          (t, h) = ConduitStatus_DeepCopyInto L (gd_Status c) h
      in (c\<lparr>gd_TypeMeta := gd_TypeMeta c, gd_ObjectMeta := m, gd_Spec := s, gd_Status := t\<rparr>, h))"

definition Conduit_DeepCopy :: "('m, 'l, 'x) copy_lib \<Rightarrow> (ptr, 'm, 'l, 'x) copier" where
  "Conduit_DeepCopy L = copy_new conduit_of ConduitCell (Conduit_DeepCopyInto L)"

definition ConduitList_DeepCopyInto :: "('m, 'l, 'x) copy_lib \<Rightarrow> ('l mConduitList, 'm, 'l, 'x) copier" where
  "ConduitList_DeepCopyInto L c h =
     (let (m, h) = ListMeta_DeepCopyInto L (gl_ListMeta c) h;
          (i, h) = copy_slice items_of ItemsCell (Conduit_DeepCopyInto L) (gl_Items c) h
      in (c\<lparr>gl_TypeMeta := gl_TypeMeta c, gl_ListMeta := m, gl_Items := i\<rparr>, h))"

definition ConduitList_DeepCopy :: "('m, 'l, 'x) copy_lib \<Rightarrow> (ptr, 'm, 'l, 'x) copier" where
  "ConduitList_DeepCopy L = copy_new list_of ConduitListCell (ConduitList_DeepCopyInto L)"

text \<open>
  A value of the interface type \<^verbatim>\<open>runtime.Object\<close> is nil or a type with a pointer, which may
  itself be nil; such an interface is not nil.
\<close>

datatype object_ref = ConduitRef ptr | ConduitListRef ptr

definition Conduit_DeepCopyObject ::
  "('m, 'l, 'x) copy_lib \<Rightarrow> ptr \<Rightarrow> ('m, 'l, 'x) memory \<Rightarrow> object_ref option \<times> ('m, 'l, 'x) memory" where
  "Conduit_DeepCopyObject L p h =
     (let (c, h) = Conduit_DeepCopy L p h in if c \<noteq> None then (Some (ConduitRef c), h) else (None, h))"

definition ConduitList_DeepCopyObject ::
  "('m, 'l, 'x) copy_lib \<Rightarrow> ptr \<Rightarrow> ('m, 'l, 'x) memory \<Rightarrow> object_ref option \<times> ('m, 'l, 'x) memory" where
  "ConduitList_DeepCopyObject L p h =
     (let (c, h) = ConduitList_DeepCopy L p h in if c \<noteq> None then (Some (ConduitListRef c), h) else (None, h))"

section \<open>Values and footprints\<close>

text \<open>The value a struct stands for, and the addresses it is read from, type by type.\<close>

abbreviation plain_view :: "'c heap \<Rightarrow> 'a \<Rightarrow> 'a" where
  "plain_view \<equiv> \<lambda>h x. x"

definition view_secret :: "('m, 'l, 'x) memory \<Rightarrow> mSecretKeySelector \<Rightarrow> SecretKeySelector" where
  "view_secret h s =
     \<lparr>sk_Name = ks_Name s, sk_Key = ks_Key s, sk_Optional = view_ptr bool_of plain_view h (ks_Optional s)\<rparr>"

definition foot_secret :: "('m, 'l, 'x) memory \<Rightarrow> mSecretKeySelector \<Rightarrow> addr set" where
  "foot_secret h s = foot_ptr bool_of no_foot h (ks_Optional s)"

definition view_var :: "('m, 'l, 'x) memory \<Rightarrow> mSettingsVar \<Rightarrow> SettingsVar" where
  "view_var h v =
     \<lparr>sv_Name = ms_Name v, sv_Value = ms_Value v,
      sv_SecretRef = view_ptr secret_of view_secret h (ms_SecretRef v),
      sv_ConfigMapRef = view_ptr ref_of plain_view h (ms_ConfigMapRef v)\<rparr>"

definition foot_var :: "('m, 'l, 'x) memory \<Rightarrow> mSettingsVar \<Rightarrow> addr set" where
  "foot_var h v = foot_ptr secret_of foot_secret h (ms_SecretRef v) \<union> foot_ptr ref_of no_foot h (ms_ConfigMapRef v)"

definition view_registry :: "('m, 'l, 'x) memory \<Rightarrow> mSchemaRegistry \<Rightarrow> SchemaRegistry" where
  "view_registry h r =
     \<lparr>sr_URL = mr_URL r, sr_Username = view_var h (mr_Username r), sr_Password = view_var h (mr_Password r),
      sr_Token = view_var h (mr_Token r)\<rparr>"

definition foot_registry :: "('m, 'l, 'x) memory \<Rightarrow> mSchemaRegistry \<Rightarrow> addr set" where
  "foot_registry h r = foot_var h (mr_Username r) \<union> (foot_var h (mr_Password r) \<union> foot_var h (mr_Token r))"

definition view_condition :: "('m, 'l, 'x) memory \<Rightarrow> mCondition \<Rightarrow> Condition" where
  "view_condition h c =
     \<lparr>cType = mc_Type c, cStatus = mc_Status c, cReason = mc_Reason c, cMessage = mc_Message c,
      cLastTransitionTime = view_ptr time_of plain_view h (mc_LastTransitionTime c)\<rparr>"

definition foot_condition :: "('m, 'l, 'x) memory \<Rightarrow> mCondition \<Rightarrow> addr set" where
  "foot_condition h c = foot_ptr time_of no_foot h (mc_LastTransitionTime c)"

type_synonym vProcessor = "SettingsVar list option gProcessor"
type_synonym vConnector = "(SettingsVar list option, vProcessor option list option) gConnector"
type_synonym vSpec =
  "(bool option, SchemaRegistry option, vConnector option list option, vProcessor option list option) gSpec"
type_synonym vStatus = "(Condition list option, time option) gStatus"
type_synonym 'mv vConduit = "('mv, vSpec, vStatus) gConduit"
type_synonym ('mv, 'lv) vConduitList = "('lv, 'mv vConduit list option) gConduitList"

definition view_condition_set :: "('m, 'l, 'x) memory \<Rightarrow> mConditionSet \<Rightarrow> ConditionType list option gConditionSet" where
  "view_condition_set h s = \<lparr>gt_main = gt_main s, gt_deps = view_slice types_of plain_view h (gt_deps s)\<rparr>"

definition foot_condition_set :: "('m, 'l, 'x) memory \<Rightarrow> mConditionSet \<Rightarrow> addr set" where
  "foot_condition_set h s = foot_slice types_of no_foot h (gt_deps s)"

definition view_processor :: "('m, 'l, 'x) memory \<Rightarrow> mProcessor \<Rightarrow> vProcessor" where
  "view_processor h p =
     \<lparr>gp_ID = gp_ID p, gp_Name = gp_Name p, gp_Plugin = gp_Plugin p, gp_ProcessorURL = gp_ProcessorURL p,
      gp_Condition = gp_Condition p, gp_Workers = gp_Workers p,
      gp_Settings = view_slice vars_of view_var h (gp_Settings p)\<rparr>"

definition foot_processor :: "('m, 'l, 'x) memory \<Rightarrow> mProcessor \<Rightarrow> addr set" where
  "foot_processor h p = foot_slice vars_of foot_var h (gp_Settings p)"

abbreviation "view_processors \<equiv> view_slice processors_of (view_ptr processor_of view_processor)"
abbreviation "foot_processors \<equiv> foot_slice processors_of (foot_ptr processor_of foot_processor)"

definition view_connector :: "('m, 'l, 'x) memory \<Rightarrow> mConnector \<Rightarrow> vConnector" where
  "view_connector h k =
     \<lparr>gk_ID = gk_ID k, gk_Name = gk_Name k, gk_Type = gk_Type k, gk_Plugin = gk_Plugin k,
      gk_PluginName = gk_PluginName k, gk_PluginPkg = gk_PluginPkg k, gk_PluginVersion = gk_PluginVersion k,
      gk_Settings = view_slice vars_of view_var h (gk_Settings k),
      gk_Processors = view_processors h (gk_Processors k)\<rparr>"

definition foot_connector :: "('m, 'l, 'x) memory \<Rightarrow> mConnector \<Rightarrow> addr set" where
  "foot_connector h k = foot_slice vars_of foot_var h (gk_Settings k) \<union> foot_processors h (gk_Processors k)"

abbreviation "view_connectors \<equiv> view_slice connectors_of (view_ptr connector_of view_connector)"
abbreviation "foot_connectors \<equiv> foot_slice connectors_of (foot_ptr connector_of foot_connector)"

definition view_spec :: "('m, 'l, 'x) memory \<Rightarrow> mSpec \<Rightarrow> vSpec" where
  "view_spec h s =
     \<lparr>gs_ID = gs_ID s, gs_Name = gs_Name s, gs_Description = gs_Description s, gs_Image = gs_Image s,
      gs_Running = view_ptr bool_of plain_view h (gs_Running s), gs_Version = gs_Version s,
      gs_Registry = view_ptr registry_of view_registry h (gs_Registry s),
      gs_Connectors = view_connectors h (gs_Connectors s), gs_Processors = view_processors h (gs_Processors s)\<rparr>"

definition foot_spec :: "('m, 'l, 'x) memory \<Rightarrow> mSpec \<Rightarrow> addr set" where
  "foot_spec h s = foot_ptr bool_of no_foot h (gs_Running s) \<union> (foot_ptr registry_of foot_registry h (gs_Registry s)
     \<union> (foot_connectors h (gs_Connectors s) \<union> foot_processors h (gs_Processors s)))"

definition view_status :: "('m, 'l, 'x) memory \<Rightarrow> mStatus \<Rightarrow> vStatus" where
  "view_status h s =
     \<lparr>gu_ObservedGeneration = gu_ObservedGeneration s,
      gu_Conditions = view_slice conditions_of view_condition h (gu_Conditions s),
      gu_UpdatedAt = view_ptr time_of plain_view h (gu_UpdatedAt s)\<rparr>"

definition foot_status :: "('m, 'l, 'x) memory \<Rightarrow> mStatus \<Rightarrow> addr set" where
  "foot_status h s =
     foot_slice conditions_of foot_condition h (gu_Conditions s) \<union> foot_ptr time_of no_foot h (gu_UpdatedAt s)"

text \<open>Reading the metadata is given by the library, \<open>mv\<close> and \<open>mf\<close>, \<open>lv\<close> and \<open>lf\<close>.\<close>

definition view_conduit ::
  "(('m, 'l, 'x) memory \<Rightarrow> 'm \<Rightarrow> 'mv) \<Rightarrow> ('m, 'l, 'x) memory \<Rightarrow> 'm mConduit \<Rightarrow> 'mv vConduit" where
  "view_conduit mv h c =
     \<lparr>gd_TypeMeta = gd_TypeMeta c, gd_ObjectMeta = mv h (gd_ObjectMeta c), gd_Spec = view_spec h (gd_Spec c),
      gd_Status = view_status h (gd_Status c)\<rparr>"

definition foot_conduit ::
  "(('m, 'l, 'x) memory \<Rightarrow> 'm \<Rightarrow> addr set) \<Rightarrow> ('m, 'l, 'x) memory \<Rightarrow> 'm mConduit \<Rightarrow> addr set" where
  "foot_conduit mf h c = mf h (gd_ObjectMeta c) \<union> (foot_spec h (gd_Spec c) \<union> foot_status h (gd_Status c))"

definition view_list ::
  "(('m, 'l, 'x) memory \<Rightarrow> 'm \<Rightarrow> 'mv) \<Rightarrow> (('m, 'l, 'x) memory \<Rightarrow> 'l \<Rightarrow> 'lv) \<Rightarrow> ('m, 'l, 'x) memory
     \<Rightarrow> 'l mConduitList \<Rightarrow> ('mv, 'lv) vConduitList" where
  "view_list mv lv h c =
     \<lparr>gl_TypeMeta = gl_TypeMeta c, gl_ListMeta = lv h (gl_ListMeta c),
      gl_Items = view_slice items_of (view_conduit mv) h (gl_Items c)\<rparr>"

definition foot_conduits ::
  "(('m, 'l, 'x) memory \<Rightarrow> 'm \<Rightarrow> addr set) \<Rightarrow> (('m, 'l, 'x) memory \<Rightarrow> 'l \<Rightarrow> addr set) \<Rightarrow> ('m, 'l, 'x) memory
     \<Rightarrow> 'l mConduitList \<Rightarrow> addr set" where
  "foot_conduits mf lf h c = lf h (gl_ListMeta c) \<union> foot_slice items_of (foot_conduit mf) h (gl_Items c)"

section \<open>Contracts\<close>

text \<open>Types whose copies call no library.\<close>

lemmas struct_simps = view_pair_def foot_pair_def copy_pair_def fun_eq_iff

lemma deep_bool: "deep_copy (view_ptr bool_of plain_view) (foot_ptr bool_of no_foot) (copy_new bool_of BoolCell assign)"
  by (rule plain.ptr) simp

lemma deep_ref: "deep_copy (view_ptr ref_of plain_view) (foot_ptr ref_of no_foot) (copy_new ref_of ConfigMapRefCell assign)"
  by (rule plain.ptr) simp

lemma deep_types:
  "deep_copy (view_slice types_of plain_view) (foot_slice types_of no_foot) (copy_slice types_of ConditionTypesCell assign)"
  by (rule plain.slice) simp

interpretation condition_set: deep_copy view_condition_set foot_condition_set ConditionSet_DeepCopyInto
  by (rule deep_struct [OF deep_types, where get = gt_deps and put = "\<lambda>s d. s\<lparr>gt_deps := d\<rparr>"
        and rest = gt_main and build = "\<lambda>m d. \<lparr>gt_main = m, gt_deps = d\<rparr>"])
    (simp_all add: view_condition_set_def foot_condition_set_def ConditionSet_DeepCopyInto_def)

text \<open>
  What the copies of the libraries promise: each is a deep copy. The copies of the resource types
  then are, too.
\<close>

locale library_copies =
  fixes L :: "('m, 'l, 'x) copy_lib"
    and mv :: "('m, 'l, 'x) memory \<Rightarrow> 'm \<Rightarrow> 'mv" and mf :: "('m, 'l, 'x) memory \<Rightarrow> 'm \<Rightarrow> addr set"
    and lv :: "('m, 'l, 'x) memory \<Rightarrow> 'l \<Rightarrow> 'lv" and lf :: "('m, 'l, 'x) memory \<Rightarrow> 'l \<Rightarrow> addr set"
  assumes time: "deep_copy (view_ptr time_of plain_view) (foot_ptr time_of no_foot) (Time_DeepCopy L)"
    and secret: "deep_copy view_secret foot_secret (SecretKeySelector_DeepCopyInto L)"
    and object_meta: "deep_copy mv mf (ObjectMeta_DeepCopyInto L)"
    and list_meta: "deep_copy lv lf (ListMeta_DeepCopyInto L)"
begin

text \<open>The test for nil before the call of \<^verbatim>\<open>Time.DeepCopy\<close>.\<close>

lemma time_field:
  "deep_copy (view_ptr time_of plain_view) (foot_ptr time_of no_foot)
     (\<lambda>t h. if t \<noteq> None then Time_DeepCopy L t h else (t, h))"
  by (rule deep_copy.unless_nil [OF time]) simp

lemma condition: "deep_copy view_condition foot_condition (Condition_DeepCopyInto L)"
  by (rule deep_struct [OF time_field, where get = mc_LastTransitionTime and put = "\<lambda>c t. c\<lparr>mc_LastTransitionTime := t\<rparr>"
        and rest = "\<lambda>c. (mc_Type c, mc_Status c, mc_Reason c, mc_Message c)"
        and build = "\<lambda>(t, s, r, m) l. \<lparr>cType = t, cStatus = s, cReason = r, cMessage = m, cLastTransitionTime = l\<rparr>"])
    (simp_all add: view_condition_def foot_condition_def Condition_DeepCopyInto_def)

lemma var: "deep_copy view_var foot_var (SettingsVar_DeepCopyInto L)"
proof -
  have s: "deep_copy (view_ptr secret_of view_secret) (foot_ptr secret_of foot_secret)
      (copy_new secret_of SecretKeyCell (SecretKeySelector_DeepCopyInto L))"
    by (rule deep_copy.ptr [OF secret]) simp
  show ?thesis
    by (rule deep_struct [OF deep_pair [OF s deep_ref], where get = "\<lambda>v. (ms_SecretRef v, ms_ConfigMapRef v)"
        and put = "\<lambda>v p. v\<lparr>ms_SecretRef := fst p, ms_ConfigMapRef := snd p\<rparr>"
        and rest = "\<lambda>v. (ms_Name v, ms_Value v)"
        and build = "\<lambda>(n, v) p. \<lparr>sv_Name = n, sv_Value = v, sv_SecretRef = fst p, sv_ConfigMapRef = snd p\<rparr>"])
      (simp_all add: view_var_def foot_var_def SettingsVar_DeepCopyInto_def struct_simps split: prod.splits)
qed

lemma registry: "deep_copy view_registry foot_registry (SchemaRegistry_DeepCopyInto L)"
  by (rule deep_struct [OF deep_pair [OF var deep_pair [OF var var]],
        where get = "\<lambda>r. (mr_Username r, mr_Password r, mr_Token r)"
        and put = "\<lambda>r p. r\<lparr>mr_Username := fst p, mr_Password := fst (snd p), mr_Token := snd (snd p)\<rparr>"
        and rest = mr_URL
        and build = "\<lambda>u p. \<lparr>sr_URL = u, sr_Username = fst p, sr_Password = fst (snd p), sr_Token = snd (snd p)\<rparr>"])
    (simp_all add: view_registry_def foot_registry_def SchemaRegistry_DeepCopyInto_def struct_simps split: prod.splits)

lemma settings:
  "deep_copy (view_slice vars_of view_var) (foot_slice vars_of foot_var)
     (copy_slice vars_of SettingsCell (SettingsVar_DeepCopyInto L))"
  by (rule deep_copy.slice [OF var]) simp

lemma processor: "deep_copy view_processor foot_processor (ConduitProcessor_DeepCopyInto L)"
  by (rule deep_struct [OF settings, where get = gp_Settings and put = "\<lambda>p s. p\<lparr>gp_Settings := s\<rparr>"
        and rest = "\<lambda>p. p\<lparr>gp_Settings := None\<rparr>"
        and build = "\<lambda>p s. \<lparr>gp_ID = gp_ID p, gp_Name = gp_Name p, gp_Plugin = gp_Plugin p,
          gp_ProcessorURL = gp_ProcessorURL p, gp_Condition = gp_Condition p, gp_Workers = gp_Workers p, gp_Settings = s\<rparr>"])
    (simp_all add: view_processor_def foot_processor_def ConduitProcessor_DeepCopyInto_def)

lemma processors:
  "deep_copy view_processors foot_processors (copy_slice processors_of ProcessorsCell
     (copy_new processor_of ProcessorCell (ConduitProcessor_DeepCopyInto L)))"
  by (rule deep_copy.slice [OF deep_copy.ptr [OF processor]]) simp_all

lemma connector: "deep_copy view_connector foot_connector (ConduitConnector_DeepCopyInto L)"
  by (rule deep_struct [OF deep_pair [OF settings processors], where get = "\<lambda>k. (gk_Settings k, gk_Processors k)"
        and put = "\<lambda>k p. k\<lparr>gk_Settings := fst p, gk_Processors := snd p\<rparr>"
        and rest = "\<lambda>k. k\<lparr>gk_Settings := None, gk_Processors := None\<rparr>"
        and build = "\<lambda>k p. \<lparr>gk_ID = gk_ID k, gk_Name = gk_Name k, gk_Type = gk_Type k, gk_Plugin = gk_Plugin k,
          gk_PluginName = gk_PluginName k, gk_PluginPkg = gk_PluginPkg k, gk_PluginVersion = gk_PluginVersion k,
          gk_Settings = fst p, gk_Processors = snd p\<rparr>"])
    (simp_all add: view_connector_def foot_connector_def ConduitConnector_DeepCopyInto_def struct_simps split: prod.splits)

lemma connectors:
  "deep_copy view_connectors foot_connectors (copy_slice connectors_of ConnectorsCell
     (copy_new connector_of ConnectorCell (ConduitConnector_DeepCopyInto L)))"
  by (rule deep_copy.slice [OF deep_copy.ptr [OF connector]]) simp_all

lemma registry_ptr:
  "deep_copy (view_ptr registry_of view_registry) (foot_ptr registry_of foot_registry)
     (copy_new registry_of RegistryCell (SchemaRegistry_DeepCopyInto L))"
  by (rule deep_copy.ptr [OF registry]) simp

lemma spec: "deep_copy view_spec foot_spec (ConduitSpec_DeepCopyInto L)"
  by (rule deep_struct [OF deep_pair [OF deep_bool deep_pair [OF registry_ptr deep_pair [OF connectors processors]]],
        where get = "\<lambda>s. (gs_Running s, gs_Registry s, gs_Connectors s, gs_Processors s)"
        and put = "\<lambda>s p. s\<lparr>gs_Running := fst p, gs_Registry := fst (snd p), gs_Connectors := fst (snd (snd p)),
          gs_Processors := snd (snd (snd p))\<rparr>"
        and rest = "\<lambda>s. (gs_ID s, gs_Name s, gs_Description s, gs_Image s, gs_Version s)"
        and build = "\<lambda>(i, n, d, im, ve) p. \<lparr>gs_ID = i, gs_Name = n, gs_Description = d, gs_Image = im,
          gs_Running = fst p, gs_Version = ve, gs_Registry = fst (snd p), gs_Connectors = fst (snd (snd p)),
          gs_Processors = snd (snd (snd p))\<rparr>"])
    (simp_all add: view_spec_def foot_spec_def ConduitSpec_DeepCopyInto_def struct_simps split: prod.splits)

lemma conditions:
  "deep_copy (view_slice conditions_of view_condition) (foot_slice conditions_of foot_condition)
     (copy_slice conditions_of ConditionsCell (Condition_DeepCopyInto L))"
  by (rule deep_copy.slice [OF condition]) simp

lemma status: "deep_copy view_status foot_status (ConduitStatus_DeepCopyInto L)"
  by (rule deep_struct [OF deep_pair [OF conditions time_field], where get = "\<lambda>s. (gu_Conditions s, gu_UpdatedAt s)"
        and put = "\<lambda>s p. s\<lparr>gu_Conditions := fst p, gu_UpdatedAt := snd p\<rparr>" and rest = gu_ObservedGeneration
        and build = "\<lambda>g p. \<lparr>gu_ObservedGeneration = g, gu_Conditions = fst p, gu_UpdatedAt = snd p\<rparr>"])
    (simp_all add: view_status_def foot_status_def ConduitStatus_DeepCopyInto_def struct_simps split: prod.splits)

lemma conduit: "deep_copy (view_conduit mv) (foot_conduit mf) (Conduit_DeepCopyInto L)"
  by (rule deep_struct [OF deep_pair [OF object_meta deep_pair [OF spec status]],
        where get = "\<lambda>c. (gd_ObjectMeta c, gd_Spec c, gd_Status c)"
        and put = "\<lambda>c p. c\<lparr>gd_ObjectMeta := fst p, gd_Spec := fst (snd p), gd_Status := snd (snd p)\<rparr>"
        and rest = gd_TypeMeta
        and build = "\<lambda>t p. \<lparr>gd_TypeMeta = t, gd_ObjectMeta = fst p, gd_Spec = fst (snd p), gd_Status = snd (snd p)\<rparr>"])
    (simp_all add: view_conduit_def foot_conduit_def Conduit_DeepCopyInto_def struct_simps split: prod.splits)

lemma conduit_ptr:
  "deep_copy (view_ptr conduit_of (view_conduit mv)) (foot_ptr conduit_of (foot_conduit mf)) (Conduit_DeepCopy L)"
  unfolding Conduit_DeepCopy_def by (rule deep_copy.ptr [OF conduit]) simp

lemma items:
  "deep_copy (view_slice items_of (view_conduit mv)) (foot_slice items_of (foot_conduit mf))
     (copy_slice items_of ItemsCell (Conduit_DeepCopyInto L))"
  by (rule deep_copy.slice [OF conduit]) simp

lemma conduit_list: "deep_copy (view_list mv lv) (foot_conduits mf lf) (ConduitList_DeepCopyInto L)"
  by (rule deep_struct [OF deep_pair [OF list_meta items], where get = "\<lambda>c. (gl_ListMeta c, gl_Items c)"
        and put = "\<lambda>c p. c\<lparr>gl_ListMeta := fst p, gl_Items := snd p\<rparr>" and rest = gl_TypeMeta
        and build = "\<lambda>t p. \<lparr>gl_TypeMeta = t, gl_ListMeta = fst p, gl_Items = snd p\<rparr>"])
    (simp_all add: view_list_def foot_conduits_def ConduitList_DeepCopyInto_def struct_simps split: prod.splits)

lemma list_ptr:
  "deep_copy (view_ptr list_of (view_list mv lv)) (foot_ptr list_of (foot_conduits mf lf)) (ConduitList_DeepCopy L)"
  unfolding ConduitList_DeepCopy_def by (rule deep_copy.ptr [OF conduit_list]) simp

text \<open>\<^verbatim>\<open>Conditions.DeepCopy\<close>, with the cell for the slice header.\<close>

lemma conditions_value:
  "deep_copy (view_slice conditions_of view_condition) (foot_slice conditions_of foot_condition) (Conditions_DeepCopy L)"
proof -
  have eq: "Conditions_DeepCopy L = (\<lambda>s h. if s \<noteq> None
      then copy_slice conditions_of ConditionsCell (Condition_DeepCopyInto L) s (snd (reserve h)) else (s, h))"
    by (auto simp: Conditions_DeepCopy_def Conditions_DeepCopyInto_def fun_eq_iff reserve_def)
  show ?thesis
    unfolding eq by (rule deep_copy.unless_nil [OF deep_copy.reserved [OF conditions]]) (simp add: foot_slice_def)
qed

text \<open>The copies of pointers.\<close>

lemma ptrs:
  "deep_copy (view_ptr condition_of view_condition) (foot_ptr condition_of foot_condition) (Condition_DeepCopy L)"
  "deep_copy (view_ptr condition_set_of view_condition_set) (foot_ptr condition_set_of foot_condition_set)
     (ConditionSet_DeepCopy :: (ptr, 'm, 'l, 'x) copier)"
  "deep_copy (view_ptr ref_of plain_view) (foot_ptr ref_of no_foot) (GlobalConfigMapRef_DeepCopy :: (ptr, 'm, 'l, 'x) copier)"
  "deep_copy (view_ptr var_of view_var) (foot_ptr var_of foot_var) (SettingsVar_DeepCopy L)"
  "deep_copy (view_ptr registry_of view_registry) (foot_ptr registry_of foot_registry) (SchemaRegistry_DeepCopy L)"
  "deep_copy (view_ptr processor_of view_processor) (foot_ptr processor_of foot_processor) (ConduitProcessor_DeepCopy L)"
  "deep_copy (view_ptr connector_of view_connector) (foot_ptr connector_of foot_connector) (ConduitConnector_DeepCopy L)"
  "deep_copy (view_ptr spec_of view_spec) (foot_ptr spec_of foot_spec) (ConduitSpec_DeepCopy L)"
  "deep_copy (view_ptr status_of view_status) (foot_ptr status_of foot_status) (ConduitStatus_DeepCopy L)"
proof -
  have assign: "(GlobalConfigMapRef_DeepCopyInto :: (GlobalConfigMapRef, 'm, 'l, 'x) copier) = assign"
    by (simp add: fun_eq_iff GlobalConfigMapRef_DeepCopyInto_def assign_def)
  show "deep_copy (view_ptr ref_of plain_view) (foot_ptr ref_of no_foot) (GlobalConfigMapRef_DeepCopy :: (ptr, 'm, 'l, 'x) copier)"
    unfolding GlobalConfigMapRef_DeepCopy_def assign by (rule deep_ref)
qed (unfold Condition_DeepCopy_def ConditionSet_DeepCopy_def SettingsVar_DeepCopy_def SchemaRegistry_DeepCopy_def
    ConduitProcessor_DeepCopy_def ConduitConnector_DeepCopy_def ConduitSpec_DeepCopy_def ConduitStatus_DeepCopy_def,
  rule deep_copy.ptr [OF condition], simp, rule condition_set.ptr, simp, rule deep_copy.ptr [OF var], simp,
  rule registry_ptr, rule deep_copy.ptr [OF processor], simp, rule deep_copy.ptr [OF connector], simp,
  rule deep_copy.ptr [OF spec], simp, rule deep_copy.ptr [OF status], simp)

end

section \<open>A reference library\<close>

text \<open>
  Copy functions that keep the contract, on metadata with a name and labels; labels are a map
  behind a pointer.
\<close>

record mObjectMeta =
  mm_Name :: string
  mm_Labels :: ptr

definition meta_view :: "(mObjectMeta, 'l, 'x) memory \<Rightarrow> mObjectMeta \<Rightarrow> string \<times> 'x option" where
  "meta_view h m = (mm_Name m, view_ptr foreign_of plain_view h (mm_Labels m))"

definition meta_foot :: "(mObjectMeta, 'l, 'x) memory \<Rightarrow> mObjectMeta \<Rightarrow> addr set" where
  "meta_foot h m = foot_ptr foreign_of no_foot h (mm_Labels m)"

definition ref_copies :: "(mObjectMeta, string, 'x) copy_lib" where
  "ref_copies =
     \<lparr>Time_DeepCopy = copy_new time_of TimeCell assign,
      SecretKeySelector_DeepCopyInto = (\<lambda>s h.
        let (b, h) = copy_new bool_of BoolCell assign (ks_Optional s) h in (s\<lparr>ks_Optional := b\<rparr>, h)),
      ObjectMeta_DeepCopyInto = (\<lambda>m h.
        let (l, h) = copy_new foreign_of ForeignCell assign (mm_Labels m) h in (m\<lparr>mm_Labels := l\<rparr>, h)),
      ListMeta_DeepCopyInto = assign\<rparr>"

lemma ref_meta: "deep_copy meta_view meta_foot (ObjectMeta_DeepCopyInto ref_copies)"
proof -
  have l: "deep_copy (view_ptr foreign_of plain_view) (foot_ptr foreign_of no_foot) (copy_new foreign_of ForeignCell assign)"
    by (rule plain.ptr) simp
  show ?thesis
    by (rule deep_struct [OF l, where get = mm_Labels and put = "\<lambda>m l. m\<lparr>mm_Labels := l\<rparr>" and rest = mm_Name
        and build = Pair]) (simp_all add: meta_view_def meta_foot_def ref_copies_def)
qed

lemma ref_secret: "deep_copy view_secret foot_secret (SecretKeySelector_DeepCopyInto ref_copies)"
  by (rule deep_struct [OF deep_bool, where get = ks_Optional and put = "\<lambda>s b. s\<lparr>ks_Optional := b\<rparr>"
        and rest = "\<lambda>s. (ks_Name s, ks_Key s)" and build = "\<lambda>(n, k) b. \<lparr>sk_Name = n, sk_Key = k, sk_Optional = b\<rparr>"])
    (simp_all add: view_secret_def foot_secret_def ref_copies_def)

lemma ref_time: "deep_copy (view_ptr time_of plain_view) (foot_ptr time_of no_foot) (Time_DeepCopy ref_copies)"
  unfolding ref_copies_def by (simp add: plain.ptr)

lemma ref_list: "deep_copy plain_view no_foot (ListMeta_DeepCopyInto ref_copies)"
  unfolding ref_copies_def by (simp add: plain.deep_copy_axioms)

interpretation ref_copies: library_copies ref_copies meta_view meta_foot plain_view no_foot
  by (rule library_copies.intro [OF ref_time ref_secret ref_meta ref_list])

text \<open>Specification and status are copied one after the other.\<close>

interpretation ref_parts: two_copies view_spec foot_spec "ConduitSpec_DeepCopyInto ref_copies"
  view_status foot_status "ConduitStatus_DeepCopyInto ref_copies"
  by (rule two_copies.intro [OF ref_copies.spec ref_copies.status])

section \<open>Properties\<close>

text \<open>
  A resource in memory: a run state, no registry, one connector after a nil one, with one setting
  that refers to a secret, labels, and a status with one condition.
\<close>

definition demo_cells :: "(mObjectMeta, string, string \<rightharpoonup> string) cell list" where
  "demo_cells =
    [ConduitCell \<lparr>gd_TypeMeta = \<lparr>tm_Kind = ''Conduit'', tm_APIVersion = ''v1alpha''\<rparr>,
       gd_ObjectMeta = \<lparr>mm_Name = ''demo'', mm_Labels = Some 1\<rparr>,
       gd_Spec = \<lparr>gs_ID = ''p1'', gs_Name = [], gs_Description = [], gs_Image = [], gs_Running = Some 2,
         gs_Version = ''v0.13.0'', gs_Registry = None,
         gs_Connectors = Some \<lparr>sl_array = 3, sl_off = 0, sl_len = 2\<rparr>, gs_Processors = None\<rparr>,
       gd_Status = \<lparr>gu_ObservedGeneration = 1, gu_Conditions = Some \<lparr>sl_array = 7, sl_off = 1, sl_len = 1\<rparr>,
         gu_UpdatedAt = None\<rparr>\<rparr>,
     ForeignCell [''team'' \<mapsto> ''data''],
     BoolCell True,
     ConnectorsCell [None, Some 4],
     ConnectorCell \<lparr>gk_ID = ''c1'', gk_Name = [], gk_Type = ''source'', gk_Plugin = ''builtin:generator'',
       gk_PluginName = [], gk_PluginPkg = [], gk_PluginVersion = [],
       gk_Settings = Some \<lparr>sl_array = 5, sl_off = 0, sl_len = 1\<rparr>, gk_Processors = None\<rparr>,
     SettingsCell [\<lparr>ms_Name = ''key'', ms_Value = [], ms_SecretRef = Some 6, ms_ConfigMapRef = None\<rparr>],
     SecretKeyCell \<lparr>ks_Name = ''s'', ks_Key = ''k'', ks_Optional = Some 2\<rparr>,
     ConditionsCell [\<lparr>mc_Type = ''A'', mc_Status = ''True'', mc_Reason = [], mc_Message = [], mc_LastTransitionTime = None\<rparr>,
       \<lparr>mc_Type = ''Ready'', mc_Status = ''True'', mc_Reason = [], mc_Message = [], mc_LastTransitionTime = Some 8\<rparr>],
     TimeCell 42]"

definition demo_memory :: "(mObjectMeta, string, string \<rightharpoonup> string) memory" where
  "demo_memory = \<lparr>lim = length demo_cells, mem = (\<lambda>a. demo_cells ! a)\<rparr>"

lemmas foot_simps = foot_conduit_def foot_spec_def foot_status_def foot_connector_def foot_var_def foot_secret_def
  foot_condition_def meta_foot_def foot_slice_def no_foot_def elements_def foot_list_def

text \<open>
  C36: the copy of a resource stands for the same value as the original, every pointer followed
  and nil slices, empty slices and nil elements told apart; it shares no cell with anything that
  was in memory before, and nothing in memory was changed. The copy of nil is the nil interface,
  never an interface that holds a nil pointer.
\<close>

theorem Conduit_DeepCopy_roundtrip:
  assumes "library_copies L mv mf lv lf"
    and "foot_ptr conduit_of (foot_conduit mf) h p \<subseteq> {..<lim h}"
    and "Conduit_DeepCopyObject L p h = (ob, h')"
  shows "case p of
      None \<Rightarrow> ob = None \<and> h' = h
    | Some a \<Rightarrow> (\<exists>b. ob = Some (ConduitRef (Some b))
        \<and> view_conduit mv h' (conduit_of (mem h' b)) = view_conduit mv h (conduit_of (mem h a))
        \<and> foot_ptr conduit_of (foot_conduit mf) h' (Some b) \<inter> {..<lim h} = {}
        \<and> agree {..<lim h} h h')"
proof -
  obtain q h2 where run: "Conduit_DeepCopy L p h = (q, h2)" by fastforce
  note d = library_copies.conduit_ptr [OF assms(1)]
  note c = deep_copy.copy_view [OF d run assms(2)] deep_copy.copy_foot [OF d run assms(2)] deep_copy.copy_frame [OF d run]
  show ?thesis
  proof (cases p)
    case None
    then have "q = None" "h2 = h" using run by (simp_all add: Conduit_DeepCopy_def)
    then show ?thesis using assms(3) run by (simp add: Conduit_DeepCopyObject_def None)
  next
    case (Some a)
    with c(1) obtain b where b: "q = Some b" by (cases q) auto
    with assms(3) run have o: "ob = Some (ConduitRef (Some b))" "h' = h2" by (simp_all add: Conduit_DeepCopyObject_def)
    have "foot_ptr conduit_of (foot_conduit mf) h' (Some b) \<inter> {..<lim h} = {}" using c(2) by (fastforce simp: b o(2))
    then show ?thesis using c(1,3) by (simp add: Some b o)
  qed
qed

theorem Conduit_DeepCopy_roundtrip_witness:
  "\<exists>b h'. Conduit_DeepCopyObject ref_copies (Some 0) demo_memory = (Some (ConduitRef (Some b)), h')
     \<and> view_conduit meta_view h' (conduit_of (mem h' b)) = view_conduit meta_view demo_memory (conduit_of (demo_cells ! 0))"
proof -
  obtain ob h' where run: "Conduit_DeepCopyObject ref_copies (Some 0) demo_memory = (ob, h')" by fastforce
  have foot: "foot_ptr conduit_of (foot_conduit meta_foot) demo_memory (Some 0) \<subseteq> {..<lim demo_memory}"
    by (simp add: demo_memory_def demo_cells_def foot_simps)
  show ?thesis
    using Conduit_DeepCopy_roundtrip [OF ref_copies.library_copies_axioms foot run] run
    by (auto simp: demo_memory_def)
qed

text \<open>
  C37: after a list of resources was copied, whatever is done to the cells of the original, the
  copy keeps its value, and whatever is done to the cells of the copy, the original keeps its
  value. The same holds for a single resource.
\<close>

theorem copies_independent:
  assumes "library_copies L mv mf lv lf"
    and "foot_ptr list_of (foot_conduits mf lf) h p \<subseteq> {..<lim h}" and "ConduitList_DeepCopy L p h = (q, h')"
    and "foot_ptr conduit_of (foot_conduit mf) k c \<subseteq> {..<lim k}" and "Conduit_DeepCopy L c k = (d, k')"
  shows "(agree (- foot_ptr list_of (foot_conduits mf lf) h' p) h' h1 \<longrightarrow>
        view_ptr list_of (view_list mv lv) h1 q = view_ptr list_of (view_list mv lv) h p)
    \<and> (agree (- foot_ptr list_of (foot_conduits mf lf) h' q) h' h2 \<longrightarrow>
        view_ptr list_of (view_list mv lv) h2 p = view_ptr list_of (view_list mv lv) h p)
    \<and> (agree (- foot_ptr conduit_of (foot_conduit mf) k' c) k' k1 \<longrightarrow>
        view_ptr conduit_of (view_conduit mv) k1 d = view_ptr conduit_of (view_conduit mv) k c)
    \<and> (agree (- foot_ptr conduit_of (foot_conduit mf) k' d) k' k2 \<longrightarrow>
        view_ptr conduit_of (view_conduit mv) k2 c = view_ptr conduit_of (view_conduit mv) k c)"
  using deep_copy.independent [OF library_copies.list_ptr [OF assms(1)] assms(3,2)]
    deep_copy.independent [OF library_copies.conduit_ptr [OF assms(1)] assms(5,4)] by blast

text \<open>Setting the run state of the original, whose cell the secret reference shares, leaves the copy as it was.\<close>

theorem copies_independent_witness:
  "\<exists>d k'. Conduit_DeepCopy ref_copies (Some 0) demo_memory = (d, k')
     \<and> view_ptr conduit_of (view_conduit meta_view) (store 2 (BoolCell False) k') d =
       view_ptr conduit_of (view_conduit meta_view) demo_memory (Some 0)"
proof -
  obtain d k' where run: "Conduit_DeepCopy ref_copies (Some 0) demo_memory = (d, k')" by fastforce
  have foot: "foot_ptr conduit_of (foot_conduit meta_foot) demo_memory (Some 0) \<subseteq> {..<lim demo_memory}"
    by (simp add: demo_memory_def demo_cells_def foot_simps)
  have nil: "foot_ptr list_of (foot_conduits meta_foot no_foot) demo_memory None \<subseteq> {..<lim demo_memory}"
    "ConduitList_DeepCopy ref_copies None demo_memory = (None, demo_memory)"
    by (simp_all add: ConduitList_DeepCopy_def)
  have "foot_ptr conduit_of (foot_conduit meta_foot) k' (Some 0) =
      foot_ptr conduit_of (foot_conduit meta_foot) demo_memory (Some 0)"
    by (rule deep_copy.kept(2) [OF ref_copies.conduit_ptr _ foot])
      (rule conjunct2 [OF deep_copy.copy_frame [OF ref_copies.conduit_ptr run]])
  then have "2 \<in> foot_ptr conduit_of (foot_conduit meta_foot) k' (Some 0)"
    by (simp add: demo_memory_def demo_cells_def foot_simps)
  then have "agree (- foot_ptr conduit_of (foot_conduit meta_foot) k' (Some 0)) k' (store 2 (BoolCell False) k')"
    by simp
  then show ?thesis
    using copies_independent [OF ref_copies.library_copies_axioms nil foot run] run by blast
qed

end
