(* ===== verification/Go_Flags.thy ===== *)
theory Go_Flags
  imports Prelude
begin

text \<open>
  The part of Go's \<^verbatim>\<open>flag\<close> package that a program's start uses: a flag set, the parser of the
  command line, and the conversion of boolean values. A flag set is generic in the variables \<open>'o\<close>
  its flags are bound to.
\<close>

section \<open>Flag sets\<close>

text \<open>A flag: whether it is boolean, and what setting it does.\<close>

record 'o flag =
  fl_bool :: bool
  fl_Set :: "string \<Rightarrow> 'o \<Rightarrow> 'o res"

type_synonym 'o flag_set = "string \<rightharpoonup> 'o flag"

text \<open>\<^verbatim>\<open>strconv.ParseBool\<close>\<close>

definition ParseBool :: "string \<Rightarrow> bool res" where
  "ParseBool s =
     (if s \<in> {''1'', ''t'', ''T'', ''TRUE'', ''true'', ''True''} then Ok True
      else if s \<in> {''0'', ''f'', ''F'', ''FALSE'', ''false'', ''False''} then Ok False
      else Err (Sentinel ''ErrSyntax''))"

definition BoolVar :: "(bool \<Rightarrow> 'o \<Rightarrow> 'o) \<Rightarrow> 'o flag" where
  "BoolVar put = \<lparr>fl_bool = True, fl_Set = (\<lambda>s o'. bind_res (ParseBool s) (\<lambda>b. Ok (put b o')))\<rparr>"

definition StringVar :: "(string \<Rightarrow> 'o \<Rightarrow> 'o) \<Rightarrow> 'o flag" where
  "StringVar put = \<lparr>fl_bool = False, fl_Set = (\<lambda>s o'. Ok (put s o'))\<rparr>"

definition FormatBool :: "bool \<Rightarrow> string" where
  "FormatBool b = (if b then ''true'' else ''false'')"

lemma ParseBool_FormatBool [simp]: "ParseBool (FormatBool b) = Ok b"
  by (simp add: ParseBool_def FormatBool_def)

section \<open>Parsing\<close>

text \<open>
  The text of a flag after its one or two dashes: the name up to the first equals sign, which is
  not the first character, and the value after it.
\<close>

definition split_flag :: "string \<Rightarrow> string \<times> string option" where
  "split_flag s =
     (case s of
        [] \<Rightarrow> ([], None)
      | c # cs \<Rightarrow>
          (case dropWhile (\<lambda>x. x \<noteq> CHR ''='') cs of
             [] \<Rightarrow> (s, None)
           | _ # v \<Rightarrow> (c # takeWhile (\<lambda>x. x \<noteq> CHR ''='') cs, Some v)))"

text \<open>
  \<open>strip_dashes s\<close> reads the head of \<^verbatim>\<open>parseOne\<close>: no flag, the terminator, or the text of a flag.
\<close>

datatype arg = NoFlag | Terminator | FlagText string

definition strip_dashes :: "string \<Rightarrow> arg" where
  "strip_dashes s =
     (case s of
        d # c # cs \<Rightarrow>
          if d \<noteq> CHR ''-'' then NoFlag
          else if c \<noteq> CHR ''-'' then FlagText (c # cs)
          else if cs = [] then Terminator
          else FlagText cs
      | _ \<Rightarrow> NoFlag)"

definition bad_syntax :: "string \<Rightarrow> bool" where
  "bad_syntax name \<longleftrightarrow> name = [] \<or> hd name = CHR ''-'' \<or> hd name = CHR ''=''"

text \<open>
  \<^verbatim>\<open>FlagSet.Parse\<close>: flags are set from left to right until the first argument that is none. An
  error leaves the loop; the error of \<^verbatim>\<open>-h\<close> and \<^verbatim>\<open>-help\<close>, where they are not defined, is
  \<^verbatim>\<open>flag.ErrHelp\<close>. The value is the variables and the remaining arguments.
\<close>

fun Parse :: "'o flag_set \<Rightarrow> string list \<Rightarrow> 'o \<Rightarrow> ('o \<times> string list) res" where
  "Parse fs [] v = Ok (v, [])"
| "Parse fs (s # args) v =
     (case strip_dashes s of
        NoFlag \<Rightarrow> Ok (v, s # args)
      | Terminator \<Rightarrow> Ok (v, args)
      | FlagText text \<Rightarrow>
          if bad_syntax text then Err (Errorf ''bad flag syntax: %s'' [s])
          else case split_flag text of (name, val) \<Rightarrow>
            (case fs name of
               None \<Rightarrow>
                 if name = ''help'' \<or> name = ''h'' then Err (Sentinel ''flag.ErrHelp'')
                 else Err (Errorf ''flag provided but not defined: -%s'' [name])
             | Some f \<Rightarrow>
                 if fl_bool f then
                   (case fl_Set f (case val of Some x \<Rightarrow> x | None \<Rightarrow> ''true'') v of
                      Ok v' \<Rightarrow> Parse fs args v'
                    | Err e \<Rightarrow> Err (Wrapf ''invalid boolean value for -%s'' [name] e)
                    | Panic p \<Rightarrow> Panic p)
                 else
                   (case val of
                      Some x \<Rightarrow>
                        (case fl_Set f x v of
                           Ok v' \<Rightarrow> Parse fs args v'
                         | Err e \<Rightarrow> Err (Wrapf ''invalid value %q for flag -%s'' [x, name] e)
                         | Panic p \<Rightarrow> Panic p)
                    | None \<Rightarrow>
                        (case args of
                           [] \<Rightarrow> Err (Errorf ''flag needs an argument: -%s'' [name])
                         | x # rest \<Rightarrow>
                             (case fl_Set f x v of
                                Ok v' \<Rightarrow> Parse fs rest v'
                              | Err e \<Rightarrow> Err (Wrapf ''invalid value %q for flag -%s'' [x, name] e)
                              | Panic p \<Rightarrow> Panic p)))))"

section \<open>Written flags are read back\<close>

definition flag_arg :: "string \<Rightarrow> string \<Rightarrow> string" where
  "flag_arg name val = ''--'' @ name @ ''='' @ val"

definition flag_name :: "string \<Rightarrow> bool" where
  "flag_name n \<longleftrightarrow> \<not> bad_syntax n \<and> CHR ''='' \<notin> set n"

lemma split_flag_arg: "flag_name n \<Longrightarrow> split_flag (n @ ''='' @ x) = (n, Some x)"
proof -
  assume n: "flag_name n"
  then obtain c cs where cs: "n = c # cs" by (cases n) (auto simp: flag_name_def bad_syntax_def)
  with n have "dropWhile (\<lambda>y. y \<noteq> CHR ''='') (cs @ ''='' @ x) = CHR ''='' # x"
    "takeWhile (\<lambda>y. y \<noteq> CHR ''='') (cs @ ''='' @ x) = cs"
    by (auto simp: flag_name_def dropWhile_append takeWhile_append)
  then show ?thesis by (simp add: split_flag_def cs)
qed

lemma Parse_flag_arg:
  assumes "flag_name n" and "fs n = Some f" and "fl_Set f x v = Ok v'"
  shows "Parse fs (flag_arg n x # args) v = Parse fs args v'"
proof -
  obtain c cs where cs: "n = c # cs" using assms(1) by (cases n) (auto simp: flag_name_def bad_syntax_def)
  have "strip_dashes (flag_arg n x) = FlagText (n @ ''='' @ x)"
    by (simp add: strip_dashes_def flag_arg_def cs)
  moreover have "\<not> bad_syntax (n @ ''='' @ x)"
    using assms(1) by (simp add: flag_name_def bad_syntax_def cs)
  ultimately show ?thesis
    using assms(2,3) by (simp add: split_flag_arg [OF assms(1)] del: append.simps)
qed

lemma Parse_bool_arg:
  assumes "flag_name n" and "fs n = Some (BoolVar put)"
  shows "Parse fs (flag_arg n (FormatBool b) # args) v = Parse fs args (put b v)"
  by (rule Parse_flag_arg [OF assms(1), where f = "BoolVar put"]) (simp_all add: assms(2) BoolVar_def)

lemma Parse_string_arg:
  assumes "flag_name n" and "fs n = Some (StringVar put)"
  shows "Parse fs (flag_arg n x # args) v = Parse fs args (put x v)"
  by (rule Parse_flag_arg [OF assms(1), where f = "StringVar put"]) (simp_all add: assms(2) StringVar_def)

end
