(* ===== verification/Go_Slices.thy ===== *)
theory Go_Slices
  imports Go_Heap
begin

text \<open>
  Slices with a capacity, for code that appends to a slice another variable shares. An array cell
  holds as many elements as it has room for, nil where nothing was stored yet.
\<close>

section \<open>Append\<close>

record cap_window = window +
  sl_cap :: nat

type_synonym cap_slice = "cap_window option"
type_synonym 'a arrays = "'a option list heap"

text \<open>
  \<open>grow n\<close> is the capacity the runtime chooses for a new array of at least \<open>n\<close> elements; the
  language only asks that they fit. \<^verbatim>\<open>append\<close> writes in place when there is room.
\<close>

definition go_append :: "(nat \<Rightarrow> nat) \<Rightarrow> cap_slice \<Rightarrow> 'a \<Rightarrow> 'a arrays \<Rightarrow> cap_slice \<times> 'a arrays" where
  "go_append grow s x h =
     (case s of
        None \<Rightarrow>
          (let (p, h) = reserve h
           in (Some \<lparr>sl_array = p, sl_off = 0, sl_len = 1, sl_cap = grow 1\<rparr>,
               store p (Some x # replicate (grow 1 - 1) None) h))
      | Some w \<Rightarrow>
          if sl_len w < sl_cap w then
            (Some (w\<lparr>sl_len := sl_len w + 1\<rparr>),
             store (sl_array w) ((mem h (sl_array w))[sl_off w + sl_len w := Some x]) h)
          else
            (let xs = elements id h (window.truncate w); (p, h) = reserve h; n = sl_len w + 1
             in (Some \<lparr>sl_array = p, sl_off = 0, sl_len = n, sl_cap = grow n\<rparr>,
                 store p (xs @ Some x # replicate (grow n - n) None) h)))"

definition read_slice :: "'a arrays \<Rightarrow> cap_slice \<Rightarrow> 'a option list" where
  "read_slice h s = (case s of None \<Rightarrow> [] | Some w \<Rightarrow> elements id h (window.truncate w))"

text \<open>A slice that fits its array, which is in use.\<close>

definition valid_slice :: "'a arrays \<Rightarrow> cap_slice \<Rightarrow> bool" where
  "valid_slice h s \<longleftrightarrow> (case s of None \<Rightarrow> True | Some w \<Rightarrow>
     sl_array w < lim h \<and> sl_len w \<le> sl_cap w \<and> sl_off w + sl_cap w \<le> length (mem h (sl_array w)))"

lemma read_nil [simp]: "read_slice h None = []"
  by (simp add: read_slice_def)

lemma valid_nil [simp]: "valid_slice h None"
  by (simp add: valid_slice_def)

lemma read_append:
  assumes "\<And>n. n \<le> grow n" and "valid_slice h s" and "go_append grow s x h = (s', h')"
  shows "read_slice h' s' = read_slice h s @ [Some x]" and "valid_slice h' s'"
proof (atomize (full), cases s)
  case None
  with assms(1) [of 1] assms(3) show "read_slice h' s' = read_slice h s @ [Some x] \<and> valid_slice h' s'"
    by (auto simp: go_append_def read_slice_def reserve_def elements_def window.defs valid_slice_def)
next
  case (Some w)
  show "read_slice h' s' = read_slice h s @ [Some x] \<and> valid_slice h' s'"
  proof (cases "sl_len w < sl_cap w")
    case True
    let ?xs = "mem h (sl_array w)" and ?i = "sl_off w + sl_len w"
    have i: "?i < length ?xs" using assms(2) True by (simp add: valid_slice_def Some)
    have "take (sl_len w + 1) (drop (sl_off w) (?xs[?i := Some x])) = take (sl_len w) (drop (sl_off w) ?xs) @ [Some x]"
      using i by (simp add: drop_update_swap take_Suc_conv_app_nth)
    then show ?thesis
      using assms(2,3) True
      by (auto simp: go_append_def read_slice_def elements_def window.defs valid_slice_def Some)
  next
    case False
    then have len: "length (elements id h (window.truncate w)) = sl_len w"
      using assms(2) by (auto simp: elements_def window.defs valid_slice_def Some)
    then show ?thesis
      using assms(1) [of "sl_len w + 1"] assms(3) False
      by (auto simp: go_append_def Let_def read_slice_def reserve_def elements_def window.defs valid_slice_def Some)
  qed
qed

text \<open>Without room, append leaves every array in use as it was.\<close>

lemma append_full:
  assumes "case s of None \<Rightarrow> True | Some w \<Rightarrow> sl_len w = sl_cap w" and "go_append grow s x h = (s', h')"
    and "valid_slice h t"
  shows "read_slice h' t = read_slice h t" and "valid_slice h' t"
  using assms
  by (auto simp: go_append_def Let_def reserve_def read_slice_def valid_slice_def elements_def window.defs
      split: option.splits)

end
