(* ===== verification/Operator_Main.thy ===== *)
theory Operator_Main
  imports Go_Flags Go_Slices Webhook Reconciler
begin

text \<open>
  Model of \<^verbatim>\<open>cmd/operator/main.go\<close>, with \<^verbatim>\<open>SetupConduitWebhookWithManager\<close> of the webhook and
  \<^verbatim>\<open>SetupWithManager\<close> of the reconciler: the command line, the TLS options of the two servers, the
  instance metadata, and the order in which the operator is put together. The state is the memory
  of the option slices, the calls made to controller-runtime so far with their arguments, the
  validator's world, and how the process ended. Calls to controller-runtime are answered by the
  environment, which may look at everything that was called before. \<^verbatim>\<open>fatal\<close> ends the process: an
  error of the model's \<^verbatim>\<open>main\<close> means that nothing runs after it. Log output is left out, except
  for the message of \<^verbatim>\<open>fatal\<close>.
\<close>

section \<open>Command line\<close>

text \<open>Options of the logger; \<open>'z\<close> are those that the operator does not touch.\<close>

record EncoderConfig =
  ec_TimeKey :: string
  ec_keys :: "string \<rightharpoonup> string"

record 'z zap_Options =
  zo_Development :: bool
  zo_EncoderConfigOptions :: "(EncoderConfig \<Rightarrow> EncoderConfig) list"
  zo_rest :: 'z

record 'z options =
  o_enableHTTP2 :: bool
  o_enableLeaderElection :: bool
  o_metadataFile :: string
  o_metricsAddr :: string
  o_metricsCertPath :: string
  o_metricsCertName :: string
  o_metricsCertKey :: string
  o_probeAddr :: string
  o_secureMetrics :: bool
  o_webhookCertPath :: string
  o_webhookCertName :: string
  o_webhookCertKey :: string
  o_opts :: "'z zap_Options"

definition default_options :: "'z \<Rightarrow> 'z options" where
  "default_options z =
     \<lparr>o_enableHTTP2 = False, o_enableLeaderElection = False, o_metadataFile = [], o_metricsAddr = ''0'',
      o_metricsCertPath = [], o_metricsCertName = ''tls.crt'', o_metricsCertKey = ''tls.key'',
      o_probeAddr = '':8081'', o_secureMetrics = True,
      o_webhookCertPath = [], o_webhookCertName = ''tls.crt'', o_webhookCertKey = ''tls.key'',
      o_opts = \<lparr>zo_Development = True, zo_EncoderConfigOptions = [], zo_rest = z\<rparr>\<rparr>"

text \<open>The flags of the operator, beside those that \<^verbatim>\<open>opts.BindFlags\<close> defines, \<open>zf\<close>.\<close>

definition bound_flag :: "'z zap_Options flag \<Rightarrow> 'z options flag" where
  "bound_flag f =
     \<lparr>fl_bool = fl_bool f,
      fl_Set = (\<lambda>s v. bind_res (fl_Set f s (o_opts v)) (\<lambda>z. Ok (v\<lparr>o_opts := z\<rparr>)))\<rparr>"

definition operator_flags :: "'z zap_Options flag_set \<Rightarrow> 'z options flag_set" where
  "operator_flags zf =
     (\<lambda>n. map_option bound_flag (zf n))
       (''leader-elect'' \<mapsto> BoolVar (\<lambda>b v. v\<lparr>o_enableLeaderElection := b\<rparr>),
        ''enable-http2'' \<mapsto> BoolVar (\<lambda>b v. v\<lparr>o_enableHTTP2 := b\<rparr>),
        ''instance-metadata'' \<mapsto> StringVar (\<lambda>s v. v\<lparr>o_metadataFile := s\<rparr>),
        ''health-probe-bind-address'' \<mapsto> StringVar (\<lambda>s v. v\<lparr>o_probeAddr := s\<rparr>),
        ''metrics-bind-address'' \<mapsto> StringVar (\<lambda>s v. v\<lparr>o_metricsAddr := s\<rparr>),
        ''metrics-secure'' \<mapsto> BoolVar (\<lambda>b v. v\<lparr>o_secureMetrics := b\<rparr>),
        ''metrics-cert-path'' \<mapsto> StringVar (\<lambda>s v. v\<lparr>o_metricsCertPath := s\<rparr>),
        ''metrics-cert-name'' \<mapsto> StringVar (\<lambda>s v. v\<lparr>o_metricsCertName := s\<rparr>),
        ''metrics-cert-key'' \<mapsto> StringVar (\<lambda>s v. v\<lparr>o_metricsCertKey := s\<rparr>),
        ''webhook-cert-path'' \<mapsto> StringVar (\<lambda>s v. v\<lparr>o_webhookCertPath := s\<rparr>),
        ''webhook-cert-name'' \<mapsto> StringVar (\<lambda>s v. v\<lparr>o_webhookCertName := s\<rparr>),
        ''webhook-cert-key'' \<mapsto> StringVar (\<lambda>s v. v\<lparr>o_webhookCertKey := s\<rparr>))"

definition timestampEncoderConfig :: "'z zap_Options \<Rightarrow> 'z zap_Options" where
  "timestampEncoderConfig opts =
     opts\<lparr>zo_EncoderConfigOptions :=
       zo_EncoderConfigOptions opts @ [\<lambda>c. c\<lparr>ec_TimeKey := ''timestamp''\<rparr>]\<rparr>"

section \<open>The process\<close>

text \<open>A certificate watcher, by the files it was made for.\<close>

record cert_watcher =
  cw_cert :: string
  cw_key :: string

text \<open>The functions on a TLS configuration that the operator passes on, and what they do.\<close>

datatype tls_opt = disableHTTP2 | setGetCertificate cert_watcher

record tls_Config =
  tc_NextProtos :: "string list"
  tc_GetCertificate :: "cert_watcher option"

fun apply_tls_opt :: "tls_opt \<Rightarrow> tls_Config \<Rightarrow> tls_Config" where
  "apply_tls_opt disableHTTP2 c = c\<lparr>tc_NextProtos := [''http/1.1'']\<rparr>"
| "apply_tls_opt (setGetCertificate w) c = c\<lparr>tc_GetCertificate := Some w\<rparr>"

record metrics_options =
  mx_BindAddress :: string
  mx_SecureServing :: bool
  mx_TLSOpts :: cap_slice
  mx_FilterProvider :: "string option"

record manager_options =
  mg_Metrics :: metrics_options
  mg_WebhookTLSOpts :: cap_slice
  mg_HealthProbeBindAddress :: string
  mg_LeaderElection :: bool
  mg_LeaderElectionID :: string
  mg_LeaderElectionReleaseOnCancel :: bool

record controller_setup =
  ct_MaxConcurrentReconciles :: int
  ct_For :: string
  ct_Owns :: "string list"
  ct_Reconciler :: ConduitReconciler

text \<open>The calls to controller-runtime.\<close>

datatype call =
    certwatcher_New cert_watcher
  | GetConfigOrDie
  | NewManager manager_options
  | CompleteWebhook Validator
  | CompleteController controller_setup
  | AddRunnable cert_watcher
  | AddHealthzCheck string
  | AddReadyzCheck string
  | Start

record 'g process =
  p_mem :: "tls_opt arrays"
  p_calls :: "call list"
  p_sys :: "'g sys"
  p_logger :: "(EncoderConfig \<Rightarrow> EncoderConfig) list"
  p_exit :: "nat option"
  p_fatal :: "(go_error \<times> string) option"

record ('z, 'p) main_env =
  mn_zap :: "'z zap_Options flag_set"
  mn_zap0 :: 'z
  mn_grow :: "nat \<Rightarrow> nat"
  mn_answer :: "call list \<Rightarrow> call \<Rightarrow> go_error option"
  mn_Stat :: "string \<Rightarrow> go_error option"
  mn_ReadFile :: "string \<Rightarrow> string res"
  mn_Unmarshal :: "string \<Rightarrow> ConduitInstanceMetadata \<Rightarrow> ConduitInstanceMetadata res"
  mn_NumCPU :: int
  mn_unicode :: unicode
  mn_val :: "'p val_env"
  mn_client :: reader

definition call_io :: "('z, 'p) main_env \<Rightarrow> call \<Rightarrow> ('g process, unit) io" where
  "call_io E c = (\<lambda>s.
     let s' = s\<lparr>p_calls := p_calls s @ [c]\<rparr>
     in case mn_answer E (p_calls s) c of None \<Rightarrow> (Ok (), s') | Some e \<Rightarrow> (Err e, s'))"

text \<open>\<^verbatim>\<open>os.Exit\<close>: the value never arrives anywhere.\<close>

definition os_Exit :: "nat \<Rightarrow> ('g process, 'a) io" where
  "os_Exit n = (\<lambda>s. (Err (Ext ''exit''), s\<lparr>p_exit := Some n\<rparr>))"

definition fatal :: "go_error \<Rightarrow> string \<Rightarrow> ('g process, 'a) io" where
  "fatal err msg = bind_io (modify_io (\<lambda>s. s\<lparr>p_fatal := Some (err, msg)\<rparr>)) (\<lambda>_. os_Exit 1)"

text \<open>\<^verbatim>\<open>flag.Parse\<close> on \<^verbatim>\<open>flag.CommandLine\<close>, which exits on errors.\<close>

definition flag_Parse :: "('z, 'p) main_env \<Rightarrow> string list \<Rightarrow> ('g process, 'z options) io" where
  "flag_Parse E args =
     (case Parse (operator_flags (mn_zap E)) args (default_options (mn_zap0 E)) of
        Ok (v, rest) \<Rightarrow> ret_io v
      | Err e \<Rightarrow> os_Exit (if e = Sentinel ''flag.ErrHelp'' then 0 else 2)
      | Panic p \<Rightarrow> lift_res (Panic p))"

text \<open>\<^verbatim>\<open>ctrl.SetLogger\<close>; the options are changed in place.\<close>

definition set_logger :: "'z options \<Rightarrow> ('g process, 'z options) io" where
  "set_logger v =
     (let opts = timestampEncoderConfig (o_opts v)
      in bind_io (modify_io (\<lambda>s. s\<lparr>p_logger := zo_EncoderConfigOptions opts\<rparr>)) (\<lambda>_. ret_io (v\<lparr>o_opts := opts\<rparr>)))"

definition append_io :: "('z, 'p) main_env \<Rightarrow> cap_slice \<Rightarrow> tls_opt \<Rightarrow> ('g process, cap_slice) io" where
  "append_io E sl x = (\<lambda>s. case go_append (mn_grow E) sl x (p_mem s) of (sl', h) \<Rightarrow> (Ok sl', s\<lparr>p_mem := h\<rparr>))"

section \<open>TLS options of the servers\<close>

definition tls_options :: "('z, 'p) main_env \<Rightarrow> 'z options \<Rightarrow> ('g process, cap_slice) io" where
  "tls_options E v = (if \<not> o_enableHTTP2 v then append_io E None disableHTTP2 else ret_io None)"

definition watcher_of :: "string \<Rightarrow> string \<Rightarrow> string \<Rightarrow> cert_watcher" where
  "watcher_of dir cert key = \<lparr>cw_cert = path_Join [dir, cert], cw_key = path_Join [dir, key]\<rparr>"

definition webhook_tls ::
  "('z, 'p) main_env \<Rightarrow> 'z options \<Rightarrow> cap_slice \<Rightarrow> ('g process, cap_slice \<times> cert_watcher option) io" where
  "webhook_tls E v tlsOpts =
     (if o_webhookCertPath v \<noteq> [] then
        let w = watcher_of (o_webhookCertPath v) (o_webhookCertName v) (o_webhookCertKey v)
        in err_io (call_io E (certwatcher_New w))
             (\<lambda>err. fatal err ''Failed to initialize webhook certificate watcher'')
             (\<lambda>_. bind_io (append_io E tlsOpts (setGetCertificate w)) (\<lambda>sl. ret_io (sl, Some w)))
      else ret_io (tlsOpts, None))"

definition metrics_server ::
  "('z, 'p) main_env \<Rightarrow> 'z options \<Rightarrow> cap_slice \<Rightarrow> ('g process, metrics_options \<times> cert_watcher option) io" where
  "metrics_server E v tlsOpts =
     (let m = \<lparr>mx_BindAddress = o_metricsAddr v, mx_SecureServing = o_secureMetrics v, mx_TLSOpts = tlsOpts,
               mx_FilterProvider = None\<rparr>;
          m = (if o_secureMetrics v
               then m\<lparr>mx_FilterProvider := Some ''WithAuthenticationAndAuthorization''\<rparr> else m)
      in if o_metricsCertPath v \<noteq> [] then
           let w = watcher_of (o_metricsCertPath v) (o_metricsCertName v) (o_metricsCertKey v)
           in err_io (call_io E (certwatcher_New w))
                (\<lambda>err. fatal err ''to initialize metrics certificate watcher'')
                (\<lambda>_. bind_io (append_io E (mx_TLSOpts m) (setGetCertificate w)) (\<lambda>sl.
                  ret_io (m\<lparr>mx_TLSOpts := sl\<rparr>, Some w)))
         else ret_io (m, None))"

text \<open>The servers' part of \<^verbatim>\<open>main\<close>, in order; the webhook server gets its options before the metrics ones are made.\<close>

definition servers ::
  "('z, 'p) main_env \<Rightarrow> 'z options
     \<Rightarrow> ('g process, (cap_slice \<times> cert_watcher option) \<times> metrics_options \<times> cert_watcher option) io" where
  "servers E v =
     bind_io (tls_options E v) (\<lambda>tlsOpts.
     bind_io (webhook_tls E v tlsOpts) (\<lambda>wh.
     bind_io (metrics_server E v tlsOpts) (\<lambda>mx. ret_io (wh, mx))))"

section \<open>Instance metadata\<close>

definition os_IsNotExist :: "go_error option \<Rightarrow> bool" where
  "os_IsNotExist e = (case e of None \<Rightarrow> False | Some x \<Rightarrow> errors_Is x ''fs.ErrNotExist'')"

definition readMetadata :: "('z, 'p) main_env \<Rightarrow> string \<Rightarrow> ConduitInstanceMetadata res" where
  "readMetadata E file =
     (let c = NewConduitInstanceMetadata; err = mn_Stat E file
      in if os_IsNotExist err then Ok c
         else case err of
           Some e \<Rightarrow> Err e
         | None \<Rightarrow> bind_res (mn_ReadFile E file) (\<lambda>data. mn_Unmarshal E data c))"

definition instance_metadata :: "('z, 'p) main_env \<Rightarrow> 'z options \<Rightarrow> ('g process, ConduitInstanceMetadata) io" where
  "instance_metadata E v =
     err_io (lift_res (readMetadata E (o_metadataFile v)))
       (\<lambda>err. fatal err ''failed to load conduit instance metadata'')
       (\<lambda>meta. ret_io (if zo_Development (o_opts v) then meta\<lparr>im_LogFormat := ConduitLogFormatText\<rparr> else meta))"

section \<open>Webhook and controller\<close>

definition sys_io :: "('g sys, 'a) io \<Rightarrow> ('g process, 'a) io" where
  "sys_io m = (\<lambda>s. case m (p_sys s) of (r, y) \<Rightarrow> (r, s\<lparr>p_sys := y\<rparr>))"

definition SetupConduitWebhookWithManager :: "('z, 'p) main_env \<Rightarrow> ('g process, unit) io" where
  "SetupConduitWebhookWithManager E =
     bind_io (sys_io (NewValidator (mn_unicode E) (mn_val E) (mn_client E))) (\<lambda>v. call_io E (CompleteWebhook v))"

definition SetupWithManager :: "('z, 'p) main_env \<Rightarrow> ConduitReconciler \<Rightarrow> ('g process, unit) io" where
  "SetupWithManager E r =
     call_io E (CompleteController
       \<lparr>ct_MaxConcurrentReconciles = mn_NumCPU E, ct_For = ''Conduit'', ct_Owns = [''Secret''], ct_Reconciler = r\<rparr>)"

section \<open>Start-up\<close>

definition or_fatal :: "('g process, 'a) io \<Rightarrow> string \<Rightarrow> ('g process, 'a) io" where
  "or_fatal m msg = err_io m (\<lambda>err. fatal err msg) ret_io"

definition add_watcher :: "('z, 'p) main_env \<Rightarrow> cert_watcher option \<Rightarrow> string \<Rightarrow> ('g process, unit) io" where
  "add_watcher E w msg =
     (case w of None \<Rightarrow> ret_io () | Some w \<Rightarrow> or_fatal (call_io E (AddRunnable w)) msg)"

definition new_manager ::
  "('z, 'p) main_env \<Rightarrow> 'z options \<Rightarrow> cap_slice \<Rightarrow> metrics_options \<Rightarrow> ('g process, unit) io" where
  "new_manager E v whTLSOpts m =
     bind_io (or_fatal (call_io E GetConfigOrDie) ''unable to get kubeconfig'') (\<lambda>_.
     or_fatal (call_io E (NewManager
       \<lparr>mg_Metrics = m, mg_WebhookTLSOpts = whTLSOpts, mg_HealthProbeBindAddress = o_probeAddr v,
        mg_LeaderElection = o_enableLeaderElection v, mg_LeaderElectionID = ''0dd9b448.conduit.io'',
        mg_LeaderElectionReleaseOnCancel = True\<rparr>))
       ''unable to start manager'')"

definition run_manager :: "('z, 'p) main_env \<Rightarrow> cert_watcher option \<Rightarrow> cert_watcher option \<Rightarrow> ('g process, unit) io" where
  "run_manager E metricsCertWatcher webhookCertWatcher =
     bind_io (add_watcher E metricsCertWatcher ''unable to add metrics certificate watcher to manager'') (\<lambda>_.
     bind_io (add_watcher E webhookCertWatcher ''unable to add webhook certificate watcher to manager'') (\<lambda>_.
     bind_io (or_fatal (call_io E (AddHealthzCheck ''healthz'')) ''unable to set up health check'') (\<lambda>_.
     bind_io (or_fatal (call_io E (AddReadyzCheck ''readyz'')) ''unable to set up ready check'') (\<lambda>_.
     or_fatal (call_io E Start) ''problem running manager''))))"

definition operator_main :: "('z, 'p) main_env \<Rightarrow> string list \<Rightarrow> ('g process, unit) io" where
  "operator_main E args =
     bind_io (flag_Parse E args) (\<lambda>v.
     bind_io (set_logger v) (\<lambda>v.
     bind_io (servers E v) (\<lambda>((whTLSOpts, whWatcher), m, mWatcher).
     bind_io (instance_metadata E v) (\<lambda>meta.
     bind_io (new_manager E v whTLSOpts m) (\<lambda>_.
     bind_io (or_fatal (SetupConduitWebhookWithManager E) ''unable to create webhook'') (\<lambda>_.
     bind_io (or_fatal (SetupWithManager E (NewConduitReconciler meta)) ''unable to create controller'') (\<lambda>_.
     run_manager E mWatcher whWatcher)))))))"

end
