(* ===== verification/Operator_Startup.thy ===== *)
theory Operator_Startup
  imports Operator_Main "HOL-Library.Sublist"
begin

text \<open>
  Properties of the start of the operator: what the command line means, which TLS options each
  server ends up with although the option slices share memory, and in which order the operator is
  put together and when the process ends.
\<close>

section \<open>Flags\<close>

definition args_of :: "'z options \<Rightarrow> string list" where
  "args_of v =
     [flag_arg ''leader-elect'' (FormatBool (o_enableLeaderElection v)),
      flag_arg ''enable-http2'' (FormatBool (o_enableHTTP2 v)),
      flag_arg ''instance-metadata'' (o_metadataFile v),
      flag_arg ''health-probe-bind-address'' (o_probeAddr v),
      flag_arg ''metrics-bind-address'' (o_metricsAddr v),
      flag_arg ''metrics-secure'' (FormatBool (o_secureMetrics v)),
      flag_arg ''metrics-cert-path'' (o_metricsCertPath v),
      flag_arg ''metrics-cert-name'' (o_metricsCertName v),
      flag_arg ''metrics-cert-key'' (o_metricsCertKey v),
      flag_arg ''webhook-cert-path'' (o_webhookCertPath v),
      flag_arg ''webhook-cert-name'' (o_webhookCertName v),
      flag_arg ''webhook-cert-key'' (o_webhookCertKey v)]"

lemma flag_steps:
  fixes u :: "'z options"
  shows "Parse (operator_flags zf) (flag_arg ''leader-elect'' (FormatBool b) # args) u =
      Parse (operator_flags zf) args (u\<lparr>o_enableLeaderElection := b\<rparr>)"
    "Parse (operator_flags zf) (flag_arg ''enable-http2'' (FormatBool b) # args) u =
      Parse (operator_flags zf) args (u\<lparr>o_enableHTTP2 := b\<rparr>)"
    "Parse (operator_flags zf) (flag_arg ''instance-metadata'' x # args) u =
      Parse (operator_flags zf) args (u\<lparr>o_metadataFile := x\<rparr>)"
    "Parse (operator_flags zf) (flag_arg ''health-probe-bind-address'' x # args) u =
      Parse (operator_flags zf) args (u\<lparr>o_probeAddr := x\<rparr>)"
    "Parse (operator_flags zf) (flag_arg ''metrics-bind-address'' x # args) u =
      Parse (operator_flags zf) args (u\<lparr>o_metricsAddr := x\<rparr>)"
    "Parse (operator_flags zf) (flag_arg ''metrics-secure'' (FormatBool b) # args) u =
      Parse (operator_flags zf) args (u\<lparr>o_secureMetrics := b\<rparr>)"
    "Parse (operator_flags zf) (flag_arg ''metrics-cert-path'' x # args) u =
      Parse (operator_flags zf) args (u\<lparr>o_metricsCertPath := x\<rparr>)"
    "Parse (operator_flags zf) (flag_arg ''metrics-cert-name'' x # args) u =
      Parse (operator_flags zf) args (u\<lparr>o_metricsCertName := x\<rparr>)"
    "Parse (operator_flags zf) (flag_arg ''metrics-cert-key'' x # args) u =
      Parse (operator_flags zf) args (u\<lparr>o_metricsCertKey := x\<rparr>)"
    "Parse (operator_flags zf) (flag_arg ''webhook-cert-path'' x # args) u =
      Parse (operator_flags zf) args (u\<lparr>o_webhookCertPath := x\<rparr>)"
    "Parse (operator_flags zf) (flag_arg ''webhook-cert-name'' x # args) u =
      Parse (operator_flags zf) args (u\<lparr>o_webhookCertName := x\<rparr>)"
    "Parse (operator_flags zf) (flag_arg ''webhook-cert-key'' x # args) u =
      Parse (operator_flags zf) args (u\<lparr>o_webhookCertKey := x\<rparr>)"
  by ((rule Parse_bool_arg Parse_string_arg, simp add: flag_name_def bad_syntax_def, simp add: operator_flags_def)+)

text \<open>
  C40: every setting of the operator can be written on the command line and is read back: for any
  values of the twelve variables, empty strings and values with dashes or equals signs included,
  parsing their flags sets exactly these values, whatever the variables were before, leaves the
  options of the logger alone and no argument over.
\<close>

theorem flags_roundtrip:
  "Parse (operator_flags zf) (args_of v) u = Ok (v\<lparr>o_opts := o_opts u\<rparr>, [])"
  by (simp add: args_of_def flag_steps del: Parse.simps(2))

section \<open>Order of the start\<close>

text \<open>A call without the options it carries.\<close>

datatype stage = Watch cert_watcher | Config | Manager | Webhook | Controller | Runnable cert_watcher | Check string | Run

fun stage_of :: "call \<Rightarrow> stage" where
  "stage_of (certwatcher_New w) = Watch w"
| "stage_of GetConfigOrDie = Config"
| "stage_of (NewManager m) = Manager"
| "stage_of (CompleteWebhook v) = Webhook"
| "stage_of (CompleteController c) = Controller"
| "stage_of (AddRunnable w) = Runnable w"
| "stage_of (AddHealthzCheck n) = Check n"
| "stage_of (AddReadyzCheck n) = Check n"
| "stage_of Start = Run"

definition webhook_watcher :: "'z options \<Rightarrow> cert_watcher option" where
  "webhook_watcher v = (if o_webhookCertPath v = [] then None
     else Some (watcher_of (o_webhookCertPath v) (o_webhookCertName v) (o_webhookCertKey v)))"

definition metrics_watcher :: "'z options \<Rightarrow> cert_watcher option" where
  "metrics_watcher v = (if o_metricsCertPath v = [] then None
     else Some (watcher_of (o_metricsCertPath v) (o_metricsCertName v) (o_metricsCertKey v)))"

text \<open>What the operator does from start to end, given its options.\<close>

definition optional :: "('a \<Rightarrow> 'b) \<Rightarrow> 'a option \<Rightarrow> 'b list" where
  "optional f x = (case x of None \<Rightarrow> [] | Some a \<Rightarrow> [f a])"

definition setup_plan :: "'z options \<Rightarrow> stage list" where
  "setup_plan v = (optional Watch (webhook_watcher v) @ optional Watch (metrics_watcher v))
     @ [Config, Manager] @ [Webhook] @ [Controller]"

definition run_plan :: "cert_watcher option \<Rightarrow> cert_watcher option \<Rightarrow> stage list" where
  "run_plan mw ww = optional Runnable mw @ optional Runnable ww @ [Check ''healthz''] @ [Check ''readyz''] @ [Run]"

definition start_plan :: "'z options \<Rightarrow> stage list" where
  "start_plan v = setup_plan v @ run_plan (metrics_watcher v) (webhook_watcher v)"

text \<open>All calls of a list were answered without an error.\<close>

fun granted :: "('z, 'p) main_env \<Rightarrow> call list \<Rightarrow> call list \<Rightarrow> bool" where
  "granted E before [] \<longleftrightarrow> True"
| "granted E before (c # cs) \<longleftrightarrow> mn_answer E before c = None \<and> granted E (before @ [c]) cs"

lemma granted_append: "granted E b (cs @ ds) \<longleftrightarrow> granted E b cs \<and> granted E (b @ cs) ds"
  by (induction cs arbitrary: b) auto

text \<open>
  \<open>orderly E B Q plan m\<close>: the calls that \<open>m\<close> makes follow the plan, each after the one before
  was granted. When \<open>m\<close> returns, the plan is done and \<open>Q\<close> holds of the value; when the process
  ends, the exit code is 1 and a call was refused, or \<open>B\<close> is the reason.
\<close>

definition follows ::
  "('z, 'p) main_env \<Rightarrow> bool \<Rightarrow> ('a \<Rightarrow> bool) \<Rightarrow> stage list \<Rightarrow> 'g process \<Rightarrow> 'a res \<Rightarrow> 'g process \<Rightarrow> call list \<Rightarrow> bool" where
  "follows E B Q plan s r s' cs \<longleftrightarrow> p_calls s' = p_calls s @ cs
     \<and> prefix (map stage_of cs) plan \<and> granted E (p_calls s) (butlast cs)
     \<and> (\<forall>a. r = Ok a \<longrightarrow> map stage_of cs = plan \<and> granted E (p_calls s) cs \<and> p_exit s' = p_exit s \<and> Q a)
     \<and> (\<forall>e. r = Err e \<longrightarrow> p_exit s' = Some 1 \<and> (\<not> granted E (p_calls s) cs \<or> B))"

definition orderly ::
  "('z, 'p) main_env \<Rightarrow> bool \<Rightarrow> ('a \<Rightarrow> bool) \<Rightarrow> stage list \<Rightarrow> ('g process, 'a) io \<Rightarrow> bool" where
  "orderly E B Q plan m \<longleftrightarrow> (\<forall>s. \<exists>cs. follows E B Q plan s (fst (m s)) (snd (m s)) cs)"

lemma orderlyE:
  assumes "orderly E B Q plan m"
  obtains cs where "follows E B Q plan s (fst (m s)) (snd (m s)) cs"
  using assms unfolding orderly_def by blast

lemma orderlyI: "(\<And>s. \<exists>cs. follows E B Q plan s (fst (m s)) (snd (m s)) cs) \<Longrightarrow> orderly E B Q plan m"
  by (simp add: orderly_def)

lemma orderly_bind:
  assumes m: "orderly E B Q p m" and f: "\<And>a. Q a \<Longrightarrow> orderly E B R q (f a)"
  shows "orderly E B R (p @ q) (bind_io m f)"
proof (rule orderlyI)
  fix s
  obtain x t where ms: "m s = (x, t)" by fastforce
  obtain cs where cs: "follows E B Q p s x t cs" using orderlyE [OF m, of s] ms by (metis fst_conv snd_conv)
  show "\<exists>cs. follows E B R (p @ q) s (fst (bind_io m f s)) (snd (bind_io m f s)) cs"
  proof (cases x)
    case (Ok a)
    then have "Q a" using cs by (simp add: follows_def)
    then obtain ds where ds: "follows E B R q t (fst (f a t)) (snd (f a t)) ds" using orderlyE [OF f] by blast
    have "follows E B R (p @ q) s (fst (f a t)) (snd (f a t)) (cs @ ds)"
      using cs ds unfolding follows_def Ok by (auto simp: granted_append butlast_append)
    then show ?thesis using ms by (auto simp: Ok bind_io_run(1))
  next
    case (Err e)
    have "follows E B R (p @ q) s (Err e) t cs"
      using cs unfolding follows_def Err by (auto intro: prefix_prefix)
    then show ?thesis using ms by (auto simp: Err bind_io_run(2))
  next
    case (Panic z)
    have "follows E B R (p @ q) s (Panic z) t cs"
      using cs unfolding follows_def Panic by (auto intro: prefix_prefix)
    then show ?thesis using ms by (auto simp: Panic bind_io_run(3))
  qed
qed

lemmas orderly_then = orderly_bind [where Q = "\<lambda>_. True", simplified]
lemmas orderly_after = orderly_then [where p = "[]", simplified]

lemma orderly_ret [intro]: "Q a \<Longrightarrow> orderly E B Q [] (ret_io a)"
  by (simp add: orderly_def follows_def)

text \<open>Steps that make no calls.\<close>

lemma orderly_silent:
  assumes "\<And>s. p_calls (snd (m s)) = p_calls s" and "\<And>s. p_exit (snd (m s)) = p_exit s"
    and "\<And>s e. fst (m s) \<noteq> Err e" and "\<And>s a. fst (m s) = Ok a \<Longrightarrow> Q a"
  shows "orderly E B Q [] m"
  by (rule orderlyI) (auto simp: follows_def assms)

text \<open>A call that ends the process when it is refused.\<close>

lemma fatal_run: "fatal e msg s = (Err (Ext ''exit''), s\<lparr>p_fatal := Some (e, msg), p_exit := Some 1\<rparr>)"
  by (simp add: fatal_def os_Exit_def)

lemma orderly_call:
  assumes "stage_of c = st" and "\<And>a. orderly E B Q q (k a)"
  shows "orderly E B Q (st # q) (err_io (call_io E c) (\<lambda>err. fatal err msg) k)"
proof -
  have eq: "err_io (call_io E c) (\<lambda>err. fatal err msg) k = bind_io (or_fatal (call_io E c) msg) k"
    by (auto simp: fun_eq_iff or_fatal_def err_io_def bind_io_def fatal_run split: prod.splits res.splits)
  have "orderly E B (\<lambda>_. True) [st] (or_fatal (call_io E c) msg)"
    using assms(1)
    by (intro orderlyI exI [of _ "[c]"])
      (auto simp: follows_def or_fatal_def err_io_def call_io_def Let_def fatal_run split: option.splits)
  from orderly_bind [OF this assms(2)] show ?thesis by (simp add: eq)
qed

lemma orderly_or_fatal: "stage_of c = st \<Longrightarrow> orderly E B (\<lambda>_. True) [st] (or_fatal (call_io E c) msg)"
  unfolding or_fatal_def by (rule orderly_call) (auto intro: orderly_ret)

lemma orderly_append: "orderly E B (\<lambda>_. True) [] (append_io E sl x)"
  by (rule orderly_silent) (simp_all add: append_io_def split: prod.splits)

lemma orderly_servers:
  "orderly E B (\<lambda>((sl, ww), m, mw). ww = webhook_watcher v \<and> mw = metrics_watcher v)
     (optional Watch (webhook_watcher v) @ optional Watch (metrics_watcher v)) (servers E v)"
proof -
  have tls: "orderly E B (\<lambda>_. True) [] (tls_options E v)"
    by (simp add: tls_options_def orderly_append orderly_ret)
  have wh: "orderly E B (\<lambda>(sl, w). w = webhook_watcher v) (optional Watch (webhook_watcher v)) (webhook_tls E v sl)" for sl
    unfolding webhook_tls_def webhook_watcher_def
    by (auto simp: optional_def Let_def
        intro!: orderly_call orderly_after [OF orderly_append])
  have mx: "orderly E B (\<lambda>(m, w). w = metrics_watcher v) (optional Watch (metrics_watcher v)) (metrics_server E v sl)" for sl
    unfolding metrics_server_def metrics_watcher_def
    by (auto simp: optional_def Let_def
        intro!: orderly_call orderly_after [OF orderly_append])
  have "orderly E B (\<lambda>((sl, ww), m, mw). ww = webhook_watcher v \<and> mw = metrics_watcher v)
      (optional Watch (webhook_watcher v) @ optional Watch (metrics_watcher v) @ [])
      (bind_io (webhook_tls E v sl) (\<lambda>wh. bind_io (metrics_server E v sl) (\<lambda>mx. ret_io (wh, mx))))" for sl
    by (intro orderly_bind [OF wh] orderly_bind [OF mx]) auto
  from orderly_bind [OF tls this] show ?thesis by (simp add: servers_def)
qed

lemma orderly_metadata:
  "orderly E (\<exists>e. readMetadata E (o_metadataFile v) = Err e) (\<lambda>_. True) [] (instance_metadata E v)"
  by (rule orderlyI) (cases "readMetadata E (o_metadataFile v)"; simp add: follows_def instance_metadata_def err_io_def fatal_run)

lemma orderly_manager: "orderly E B (\<lambda>_. True) [Config, Manager] (new_manager E v sl m)"
  unfolding new_manager_def
  by (rule orderly_then [where p = "[Config]" and q = "[Manager]", simplified]) (auto intro: orderly_or_fatal)

lemma NewValidator_never_err: "never_err (NewValidator U V cl)"
  unfolding NewValidator_def by (intro never_err_err never_err_pure)

lemma orderly_webhook:
  fixes E :: "('z, 'p) main_env"
  shows "orderly E B (\<lambda>_. True) [Webhook] (or_fatal (SetupConduitWebhookWithManager E) msg :: ('g process, unit) io)"
proof -
  let ?v = "sys_io (NewValidator (mn_unicode E) (mn_val E) (mn_client E)) :: ('g process, Validator) io"
  have no_err: "fst (?v s) \<noteq> Err e" for s e
    using never_errD [OF NewValidator_never_err, of "mn_unicode E" "mn_val E" "mn_client E" "p_sys s" e]
    by (auto simp: sys_io_def split: prod.splits)
  have "or_fatal (SetupConduitWebhookWithManager E) msg s =
      bind_io ?v (\<lambda>v. or_fatal (call_io E (CompleteWebhook v)) msg) s" for s
    using no_err [of s] by (cases "?v s"; cases "fst (?v s)")
      (auto simp: or_fatal_def SetupConduitWebhookWithManager_def bind_io_def err_io_def)
  then have eq: "(or_fatal (SetupConduitWebhookWithManager E) msg :: ('g process, unit) io) =
      bind_io ?v (\<lambda>v. or_fatal (call_io E (CompleteWebhook v)) msg)" by blast
  have "orderly E B (\<lambda>_. True) [] ?v"
    by (rule orderly_silent [OF _ _ no_err]) (simp_all add: sys_io_def split: prod.splits)
  then show ?thesis unfolding eq by (rule orderly_after) (rule orderly_or_fatal, simp)
qed

lemma orderly_controller: "orderly E B (\<lambda>_. True) [Controller] (or_fatal (SetupWithManager E r) msg)"
  unfolding SetupWithManager_def by (rule orderly_or_fatal) simp

lemma orderly_watcher: "orderly E B (\<lambda>_. True) (optional Runnable w) (add_watcher E w msg)"
  by (auto simp: add_watcher_def optional_def intro: orderly_or_fatal split: option.splits)

lemma orderly_run: "orderly E B (\<lambda>_. True) (run_plan mw ww) (run_manager E mw ww)"
  unfolding run_plan_def run_manager_def
  by (intro orderly_then orderly_watcher orderly_or_fatal) simp_all

lemma orderly_logger: "orderly E B (\<lambda>u. u = v\<lparr>o_opts := timestampEncoderConfig (o_opts v)\<rparr>) [] (set_logger v)"
  by (rule orderly_silent) (auto simp: set_logger_def Let_def)

lemma watcher_opts [simp]:
  "webhook_watcher (v\<lparr>o_opts := z\<rparr>) = webhook_watcher v" "metrics_watcher (v\<lparr>o_opts := z\<rparr>) = metrics_watcher v"
  by (simp_all add: webhook_watcher_def metrics_watcher_def)

lemma orderly_rest:
  assumes "orderly E B (\<lambda>_. True) [] (instance_metadata E u :: ('g process, ConduitInstanceMetadata) io)"
  shows "orderly E B (\<lambda>_. True) ([] @ [Config, Manager] @ [Webhook] @ [Controller] @ run_plan mw ww)
    (bind_io (instance_metadata E u :: ('g process, ConduitInstanceMetadata) io) (\<lambda>meta.
     bind_io (new_manager E u sl m) (\<lambda>_.
     bind_io (or_fatal (SetupConduitWebhookWithManager E) ''unable to create webhook'') (\<lambda>_.
     bind_io (or_fatal (SetupWithManager E (NewConduitReconciler meta)) ''unable to create controller'') (\<lambda>_.
     run_manager E mw ww)))))"
  by (intro orderly_then [OF assms] orderly_then [OF orderly_manager] orderly_then [OF orderly_webhook]
      orderly_then [OF orderly_controller] orderly_run)

lemma orderly_main:
  assumes "Parse (operator_flags (mn_zap E)) args (default_options (mn_zap0 E)) = Ok (v, rest)"
  shows "orderly E (\<exists>e. readMetadata E (o_metadataFile v) = Err e) (\<lambda>_. True) (start_plan v)
    (operator_main E args :: ('g process, unit) io)" (is "orderly E ?B _ _ _")
proof -
  let ?u = "v\<lparr>o_opts := timestampEncoderConfig (o_opts v)\<rparr>"
  have meta: "orderly E ?B (\<lambda>_. True) [] (instance_metadata E ?u :: ('g process, ConduitInstanceMetadata) io)"
    using orderly_metadata [of E ?u] by simp
  have plan: "start_plan v = [] @ (optional Watch (webhook_watcher ?u) @ optional Watch (metrics_watcher ?u)) @
      [] @ [Config, Manager] @ [Webhook] @ [Controller] @ run_plan (metrics_watcher ?u) (webhook_watcher ?u)"
    by (simp add: start_plan_def setup_plan_def)
  show ?thesis
    unfolding plan operator_main_def flag_Parse_def assms res.case prod.case bind_io_ret
    by (rule orderly_bind [OF orderly_logger], hypsubst, rule orderly_bind [OF orderly_servers])
      (auto intro: orderly_rest [OF meta, unfolded append.simps] split: prod.splits)
qed

lemma prefix_snoc_in: "prefix xs (ys @ [y]) \<Longrightarrow> y \<in> set xs \<Longrightarrow> y \<notin> set ys \<Longrightarrow> xs = ys @ [y]"
  by (auto simp: prefix_snoc dest: set_mono_prefix)

lemma start_plan_snoc: "\<exists>p. start_plan v = p @ [Run] \<and> Run \<notin> set p"
  by (auto simp: start_plan_def setup_plan_def run_plan_def optional_def split: option.splits)

text \<open>
  C38: the operator is put together in a fixed order that depends only on its options: the
  certificate watchers asked for, the client configuration, the manager, the webhook, the
  controller, the watchers again as parts of the manager, the two checks, and then the manager
  runs. Each call is made only after all calls before it succeeded, so the manager never runs on a
  part that failed; the first failure ends the process with code 1 and nothing is called after it,
  and the process ends in no other way than by a refused call or unreadable metadata.
\<close>

theorem startup_order:
  assumes "Parse (operator_flags (mn_zap E)) args (default_options (mn_zap0 E)) = Ok (v, rest)"
    and "operator_main E args s = (r, s')" and "p_calls s = []"
  shows "prefix (map stage_of (p_calls s')) (start_plan v) \<and> granted E [] (butlast (p_calls s'))
    \<and> (Start \<in> set (p_calls s') \<longrightarrow> map stage_of (p_calls s') = start_plan v)
    \<and> (r = Ok () \<longrightarrow> map stage_of (p_calls s') = start_plan v \<and> granted E [] (p_calls s') \<and> p_exit s' = p_exit s)
    \<and> (\<forall>e. r = Err e \<longrightarrow> p_exit s' = Some 1
        \<and> (\<not> granted E [] (p_calls s') \<or> (\<exists>e. readMetadata E (o_metadataFile v) = Err e)))"
proof -
  obtain cs where cs: "follows E (\<exists>e. readMetadata E (o_metadataFile v) = Err e) (\<lambda>_. True) (start_plan v) s r s' cs"
    using orderlyE [OF orderly_main [OF assms(1)], of s] assms(2) by (metis fst_conv snd_conv)
  then have calls: "p_calls s' = cs" and "prefix (map stage_of cs) (start_plan v)"
    by (simp_all add: follows_def assms(3))
  then have "map stage_of cs = start_plan v" if "Start \<in> set cs"
    using that start_plan_snoc [of v] prefix_snoc_in [of "map stage_of cs"] by (metis image_eqI list.set_map stage_of.simps(9))
  then show ?thesis using cs by (simp add: follows_def assms(3) calls)
qed

text \<open>
  An environment in which everything is granted but the calls in a given set, with no metadata
  file, and a process that starts.
\<close>

definition demo_env :: "(nat \<Rightarrow> nat) \<Rightarrow> (stage \<Rightarrow> bool) \<Rightarrow> (unit, unit) main_env" where
  "demo_env grow refused =
     \<lparr>mn_zap = Map.empty, mn_zap0 = (), mn_grow = grow,
      mn_answer = (\<lambda>before c. if refused (stage_of c) then Some (Ext ''refused'') else None),
      mn_Stat = (\<lambda>f. Some (Sentinel ''fs.ErrNotExist'')), mn_ReadFile = (\<lambda>f. Err (Ext ''no file'')),
      mn_Unmarshal = (\<lambda>d c. Ok c), mn_NumCPU = 4, mn_unicode = ascii_tables,
      mn_val = test_env (http_ok []), mn_client = no_objects\<rparr>"

definition new_process :: "unit process" where
  "new_process = \<lparr>p_mem = \<lparr>lim = 0, mem = (\<lambda>a. [])\<rparr>, p_calls = [], p_sys = empty_sys (), p_logger = [],
     p_exit = None, p_fatal = None\<rparr>"

theorem startup_order_witness:
  "\<exists>r s'. operator_main (demo_env id (\<lambda>c. c = Controller)) [] new_process = (r, s') \<and> Start \<notin> set (p_calls s')
     \<and> prefix (map stage_of (p_calls s')) [Config, Manager, Webhook, Controller, Check ''healthz'', Check ''readyz'', Run]"
proof -
  let ?E = "demo_env id (\<lambda>c. c = Controller)"
  obtain r s' where run: "operator_main ?E [] new_process = (r, s')" by fastforce
  have parse: "Parse (operator_flags (mn_zap ?E)) [] (default_options (mn_zap0 ?E)) = Ok (default_options (), [])"
    by (simp add: demo_env_def)
  have plan: "start_plan (default_options ()) =
      [Config, Manager, Webhook, Controller, Check ''healthz'', Check ''readyz'', Run]"
    by (simp add: start_plan_def setup_plan_def run_plan_def optional_def webhook_watcher_def metrics_watcher_def
        default_options_def)
  have "p_calls new_process = []" by (simp add: new_process_def)
  note o = startup_order [OF parse run this, unfolded plan]
  have "\<not> granted ?E [] (butlast (p_calls s'))" if "Start \<in> set (p_calls s')"
  proof -
    have m: "map stage_of (p_calls s') = [Config, Manager, Webhook, Controller, Check ''healthz'', Check ''readyz'', Run]"
      using o that by blast
    have "granted ?E b cs \<Longrightarrow> Controller \<notin> stage_of ` set cs" for b cs
      by (induction cs arbitrary: b) (auto simp: demo_env_def split: if_splits)
    moreover have "Controller \<in> stage_of ` set (butlast (p_calls s'))"
      using arg_cong [OF m, of "set \<circ> butlast"] by (simp add: map_butlast [symmetric] flip: set_map)
    ultimately show ?thesis by blast
  qed
  then show ?thesis using o run by blast
qed

section \<open>TLS options\<close>

text \<open>A server applies the options of its slice, in order, to its configuration.\<close>

definition server_tls :: "tls_opt arrays \<Rightarrow> cap_slice \<Rightarrow> tls_Config \<Rightarrow> tls_Config" where
  "server_tls h sl c = fold apply_tls_opt (map the (read_slice h sl)) c"

definition own_tls :: "'z options \<Rightarrow> cert_watcher option \<Rightarrow> tls_Config \<Rightarrow> tls_Config" where
  "own_tls v w c =
     \<lparr>tc_NextProtos = (if o_enableHTTP2 v then tc_NextProtos c else [''http/1.1'']),
      tc_GetCertificate = (case w of None \<Rightarrow> tc_GetCertificate c | Some w \<Rightarrow> Some w)\<rparr>"

lemma err_fatal_Ok:
  "err_io m (\<lambda>e. fatal e msg) k s = (Ok b, s'') \<longleftrightarrow> (\<exists>a s1. m s = (Ok a, s1) \<and> k a s1 = (Ok b, s''))"
  by (auto simp: err_io_def fatal_run split: prod.splits res.splits)

lemma call_io_mem: "call_io E c s = (Ok a, s') \<Longrightarrow> p_mem s' = p_mem s"
  by (auto simp: call_io_def Let_def split: option.splits)

lemma append_io_Ok: "append_io E sl x s = (Ok sl', s') \<Longrightarrow> go_append (mn_grow E) sl x (p_mem s) = (sl', p_mem s')"
  by (auto simp: append_io_def split: prod.splits)

text \<open>The appends that were made, on the memory alone.\<close>

definition append_cert :: "(nat \<Rightarrow> nat) \<Rightarrow> cert_watcher option \<Rightarrow> cap_slice \<Rightarrow> tls_opt arrays \<Rightarrow> cap_slice \<times> tls_opt arrays" where
  "append_cert grow w sl h = (case w of None \<Rightarrow> (sl, h) | Some w \<Rightarrow> go_append grow sl (setGetCertificate w) h)"

lemma tls_options_mem:
  assumes "tls_options E v s = (Ok sl, s')"
  shows "if o_enableHTTP2 v then sl = None \<and> p_mem s' = p_mem s
    else go_append (mn_grow E) None disableHTTP2 (p_mem s) = (sl, p_mem s')"
  using assms by (auto simp: tls_options_def dest: append_io_Ok)

lemma webhook_tls_mem:
  assumes "webhook_tls E v t s = (Ok (sl, w), s')"
  shows "append_cert (mn_grow E) (webhook_watcher v) t (p_mem s) = (sl, p_mem s')"
  using assms
  by (auto simp: webhook_tls_def webhook_watcher_def append_cert_def Let_def err_fatal_Ok bind_io_Ok_iff
      split: if_splits dest!: call_io_mem append_io_Ok)

lemma metrics_server_mem:
  assumes "metrics_server E v t s = (Ok (m, w), s')"
  shows "append_cert (mn_grow E) (metrics_watcher v) t (p_mem s) = (mx_TLSOpts m, p_mem s')"
  using assms
  by (auto simp: metrics_server_def metrics_watcher_def append_cert_def Let_def err_fatal_Ok bind_io_Ok_iff
      split: if_splits dest!: call_io_mem append_io_Ok)

lemma servers_mem:
  assumes "servers E v s = (Ok ((sl, ww), m, mw), s')"
  obtains t h0 h1 where "if o_enableHTTP2 v then t = None \<and> h0 = p_mem s
      else go_append (mn_grow E) None disableHTTP2 (p_mem s) = (t, h0)"
    and "append_cert (mn_grow E) (webhook_watcher v) t h0 = (sl, h1)"
    and "append_cert (mn_grow E) (metrics_watcher v) t h1 = (mx_TLSOpts m, p_mem s')"
proof -
  from assms obtain t s0 s1 where "tls_options E v s = (Ok t, s0)" "webhook_tls E v t s0 = (Ok (sl, ww), s1)"
    "metrics_server E v t s1 = (Ok (m, mw), s')"
    by (auto simp: servers_def bind_io_Ok_iff)
  from tls_options_mem [OF this(1)] webhook_tls_mem [OF this(2)] metrics_server_mem [OF this(3)] that show ?thesis
    by blast
qed

text \<open>What the two slices read after the appends.\<close>

lemma shared_appends:
  assumes "\<And>n. n \<le> grow n"
    and "if http2 then t = None \<and> h0 = h else go_append grow None disableHTTP2 h = (t, h0)"
    and "append_cert grow ww t h0 = (sl, h1)" and "append_cert grow mw t h1 = (q, h2)"
  shows "map the (read_slice h2 q) = (if http2 then [] else [disableHTTP2]) @ optional setGetCertificate mw
    \<and> map the (read_slice h2 sl) = (if http2 then [] else [disableHTTP2]) @ optional setGetCertificate
        (if \<not> http2 \<and> ww \<noteq> None \<and> mw \<noteq> None \<and> grow 1 \<noteq> 1 then mw else ww)"
proof -
  obtain k where k: "grow (Suc 0) = Suc k" using assms(1) [of 1] by (cases "grow (Suc 0)") auto
  show ?thesis
    using assms(2-4)
    by (cases http2; cases ww; cases mw; cases k)
      (auto simp: k append_cert_def go_append_def reserve_def read_slice_def elements_def window.defs Let_def
        optional_def numeral_2_eq_2 split: if_splits)
qed

text \<open>
  C39: TLS options of the two servers. Both option slices start as the same slice, so that the
  option appended for the metrics server could land in the array the webhook server reads. As long
  as the runtime makes the first array no larger than needed, or HTTP/2 stays enabled, or not both
  certificates are given, each server ends up with its own certificate and, unless HTTP/2 is
  enabled, speaks only HTTP/1.1; with any spare room the webhook server would present the
  certificate of the metrics server.
\<close>

theorem servers_tls:
  assumes "\<And>n. n \<le> mn_grow E n" and "servers E v s = (Ok ((sl, ww), m, mw), s')"
  shows "server_tls (p_mem s') (mx_TLSOpts m) c = own_tls v (metrics_watcher v) c
    \<and> server_tls (p_mem s') sl c =
        own_tls v (if \<not> o_enableHTTP2 v \<and> webhook_watcher v \<noteq> None \<and> metrics_watcher v \<noteq> None \<and> mn_grow E 1 \<noteq> 1
                   then metrics_watcher v else webhook_watcher v) c"
proof -
  obtain t h0 h1 where t: "if o_enableHTTP2 v then t = None \<and> h0 = p_mem s
      else go_append (mn_grow E) None disableHTTP2 (p_mem s) = (t, h0)"
    and sl: "append_cert (mn_grow E) (webhook_watcher v) t h0 = (sl, h1)"
    and mx: "append_cert (mn_grow E) (metrics_watcher v) t h1 = (mx_TLSOpts m, p_mem s')"
    by (rule servers_mem [OF assms(2)])
  from shared_appends [OF assms(1) t sl mx] show ?thesis
    by (simp add: server_tls_def own_tls_def optional_def split: option.splits)
qed

definition two_certs :: "unit options" where
  "two_certs = (default_options ())\<lparr>o_webhookCertPath := ''/wh'', o_metricsCertPath := ''/mx''\<rparr>"

theorem servers_tls_witness:
  "\<exists>sl ww m mw s' w. servers (demo_env id (\<lambda>c. False)) two_certs new_process = (Ok ((sl, ww), m, mw), s')
     \<and> webhook_watcher two_certs = Some w
     \<and> server_tls (p_mem s') sl \<lparr>tc_NextProtos = [], tc_GetCertificate = None\<rparr> =
       \<lparr>tc_NextProtos = [''http/1.1''], tc_GetCertificate = Some w\<rparr>"
proof -
  let ?E = "demo_env id (\<lambda>c. False)"
  obtain sl ww m mw s' where run: "servers ?E two_certs new_process = (Ok ((sl, ww), m, mw), s')"
    by (simp add: servers_def tls_options_def webhook_tls_def metrics_server_def append_io_def call_io_def bind_io_def
        err_io_def two_certs_def default_options_def demo_env_def new_process_def go_append_def reserve_def Let_def)
  have g: "n \<le> mn_grow ?E n" for n by (simp add: demo_env_def)
  have w: "\<exists>w. webhook_watcher two_certs = Some w" by (simp add: webhook_watcher_def two_certs_def default_options_def)
  have "\<not> o_enableHTTP2 two_certs" "mn_grow ?E 1 = 1" by (simp_all add: two_certs_def default_options_def demo_env_def)
  with servers_tls [OF g run, of "\<lparr>tc_NextProtos = [], tc_GetCertificate = None\<rparr>"] run w show ?thesis
    by (auto simp: own_tls_def)
qed

end
